(* ===== verification/Prelude.thy ===== *)
theory Prelude
  imports "HOL-Library.Word" "HOL-Library.List_Lexorder" "HOL-Library.Char_ord"
begin

text \<open>
  What every component of the dispatcher shares: the C++ data the nodes compute with
  (strings as byte lists, 64-bit counters, the narrowing of a ROS integer parameter to a C++
  int), the outcome of a call that can return, report an error or throw, sequential composition
  of such calls over an explicit state, and the string helpers that the sources repeat in
  several nodes (trimming, prefix tests, character replacement, decimal printing).
\<close>

section \<open>Machine data\<close>

type_synonym u8 = "8 word"
type_synonym u64 = "64 word"

text \<open>
  A ROS integer parameter is a 64-bit value; the nodes assign it to a C++ int, which keeps its
  low 32 bits and reads them as a signed number.
\<close>

definition narrow32 :: "int \<Rightarrow> int" where
  "narrow32 v = sint (word_of_int v :: 32 word)"

lemma narrow32_bounds: "- (2 ^ 31) \<le> narrow32 v \<and> narrow32 v < 2 ^ 31"
proof -
  have "- (2 ^ (32 - 1)) \<le> sint (word_of_int v :: 32 word)"
    using sint_ge [of "word_of_int v :: 32 word"] by simp
  moreover have "sint (word_of_int v :: 32 word) < 2 ^ (32 - 1)"
    using sint_lt [of "word_of_int v :: 32 word"] by simp
  ultimately show ?thesis by (simp add: narrow32_def)
qed

lemma narrow32_id: "- (2 ^ 31) \<le> v \<Longrightarrow> v < 2 ^ 31 \<Longrightarrow> narrow32 v = v"
  unfolding narrow32_def
  by (simp add: signed_take_bit_int_eq_self sint_sbintrunc')

section \<open>Outcomes and sequencing\<close>

text \<open>
  A C++ call of these nodes returns a value, fails with a message (a false result and an
  error_out string), or throws. \<open>Ret\<close>, \<open>Err\<close> and \<open>Exc\<close> are the three outcomes; a throw that
  no handler of the source catches leaves the operation with the state it had reached.
\<close>

datatype 'a exec = Ret 'a | Err string | Exc string

definition is_ret :: "'a exec \<Rightarrow> bool" where
  "is_ret r \<longleftrightarrow> (case r of Ret _ \<Rightarrow> True | _ \<Rightarrow> False)"

lemma is_ret_simps [simp]: "is_ret (Ret a)" "\<not> is_ret (Err e)" "\<not> is_ret (Exc e)"
  by (simp_all add: is_ret_def)

lemma is_ret_iff: "is_ret r \<longleftrightarrow> (\<exists>a. r = Ret a)"
  by (cases r) simp_all

definition exec_bind :: "'a exec \<Rightarrow> ('a \<Rightarrow> 'b exec) \<Rightarrow> 'b exec" where
  "exec_bind r k = (case r of Ret a \<Rightarrow> k a | Err e \<Rightarrow> Err e | Exc e \<Rightarrow> Exc e)"

lemma exec_bind_simps [simp]:
  "exec_bind (Ret a) k = k a"
  "exec_bind (Err e) k = Err e"
  "exec_bind (Exc e) k = Exc e"
  by (simp_all add: exec_bind_def)

lemma exec_bind_Ret_iff: "exec_bind r k = Ret b \<longleftrightarrow> (\<exists>a. r = Ret a \<and> k a = Ret b)"
  by (cases r) simp_all

text \<open>A stateful call, and the composition that stops at the first error or throw.\<close>

type_synonym ('s, 'a) prog = "'s \<Rightarrow> 'a exec \<times> 's"

definition andthen :: "('s, 'a) prog \<Rightarrow> ('a \<Rightarrow> ('s, 'b) prog) \<Rightarrow> ('s, 'b) prog" where
  "andthen m k s =
     (case m s of
        (Ret a, s') \<Rightarrow> k a s'
      | (Err e, s') \<Rightarrow> (Err e, s')
      | (Exc e, s') \<Rightarrow> (Exc e, s'))"

lemma andthen_simps:
  "m s = (Ret a, s') \<Longrightarrow> andthen m k s = k a s'"
  "m s = (Err e, s') \<Longrightarrow> andthen m k s = (Err e, s')"
  "m s = (Exc e, s') \<Longrightarrow> andthen m k s = (Exc e, s')"
  by (simp_all add: andthen_def)

lemma andthen_Ret_iff:
  "andthen m k s = (Ret b, t) \<longleftrightarrow> (\<exists>a s'. m s = (Ret a, s') \<and> k a s' = (Ret b, t))"
  by (cases "m s"; cases "fst (m s)") (auto simp: andthen_def)

text \<open>
  A relation between the state before and the state after that every outcome of a call keeps.
  Reflexive and transitive relations pass through sequencing; \<open>keeps_intros\<close> collects the
  rules, so that a frame property of a long handler is one \<open>intro\<close> away.
\<close>

named_theorems keeps_intros

definition keeps :: "('s \<Rightarrow> 's \<Rightarrow> bool) \<Rightarrow> ('s, 'a) prog \<Rightarrow> bool" where
  "keeps R m \<longleftrightarrow> (\<forall>s. R s (snd (m s)))"

lemma keepsI: "(\<And>s. R s (snd (m s))) \<Longrightarrow> keeps R m"
  by (simp add: keeps_def)

lemma keepsD: "keeps R m \<Longrightarrow> m s = (r, t) \<Longrightarrow> R s t"
  unfolding keeps_def by (metis snd_conv)

lemma keeps_snd: "keeps R m \<Longrightarrow> R s (snd (m s))"
  by (simp add: keeps_def)

lemma keeps_andthen:
  assumes trans: "\<And>a b c. R a b \<Longrightarrow> R b c \<Longrightarrow> R a c"
    and m: "keeps R m" and k: "\<And>a. keeps R (k a)"
  shows "keeps R (andthen m k)"
proof (rule keepsI)
  fix s
  obtain r s' where ms: "m s = (r, s')" by (cases "m s")
  from m ms have rs: "R s s'" by (rule keepsD)
  show "R s (snd (andthen m k s))"
  proof (cases r)
    case (Ret a)
    with ms have "andthen m k s = k a s'" by (simp add: andthen_def)
    moreover have "R s' (snd (k a s'))" using k by (rule keeps_snd)
    ultimately show ?thesis using rs trans by metis
  qed (use ms rs in \<open>simp_all add: andthen_def\<close>)
qed

text \<open>
  The ways out of a call, and the handler of one: \<open>attempt\<close> continues with \<open>k\<close> on a value and with
  \<open>h\<close> on an error message; a throw passes through.
\<close>

definition ret :: "'a \<Rightarrow> ('s, 'a) prog" where
  "ret a s = (Ret a, s)"

definition fail :: "string \<Rightarrow> ('s, 'a) prog" where
  "fail e s = (Err e, s)"

definition lift_exec :: "'a exec \<Rightarrow> ('s, 'a) prog" where
  "lift_exec r s = (r, s)"

definition update_state :: "('s \<Rightarrow> 's) \<Rightarrow> ('s, unit) prog" where
  "update_state f s = (Ret (), f s)"

definition attempt ::
  "('s, 'a) prog \<Rightarrow> ('a \<Rightarrow> ('s, 'b) prog) \<Rightarrow> (string \<Rightarrow> ('s, 'b) prog) \<Rightarrow> ('s, 'b) prog" where
  "attempt m k h s =
     (case m s of
        (Ret a, s') \<Rightarrow> k a s'
      | (Err e, s') \<Rightarrow> h e s'
      | (Exc e, s') \<Rightarrow> (Exc e, s'))"

lemma prog_simps [simp]:
  "ret a s = (Ret a, s)" "fail e s = (Err e, s)" "lift_exec r s = (r, s)"
  "update_state f s = (Ret (), f s)"
  by (simp_all add: ret_def fail_def lift_exec_def update_state_def)

lemma andthen_attempt: "andthen m k = attempt m k fail"
  by (rule ext) (simp add: andthen_def attempt_def fail_def split: prod.split exec.split)

lemma attempt_simps:
  "m s = (Ret a, s') \<Longrightarrow> attempt m k h s = k a s'"
  "m s = (Err e, s') \<Longrightarrow> attempt m k h s = h e s'"
  "m s = (Exc e, s') \<Longrightarrow> attempt m k h s = (Exc e, s')"
  by (simp_all add: attempt_def)

lemma attempt_cases:
  assumes "attempt m k h s = (r, t)"
  obtains (ok) a s' where "m s = (Ret a, s')" "k a s' = (r, t)"
    | (err) e s' where "m s = (Err e, s')" "h e s' = (r, t)"
    | (exc) e where "m s = (Exc e, t)" "r = Exc e"
proof -
  obtain q s' where m: "m s = (q, s')" by (cases "m s")
  show ?thesis
  proof (cases q)
    case (Ret a) with m assms show ?thesis by (auto simp: attempt_def intro: ok)
  next
    case (Err e) with m assms show ?thesis by (auto simp: attempt_def intro: err)
  next
    case (Exc e) with m assms show ?thesis by (auto simp: attempt_def intro: exc)
  qed
qed

lemma andthen_cases:
  assumes "andthen m k s = (r, t)"
  obtains (ok) a s' where "m s = (Ret a, s')" "k a s' = (r, t)"
    | (err) e where "m s = (Err e, t)" "r = Err e"
    | (exc) e where "m s = (Exc e, t)" "r = Exc e"
  using assms unfolding andthen_attempt by (auto elim: attempt_cases)

lemma keeps_attempt:
  assumes trans: "\<And>a b c. R a b \<Longrightarrow> R b c \<Longrightarrow> R a c"
    and m: "keeps R m" and k: "\<And>a. keeps R (k a)" and h: "\<And>e. keeps R (h e)"
  shows "keeps R (attempt m k h)"
proof (rule keepsI)
  fix s
  obtain r t where rt: "attempt m k h s = (r, t)" by (cases "attempt m k h s")
  from rt have "R s t"
  proof (cases rule: attempt_cases)
    case (ok a s') then show ?thesis using keepsD [OF m] keepsD [OF k] trans by metis
  next
    case (err e s') then show ?thesis using keepsD [OF m] keepsD [OF h] trans by metis
  next
    case (exc e) then show ?thesis using keepsD [OF m] by metis
  qed
  with rt show "R s (snd (attempt m k h s))" by simp
qed

lemma keeps_pure [keeps_intros]:
  assumes "\<And>s. R s s"
  shows "keeps R (ret a)" "keeps R (fail e)" "keeps R (lift_exec r)"
  using assms by (simp_all add: keeps_def)

lemma keeps_if [keeps_intros]:
  "(b \<Longrightarrow> keeps R m) \<Longrightarrow> (\<not> b \<Longrightarrow> keeps R n) \<Longrightarrow> keeps R (if b then m else n)"
  by simp

lemma keeps_option [keeps_intros]:
  "keeps R m \<Longrightarrow> (\<And>a. keeps R (k a)) \<Longrightarrow> keeps R (case x of None \<Rightarrow> m | Some a \<Rightarrow> k a)"
  by (cases x) simp_all

text \<open>Calls that never throw.\<close>

named_theorems never_throws_intros

definition never_throws :: "('s, 'a) prog \<Rightarrow> bool" where
  "never_throws m \<longleftrightarrow> (\<forall>s e. fst (m s) \<noteq> Exc e)"

lemma never_throwsI: "(\<And>s e t. m s \<noteq> (Exc e, t)) \<Longrightarrow> never_throws m"
  unfolding never_throws_def by (metis prod.collapse)

lemma never_throwsD: "never_throws m \<Longrightarrow> m s \<noteq> (Exc e, t)"
  unfolding never_throws_def by (metis fst_conv)

lemma never_throws_pure [never_throws_intros]:
  "never_throws (ret a)" "never_throws (fail e)" "never_throws (update_state f)"
  by (simp_all add: never_throws_def)

lemma never_throws_lift [never_throws_intros]:
  "(\<And>e. r \<noteq> Exc e) \<Longrightarrow> never_throws (lift_exec r)"
  by (simp add: never_throws_def)

lemma never_throws_attempt [never_throws_intros]:
  assumes "never_throws m" "\<And>a. never_throws (k a)" "\<And>e. never_throws (h e)"
  shows "never_throws (attempt m k h)"
proof (rule never_throwsI, rule notI)
  fix s e t assume "attempt m k h s = (Exc e, t)"
  then show False
    using assms by (cases rule: attempt_cases) (simp_all add: never_throwsD)
qed

lemma never_throws_andthen [never_throws_intros]:
  "never_throws m \<Longrightarrow> (\<And>a. never_throws (k a)) \<Longrightarrow> never_throws (andthen m k)"
  unfolding andthen_attempt by (intro never_throws_intros)

lemma never_throws_if [never_throws_intros]:
  "(b \<Longrightarrow> never_throws m) \<Longrightarrow> (\<not> b \<Longrightarrow> never_throws n) \<Longrightarrow> never_throws (if b then m else n)"
  by simp

lemma never_throws_option [never_throws_intros]:
  "never_throws m \<Longrightarrow> (\<And>a. never_throws (k a)) \<Longrightarrow>
   never_throws (case x of None \<Rightarrow> m | Some a \<Rightarrow> k a)"
  by (cases x) simp_all

text \<open>What holds after every regular return.\<close>

named_theorems ensures_intros

definition ensures :: "('s \<Rightarrow> bool) \<Rightarrow> ('s, 'a) prog \<Rightarrow> bool" where
  "ensures P m \<longleftrightarrow> (\<forall>s a t. m s = (Ret a, t) \<longrightarrow> P t)"

lemma ensuresI: "(\<And>s a t. m s = (Ret a, t) \<Longrightarrow> P t) \<Longrightarrow> ensures P m"
  by (simp add: ensures_def)

lemma ensuresD: "ensures P m \<Longrightarrow> m s = (Ret a, t) \<Longrightarrow> P t"
  by (simp add: ensures_def)

lemma ensures_andthen [ensures_intros]:
  "(\<And>a. ensures P (k a)) \<Longrightarrow> ensures P (andthen m k)"
  by (auto simp: ensures_def andthen_Ret_iff)

lemma keeps_update: "(\<And>s. R s (f s)) \<Longrightarrow> keeps R (update_state f)"
  by (simp add: keeps_def)

text \<open>A program that reads the state first.\<close>

lemma keeps_read: "(\<And>a. keeps R (f a)) \<Longrightarrow> keeps R (\<lambda>s. f s s)"
  by (simp add: keeps_def)

lemma never_throws_read:
  "(\<And>a. never_throws (f a)) \<Longrightarrow> never_throws (\<lambda>s. f s s)"
  by (simp add: never_throws_def)

section \<open>Strings\<close>

text \<open>std::isspace in the C locale.\<close>

definition is_space :: "char \<Rightarrow> bool" where
  "is_space c \<longleftrightarrow> c \<in> {CHR 0x20, CHR 0x09, CHR 0x0A, CHR 0x0B, CHR 0x0C, CHR 0x0D}"

text \<open>
  The pair of erase calls that several parsers repeat: first everything before the first
  character that is no white space, then everything after the last one.
\<close>

definition trim :: "string \<Rightarrow> string" where
  "trim s = rev (dropWhile is_space (rev (dropWhile is_space s)))"

text \<open>\<open>s.rfind(p, 0) == 0\<close>: \<open>p\<close> is a prefix of \<open>s\<close>.\<close>

definition starts_with :: "string \<Rightarrow> string \<Rightarrow> bool" where
  "starts_with p s \<longleftrightarrow> take (length p) s = p"

lemma starts_with_append [simp]: "starts_with p (p @ s)"
  by (simp add: starts_with_def)

text \<open>std::replace over a whole string.\<close>

definition replace_char :: "char \<Rightarrow> char \<Rightarrow> string \<Rightarrow> string" where
  "replace_char a b s = map (\<lambda>c. if c = a then b else c) s"

lemma replace_char_simps [simp]:
  "replace_char a b [] = []"
  "replace_char a b (c # s) = (if c = a then b else c) # replace_char a b s"
  "replace_char a b (s @ t) = replace_char a b s @ replace_char a b t"
  by (simp_all add: replace_char_def)

lemma replace_char_eq_Nil [simp]: "replace_char a b s = [] \<longleftrightarrow> s = []"
  by (simp add: replace_char_def)

lemma replace_char_gone: "a \<noteq> b \<Longrightarrow> a \<notin> set (replace_char a b s)"
  by (auto simp: replace_char_def split: if_splits)

lemma replace_char_id: "a \<notin> set s \<Longrightarrow> replace_char a b s = s"
  by (induction s) (auto simp: replace_char_def)

lemma replace_char_back: "b \<notin> set s \<Longrightarrow> replace_char b a (replace_char a b s) = s"
  by (induction s) auto

lemma replace_char_inj:
  assumes "b \<notin> set s" "b \<notin> set t" "replace_char a b s = replace_char a b t"
  shows "s = t"
  using assms by (metis replace_char_back)

text \<open>Removal of one leading character, as \<open>front() == c\<close> followed by \<open>erase(begin())\<close>.\<close>

definition drop_front :: "char \<Rightarrow> string \<Rightarrow> string" where
  "drop_front c s = (case s of [] \<Rightarrow> [] | x # xs \<Rightarrow> if x = c then xs else s)"

lemma drop_front_simps [simp]:
  "drop_front c [] = []"
  "drop_front c (x # xs) = (if x = c then xs else x # xs)"
  by (simp_all add: drop_front_def)

text \<open>The bytes of a string.\<close>

definition bytes_of :: "string \<Rightarrow> u8 list" where
  "bytes_of s = map of_char s"

text \<open>Decimal printing: std::to_string and the stream insertion of an integer.\<close>

fun show_nat :: "nat \<Rightarrow> string" where
  "show_nat n =
     (if n < 10 then [char_of (48 + n)] else show_nat (n div 10) @ [char_of (48 + n mod 10)])"

declare show_nat.simps [simp del]

definition show_int :: "int \<Rightarrow> string" where
  "show_int v = (if v < 0 then CHR ''-'' # show_nat (nat (- v)) else show_nat (nat v))"

lemma show_nat_nonempty [simp]: "show_nat n \<noteq> []"
  by (subst show_nat.simps) simp

subsection \<open>Trimming\<close>

lemma dropWhile_keep: "xs = [] \<or> \<not> P (hd xs) \<Longrightarrow> dropWhile P xs = xs"
  by (cases xs) auto

definition trimmed :: "string \<Rightarrow> bool" where
  "trimmed s \<longleftrightarrow> (s \<noteq> [] \<longrightarrow> \<not> is_space (hd s) \<and> \<not> is_space (last s))"

lemma trim_id: "trimmed s \<Longrightarrow> trim s = s"
  by (auto simp: trimmed_def trim_def dropWhile_keep hd_rev)

lemma trim_Nil_iff: "trim s = [] \<longleftrightarrow> (\<forall>c \<in> set s. is_space c)"
proof -
  have "dropWhile is_space (rev d) = [] \<longleftrightarrow> (\<forall>c \<in> set d. is_space c)" for d
    by (simp add: dropWhile_eq_Nil_conv)
  moreover have "(\<forall>c \<in> set (dropWhile is_space s). is_space c) \<longleftrightarrow> dropWhile is_space s = []"
    by (metis empty_iff hd_dropWhile hd_in_set list.set(1))
  ultimately show ?thesis
    unfolding trim_def by (metis dropWhile_eq_Nil_conv rev_is_Nil_conv)
qed

lemma dropWhile_rev_front:
  assumes "xs \<noteq> []" "\<not> P (hd xs)"
  shows "\<exists>ys. rev (dropWhile P (rev xs)) = hd xs # ys"
proof -
  obtain x xs' where xs: "xs = x # xs'" using assms(1) by (cases xs) auto
  with assms(2) have "\<not> P x" by simp
  then have "dropWhile P (rev xs' @ [x]) = dropWhile P (rev xs') @ [x]"
    by (simp add: dropWhile_append)
  with xs show ?thesis by simp
qed

lemma trimmed_trim: "trimmed (trim s)"
proof (cases "dropWhile is_space s = []")
  case True
  then have "trim s = []" by (simp only: trim_def rev.simps dropWhile.simps)
  then show ?thesis by (simp add: trimmed_def)
next
  case False
  let ?d = "dropWhile is_space s"
  have hd: "\<not> is_space (hd ?d)" using False by (rule hd_dropWhile)
  then obtain ys where ys: "trim s = hd ?d # ys"
    using dropWhile_rev_front [of ?d is_space] False unfolding trim_def by blast
  have "dropWhile is_space (rev ?d) \<noteq> []"
    using ys unfolding trim_def by (metis list.distinct(1) rev.simps(1))
  then have "\<not> is_space (hd (dropWhile is_space (rev ?d)))" by (rule hd_dropWhile)
  then have "\<not> is_space (last (trim s))"
    unfolding trim_def by (metis ys last_rev list.distinct(1) trim_def)
  with ys hd show ?thesis by (simp add: trimmed_def)
qed

lemma trim_idem: "trim (trim s) = trim s"
  by (simp add: trim_id trimmed_trim)

section \<open>Bounded sample buffers\<close>

text \<open>
  The latency buffers of every node: append at the back, and drop the oldest sample as soon as
  more than the fixed number are held.
\<close>

definition push_sample :: "nat \<Rightarrow> 'a \<Rightarrow> 'a list \<Rightarrow> 'a list" where
  "push_sample cap x xs =
     (let ys = xs @ [x] in if cap < length ys then tl ys else ys)"

lemma length_push_sample: "length xs \<le> cap \<Longrightarrow> length (push_sample cap x xs) \<le> cap"
  by (simp add: push_sample_def Let_def)

lemma push_sample_last: "0 < cap \<Longrightarrow> x \<in> set (push_sample cap x xs)"
  by (cases xs) (auto simp: push_sample_def Let_def)

text \<open>Compare-and-swap loops that keep the largest or the smallest value seen.\<close>

definition store_max :: "u64 \<Rightarrow> u64 \<Rightarrow> u64" where
  "store_max new old = (if old < new then new else old)"

definition store_min :: "u64 \<Rightarrow> u64 \<Rightarrow> u64" where
  "store_min new old = (if new < old then new else old)"

lemma store_max_ge: "new \<le> store_max new old" "old \<le> store_max new old"
  by (auto simp: store_max_def)

lemma store_min_le: "store_min new old \<le> new" "store_min new old \<le> old"
  by (auto simp: store_min_def)

text \<open>A list that is updated in one place, compared with itself.\<close>

lemma list_all2_update_refl:
  "(\<And>x. P x x) \<Longrightarrow> P (xs ! i) y \<Longrightarrow> list_all2 P xs (xs[i := y])"
  by (cases "i < length xs") (auto simp: list_all2_conv_all_nth nth_list_update)

end
