(* ===== verification/Std_Map.thy ===== *)
theory Std_Map
  imports Prelude
begin

text \<open>
  std::map: an association list whose keys are strictly increasing, which is the order in which
  the sources iterate over it. \<open>map_assign\<close> is \<open>m[k] = v\<close>, lookup is the library's \<open>map_of\<close>.
\<close>

definition ordered_map :: "('k::linorder \<times> 'v) list \<Rightarrow> bool" where
  "ordered_map m \<longleftrightarrow> sorted_wrt (<) (map fst m)"

fun map_assign :: "'k::linorder \<Rightarrow> 'v \<Rightarrow> ('k \<times> 'v) list \<Rightarrow> ('k \<times> 'v) list" where
  "map_assign k v [] = [(k, v)]"
| "map_assign k v ((k', v') # m) =
     (if k < k' then (k, v) # (k', v') # m
      else if k = k' then (k, v) # m
      else (k', v') # map_assign k v m)"

lemma ordered_map_Nil [simp]: "ordered_map []"
  by (simp add: ordered_map_def)

lemma ordered_map_Cons:
  "ordered_map ((k, v) # m) \<longleftrightarrow> (\<forall>x \<in> fst ` set m. k < x) \<and> ordered_map m"
  by (auto simp: ordered_map_def)

lemma keys_map_assign: "fst ` set (map_assign k v m) = insert k (fst ` set m)"
  by (induction k v m rule: map_assign.induct) auto

lemma ordered_map_assign: "ordered_map m \<Longrightarrow> ordered_map (map_assign k v m)"
  by (induction k v m rule: map_assign.induct)
     (auto simp: ordered_map_Cons keys_map_assign)

lemma map_of_map_assign: "map_of (map_assign k v m) = (map_of m)(k \<mapsto> v)"
  by (induction k v m rule: map_assign.induct) auto

lemma map_assign_twice [simp]: "map_assign k v (map_assign k u m) = map_assign k v m"
  by (induction k u m rule: map_assign.induct) auto

lemma ordered_map_distinct: "ordered_map m \<Longrightarrow> distinct (map fst m)"
  by (simp add: ordered_map_def strict_sorted_iff)

lemma ordered_map_filter: "ordered_map m \<Longrightarrow> ordered_map (filter P m)"
  by (induction m) (auto simp: ordered_map_Cons)

text \<open>The same change made to every value.\<close>

lemma ordered_map_values [simp]: "ordered_map (map (\<lambda>(k, v). (k, f v)) m) = ordered_map m"
  by (simp add: ordered_map_def comp_def case_prod_unfold)

lemma lookup_map_values [simp]:
  "map_of (map (\<lambda>(k, v). (k, f v)) m) k = map_option f (map_of m k)"
  by (induction m) auto

text \<open>A map is determined by what it finds.\<close>

lemma ordered_map_eqI:
  assumes "ordered_map a" "ordered_map b" "map_of a = map_of b"
  shows "a = b"
proof -
  have "set a = set b"
    using assms by (intro map_of_inject_set [THEN iffD1]) (simp_all add: ordered_map_distinct)
  moreover have "sorted (map fst a)" "distinct (map fst a)" "sorted (map fst b)" "distinct (map fst b)"
    using assms(1,2) by (simp_all add: ordered_map_def strict_sorted_iff)
  ultimately show ?thesis by (intro map_sorted_distinct_set_unique [of fst]) (simp_all add: distinct_map)
qed

text \<open>A change of every value commutes with an assignment.\<close>

lemma map_assign_values:
  "map (\<lambda>(k, v). (k, f v)) (map_assign k v m) = map_assign k (f v) (map (\<lambda>(k, v). (k, f v)) m)"
  by (induction k v m rule: map_assign.induct) auto

end
