(* ===== verification/Ros_Types.thy ===== *)
theory Ros_Types
  imports Complex_Main Std_Map
begin

text \<open>
  The ROS 2 and yaml-cpp vocabulary of the nodes: parameters and their typed accessors, topic
  descriptions, lifecycle states and transitions, service clients, and YAML documents.  rclcpp,
  the other nodes behind a service and yaml-cpp are parameters of the model: a client is a pair of
  functions over an opaque world \<open>'w\<close>, a YAML library a record of functions over an opaque node
  type \<open>'n\<close>.
\<close>

section \<open>Values\<close>

text \<open>A C++ double: a rational number, an infinity (\<open>True\<close>: the positive one) or not a number.\<close>

datatype dbl = Fin rat | Inf bool | NaN

definition is_finite :: "dbl \<Rightarrow> bool" where
  "is_finite d \<longleftrightarrow> (case d of Fin _ \<Rightarrow> True | _ \<Rightarrow> False)"

datatype param_value =
    PNotSet | PBool bool | PInt int | PDouble dbl | PString string
  | PBools "bool list" | PInts "int list" | PDoubles "dbl list" | PStrings "string list"

record parameter =
  p_name :: string
  p_value :: param_value

definition mk_param :: "string \<Rightarrow> param_value \<Rightarrow> parameter" where
  "mk_param n v = \<lparr>p_name = n, p_value = v\<rparr>"

lemma mk_param_simps [simp]: "p_name (mk_param n v) = n" "p_value (mk_param n v) = v"
  by (simp_all add: mk_param_def)

text \<open>The typed accessors of rclcpp::Parameter throw on a value of another type.\<close>

definition as_string :: "parameter \<Rightarrow> string exec" where
  "as_string p = (case p_value p of PString s \<Rightarrow> Ret s | _ \<Rightarrow> Exc ''expected string'')"

definition as_bool :: "parameter \<Rightarrow> bool exec" where
  "as_bool p = (case p_value p of PBool b \<Rightarrow> Ret b | _ \<Rightarrow> Exc ''expected bool'')"

definition as_int :: "parameter \<Rightarrow> int exec" where
  "as_int p = (case p_value p of PInt i \<Rightarrow> Ret i | _ \<Rightarrow> Exc ''expected integer'')"

definition as_double :: "parameter \<Rightarrow> dbl exec" where
  "as_double p = (case p_value p of PDouble d \<Rightarrow> Ret d | _ \<Rightarrow> Exc ''expected double'')"

definition as_string_array :: "parameter \<Rightarrow> string list exec" where
  "as_string_array p =
     (case p_value p of PStrings ss \<Rightarrow> Ret ss | _ \<Rightarrow> Exc ''expected string array'')"

record topic_info =
  ti_name :: string
  ti_type :: string

definition mk_topic :: "string \<Rightarrow> string \<Rightarrow> topic_info" where
  "mk_topic n t = \<lparr>ti_name = n, ti_type = t\<rparr>"

lemma mk_topic_simps [simp]: "ti_name (mk_topic n t) = n" "ti_type (mk_topic n t) = t"
  by (simp_all add: mk_topic_def)

section \<open>Lifecycle identifiers\<close>

text \<open>The constants of lifecycle_msgs that the nodes compare with or send.\<close>

abbreviation PRIMARY_STATE_UNCONFIGURED :: u8 where "PRIMARY_STATE_UNCONFIGURED \<equiv> 1"
abbreviation PRIMARY_STATE_INACTIVE :: u8 where "PRIMARY_STATE_INACTIVE \<equiv> 2"
abbreviation PRIMARY_STATE_ACTIVE :: u8 where "PRIMARY_STATE_ACTIVE \<equiv> 3"
abbreviation PRIMARY_STATE_FINALIZED :: u8 where "PRIMARY_STATE_FINALIZED \<equiv> 4"

datatype transition = TRANSITION_CONFIGURE | TRANSITION_ACTIVATE | TRANSITION_DEACTIVATE

section \<open>Service clients\<close>

text \<open>
  wait_for_service() with the node's timeout, and async_send_request() followed by waiting for
  the future: \<open>None\<close> is a timeout.
\<close>

record ('q, 'r, 'w) client =
  cl_ready :: "'w \<Rightarrow> bool \<times> 'w"
  cl_call :: "'q \<Rightarrow> 'w \<Rightarrow> 'r option \<times> 'w"

datatype 'r reply = Unavailable | Timeout | Reply 'r

definition wait_and_call :: "('q, 'r, 'w) client \<Rightarrow> 'q \<Rightarrow> 'w \<Rightarrow> 'r reply \<times> 'w" where
  "wait_and_call cl q w =
     (case cl_ready cl w of
        (False, w1) \<Rightarrow> (Unavailable, w1)
      | (True, w1) \<Rightarrow>
          (case cl_call cl q w1 of
             (None, w2) \<Rightarrow> (Timeout, w2)
           | (Some r, w2) \<Rightarrow> (Reply r, w2)))"

lemma keeps_reply [keeps_intros]:
  "keeps R m \<Longrightarrow> keeps R n \<Longrightarrow> (\<And>a. keeps R (k a)) \<Longrightarrow>
   keeps R (case x of Unavailable \<Rightarrow> m | Timeout \<Rightarrow> n | Reply a \<Rightarrow> k a)"
  by (cases x) simp_all

lemma never_throws_reply [never_throws_intros]:
  "never_throws m \<Longrightarrow> never_throws n \<Longrightarrow> (\<And>a. never_throws (k a)) \<Longrightarrow>
   never_throws (case x of Unavailable \<Rightarrow> m | Timeout \<Rightarrow> n | Reply a \<Rightarrow> k a)"
  by (cases x) simp_all

text \<open>One result of a set_parameters request.\<close>

record set_result =
  sr_successful :: bool
  sr_reason :: string

text \<open>The first rejected parameter of a set_parameters answer.\<close>

definition first_rejection :: "set_result list \<Rightarrow> string option" where
  "first_rejection rs = map_option sr_reason (find (\<lambda>r. \<not> sr_successful r) rs)"

section \<open>YAML documents\<close>

record 'n yaml =
  y_load :: "string \<Rightarrow> 'n exec"
  y_is_sequence :: "'n \<Rightarrow> bool"
  y_is_map :: "'n \<Rightarrow> bool"
  y_is_scalar :: "'n \<Rightarrow> bool"
  y_elements :: "'n \<Rightarrow> 'n list"
  y_pairs :: "'n \<Rightarrow> ('n \<times> 'n) list"
  y_get :: "'n \<Rightarrow> string \<Rightarrow> 'n option exec"
  y_as_string :: "'n \<Rightarrow> string exec"
  y_as_bool :: "'n \<Rightarrow> bool exec"
  y_as_int64 :: "'n \<Rightarrow> int exec"
  y_as_double :: "'n \<Rightarrow> dbl exec"

text \<open>The events that the nodes send to a YAML::Emitter.\<close>

datatype yaml_event = BeginSeq | EndSeq | BeginMap | EndMap | YKey string | YValue string

text \<open>A loop with an early exit over a sequence.\<close>

fun exec_map :: "('a \<Rightarrow> 'b exec) \<Rightarrow> 'a list \<Rightarrow> 'b list exec" where
  "exec_map f [] = Ret []"
| "exec_map f (x # xs) =
     exec_bind (f x) (\<lambda>y. exec_bind (exec_map f xs) (\<lambda>ys. Ret (y # ys)))"

lemma exec_map_Ret: "exec_map f xs = Ret ys \<Longrightarrow> list_all2 (\<lambda>x y. f x = Ret y) xs ys"
  by (induction xs arbitrary: ys) (auto simp: exec_bind_Ret_iff)

lemma exec_map_Ret_conv: "exec_map f xs = Ret ys \<longleftrightarrow> list_all2 (\<lambda>x y. f x = Ret y) xs ys"
  by (induction xs arbitrary: ys) (auto simp: exec_bind_Ret_iff list_all2_Cons1)

lemma exec_map_length: "exec_map f xs = Ret ys \<Longrightarrow> length ys = length xs"
  by (metis exec_map_Ret list_all2_lengthD)

lemma exec_map_pure: "(\<And>x. x \<in> set xs \<Longrightarrow> f x = Ret (g x)) \<Longrightarrow> exec_map f xs = Ret (map g xs)"
  by (induction xs) auto

text \<open>Every element of a result comes from an element on which the function returned it.\<close>

lemma exec_map_mem: "exec_map f xs = Ret ys \<Longrightarrow> y \<in> set ys \<Longrightarrow> \<exists>x \<in> set xs. f x = Ret y"
proof -
  assume ret: "exec_map f xs = Ret ys" and y: "y \<in> set ys"
  have all: "list_all2 (\<lambda>x y. f x = Ret y) xs ys" using ret by (rule exec_map_Ret)
  from y obtain i where i: "i < length ys" "ys ! i = y" by (auto simp: in_set_conv_nth)
  then show ?thesis
    using all by (intro bexI [of _ "xs ! i"]) (auto simp: list_all2_conv_all_nth)
qed

text \<open>
  Key lookup followed by a conversion when the key is there: the shape of every optional field
  the parsers read.
\<close>

definition y_field :: "'n yaml \<Rightarrow> 'n \<Rightarrow> string \<Rightarrow> string option exec" where
  "y_field Y n k =
     exec_bind (y_get Y n k) (\<lambda>v. case v of
        None \<Rightarrow> Ret None
      | Some m \<Rightarrow> exec_bind (y_as_string Y m) (\<lambda>s. Ret (Some s)))"

text \<open>One of the calls in a try block: what it returned, with every exception swallowed.\<close>

definition try_value :: "'a exec \<Rightarrow> 'a option" where
  "try_value r = (case r of Ret a \<Rightarrow> Some a | _ \<Rightarrow> None)"

lemma try_value_simps [simp]:
  "try_value (Ret a) = Some a" "try_value (Err e) = None" "try_value (Exc e) = None"
  by (simp_all add: try_value_def)

section \<open>A sample YAML library\<close>

text \<open>
  An instance of the YAML interface for concrete runs: documents are trees, scalars are strings,
  and the typed conversions accept the literals true and false and nothing else.
\<close>

datatype ytree = YNull | YScalar string | YSeq "ytree list" | YMap "(string \<times> ytree) list"

definition sample_yaml :: "(string \<Rightarrow> ytree exec) \<Rightarrow> ytree yaml" where
  "sample_yaml load =
     \<lparr>y_load = load,
      y_is_sequence = (\<lambda>n. case n of YSeq _ \<Rightarrow> True | _ \<Rightarrow> False),
      y_is_map = (\<lambda>n. case n of YMap _ \<Rightarrow> True | _ \<Rightarrow> False),
      y_is_scalar = (\<lambda>n. case n of YScalar _ \<Rightarrow> True | _ \<Rightarrow> False),
      y_elements = (\<lambda>n. case n of YSeq xs \<Rightarrow> xs | _ \<Rightarrow> []),
      y_pairs = (\<lambda>n. case n of YMap m \<Rightarrow> map (\<lambda>(k, v). (YScalar k, v)) m | _ \<Rightarrow> []),
      y_get = (\<lambda>n k. case n of
          YMap m \<Rightarrow> Ret (map_of m k) | YNull \<Rightarrow> Ret None | _ \<Rightarrow> Exc ''bad subscript''),
      y_as_string = (\<lambda>n. case n of YScalar s \<Rightarrow> Ret s | _ \<Rightarrow> Exc ''bad conversion''),
      y_as_bool = (\<lambda>n. if n = YScalar ''true'' then Ret True
                       else if n = YScalar ''false'' then Ret False else Exc ''bad conversion''),
      y_as_int64 = (\<lambda>n. Exc ''bad conversion''),
      y_as_double = (\<lambda>n. Exc ''bad conversion'')\<rparr>"

lemma sample_yaml_simps [simp]:
  "y_load (sample_yaml load) = load"
  "y_is_sequence (sample_yaml load) n = (case n of YSeq _ \<Rightarrow> True | _ \<Rightarrow> False)"
  "y_is_map (sample_yaml load) n = (case n of YMap _ \<Rightarrow> True | _ \<Rightarrow> False)"
  "y_is_scalar (sample_yaml load) n = (case n of YScalar _ \<Rightarrow> True | _ \<Rightarrow> False)"
  "y_elements (sample_yaml load) n = (case n of YSeq xs \<Rightarrow> xs | _ \<Rightarrow> [])"
  "y_pairs (sample_yaml load) n =
     (case n of YMap m \<Rightarrow> map (\<lambda>(k, v). (YScalar k, v)) m | _ \<Rightarrow> [])"
  "y_get (sample_yaml load) n k =
     (case n of YMap m \<Rightarrow> Ret (map_of m k) | YNull \<Rightarrow> Ret None | _ \<Rightarrow> Exc ''bad subscript'')"
  "y_as_string (sample_yaml load) n =
     (case n of YScalar s \<Rightarrow> Ret s | _ \<Rightarrow> Exc ''bad conversion'')"
  "y_as_bool (sample_yaml load) n =
     (if n = YScalar ''true'' then Ret True
      else if n = YScalar ''false'' then Ret False else Exc ''bad conversion'')"
  "y_as_int64 (sample_yaml load) n = Exc ''bad conversion''"
  "y_as_double (sample_yaml load) n = Exc ''bad conversion''"
  by (simp_all add: sample_yaml_def)

end
