(* ===== verification/Dispatcher_Selection.thy ===== *)
theory Dispatcher_Selection
  imports Ros_Types
begin

text \<open>
  dispatcher_controller, the selection side: the topic selections a user gives in a file or
  through the GUI, and the plan that turns a selection into the topic_tools nodes to load and the
  topics the sinks subscribe to.  The functions follow
  dispatcher_controller/src/dispatcher_controller_node.cpp.
\<close>

section \<open>Data\<close>

datatype selection_mode = Mode_GUI | Mode_FILE | Mode_ALL

record topic_tools_config =
  tt_enabled :: bool
  tt_package_name :: string
  tt_plugin_name :: string
  tt_node_name :: string
  tt_output_topic :: string
  tt_output_type :: string
  tt_parameters :: "parameter list"

definition default_topic_tools_config :: topic_tools_config where
  "default_topic_tools_config =
     \<lparr>tt_enabled = False, tt_package_name = ''topic_tools'', tt_plugin_name = [],
      tt_node_name = [], tt_output_topic = [], tt_output_type = [], tt_parameters = []\<rparr>"

record topic_selection =
  sel_topic :: topic_info
  sel_topic_tools :: "topic_tools_config option"

record resolved_topic_tool =
  rt_input_topic :: string
  rt_output_topic :: string
  rt_package_name :: string
  rt_plugin_name :: string
  rt_node_name :: string
  rt_parameters :: "parameter list"
  rt_output_type :: string

record topic_tools_plan =
  plan_tools :: "resolved_topic_tool list"
  plan_sink_topics :: "topic_info list"

definition empty_plan :: topic_tools_plan where
  "empty_plan = \<lparr>plan_tools = [], plan_sink_topics = []\<rparr>"

section \<open>Names\<close>

definition sanitize_topic_segment :: "string \<Rightarrow> string" where
  "sanitize_topic_segment topic =
     (let sanitized = dropWhile (\<lambda>c. c = CHR ''_'') (replace_char (CHR ''/'') (CHR ''_'') topic)
      in if sanitized = [] then ''topic'' else sanitized)"

text \<open>
  find_last_of(''::'') is the position of the last colon: the text behind it replaces the name
  unless there is none.
\<close>

definition plugin_base_name :: "string \<Rightarrow> string" where
  "plugin_base_name plugin =
     (let tail = rev (takeWhile (\<lambda>c. c \<noteq> CHR '':'') (rev plugin))
      in if CHR '':'' \<in> set plugin \<and> tail \<noteq> [] then tail else plugin)"

definition default_tool_node_name :: "string \<Rightarrow> string \<Rightarrow> string" where
  "default_tool_node_name plugin_name topic_name =
     sanitize_topic_segment (plugin_base_name plugin_name @ ''_'' @ topic_name)"

definition default_output_topic :: "string \<Rightarrow> string \<Rightarrow> string" where
  "default_output_topic input_topic node_name =
     (let prefix = (if node_name = [] then ''topic_tools'' else node_name);
          normalized = drop_front (CHR ''/'') input_topic
      in if normalized = [] then ''/'' @ prefix else ''/'' @ prefix @ ''/'' @ normalized)"

section \<open>Reading a selection file\<close>

text \<open>
  A scalar is tried as bool, 64-bit integer, double and string, a sequence elementwise in the
  same order; what nothing accepts is an error.
\<close>

definition first_value :: "param_value option list \<Rightarrow> param_value option" where
  "first_value vs = (case filter (\<lambda>v. v \<noteq> None) vs of [] \<Rightarrow> None | v # _ \<Rightarrow> v)"

definition parse_parameter_value :: "'n yaml \<Rightarrow> string \<Rightarrow> 'n \<Rightarrow> parameter exec" where
  "parse_parameter_value Y name v =
     (let tried =
        (if y_is_scalar Y v then first_value
           [map_option PBool (try_value (y_as_bool Y v)),
            map_option PInt (try_value (y_as_int64 Y v)),
            map_option PDouble (try_value (y_as_double Y v)),
            map_option PString (try_value (y_as_string Y v))]
         else if y_is_sequence Y v then first_value
           [map_option PBools (try_value (exec_map (y_as_bool Y) (y_elements Y v))),
            map_option PInts (try_value (exec_map (y_as_int64 Y) (y_elements Y v))),
            map_option PDoubles (try_value (exec_map (y_as_double Y) (y_elements Y v))),
            map_option PStrings (try_value (exec_map (y_as_string Y) (y_elements Y v)))]
         else None)
      in case tried of
           Some pv \<Rightarrow> Ret (mk_param name pv)
         | None \<Rightarrow> Exc (''Unsupported parameter value for '' @ name))"

text \<open>The find_if over the parameters: the first one with the name.\<close>

definition find_param :: "string \<Rightarrow> parameter list \<Rightarrow> parameter option" where
  "find_param n ps = List.find (\<lambda>p. p_name p = n) ps"

fun replace_first_param :: "string \<Rightarrow> parameter \<Rightarrow> parameter list \<Rightarrow> parameter list" where
  "replace_first_param n q [] = []"
| "replace_first_param n q (p # ps) =
     (if p_name p = n then q # ps else p # replace_first_param n q ps)"

text \<open>throttle_rate is renamed to what the throttle node of the given type expects.\<close>

definition map_throttle_rate :: "parameter list \<Rightarrow> parameter list" where
  "map_throttle_rate ps =
     (case find_param ''throttle_type'' ps of
        None \<Rightarrow> ps
      | Some t \<Rightarrow>
          (let type_str = (case p_value t of PString s \<Rightarrow> s | _ \<Rightarrow> [])
           in case find_param ''throttle_rate'' ps of
                None \<Rightarrow> ps
              | Some r \<Rightarrow>
                  replace_first_param ''throttle_rate''
                    (mk_param (if type_str = ''messages'' then ''msgs_per_sec'' else ''period'')
                       (p_value r)) ps))"

text \<open>The parameters block: a map whose keys are read as strings.\<close>

definition parse_tool_parameters :: "'n yaml \<Rightarrow> 'n \<Rightarrow> parameter list exec" where
  "parse_tool_parameters Y params =
     (if \<not> y_is_map Y params then Err ''topic_tools.parameters must be a map''
      else exec_bind
        (exec_map (\<lambda>(k, v). exec_bind (y_as_string Y k) (\<lambda>name.
            case parse_parameter_value Y name v of
              Ret p \<Rightarrow> Ret p | Err e \<Rightarrow> Err e | Exc e \<Rightarrow> Err e)) (y_pairs Y params))
        (\<lambda>ps. Ret (map_throttle_rate ps)))"

definition or_else :: "'a option \<Rightarrow> 'a \<Rightarrow> 'a" where
  "or_else v d = (case v of None \<Rightarrow> d | Some x \<Rightarrow> x)"

lemma or_else_simps [simp]: "or_else None d = d" "or_else (Some x) d = x"
  by (simp_all add: or_else_def)

text \<open>The topic_tools block of an entry; \<open>None\<close> when it is disabled.\<close>

definition parse_topic_tools ::
  "'n yaml \<Rightarrow> string \<Rightarrow> 'n \<Rightarrow> topic_tools_config option exec" where
  "parse_topic_tools Y topic_name cfg_node =
     (if \<not> y_is_map Y cfg_node then Err ''topic_tools must be a map''
      else
        exec_bind (exec_bind (y_get Y cfg_node ''enabled'')
            (\<lambda>v. case v of None \<Rightarrow> Ret True | Some m \<Rightarrow> y_as_bool Y m)) (\<lambda>enabled.
        if \<not> enabled then Ret None
        else
          exec_bind (y_field Y cfg_node ''package'') (\<lambda>package.
          exec_bind (y_field Y cfg_node ''plugin'') (\<lambda>plugin.
          exec_bind (y_field Y cfg_node ''name'') (\<lambda>nm.
          exec_bind (y_field Y cfg_node ''output_topic'') (\<lambda>out_topic.
          exec_bind (y_get Y cfg_node ''output_name'') (\<lambda>out_name_node.
          exec_bind
            (case out_name_node of
               Some m \<Rightarrow>
                 if or_else out_topic [] = []
                 then exec_bind (y_as_string Y m)
                        (\<lambda>out_name. Ret (default_output_topic topic_name out_name))
                 else Ret (or_else out_topic [])
             | None \<Rightarrow> Ret (or_else out_topic [])) (\<lambda>output_topic.
          exec_bind (y_field Y cfg_node ''output_type'') (\<lambda>out_type.
          exec_bind (exec_bind (y_get Y cfg_node ''parameters'')
              (\<lambda>v. case v of None \<Rightarrow> Ret [] | Some m \<Rightarrow> parse_tool_parameters Y m)) (\<lambda>params.
          if or_else plugin [] = [] then Err ''topic_tools.plugin is required''
          else Ret (Some
            \<lparr>tt_enabled = True,
             tt_package_name = or_else package (tt_package_name default_topic_tools_config),
             tt_plugin_name = or_else plugin [],
             tt_node_name = or_else nm [],
             tt_output_topic = output_topic,
             tt_output_type = or_else out_type [],
             tt_parameters = params\<rparr>)))))))))))"

text \<open>
  One entry: topic_name or name, msg_type or type, and the optional topic_tools block.
\<close>

definition y_field_either :: "'n yaml \<Rightarrow> 'n \<Rightarrow> string \<Rightarrow> string \<Rightarrow> string exec" where
  "y_field_either Y n k1 k2 =
     exec_bind (y_field Y n k1) (\<lambda>a. case a of
        Some s \<Rightarrow> Ret s
      | None \<Rightarrow> exec_bind (y_field Y n k2) (\<lambda>b. Ret (or_else b [])))"

definition parse_selection_entry :: "'n yaml \<Rightarrow> 'n \<Rightarrow> topic_selection exec" where
  "parse_selection_entry Y node =
     exec_bind (y_field_either Y node ''topic_name'' ''name'') (\<lambda>name.
     exec_bind (y_field_either Y node ''msg_type'' ''type'') (\<lambda>type.
     if name = [] then Err ''Selection file entry missing topic_name''
     else
       exec_bind (y_get Y node ''topic_tools'') (\<lambda>tt_node.
       exec_bind (case tt_node of None \<Rightarrow> Ret None | Some m \<Rightarrow> parse_topic_tools Y name m) (\<lambda>tools.
       Ret \<lparr>sel_topic = mk_topic name type, sel_topic_tools = tools\<rparr>))))"

text \<open>
  load_file_selection: \<open>load_file\<close> is YAML::LoadFile on the path, whose YAML exceptions become an
  error; the conversions inside the loop are outside the try block and propagate.
\<close>

definition load_file_selection ::
  "'n yaml \<Rightarrow> (string \<Rightarrow> 'n exec) \<Rightarrow> string \<Rightarrow> topic_selection list exec" where
  "load_file_selection Y load_file path =
     (if path = [] then Err ''selection_file_path is empty''
      else case load_file path of
        Exc e \<Rightarrow> Err (''Failed to load selection file: '' @ e)
      | Err e \<Rightarrow> Err (''Failed to load selection file: '' @ e)
      | Ret rt \<Rightarrow>
          if \<not> y_is_sequence Y rt then Err ''Selection file must be a YAML sequence''
          else exec_map (parse_selection_entry Y) (y_elements Y rt))"

section \<open>The plan\<close>

definition has_param :: "string \<Rightarrow> parameter list \<Rightarrow> bool" where
  "has_param n ps \<longleftrightarrow> (\<exists>p \<in> set ps. p_name p = n)"

definition resolve_tool :: "topic_info \<Rightarrow> topic_tools_config \<Rightarrow> resolved_topic_tool" where
  "resolve_tool topic cfg =
     (let node_name = (if tt_node_name cfg = []
                       then default_tool_node_name (tt_plugin_name cfg) (ti_name topic)
                       else tt_node_name cfg);
          output_topic = (if tt_output_topic cfg = []
                          then default_output_topic (ti_name topic) node_name
                          else tt_output_topic cfg);
          output_type = (if tt_output_type cfg = [] then ti_type topic else tt_output_type cfg);
          ps = tt_parameters cfg;
          ps1 = (if has_param ''input_topic'' ps then ps
                 else ps @ [mk_param ''input_topic'' (PString (ti_name topic))]);
          ps2 = (if has_param ''output_topic'' ps then ps1
                 else ps1 @ [mk_param ''output_topic'' (PString output_topic)])
      in \<lparr>rt_input_topic = ti_name topic, rt_output_topic = output_topic,
          rt_package_name = tt_package_name cfg, rt_plugin_name = tt_plugin_name cfg,
          rt_node_name = node_name, rt_parameters = ps2, rt_output_type = output_type\<rparr>)"

text \<open>The enabled tool configuration of an entry, if it has one.\<close>

definition entry_tool :: "topic_selection \<Rightarrow> topic_tools_config option" where
  "entry_tool e =
     (case sel_topic_tools e of
        Some cfg \<Rightarrow> if tt_enabled cfg then Some cfg else None
      | None \<Rightarrow> None)"

fun plan_entries :: "topic_selection list \<Rightarrow> topic_tools_plan \<Rightarrow> topic_tools_plan exec" where
  "plan_entries [] plan = Ret plan"
| "plan_entries (entry # es) plan =
     (if ti_name (sel_topic entry) = [] then Err ''Selection entry missing topic_name''
      else case entry_tool entry of
        Some cfg \<Rightarrow>
          if tt_plugin_name cfg = []
          then Err ''topic_tools.plugin is required when topic_tools is enabled''
          else
            (let tool = resolve_tool (sel_topic entry) cfg;
                 sink_topic = mk_topic (rt_output_topic tool)
                   (if rt_output_type tool = [] then ti_type (sel_topic entry)
                    else rt_output_type tool)
             in plan_entries es
                  (plan\<lparr>plan_tools := plan_tools plan @ [tool],
                        plan_sink_topics := plan_sink_topics plan @ [sink_topic]\<rparr>))
      | None \<Rightarrow>
          plan_entries es
            (plan\<lparr>plan_sink_topics := plan_sink_topics plan @ [sel_topic entry]\<rparr>))"

definition build_topic_tools_plan :: "topic_selection list \<Rightarrow> topic_tools_plan exec" where
  "build_topic_tools_plan selection = plan_entries selection empty_plan"

section \<open>Limits, types, output\<close>

definition ensure_topic_limits :: "nat \<Rightarrow> topic_selection list \<Rightarrow> unit exec" where
  "ensure_topic_limits max_topics subs =
     (if max_topics < length subs
      then Err (''Selection exceeds safety limit ('' @ show_nat (length subs) @ '' > ''
                @ show_nat max_topics @ '')'')
      else Ret ())"

definition to_topic_info :: "topic_selection list \<Rightarrow> topic_info list" where
  "to_topic_info topics = map sel_topic topics"

text \<open>The map from topic name to type: a later entry for the same name wins.\<close>

definition topic_types :: "topic_info list \<Rightarrow> (string \<times> string) list" where
  "topic_types infos = fold (\<lambda>i. map_assign (ti_name i) (ti_type i)) infos []"

definition resolve_type :: "(string \<times> string) list \<Rightarrow> topic_selection \<Rightarrow> topic_selection" where
  "resolve_type types sub =
     (if ti_type (sel_topic sub) = []
      then (case map_of types (ti_name (sel_topic sub)) of
              Some t \<Rightarrow> if t = [] then sub
                        else sub\<lparr>sel_topic := (sel_topic sub)\<lparr>ti_type := t\<rparr>\<rparr>
            | None \<Rightarrow> sub)
      else sub)"

definition missing_topics :: "(string \<times> string) list \<Rightarrow> topic_selection list \<Rightarrow> string list" where
  "missing_topics types subs =
     map (\<lambda>s. ti_name (sel_topic s))
       (filter (\<lambda>s. ti_type (sel_topic (resolve_type types s)) = []) subs)"

fun join_comma :: "string list \<Rightarrow> string" where
  "join_comma [] = []"
| "join_comma [x] = x"
| "join_comma (x # xs) = x @ '', '' @ join_comma xs"

text \<open>infer_missing_types() once the introspection answer is there.\<close>

definition infer_from_topics ::
  "topic_info list \<Rightarrow> topic_selection list \<Rightarrow> topic_selection list exec" where
  "infer_from_topics infos subs =
     (let types = topic_types infos; missing = missing_topics types subs
      in if missing \<noteq> []
         then Err (''Cannot infer types for '' @ show_nat (length missing) @ '' topic(s): ''
                   @ join_comma missing @ ''. Available topics from introspection: ''
                   @ show_nat (length types))
         else Ret (map (resolve_type types) subs))"

text \<open>The filter of discover_all_topics().\<close>

definition all_mode_keeps ::
  "bool \<Rightarrow> string list \<Rightarrow> string list \<Rightarrow> topic_info \<Rightarrow> bool" where
  "all_mode_keeps hide_rosout allowlist denylist info \<longleftrightarrow>
     \<not> (hide_rosout \<and> ti_name info = ''/rosout'') \<and>
     (allowlist \<noteq> [] \<longrightarrow> ti_name info \<in> set allowlist) \<and>
     ti_name info \<notin> set denylist \<and>
     \<not> (ti_name info \<noteq> [] \<and> hd (ti_name info) = CHR ''_'')"

definition yaml_events :: "topic_info list \<Rightarrow> yaml_event list" where
  "yaml_events subs =
     [BeginSeq]
     @ concat (map (\<lambda>sub.
         [BeginMap, YKey ''topic_name'', YValue (ti_name sub),
          YKey ''msg_type'', YValue (ti_type sub), EndMap]) subs)
     @ [EndSeq]"

definition topics_to_yaml :: "(yaml_event list \<Rightarrow> string) \<Rightarrow> topic_info list \<Rightarrow> string" where
  "topics_to_yaml emit subs = emit (yaml_events subs)"

definition parse_mode :: "string \<Rightarrow> selection_mode \<times> bool" where
  "parse_mode v =
     (if v = ''gui'' then (Mode_GUI, True)
      else if v = ''file'' then (Mode_FILE, True)
      else if v = ''all'' then (Mode_ALL, True)
      else (Mode_GUI, False))"

fun mode_to_string :: "selection_mode \<Rightarrow> string" where
  "mode_to_string Mode_GUI = ''gui''"
| "mode_to_string Mode_FILE = ''file''"
| "mode_to_string Mode_ALL = ''all''"

definition state_string :: "u8 \<Rightarrow> string" where
  "state_string st =
     (if st = PRIMARY_STATE_UNCONFIGURED then ''unconfigured''
      else if st = PRIMARY_STATE_INACTIVE then ''inactive''
      else if st = PRIMARY_STATE_ACTIVE then ''active''
      else if st = PRIMARY_STATE_FINALIZED then ''finalized''
      else ''unknown'')"

section \<open>Names the controller makes up\<close>

lemma sanitize_no_slash: "CHR ''/'' \<notin> set (sanitize_topic_segment t)"
  using replace_char_gone [of "CHR ''/''" "CHR ''_''" t]
  by (auto simp: sanitize_topic_segment_def Let_def dest: set_dropWhileD)

lemma sanitize_nonempty: "sanitize_topic_segment t \<noteq> []"
  by (simp add: sanitize_topic_segment_def Let_def)

lemma sanitize_front: "hd (sanitize_topic_segment t) \<noteq> CHR ''_''"
proof (cases "dropWhile (\<lambda>c. c = CHR ''_'') (replace_char (CHR ''/'') (CHR ''_'') t) = []")
  case True
  then show ?thesis by (simp add: sanitize_topic_segment_def Let_def)
next
  case False
  then show ?thesis
    using hd_dropWhile [OF False] by (simp add: sanitize_topic_segment_def Let_def)
qed

lemma default_tool_node_name_shape:
  "default_tool_node_name p t \<noteq> []" "CHR ''/'' \<notin> set (default_tool_node_name p t)"
  by (simp_all add: default_tool_node_name_def sanitize_nonempty sanitize_no_slash)

lemma default_output_topic_nonempty [simp]: "default_output_topic t n \<noteq> []"
  by (simp add: default_output_topic_def Let_def)

lemma default_output_topic_longer: "length t < length (default_output_topic t n)"
proof -
  have "length t \<le> Suc (length (drop_front (CHR ''/'') t))" by (cases t) auto
  then show ?thesis
    by (cases "drop_front (CHR ''/'') t"; cases n) (auto simp: default_output_topic_def Let_def)
qed

text \<open>A path whose first segment has no slash splits in one way only.\<close>

lemma first_segment_unique:
  assumes "c \<notin> set a" "c \<notin> set b" "a @ c # r = b @ c # r'"
  shows "a = b \<and> r = r'"
proof -
  have "takeWhile (\<lambda>x. x \<noteq> c) (a @ c # r) = a" using assms(1) by (induction a) auto
  moreover have "takeWhile (\<lambda>x. x \<noteq> c) (b @ c # r') = b" using assms(2) by (induction b) auto
  ultimately show ?thesis using assms(3) by auto
qed

lemma default_output_topic_split:
  assumes "n \<noteq> []" "hd t = CHR ''/''" "t \<noteq> []"
  shows "default_output_topic t n = CHR ''/'' # n @ (if tl t = [] then [] else CHR ''/'' # tl t)"
  using assms by (cases t) (auto simp: default_output_topic_def Let_def)

lemma default_output_topic_inj:
  assumes n: "n \<noteq> []" "CHR ''/'' \<notin> set n" "m \<noteq> []" "CHR ''/'' \<notin> set m"
    and t: "t \<noteq> []" "hd t = CHR ''/''" "u \<noteq> []" "hd u = CHR ''/''"
    and eq: "default_output_topic t n = default_output_topic u m"
  shows "t = u"
proof -
  define r where "r = (if tl t = [] then [] else CHR ''/'' # tl t)"
  define q where "q = (if tl u = [] then [] else CHR ''/'' # tl u)"
  have "CHR ''/'' # n @ r = CHR ''/'' # m @ q"
    using default_output_topic_split [OF n(1) t(2) t(1)]
      default_output_topic_split [OF n(3) t(4) t(3)] eq by (simp only: r_def q_def)
  then have e: "n @ r = m @ q" by (simp only: list.inject)
  have shape: "r = [] \<and> tl t = [] \<or> r = CHR ''/'' # tl t" "q = [] \<and> tl u = [] \<or> q = CHR ''/'' # tl u"
    by (simp_all add: r_def q_def)
  have "tl t = tl u"
  proof (rule disjE [OF shape(1)]; rule disjE [OF shape(2)])
    assume "r = CHR ''/'' # tl t" "q = CHR ''/'' # tl u"
    then have "n @ CHR ''/'' # tl t = m @ CHR ''/'' # tl u" using e by (simp only:)
    then show ?thesis by (rule first_segment_unique [OF n(2) n(4), THEN conjunct2])
  next
    assume "r = [] \<and> tl t = []" "q = CHR ''/'' # tl u"
    then have "n = m @ CHR ''/'' # tl u" using e by simp
    then show ?thesis using n(2) by simp
  next
    assume "r = CHR ''/'' # tl t" "q = [] \<and> tl u = []"
    then have "n @ CHR ''/'' # tl t = m" using e by simp
    then show ?thesis using n(4) by auto
  qed simp
  then show ?thesis using t by (metis list.collapse)
qed

section \<open>What a plan is\<close>

text \<open>
  The abstract plan: an entry without an enabled tool goes to the sinks as it is, an entry with
  one goes there under the tool's output topic and type, and the tools keep the entries' order.
\<close>

definition sink_topic_of :: "topic_selection \<Rightarrow> topic_info" where
  "sink_topic_of e =
     (case entry_tool e of
        None \<Rightarrow> sel_topic e
      | Some cfg \<Rightarrow>
          mk_topic (rt_output_topic (resolve_tool (sel_topic e) cfg))
                   (rt_output_type (resolve_tool (sel_topic e) cfg)))"

definition tool_of :: "topic_selection \<Rightarrow> resolved_topic_tool option" where
  "tool_of e = map_option (resolve_tool (sel_topic e)) (entry_tool e)"

definition plannable :: "topic_selection \<Rightarrow> bool" where
  "plannable e \<longleftrightarrow> ti_name (sel_topic e) \<noteq> [] \<and>
     (\<forall>cfg. entry_tool e = Some cfg \<longrightarrow> tt_plugin_name cfg \<noteq> [])"

lemma resolve_tool_type:
  "(if rt_output_type (resolve_tool t cfg) = [] then ti_type t
    else rt_output_type (resolve_tool t cfg)) = rt_output_type (resolve_tool t cfg)"
  by (auto simp: resolve_tool_def Let_def)

lemma plan_entries_step:
  "plannable e \<Longrightarrow> plan_entries (e # es) plan =
     plan_entries es
       \<lparr>plan_tools = plan_tools plan @ List.map_filter tool_of [e],
        plan_sink_topics = plan_sink_topics plan @ [sink_topic_of e]\<rparr>"
  by (cases plan; cases "entry_tool e")
     (simp_all add: plannable_def sink_topic_of_def tool_of_def Let_def resolve_tool_type
        map_filter_simps)

lemma plan_entries_Ret:
  "\<forall>e \<in> set es. plannable e \<Longrightarrow> plan_entries es plan =
     Ret \<lparr>plan_tools = plan_tools plan @ List.map_filter tool_of es,
          plan_sink_topics = plan_sink_topics plan @ map sink_topic_of es\<rparr>"
proof (induction es arbitrary: plan)
  case Nil
  then show ?case by (cases plan) (simp add: map_filter_simps)
next
  case (Cons e es)
  then show ?case
    by (simp add: plan_entries_step del: plan_entries.simps)
       (simp add: map_filter_simps split: option.splits)
qed

lemma plan_entries_not_plannable:
  "\<exists>e \<in> set es. \<not> plannable e \<Longrightarrow> \<exists>m. plan_entries es plan = Err m"
proof (induction es arbitrary: plan)
  case (Cons e es)
  show ?case
  proof (cases "plannable e")
    case True
    then show ?thesis using Cons by (simp add: plan_entries_step del: plan_entries.simps)
  next
    case False
    then show ?thesis by (auto simp: plannable_def split: option.splits)
  qed
qed simp

lemma build_plan_Ret_iff:
  "build_topic_tools_plan es = Ret plan \<longleftrightarrow>
     (\<forall>e \<in> set es. plannable e) \<and>
     plan = \<lparr>plan_tools = List.map_filter tool_of es, plan_sink_topics = map sink_topic_of es\<rparr>"
proof (cases "\<forall>e \<in> set es. plannable e")
  case True
  then have "build_topic_tools_plan es =
    Ret \<lparr>plan_tools = List.map_filter tool_of es, plan_sink_topics = map sink_topic_of es\<rparr>"
    by (simp add: build_topic_tools_plan_def plan_entries_Ret empty_plan_def)
  with True show ?thesis by auto
next
  case False
  then have "\<exists>m. build_topic_tools_plan es = Err m"
    by (simp add: build_topic_tools_plan_def plan_entries_not_plannable)
  with False show ?thesis by auto
qed

lemma build_plan_outcome: "\<exists>plan. build_topic_tools_plan es = Ret plan \<or> (\<exists>m. build_topic_tools_plan es = Err m)"
proof (cases "\<forall>e \<in> set es. plannable e")
  case True
  then show ?thesis by (auto simp: build_plan_Ret_iff)
next
  case False
  then show ?thesis by (simp add: build_topic_tools_plan_def plan_entries_not_plannable)
qed

lemma map_filter_mem: "t \<in> set (List.map_filter f xs) \<longleftrightarrow> (\<exists>x \<in> set xs. f x = Some t)"
  by (induction xs) (auto simp: map_filter_simps split: option.splits)

lemma find_param_append: "find_param n (ps @ qs) =
   (case find_param n ps of None \<Rightarrow> find_param n qs | Some p \<Rightarrow> Some p)"
  by (induction ps) (auto simp: find_param_def)

lemma has_param_find: "has_param n ps \<longleftrightarrow> find_param n ps \<noteq> None"
  by (auto simp: has_param_def find_param_def find_None_iff)

lemma find_param_simps [simp]:
  "find_param n [] = None"
  "find_param n (p # ps) = (if p_name p = n then Some p else find_param n ps)"
  by (simp_all add: find_param_def)

text \<open>The two topic parameters of a resolved tool: the configured ones win, else the plan's.\<close>

lemma resolve_tool_topics:
  "find_param ''input_topic'' (rt_parameters (resolve_tool t cfg)) =
     (if has_param ''input_topic'' (tt_parameters cfg)
      then find_param ''input_topic'' (tt_parameters cfg)
      else Some (mk_param ''input_topic'' (PString (ti_name t))))"
  "find_param ''output_topic'' (rt_parameters (resolve_tool t cfg)) =
     (if has_param ''output_topic'' (tt_parameters cfg)
      then find_param ''output_topic'' (tt_parameters cfg)
      else Some (mk_param ''output_topic'' (PString (rt_output_topic (resolve_tool t cfg)))))"
  by (auto simp: resolve_tool_def Let_def has_param_find find_param_append
      split: option.splits)

lemma resolve_tool_keeps_parameters:
  "\<exists>extra. rt_parameters (resolve_tool t cfg) = tt_parameters cfg @ extra"
  by (auto simp: resolve_tool_def Let_def)

lemma resolve_tool_output_nonempty: "rt_output_topic (resolve_tool t cfg) \<noteq> []"
  by (simp add: resolve_tool_def Let_def)

section \<open>Selection files\<close>

lemma entry_tool_Some_iff:
  "entry_tool e = Some cfg \<longleftrightarrow> sel_topic_tools e = Some cfg \<and> tt_enabled cfg"
  by (auto simp: entry_tool_def split: option.splits)

lemma parse_topic_tools_plugin:
  "parse_topic_tools Y t n = Ret (Some cfg) \<Longrightarrow> tt_plugin_name cfg \<noteq> [] \<and> tt_enabled cfg"
  by (auto simp: parse_topic_tools_def exec_bind_Ret_iff split: if_splits)

lemma parse_selection_entry_plannable:
  "parse_selection_entry Y n = Ret e \<Longrightarrow> plannable e"
  by (auto simp: parse_selection_entry_def exec_bind_Ret_iff plannable_def entry_tool_Some_iff
      dest!: parse_topic_tools_plugin split: if_splits option.splits)

lemma load_file_selection_plannable:
  "load_file_selection Y lf path = Ret es \<Longrightarrow> e \<in> set es \<Longrightarrow> plannable e"
  by (auto simp: load_file_selection_def split: if_splits exec.splits
      dest!: exec_map_mem intro: parse_selection_entry_plannable)

section \<open>Type inference\<close>

lemma resolve_type_frame [simp]:
  "ti_name (sel_topic (resolve_type types s)) = ti_name (sel_topic s)"
  "sel_topic_tools (resolve_type types s) = sel_topic_tools s"
  "entry_tool (resolve_type types s) = entry_tool s"
  by (auto simp: resolve_type_def entry_tool_def split: option.splits)

lemma resolve_type_typed [simp]:
  "ti_type (sel_topic s) \<noteq> [] \<Longrightarrow> resolve_type types s = s"
  by (simp add: resolve_type_def)

lemma resolve_type_plannable [simp]: "plannable (resolve_type types s) = plannable s"
  by (simp add: plannable_def)

lemma ti_type_resolve_type:
  "ti_type (sel_topic (resolve_type types s)) =
     (if ti_type (sel_topic s) = [] then or_else (map_of types (ti_name (sel_topic s))) []
      else ti_type (sel_topic s))"
  by (auto simp: resolve_type_def split: option.splits)

lemma find_append:
  "find P (xs @ ys) = (case find P xs of None \<Rightarrow> find P ys | Some x \<Rightarrow> Some x)"
  by (induction xs) auto

lemma map_of_topic_types_acc:
  "map_of (fold (\<lambda>i. map_assign (ti_name i) (ti_type i)) infos m) n =
     (case find (\<lambda>i. ti_name i = n) (rev infos) of Some i \<Rightarrow> Some (ti_type i) | None \<Rightarrow> map_of m n)"
  by (induction infos arbitrary: m)
     (auto simp: map_of_map_assign find_append split: option.splits)

text \<open>The last description of a topic in the answer gives its type.\<close>

lemma map_of_topic_types:
  "map_of (topic_types infos) n =
     map_option ti_type (find (\<lambda>i. ti_name i = n) (rev infos))"
  by (simp add: topic_types_def map_of_topic_types_acc split: option.splits)

lemma ordered_topic_types: "ordered_map (topic_types infos)"
proof -
  have "ordered_map m \<Longrightarrow>
    ordered_map (fold (\<lambda>i. map_assign (ti_name i) (ti_type i)) infos m)" for m
    by (induction infos arbitrary: m) (auto simp: ordered_map_assign)
  then show ?thesis by (simp add: topic_types_def)
qed

lemma missing_topics_Nil_iff:
  "missing_topics types subs = [] \<longleftrightarrow>
     (\<forall>s \<in> set subs. ti_type (sel_topic (resolve_type types s)) \<noteq> [])"
  by (auto simp: missing_topics_def filter_empty_conv)

lemma infer_from_topics_Ret_iff:
  "infer_from_topics infos subs = Ret out \<longleftrightarrow>
     out = map (resolve_type (topic_types infos)) subs \<and>
     (\<forall>s \<in> set out. ti_type (sel_topic s) \<noteq> [])"
  by (auto simp: infer_from_topics_def Let_def missing_topics_Nil_iff)

section \<open>Properties\<close>

lemma sink_topic_named: "plannable e \<Longrightarrow> ti_name (sink_topic_of e) \<noteq> []"
  by (auto simp: sink_topic_of_def plannable_def resolve_tool_output_nonempty split: option.splits)

lemma sink_topic_typed: "ti_type (sel_topic e) \<noteq> [] \<Longrightarrow> ti_type (sink_topic_of e) \<noteq> []"
  by (auto simp: sink_topic_of_def resolve_tool_def Let_def split: option.splits)

text \<open>A selection with one plain topic and one topic behind a throttle, and its file.\<close>

definition sample_tool :: topic_tools_config where
  "sample_tool = default_topic_tools_config
     \<lparr>tt_enabled := True, tt_plugin_name := ''topic_tools::ThrottleNode''\<rparr>"

definition sample_selection :: "topic_selection list" where
  "sample_selection =
     [\<lparr>sel_topic = mk_topic ''/odom'' ''nav_msgs/msg/Odometry'', sel_topic_tools = None\<rparr>,
      \<lparr>sel_topic = mk_topic ''/scan'' [], sel_topic_tools = Some sample_tool\<rparr>]"

definition sample_file :: ytree where
  "sample_file = YSeq
     [YMap [(''topic_name'', YScalar ''/odom''), (''type'', YScalar ''nav_msgs/msg/Odometry'')],
      YMap [(''name'', YScalar ''/scan''),
            (''topic_tools'', YMap [(''plugin'', YScalar ''topic_tools::ThrottleNode'')])]]"

definition sample_answer :: "topic_info list" where
  "sample_answer = [mk_topic ''/scan'' ''sensor_msgs/msg/LaserScan'']"

lemma sample_file_loads:
  "load_file_selection (sample_yaml (\<lambda>_. Exc [])) (\<lambda>_. Ret sample_file) ''f.yaml'' = Ret sample_selection"
  by code_simp

lemma sample_answer_infers:
  "infer_from_topics sample_answer sample_selection =
     Ret (map (resolve_type (topic_types sample_answer)) sample_selection)"
  by code_simp

text \<open>
  C17: build_topic_tools_plan() computes the abstract plan.  It succeeds exactly on selections
  whose entries all have a topic name and whose enabled tools all name a plugin; the tools come
  in the order of the entries, and the sinks get one topic per entry, the tool's output where
  there is a tool.
\<close>

theorem plan_is_the_abstract_plan:
  "build_topic_tools_plan es = Ret plan \<longleftrightarrow>
     (\<forall>e \<in> set es. plannable e) \<and>
     plan_tools plan = List.map_filter tool_of es \<and>
     plan_sink_topics plan = map sink_topic_of es"
  by (cases plan) (auto simp: build_plan_Ret_iff)

theorem plan_is_the_abstract_plan_witness:
  "build_topic_tools_plan sample_selection =
     Ret \<lparr>plan_tools = List.map_filter tool_of sample_selection,
          plan_sink_topics = map sink_topic_of sample_selection\<rparr>"
proof -
  have "\<forall>e \<in> set sample_selection. plannable e"
    by (simp add: sample_selection_def plannable_def entry_tool_def sample_tool_def
        default_topic_tools_config_def)
  then show ?thesis by (subst plan_is_the_abstract_plan) simp
qed

text \<open>
  C18: a selection file that loads, and whose missing types the introspection answer fills in,
  always yields a plan: one sink topic per entry, each with a name and a type.
\<close>

theorem loaded_file_always_plans:
  assumes "load_file_selection Y load_file path = Ret es"
    and "infer_from_topics infos es = Ret es'"
  shows "\<exists>plan. build_topic_tools_plan es' = Ret plan \<and>
     length (plan_sink_topics plan) = length es \<and>
     (\<forall>t \<in> set (plan_sink_topics plan). ti_name t \<noteq> [] \<and> ti_type t \<noteq> [])"
proof -
  have es': "es' = map (resolve_type (topic_types infos)) es"
    and typed: "\<And>s. s \<in> set es' \<Longrightarrow> ti_type (sel_topic s) \<noteq> []"
    using assms(2) infer_from_topics_Ret_iff [of infos es es'] by blast+
  have ok: "plannable e" if "e \<in> set es'" for e
    using that load_file_selection_plannable [OF assms(1)] by (auto simp: es')
  then have "build_topic_tools_plan es' =
    Ret \<lparr>plan_tools = List.map_filter tool_of es', plan_sink_topics = map sink_topic_of es'\<rparr>"
    by (simp add: build_plan_Ret_iff)
  moreover have "length es' = length es" by (simp add: es')
  ultimately show ?thesis using ok typed by (auto simp: sink_topic_named sink_topic_typed)
qed

theorem loaded_file_always_plans_witness:
  "\<exists>plan. build_topic_tools_plan (map (resolve_type (topic_types sample_answer)) sample_selection)
       = Ret plan \<and> length (plan_sink_topics plan) = 2"
  using loaded_file_always_plans [OF sample_file_loads sample_answer_infers]
  by (auto simp: sample_selection_def)

text \<open>
  C38: in a plan, a tool that is configured with neither topic parameter reads the topic of its
  entry and writes the topic the sinks are told to subscribe to; the configured parameters are
  all kept.
\<close>

theorem tool_reads_and_writes_the_planned_topics:
  assumes "build_topic_tools_plan es = Ret plan" and "e \<in> set es" and "entry_tool e = Some cfg"
    and "\<not> has_param ''input_topic'' (tt_parameters cfg)"
    and "\<not> has_param ''output_topic'' (tt_parameters cfg)"
  shows "\<exists>tool \<in> set (plan_tools plan). \<exists>sink \<in> set (plan_sink_topics plan).
     find_param ''input_topic'' (rt_parameters tool) =
       Some (mk_param ''input_topic'' (PString (ti_name (sel_topic e)))) \<and>
     find_param ''output_topic'' (rt_parameters tool) =
       Some (mk_param ''output_topic'' (PString (ti_name sink))) \<and>
     (\<exists>extra. rt_parameters tool = tt_parameters cfg @ extra)"
proof -
  let ?tool = "resolve_tool (sel_topic e) cfg"
  have plan: "plan_tools plan = List.map_filter tool_of es"
    "plan_sink_topics plan = map sink_topic_of es"
    using assms(1) by (simp_all add: build_plan_Ret_iff)
  have "tool_of e = Some ?tool" using assms(3) by (simp add: tool_of_def)
  then have "?tool \<in> set (plan_tools plan)"
    using assms(2) plan(1) by (auto simp: map_filter_mem)
  moreover have "sink_topic_of e \<in> set (plan_sink_topics plan)"
    using assms(2) plan(2) by simp
  moreover have "ti_name (sink_topic_of e) = rt_output_topic ?tool"
    using assms(3) by (simp add: sink_topic_of_def)
  ultimately show ?thesis
    using assms(4,5) resolve_tool_topics [of "sel_topic e" cfg]
      resolve_tool_keeps_parameters [of "sel_topic e" cfg] by (metis (no_types))
qed

theorem tool_reads_and_writes_the_planned_topics_witness:
  "\<exists>plan tool. build_topic_tools_plan sample_selection = Ret plan \<and> tool \<in> set (plan_tools plan) \<and>
     find_param ''input_topic'' (rt_parameters tool) =
       Some (mk_param ''input_topic'' (PString ''/scan''))"
proof -
  let ?e = "sample_selection ! 1"
  obtain plan where plan: "build_topic_tools_plan sample_selection = Ret plan"
    by (metis build_plan_Ret_iff load_file_selection_plannable sample_file_loads)
  have "?e \<in> set sample_selection" "entry_tool ?e = Some sample_tool"
    "\<not> has_param ''input_topic'' (tt_parameters sample_tool)"
    "\<not> has_param ''output_topic'' (tt_parameters sample_tool)"
    "ti_name (sel_topic ?e) = ''/scan''"
    by (simp_all add: sample_selection_def sample_tool_def entry_tool_def has_param_def
        default_topic_tools_config_def)
  then show ?thesis
    using tool_reads_and_writes_the_planned_topics [OF plan] plan by metis
qed

text \<open>
  A tool whose parameters name an output topic writes there, but the sinks are sent to the
  topic of the plan, which is computed without looking at the parameters: with any other name
  nothing the tool publishes reaches a sink.
\<close>

theorem explicit_output_parameter_is_not_followed:
  assumes "entry_tool e = Some cfg" and "plannable e" and "tt_output_topic cfg = []"
    and "find_param ''output_topic'' (tt_parameters cfg) = Some (mk_param ''output_topic'' (PString t))"
    and "length t \<le> length (ti_name (sel_topic e))"
  shows "\<exists>tool sink. build_topic_tools_plan [e] = Ret \<lparr>plan_tools = [tool], plan_sink_topics = [sink]\<rparr> \<and>
     find_param ''output_topic'' (rt_parameters tool) = Some (mk_param ''output_topic'' (PString t)) \<and>
     ti_name sink \<noteq> t"
proof -
  let ?tool = "resolve_tool (sel_topic e) cfg"
  have tool: "tool_of e = Some ?tool" using assms(1) by (simp add: tool_of_def)
  have "\<exists>n. ti_name (sink_topic_of e) = default_output_topic (ti_name (sel_topic e)) n"
    using assms(1,3) by (auto simp: sink_topic_of_def resolve_tool_def Let_def)
  then have "length t < length (ti_name (sink_topic_of e))"
    using default_output_topic_longer assms(5) by (metis le_less_trans)
  then have "ti_name (sink_topic_of e) \<noteq> t" by auto
  moreover have "build_topic_tools_plan [e] =
    Ret \<lparr>plan_tools = [?tool], plan_sink_topics = [sink_topic_of e]\<rparr>"
    using assms(2) tool by (simp add: build_plan_Ret_iff map_filter_simps)
  moreover have "find_param ''output_topic'' (rt_parameters ?tool) =
    Some (mk_param ''output_topic'' (PString t))"
    using assms(4) by (simp add: resolve_tool_topics has_param_find)
  ultimately show ?thesis by blast
qed

definition sample_redirected :: topic_selection where
  "sample_redirected =
     \<lparr>sel_topic = mk_topic ''/lidar'' ''T'',
      sel_topic_tools = Some (sample_tool
        \<lparr>tt_parameters := [mk_param ''output_topic'' (PString ''/thin'')]\<rparr>)\<rparr>"

theorem explicit_output_parameter_is_not_followed_witness:
  "\<exists>tool sink. build_topic_tools_plan [sample_redirected] =
       Ret \<lparr>plan_tools = [tool], plan_sink_topics = [sink]\<rparr> \<and>
     find_param ''output_topic'' (rt_parameters tool) =
       Some (mk_param ''output_topic'' (PString ''/thin'')) \<and>
     ti_name sink \<noteq> ''/thin''"
proof -
  let ?cfg = "sample_tool\<lparr>tt_parameters := [mk_param ''output_topic'' (PString ''/thin'')]\<rparr>"
  have "entry_tool sample_redirected = Some ?cfg" "plannable sample_redirected"
    by (simp_all add: sample_redirected_def sample_tool_def entry_tool_def plannable_def
        default_topic_tools_config_def)
  moreover have "tt_output_topic ?cfg = []"
    "find_param ''output_topic'' (tt_parameters ?cfg) =
       Some (mk_param ''output_topic'' (PString ''/thin''))"
    by (simp_all add: sample_tool_def default_topic_tools_config_def)
  moreover have "length ''/thin'' \<le> length (ti_name (sel_topic sample_redirected))"
    by (simp add: sample_redirected_def)
  ultimately show ?thesis by (rule explicit_output_parameter_is_not_followed)
qed

text \<open>
  The output topics made up for tools without a configured name never collide: they differ
  whenever the (absolute) input topics differ, whatever the plugins.
\<close>

theorem default_outputs_never_collide:
  assumes "hd t = CHR ''/''" "t \<noteq> []" "hd u = CHR ''/''" "u \<noteq> []" and "t \<noteq> u"
  shows "default_output_topic t (default_tool_node_name p t) \<noteq>
         default_output_topic u (default_tool_node_name q u)"
  using assms default_output_topic_inj default_tool_node_name_shape by metis

theorem default_outputs_never_collide_witness:
  "default_tool_node_name ''T'' ''/a/b'' = default_tool_node_name ''T'' ''/a_b'' \<and>
   default_output_topic ''/a/b'' (default_tool_node_name ''T'' ''/a/b'') \<noteq>
   default_output_topic ''/a_b'' (default_tool_node_name ''T'' ''/a_b'')"
proof
  show "default_tool_node_name ''T'' ''/a/b'' = default_tool_node_name ''T'' ''/a_b''" by code_simp
qed (rule default_outputs_never_collide; simp)



end
