(* ===== verification/Dispatcher_Controller.thy ===== *)
theory Dispatcher_Controller
  imports Dispatcher_Selection
begin

text \<open>
  dispatcher_controller, the node: its state, the calls it makes to the sinks, to the
  introspection manager and to the component container, and its service handlers, parameter
  callback and startup timer (dispatcher_controller/src/dispatcher_controller_node.cpp).

  The handlers run one at a time under the node's mutex, so each is one function from the state
  before to an outcome and the state after.  What is behind the service clients, the clock, the
  selection file and yaml-cpp are the fields of a \<open>services\<close> record over an opaque world.
\<close>

section \<open>State\<close>

datatype controller_phase = IDLE | BUSY | ERROR

record selection_snapshot =
  snap_topics :: "topic_selection list"
  snap_sink_topics :: "topic_info list"
  snap_timestamp :: int

definition empty_snapshot :: selection_snapshot where
  "empty_snapshot = \<lparr>snap_topics = [], snap_sink_topics = [], snap_timestamp = 0\<rparr>"

record active_topic_tool =
  at_unique_id :: u64
  at_full_node_name :: string
  at_config :: resolved_topic_tool

text \<open>The declared parameters.\<close>

record controller_params =
  cp_kafka_sink_node_name :: string
  cp_mosquitto_sink_node_name :: string
  cp_validate_topics :: bool
  cp_disable_introspection_after_apply :: bool
  cp_selection_file_path :: string
  cp_auto_apply_on_mode_change :: bool
  cp_allow_missing_sinks :: bool
  cp_all_mode_max_topics :: int
  cp_all_mode_allowlist :: "string list"
  cp_all_mode_denylist :: "string list"
  cp_all_mode_hide_rosout :: bool
  cp_selection_mode :: string

record 'w controller =
  kafka_sink_node_name :: string
  mosquitto_sink_node_name :: string
  validate_topics :: bool
  disable_introspection_after_apply :: bool
  selection_file_path :: string
  auto_apply_on_mode_change :: bool
  allow_missing_sinks :: bool
  all_mode_max_topics :: u64
  all_mode_allowlist :: "string list"
  all_mode_denylist :: "string list"
  all_mode_hide_rosout :: bool
  selection_mode :: selection_mode
  last_gui_selection :: selection_snapshot
  last_file_selection :: selection_snapshot
  last_all_selection :: selection_snapshot
  applied_selection :: selection_snapshot
  active_topic_tools :: "(string \<times> active_topic_tool) list"
  phase :: controller_phase
  last_error :: string
  last_error_stamp :: int
  startup_timer :: bool
  ct_world :: 'w

text \<open>
  The constructor.  The C++ int of all_mode_max_topics becomes a size_t; an invalid mode falls
  back to gui; the startup timer is created in file mode only.
\<close>

definition new_controller :: "controller_params \<Rightarrow> 'w \<Rightarrow> 'w controller" where
  "new_controller p w =
     (let mode = fst (parse_mode (cp_selection_mode p))
      in \<lparr>kafka_sink_node_name = cp_kafka_sink_node_name p,
          mosquitto_sink_node_name = cp_mosquitto_sink_node_name p,
          validate_topics = cp_validate_topics p,
          disable_introspection_after_apply = cp_disable_introspection_after_apply p,
          selection_file_path = cp_selection_file_path p,
          auto_apply_on_mode_change = cp_auto_apply_on_mode_change p,
          allow_missing_sinks = cp_allow_missing_sinks p,
          all_mode_max_topics = word_of_int (narrow32 (cp_all_mode_max_topics p)),
          all_mode_allowlist = cp_all_mode_allowlist p,
          all_mode_denylist = cp_all_mode_denylist p,
          all_mode_hide_rosout = cp_all_mode_hide_rosout p,
          selection_mode = mode,
          last_gui_selection = empty_snapshot,
          last_file_selection = empty_snapshot,
          last_all_selection = empty_snapshot,
          applied_selection = empty_snapshot,
          active_topic_tools = [],
          phase = IDLE,
          last_error = [],
          last_error_stamp = 0,
          startup_timer = (mode = Mode_FILE \<and> cp_auto_apply_on_mode_change p \<and>
                           cp_selection_file_path p \<noteq> []),
          ct_world = w\<rparr>)"

section \<open>The services\<close>

record load_request =
  lr_package_name :: string
  lr_plugin_name :: string
  lr_node_name :: string
  lr_node_namespace :: string
  lr_parameters :: "parameter list"

record load_response =
  ld_success :: bool
  ld_unique_id :: u64
  ld_full_node_name :: string

record ('n, 'w) services =
  sv_change_state :: "(transition, bool, 'w) client"
  sv_get_state :: "(unit, u8, 'w) client"
  sv_set_parameters :: "(parameter list, set_result list, 'w) client"
  sv_mosquitto_change_state :: "(transition, bool, 'w) client"
  sv_mosquitto_get_state :: "(unit, u8, 'w) client"
  sv_mosquitto_set_parameters :: "(parameter list, set_result list, 'w) client"
  sv_introspection :: "(unit, topic_info list, 'w) client"
  sv_introspection_param :: "(parameter list, set_result list, 'w) client"
  sv_load_node :: "(load_request, load_response, 'w) client"
  sv_unload_node :: "(u64, bool, 'w) client"
  sv_lifecycle_get_state :: "string \<Rightarrow> (unit, u8, 'w) client"
  sv_lifecycle_change_state :: "string \<Rightarrow> (transition, bool, 'w) client"
  sv_namespace :: string
  sv_now :: "'w \<Rightarrow> int"
  sv_yaml :: "'n yaml"
  sv_load_file :: "'w \<Rightarrow> string \<Rightarrow> 'n exec"
  sv_emit :: "yaml_event list \<Rightarrow> string"

definition ask :: "('q, 'r, 'w) client \<Rightarrow> 'q \<Rightarrow> ('w controller, 'r reply) prog" where
  "ask cl q s = (case wait_and_call cl q (ct_world s) of (r, w) \<Rightarrow> (Ret r, s\<lparr>ct_world := w\<rparr>))"

text \<open>The mosquitto clients exist when the sink has a name.\<close>

definition mosquitto_client :: "'w controller \<Rightarrow> 'c \<Rightarrow> 'c option" where
  "mosquitto_client s cl = (if mosquitto_sink_node_name s = [] then None else Some cl)"

section \<open>Sinks\<close>

definition should_skip_unavailable_sink :: "string \<Rightarrow> ('w controller, unit) prog" where
  "should_skip_unavailable_sink sink_label s =
     (if allow_missing_sinks s then ret () s
      else fail (''Unable to reach '' @ sink_label @ '' services'') s)"

definition get_sink_state :: "(unit, u8, 'w) client option \<Rightarrow> ('w controller, u8 option) prog" where
  "get_sink_state client =
     (case client of
        None \<Rightarrow> ret None
      | Some cl \<Rightarrow> andthen (ask cl ()) (\<lambda>r. ret (case r of Reply st \<Rightarrow> Some st | _ \<Rightarrow> None)))"

definition change_sink_state ::
  "string \<Rightarrow> (transition, bool, 'w) client option \<Rightarrow> transition \<Rightarrow> string \<Rightarrow>
   ('w controller, unit) prog" where
  "change_sink_state sink_label client tr action =
     (case client of
        None \<Rightarrow> fail (sink_label @ '' change_state client not initialized'')
      | Some cl \<Rightarrow> andthen (ask cl tr) (\<lambda>r. case r of
            Unavailable \<Rightarrow> fail (sink_label @ '' change_state service not available'')
          | Timeout \<Rightarrow> fail (''Timeout during '' @ sink_label @ '' '' @ action)
          | Reply success \<Rightarrow>
              if success then ret ()
              else fail (sink_label @ '' rejected transition '' @ action)))"

definition set_sink_subscriptions_yaml ::
  "('n, 'w) services \<Rightarrow> string \<Rightarrow> (parameter list, set_result list, 'w) client option \<Rightarrow>
   topic_info list \<Rightarrow> ('w controller, unit) prog" where
  "set_sink_subscriptions_yaml E sink_label client subs =
     (case client of
        None \<Rightarrow> should_skip_unavailable_sink sink_label
      | Some cl \<Rightarrow>
          andthen (ask cl [mk_param ''subscriptions_yaml''
              (PString (topics_to_yaml (sv_emit E) subs))]) (\<lambda>r. case r of
            Unavailable \<Rightarrow> should_skip_unavailable_sink sink_label
          | Timeout \<Rightarrow> fail (''Timeout setting '' @ sink_label @ '' subscriptions_yaml'')
          | Reply results \<Rightarrow>
              (case first_rejection results of
                 None \<Rightarrow> ret ()
               | Some reason \<Rightarrow>
                   fail (''Failed to set '' @ sink_label @ '' subscriptions_yaml: '' @ reason))))"

definition bring_down_if_active ::
  "string \<Rightarrow> (transition, bool, 'w) client option \<Rightarrow> (unit, u8, 'w) client option \<Rightarrow> u8 \<Rightarrow>
   ('w controller, u8) prog" where
  "bring_down_if_active sink_label change get st =
     (if st = PRIMARY_STATE_ACTIVE
      then andthen (change_sink_state sink_label change TRANSITION_DEACTIVATE ''deactivate'') (\<lambda>_.
           andthen (get_sink_state get) (\<lambda>st'. case st' of
             None \<Rightarrow> fail (''Failed to confirm '' @ sink_label @ '' state after deactivate'')
           | Some st' \<Rightarrow> ret st'))
      else ret st)"

definition configure_if_unconfigured ::
  "string \<Rightarrow> (transition, bool, 'w) client option \<Rightarrow> u8 \<Rightarrow> ('w controller, unit) prog" where
  "configure_if_unconfigured sink_label change st =
     (if st = PRIMARY_STATE_UNCONFIGURED
      then change_sink_state sink_label change TRANSITION_CONFIGURE ''configure''
      else ret ())"

definition apply_selection_to_sink ::
  "('n, 'w) services \<Rightarrow> string \<Rightarrow> string \<Rightarrow> (transition, bool, 'w) client option \<Rightarrow>
   (unit, u8, 'w) client option \<Rightarrow> (parameter list, set_result list, 'w) client option \<Rightarrow>
   topic_info list \<Rightarrow> ('w controller, unit) prog" where
  "apply_selection_to_sink E sink_label sink_node_name change get set_params subs =
     (if sink_node_name = [] then ret ()
      else andthen (get_sink_state get) (\<lambda>state. case state of
          None \<Rightarrow> should_skip_unavailable_sink sink_label
        | Some st \<Rightarrow>
            andthen (bring_down_if_active sink_label change get st) (\<lambda>st'.
            andthen (configure_if_unconfigured sink_label change st') (\<lambda>_.
            andthen (set_sink_subscriptions_yaml E sink_label set_params subs) (\<lambda>_.
            change_sink_state sink_label change TRANSITION_ACTIVATE ''activate'')))))"

definition deactivate_sink ::
  "string \<Rightarrow> string \<Rightarrow> (transition, bool, 'w) client option \<Rightarrow> (unit, u8, 'w) client option \<Rightarrow>
   ('w controller, unit) prog" where
  "deactivate_sink sink_label sink_node_name change get =
     (if sink_node_name = [] then ret ()
      else andthen (get_sink_state get) (\<lambda>state. case state of
          None \<Rightarrow> should_skip_unavailable_sink sink_label
        | Some st \<Rightarrow>
            if st = PRIMARY_STATE_ACTIVE
            then change_sink_state sink_label change TRANSITION_DEACTIVATE ''deactivate''
            else ret ()))"

definition get_kafka_sink_state :: "('n, 'w) services \<Rightarrow> ('w controller, u8 option) prog" where
  "get_kafka_sink_state E = get_sink_state (Some (sv_get_state E))"

definition change_kafka_sink_state ::
  "('n, 'w) services \<Rightarrow> transition \<Rightarrow> string \<Rightarrow> ('w controller, unit) prog" where
  "change_kafka_sink_state E tr action =
     change_sink_state ''kafka_sink'' (Some (sv_change_state E)) tr action"

definition set_kafka_sink_subscriptions_yaml ::
  "('n, 'w) services \<Rightarrow> topic_info list \<Rightarrow> ('w controller, unit) prog" where
  "set_kafka_sink_subscriptions_yaml E subs =
     set_sink_subscriptions_yaml E ''kafka_sink'' (Some (sv_set_parameters E)) subs"

definition deactivate_kafka_sink :: "('n, 'w) services \<Rightarrow> ('w controller, unit) prog" where
  "deactivate_kafka_sink E s =
     deactivate_sink ''kafka_sink'' (kafka_sink_node_name s) (Some (sv_change_state E))
       (Some (sv_get_state E)) s"

text \<open>Two lifecycle helpers that create their client on the fly.\<close>

definition get_lifecycle_state ::
  "('n, 'w) services \<Rightarrow> string \<Rightarrow> ('w controller, u8 option) prog" where
  "get_lifecycle_state E node_name =
     andthen (ask (sv_lifecycle_get_state E node_name) ())
       (\<lambda>r. ret (case r of Reply st \<Rightarrow> Some st | _ \<Rightarrow> None))"

definition change_lifecycle_state ::
  "('n, 'w) services \<Rightarrow> string \<Rightarrow> transition \<Rightarrow> string \<Rightarrow> ('w controller, unit) prog" where
  "change_lifecycle_state E node_name tr action =
     andthen (ask (sv_lifecycle_change_state E node_name) tr) (\<lambda>r. case r of
         Unavailable \<Rightarrow> fail (action @ '' service not available'')
       | Timeout \<Rightarrow> fail (''Timeout during '' @ action)
       | Reply success \<Rightarrow>
           if success then ret () else fail (''Lifecycle transition rejected for '' @ node_name))"

section \<open>Topic tools\<close>

definition load_and_activate_topic_tool ::
  "('n, 'w) services \<Rightarrow> resolved_topic_tool \<Rightarrow> ('w controller, active_topic_tool) prog" where
  "load_and_activate_topic_tool E tool =
     andthen (ask (sv_load_node E)
         \<lparr>lr_package_name = rt_package_name tool, lr_plugin_name = rt_plugin_name tool,
          lr_node_name = rt_node_name tool, lr_node_namespace = sv_namespace E,
          lr_parameters = rt_parameters tool\<rparr>) (\<lambda>r. case r of
         Unavailable \<Rightarrow> fail ''load_node service not available for component container''
       | Timeout \<Rightarrow> fail ''Timeout loading topic_tools component''
       | Reply response \<Rightarrow>
           if \<not> ld_success response
           then fail (''Failed to load topic_tools component '' @ rt_node_name tool)
           else ret \<lparr>at_unique_id = ld_unique_id response,
                     at_full_node_name = ld_full_node_name response, at_config = tool\<rparr>)"

definition deactivate_and_unload_tool ::
  "('n, 'w) services \<Rightarrow> active_topic_tool \<Rightarrow> ('w controller, unit) prog" where
  "deactivate_and_unload_tool E tool =
     andthen (ask (sv_unload_node E) (at_unique_id tool)) (\<lambda>r. case r of
         Unavailable \<Rightarrow> fail ''unload_node service not available for component container''
       | Timeout \<Rightarrow> fail ''Timeout unloading topic_tools component''
       | Reply success \<Rightarrow>
           if success then ret () else fail ''Failed to unload topic_tools component'')"

text \<open>The loop over the map of active tools, which stops at the first failure.\<close>

fun unload_tools ::
  "('n, 'w) services \<Rightarrow> (string \<times> active_topic_tool) list \<Rightarrow> ('w controller, unit) prog" where
  "unload_tools E [] = ret ()"
| "unload_tools E ((k, tool) # m) =
     andthen (deactivate_and_unload_tool E tool) (\<lambda>_. unload_tools E m)"

definition clear_active_topic_tools :: "('n, 'w) services \<Rightarrow> ('w controller, unit) prog" where
  "clear_active_topic_tools E s =
     andthen (unload_tools E (active_topic_tools s))
       (\<lambda>_. update_state (\<lambda>s. s\<lparr>active_topic_tools := []\<rparr>)) s"

fun load_tools ::
  "('n, 'w) services \<Rightarrow> resolved_topic_tool list \<Rightarrow> ('w controller, unit) prog" where
  "load_tools E [] = ret ()"
| "load_tools E (tool # tools) =
     andthen (load_and_activate_topic_tool E tool) (\<lambda>active.
     andthen (update_state (\<lambda>s. s\<lparr>active_topic_tools :=
         map_assign (rt_input_topic tool) active (active_topic_tools s)\<rparr>)) (\<lambda>_.
     load_tools E tools))"

definition reconcile_topic_tools ::
  "('n, 'w) services \<Rightarrow> topic_tools_plan \<Rightarrow> ('w controller, unit) prog" where
  "reconcile_topic_tools E plan =
     andthen (clear_active_topic_tools E) (\<lambda>_. load_tools E (plan_tools plan))"

section \<open>Introspection\<close>

definition set_introspection_enabled ::
  "('n, 'w) services \<Rightarrow> bool \<Rightarrow> ('w controller, unit) prog" where
  "set_introspection_enabled E enabled =
     andthen (ask (sv_introspection_param E) [mk_param ''introspection_enabled'' (PBool enabled)])
       (\<lambda>r. case r of
         Unavailable \<Rightarrow> fail ''introspection_manager set_parameters unavailable''
       | Timeout \<Rightarrow> fail ''Timeout toggling introspection_enabled''
       | Reply results \<Rightarrow>
           (case first_rejection results of
              None \<Rightarrow> ret ()
            | Some reason \<Rightarrow> fail (''Failed to toggle introspection_enabled: '' @ reason)))"

definition infer_missing_types ::
  "('n, 'w) services \<Rightarrow> topic_selection list \<Rightarrow> ('w controller, topic_selection list) prog" where
  "infer_missing_types E subs =
     (if \<forall>sub \<in> set subs. ti_type (sel_topic sub) \<noteq> [] then ret subs
      else andthen (ask (sv_introspection E) ()) (\<lambda>r. case r of
          Unavailable \<Rightarrow> fail ''Introspection service not available for type inference''
        | Timeout \<Rightarrow> fail ''Timeout querying introspection_manager for types''
        | Reply topics \<Rightarrow> lift_exec (infer_from_topics topics subs)))"

definition check_topic_limits :: "topic_selection list \<Rightarrow> ('w controller, unit) prog" where
  "check_topic_limits subs s =
     lift_exec (ensure_topic_limits (unat (all_mode_max_topics s)) subs) s"

text \<open>
  wait_for_service() comes before the introspection manager is enabled, the request after it, so
  the client is used in two parts.
\<close>

definition ask_ready :: "('q, 'r, 'w) client \<Rightarrow> ('w controller, bool) prog" where
  "ask_ready cl s = (case cl_ready cl (ct_world s) of (b, w) \<Rightarrow> (Ret b, s\<lparr>ct_world := w\<rparr>))"

definition ask_now :: "('q, 'r, 'w) client \<Rightarrow> 'q \<Rightarrow> ('w controller, 'r option) prog" where
  "ask_now cl q s = (case cl_call cl q (ct_world s) of (r, w) \<Rightarrow> (Ret r, s\<lparr>ct_world := w\<rparr>))"

definition filter_discovered :: "topic_info list \<Rightarrow> 'w controller \<Rightarrow> topic_selection list" where
  "filter_discovered infos s =
     map (\<lambda>info. \<lparr>sel_topic = info, sel_topic_tools = None\<rparr>)
       (filter (all_mode_keeps (all_mode_hide_rosout s) (all_mode_allowlist s)
                  (all_mode_denylist s)) infos)"

definition discover_all_topics ::
  "('n, 'w) services \<Rightarrow> ('w controller, topic_selection list) prog" where
  "discover_all_topics E =
     andthen (ask_ready (sv_introspection E)) (\<lambda>ready.
     if \<not> ready then fail ''Introspection service not available''
     else
       andthen (attempt (set_introspection_enabled E True) ret (\<lambda>_. ret ())) (\<lambda>_.
       andthen (ask_now (sv_introspection E) ()) (\<lambda>r. case r of
         None \<Rightarrow> fail ''Timeout querying introspection_manager''
       | Some infos \<Rightarrow> (\<lambda>s.
           andthen (check_topic_limits (filter_discovered infos s))
             (\<lambda>_. ret (filter_discovered infos s)) s))))"

section \<open>Applying a selection\<close>

definition validated_selection ::
  "('n, 'w) services \<Rightarrow> topic_selection list \<Rightarrow> ('w controller, topic_selection list) prog" where
  "validated_selection E topics s =
     (if validate_topics s then infer_missing_types E topics s else ret topics s)"

definition record_applied ::
  "('n, 'w) services \<Rightarrow> topic_selection list \<Rightarrow> topic_info list \<Rightarrow> 'w controller \<Rightarrow>
   'w controller" where
  "record_applied E topics sinks s =
     s\<lparr>applied_selection := \<lparr>snap_topics = topics, snap_sink_topics = sinks,
                              snap_timestamp = sv_now E (ct_world s)\<rparr>\<rparr>"

text \<open>A failure to disable the introspection manager is only logged.\<close>

definition disable_introspection :: "('n, 'w) services \<Rightarrow> ('w controller, unit) prog" where
  "disable_introspection E s =
     (if disable_introspection_after_apply s
      then attempt (set_introspection_enabled E False) ret (\<lambda>_. ret ()) s
      else ret () s)"

definition apply_to_mosquitto ::
  "('n, 'w) services \<Rightarrow> topic_info list \<Rightarrow> ('w controller, unit) prog" where
  "apply_to_mosquitto E subs s =
     apply_selection_to_sink E ''mosquitto_sink'' (mosquitto_sink_node_name s)
       (mosquitto_client s (sv_mosquitto_change_state E))
       (mosquitto_client s (sv_mosquitto_get_state E))
       (mosquitto_client s (sv_mosquitto_set_parameters E)) subs s"

text \<open>
  apply_selection() up to the point where both sinks run the new plan, and the whole of it.
\<close>

definition reconfigure_sinks ::
  "('n, 'w) services \<Rightarrow> topic_selection list \<Rightarrow>
   ('w controller, topic_selection list \<times> topic_info list) prog" where
  "reconfigure_sinks E topics =
     (if topics = [] then fail ''No topics to apply''
      else andthen (get_kafka_sink_state E) (\<lambda>state. case state of
          None \<Rightarrow> fail ''Unable to get kafka_sink state''
        | Some st \<Rightarrow>
            andthen (validated_selection E topics) (\<lambda>validated.
            andthen (lift_exec (build_topic_tools_plan validated)) (\<lambda>plan.
            andthen (bring_down_if_active ''kafka_sink'' (Some (sv_change_state E))
                       (Some (sv_get_state E)) st) (\<lambda>st'.
            andthen (configure_if_unconfigured ''kafka_sink'' (Some (sv_change_state E)) st') (\<lambda>_.
            andthen (reconcile_topic_tools E plan) (\<lambda>_.
            andthen (set_kafka_sink_subscriptions_yaml E (plan_sink_topics plan)) (\<lambda>_.
            andthen (change_kafka_sink_state E TRANSITION_ACTIVATE ''activate'') (\<lambda>_.
            andthen (apply_to_mosquitto E (plan_sink_topics plan)) (\<lambda>_.
            ret (validated, plan_sink_topics plan)))))))))))"

definition apply_selection ::
  "('n, 'w) services \<Rightarrow> topic_selection list \<Rightarrow> ('w controller, unit) prog" where
  "apply_selection E topics =
     andthen (reconfigure_sinks E topics) (\<lambda>(validated, sink_topics).
     andthen (update_state (record_applied E validated sink_topics)) (\<lambda>_.
     disable_introspection E))"

section \<open>Handlers\<close>

record srv_response =
  resp_success :: bool
  resp_message :: string

abbreviation respond :: "bool \<Rightarrow> string \<Rightarrow> ('w controller, srv_response) prog" where
  "respond b m \<equiv> ret \<lparr>resp_success = b, resp_message = m\<rparr>"

definition note_error :: "('n, 'w) services \<Rightarrow> string \<Rightarrow> 'w controller \<Rightarrow> 'w controller" where
  "note_error E msg s = s\<lparr>last_error := msg, last_error_stamp := sv_now E (ct_world s)\<rparr>"

text \<open>The error return that also records the message.\<close>

definition reject :: "('n, 'w) services \<Rightarrow> string \<Rightarrow> ('w controller, srv_response) prog" where
  "reject E msg = andthen (update_state (note_error E msg)) (\<lambda>_. respond False msg)"

definition set_phase :: "controller_phase \<Rightarrow> ('w controller, unit) prog" where
  "set_phase ph = update_state (\<lambda>s. s\<lparr>phase := ph\<rparr>)"

text \<open>phase BUSY, apply_selection, and phase ERROR or IDLE by its outcome.\<close>

definition apply_phased ::
  "('n, 'w) services \<Rightarrow> topic_selection list \<Rightarrow> ('w controller, unit) prog" where
  "apply_phased E topics =
     andthen (set_phase BUSY) (\<lambda>_.
     attempt (apply_selection E topics) (\<lambda>_. set_phase IDLE)
       (\<lambda>e. andthen (set_phase ERROR) (\<lambda>_. fail e)))"

definition snapshot_now ::
  "('n, 'w) services \<Rightarrow> topic_selection list \<Rightarrow> topic_info list \<Rightarrow> 'w controller \<Rightarrow>
   selection_snapshot" where
  "snapshot_now E topics sinks s =
     \<lparr>snap_topics = topics, snap_sink_topics = sinks, snap_timestamp = sv_now E (ct_world s)\<rparr>"

text \<open>The file and the all branch of switch_mode() and handle_reload_selection().\<close>

definition selection_from_file ::
  "('n, 'w) services \<Rightarrow> string \<Rightarrow> (string \<Rightarrow> string) \<Rightarrow>
   ('w controller, topic_selection list \<times> topic_info list) prog" where
  "selection_from_file E path infer_message =
     andthen (\<lambda>s. lift_exec (load_file_selection (sv_yaml E) (sv_load_file E (ct_world s)) path) s)
       (\<lambda>loaded.
     andthen (attempt (infer_missing_types E loaded) ret (\<lambda>e. fail (infer_message e)))
       (\<lambda>selection.
     andthen (lift_exec (build_topic_tools_plan selection)) (\<lambda>plan.
     andthen (update_state (\<lambda>s. s\<lparr>last_file_selection :=
         snapshot_now E selection (plan_sink_topics plan) s\<rparr>)) (\<lambda>_.
     ret (selection, plan_sink_topics plan)))))"

definition selection_from_all ::
  "('n, 'w) services \<Rightarrow> ('w controller, topic_selection list \<times> topic_info list) prog" where
  "selection_from_all E =
     andthen (discover_all_topics E) (\<lambda>selection.
     andthen (lift_exec (build_topic_tools_plan selection)) (\<lambda>plan.
     andthen (update_state (\<lambda>s. s\<lparr>last_all_selection :=
         snapshot_now E selection (plan_sink_topics plan) s\<rparr>)) (\<lambda>_.
     ret (selection, plan_sink_topics plan))))"

text \<open>A plan is built again when there is none: it can only fail here.\<close>

definition ensure_planned ::
  "topic_selection list \<times> topic_info list \<Rightarrow> ('w controller, topic_selection list) prog" where
  "ensure_planned sel =
     (if snd sel = [] \<and> fst sel \<noteq> []
      then andthen (lift_exec (build_topic_tools_plan (fst sel))) (\<lambda>_. ret (fst sel))
      else ret (fst sel))"

text \<open>
  switch_mode(): \<open>None\<close> is the gui mode without a cached selection, which returns early.
\<close>

definition switch_selection ::
  "('n, 'w) services \<Rightarrow> selection_mode \<Rightarrow>
   ('w controller, (topic_selection list \<times> topic_info list) option) prog" where
  "switch_selection E new_mode =
     (case new_mode of
        Mode_GUI \<Rightarrow> (\<lambda>s.
          ret (if snap_topics (last_gui_selection s) \<noteq> []
               then Some (snap_topics (last_gui_selection s),
                          snap_sink_topics (last_gui_selection s))
               else None) s)
      | Mode_FILE \<Rightarrow> (\<lambda>s.
          if selection_file_path s = [] then fail ''selection_file_path is empty'' s
          else andthen (selection_from_file E (selection_file_path s) (\<lambda>e. e))
                 (\<lambda>sel. ret (Some sel)) s)
      | Mode_ALL \<Rightarrow> andthen (selection_from_all E) (\<lambda>sel. ret (Some sel)))"

definition switch_mode ::
  "('n, 'w) services \<Rightarrow> selection_mode \<Rightarrow> string \<Rightarrow> bool \<Rightarrow> ('w controller, unit) prog" where
  "switch_mode E new_mode file_path apply_now s =
     (if phase s = BUSY then fail ''Controller busy'' s
      else
        andthen (update_state (\<lambda>s. s\<lparr>selection_mode := new_mode,
            selection_file_path := (if file_path \<noteq> [] then file_path else selection_file_path s)\<rparr>))
          (\<lambda>_.
        if \<not> apply_now then ret ()
        else
          andthen (switch_selection E new_mode) (\<lambda>found. case found of
            None \<Rightarrow> ret ()
          | Some sel \<Rightarrow>
              andthen (ensure_planned sel) (\<lambda>selection.
              andthen (check_topic_limits selection) (\<lambda>_.
              apply_phased E selection)))) s)"

record selection_mode_request =
  smr_selection_mode :: string
  smr_selection_file_path :: string
  smr_apply_now :: bool

definition handle_set_selection_mode ::
  "('n, 'w) services \<Rightarrow> selection_mode_request \<Rightarrow> ('w controller, srv_response) prog" where
  "handle_set_selection_mode E req =
     (case parse_mode (smr_selection_mode req) of
        (mode, valid) \<Rightarrow>
          if \<not> valid then respond False ''Invalid selection_mode. Use gui|file|all.''
          else
            attempt (switch_mode E mode (smr_selection_file_path req) (smr_apply_now req))
              (\<lambda>_. andthen (update_state (\<lambda>s. s\<lparr>selection_file_path :=
                    (if smr_selection_file_path req = [] then selection_file_path s
                     else smr_selection_file_path req)\<rparr>))
                (\<lambda>_. respond True (''Mode switched to '' @ mode_to_string mode)))
              (\<lambda>e. respond False e))"

definition handle_apply_selection ::
  "('n, 'w) services \<Rightarrow> topic_info list \<Rightarrow> ('w controller, srv_response) prog" where
  "handle_apply_selection E request s =
     (if phase s = BUSY then respond False ''Controller busy'' s
      else if selection_mode s \<noteq> Mode_GUI then respond False ''Not in gui mode'' s
      else
        attempt (infer_missing_types E
            (map (\<lambda>t. \<lparr>sel_topic = t, sel_topic_tools = None\<rparr>) request))
          (\<lambda>topics.
            attempt (check_topic_limits topics)
              (\<lambda>_. attempt (andthen (set_phase BUSY) (\<lambda>_. apply_selection E topics))
                (\<lambda>_. andthen (update_state (\<lambda>s. s\<lparr>last_gui_selection :=
                       snapshot_now E topics (snap_sink_topics (applied_selection s)) s\<rparr>))
                   (\<lambda>_. andthen (set_phase IDLE) (\<lambda>_. respond True ''Selection applied'')))
                (\<lambda>e. andthen (set_phase ERROR) (\<lambda>_. reject E e)))
              (reject E))
          (\<lambda>e. reject E (''Failed to infer topic types: '' @ e)) s)"

record reload_request =
  rr_selection_file_path :: string
  rr_apply_now :: bool

text \<open>Where the selection of a reload comes from; the gui branch answers without a last_error.\<close>

definition reload_source ::
  "('n, 'w) services \<Rightarrow> reload_request \<Rightarrow>
   ('w controller, topic_selection list \<times> topic_info list) prog" where
  "reload_source E req s =
     (case selection_mode s of
        Mode_FILE \<Rightarrow>
          selection_from_file E
            (if rr_selection_file_path req = [] then selection_file_path s
             else rr_selection_file_path req)
            (\<lambda>e. ''Failed to infer types: '' @ e) s
      | Mode_ALL \<Rightarrow> selection_from_all E s
      | Mode_GUI \<Rightarrow>
          ret (snap_topics (last_gui_selection s), snap_sink_topics (last_gui_selection s)) s)"

definition handle_reload_selection ::
  "('n, 'w) services \<Rightarrow> reload_request \<Rightarrow> ('w controller, srv_response) prog" where
  "handle_reload_selection E req s =
     (if phase s = BUSY then respond False ''Controller busy'' s
      else if selection_mode s = Mode_GUI \<and> snap_topics (last_gui_selection s) = []
      then respond False ''No cached GUI selection to reload'' s
      else
        attempt (andthen (reload_source E req) (\<lambda>sel.
                 andthen (ensure_planned sel) (\<lambda>selection.
                 andthen (check_topic_limits selection) (\<lambda>_.
                 if rr_apply_now req then apply_phased E selection else ret ()))))
          (\<lambda>_. respond True (if rr_apply_now req then ''Selection reloaded and applied''
                            else ''Selection reloaded''))
          (reject E) s)"

definition handle_stop_streaming ::
  "('n, 'w) services \<Rightarrow> bool \<Rightarrow> ('w controller, srv_response) prog" where
  "handle_stop_streaming E reset_cached s =
     (if phase s = BUSY then respond False ''Controller busy'' s
      else
        attempt
          (andthen (deactivate_kafka_sink E) (\<lambda>_.
           andthen (\<lambda>s. deactivate_sink ''mosquitto_sink'' (mosquitto_sink_node_name s)
                      (mosquitto_client s (sv_mosquitto_change_state E))
                      (mosquitto_client s (sv_mosquitto_get_state E)) s) (\<lambda>_.
           clear_active_topic_tools E)))
          (\<lambda>_. andthen (update_state (\<lambda>s.
              (if reset_cached
               then s\<lparr>last_gui_selection := empty_snapshot, last_file_selection := empty_snapshot,
                      last_all_selection := empty_snapshot\<rparr>
               else s)\<lparr>applied_selection := empty_snapshot, phase := IDLE\<rparr>))
            (\<lambda>_. respond True ''Streaming stopped''))
          (\<lambda>e. andthen (set_phase ERROR) (\<lambda>_. reject E e)) s)"

record status_response =
  st_selection_mode :: string
  st_kafka_sink_state :: string
  st_mosquitto_sink_state :: string
  st_streaming_active :: bool
  st_applied_topics :: "topic_info list"
  st_gui_selection_count :: nat
  st_file_selection_count :: nat
  st_all_selection_count :: nat
  st_last_error :: string
  st_last_error_stamp :: int
  st_reconciling :: bool
  st_success :: bool
  st_message :: string

definition observed_state :: "u8 option \<Rightarrow> string" where
  "observed_state st = (case st of Some x \<Rightarrow> state_string x | None \<Rightarrow> ''unknown'')"

definition mosquitto_observed :: "('n, 'w) services \<Rightarrow> ('w controller, u8 option) prog" where
  "mosquitto_observed E s =
     (if mosquitto_sink_node_name s \<noteq> []
      then get_sink_state (mosquitto_client s (sv_mosquitto_get_state E)) s
      else ret None s)"

definition status_of :: "u8 option \<Rightarrow> u8 option \<Rightarrow> 'w controller \<Rightarrow> status_response" where
  "status_of kafka_state mosquitto_state s =
     \<lparr>st_selection_mode = mode_to_string (selection_mode s),
      st_kafka_sink_state = observed_state kafka_state,
      st_mosquitto_sink_state =
        (if mosquitto_sink_node_name s \<noteq> [] then observed_state mosquitto_state else ''disabled''),
      st_streaming_active =
        (kafka_sink_node_name s \<noteq> [] \<and> kafka_state = Some PRIMARY_STATE_ACTIVE \<or>
         mosquitto_sink_node_name s \<noteq> [] \<and> mosquitto_state = Some PRIMARY_STATE_ACTIVE),
      st_applied_topics =
        (if snap_sink_topics (applied_selection s) = []
         then to_topic_info (snap_topics (applied_selection s))
         else snap_sink_topics (applied_selection s)),
      st_gui_selection_count = length (snap_topics (last_gui_selection s)) mod 2 ^ 32,
      st_file_selection_count = length (snap_topics (last_file_selection s)) mod 2 ^ 32,
      st_all_selection_count = length (snap_topics (last_all_selection s)) mod 2 ^ 32,
      st_last_error = last_error s, st_last_error_stamp = last_error_stamp s,
      st_reconciling = (phase s = BUSY), st_success = True, st_message = ''OK''\<rparr>"

definition handle_get_status ::
  "('n, 'w) services \<Rightarrow> ('w controller, status_response) prog" where
  "handle_get_status E =
     andthen (get_kafka_sink_state E) (\<lambda>kafka_state.
     andthen (mosquitto_observed E) (\<lambda>mosquitto_state.
     (\<lambda>s. ret (status_of kafka_state mosquitto_state s) s)))"

text \<open>
  The parameter callback: the loop over the changed parameters, then the mode switch.  A value of
  another type throws out of the loop; an unknown mode rejects the whole set.
\<close>

record param_scan =
  sc_new_mode :: "selection_mode option"
  sc_new_file_path :: string
  sc_request_apply :: bool
  sc_new_auto_apply :: "bool option"

fun scan_parameters :: "parameter list \<Rightarrow> param_scan \<Rightarrow> param_scan option exec" where
  "scan_parameters [] sc = Ret (Some sc)"
| "scan_parameters (p # ps) sc =
     (if p_name p = ''selection_mode''
      then exec_bind (as_string p) (\<lambda>v.
        (case parse_mode v of
           (mode, valid) \<Rightarrow>
             if valid then scan_parameters ps (sc\<lparr>sc_new_mode := Some mode\<rparr>) else Ret None))
      else if p_name p = ''selection_file_path''
      then exec_bind (as_string p) (\<lambda>v. scan_parameters ps (sc\<lparr>sc_new_file_path := v\<rparr>))
      else if p_name p = ''auto_apply_on_mode_change''
      then exec_bind (as_bool p) (\<lambda>b. scan_parameters ps
             (sc\<lparr>sc_request_apply := b, sc_new_auto_apply := Some b\<rparr>))
      else scan_parameters ps sc)"

abbreviation result_of :: "bool \<Rightarrow> string \<Rightarrow> ('w controller, set_result) prog" where
  "result_of b m \<equiv> ret \<lparr>sr_successful = b, sr_reason = m\<rparr>"

definition on_param_change ::
  "('n, 'w) services \<Rightarrow> parameter list \<Rightarrow> ('w controller, set_result) prog" where
  "on_param_change E parameters s =
     andthen (lift_exec (scan_parameters parameters
         \<lparr>sc_new_mode = None, sc_new_file_path = selection_file_path s,
          sc_request_apply = auto_apply_on_mode_change s, sc_new_auto_apply = None\<rparr>))
       (\<lambda>scanned. case scanned of
          None \<Rightarrow> result_of False ''Invalid selection_mode value''
        | Some sc \<Rightarrow>
            (case sc_new_mode sc of
               None \<Rightarrow> result_of True []
             | Some mode \<Rightarrow>
                 attempt (switch_mode E mode (sc_new_file_path sc) (sc_request_apply sc))
                   (\<lambda>_. andthen (update_state (\<lambda>s. s\<lparr>
                        selection_file_path := sc_new_file_path sc,
                        auto_apply_on_mode_change :=
                          (case sc_new_auto_apply sc of
                             Some b \<Rightarrow> b | None \<Rightarrow> auto_apply_on_mode_change s)\<rparr>))
                      (\<lambda>_. result_of True []))
                   (result_of False))) s"

text \<open>The one-shot timer that applies the selection file after the start in file mode.\<close>

definition startup_apply :: "('n, 'w) services \<Rightarrow> ('w controller, unit) prog" where
  "startup_apply E s =
     (let cancel = update_state (\<lambda>s. s\<lparr>startup_timer := False\<rparr>)
      in if phase s = BUSY \<or> selection_mode s \<noteq> Mode_FILE \<or> selection_file_path s = []
         then cancel s
         else andthen
           (attempt (switch_mode E (selection_mode s) (selection_file_path s) True) ret
              (\<lambda>e. update_state (note_error E e)))
           (\<lambda>_. cancel) s)"

section \<open>The node as a transition system\<close>

text \<open>
  One step is one handler, run to its end under the mutex, a firing of the startup timer, or
  time passing in the rest of the system.
\<close>

inductive controller_step :: "('n, 'w) services \<Rightarrow> 'w controller \<Rightarrow> 'w controller \<Rightarrow> bool"
  for E :: "('n, 'w) services" where
  step_apply: "controller_step E s (snd (handle_apply_selection E req s))"
| step_reload: "controller_step E s (snd (handle_reload_selection E rreq s))"
| step_stop: "controller_step E s (snd (handle_stop_streaming E reset s))"
| step_status: "controller_step E s (snd (handle_get_status E s))"
| step_mode: "controller_step E s (snd (handle_set_selection_mode E mreq s))"
| step_param: "controller_step E s (snd (on_param_change E ps s))"
| step_startup: "startup_timer s \<Longrightarrow> controller_step E s (snd (startup_apply E s))"
| step_world: "controller_step E s (s\<lparr>ct_world := w\<rparr>)"

inductive controller_reachable :: "('n, 'w) services \<Rightarrow> 'w controller \<Rightarrow> bool"
  for E :: "('n, 'w) services" where
  reach_new: "controller_reachable E (new_controller p w)"
| reach_step: "controller_reachable E s \<Longrightarrow> controller_step E s t \<Longrightarrow> controller_reachable E t"

end
