(* ===== verification/Dispatcher_Invariant.thy ===== *)
theory Dispatcher_Invariant
  imports Dispatcher_Controller
begin

text \<open>
  dispatcher_controller, the proofs: which part of the state each call of the node can change,
  what a successful or failed apply_selection() does, and the invariant of the reachable states.
  Frame facts are collected as \<open>keeps\<close> rules, so the frame of a handler is the frame of its calls.
\<close>

section \<open>What the calls leave alone\<close>

text \<open>Only the world outside changed.\<close>

definition only_world :: "'w controller \<Rightarrow> 'w controller \<Rightarrow> bool" where
  "only_world s t \<longleftrightarrow> (\<exists>w. t = s\<lparr>ct_world := w\<rparr>)"

lemma only_world_refl [simp, intro]: "only_world s s"
  unfolding only_world_def by (rule exI [of _ "ct_world s"]) simp

lemma only_world_trans: "only_world a b \<Longrightarrow> only_world b c \<Longrightarrow> only_world a c"
  by (auto simp: only_world_def)

lemma keeps_world_seq:
  "keeps only_world m \<Longrightarrow> (\<And>a. keeps only_world (k a)) \<Longrightarrow> keeps only_world (andthen m k)"
  "keeps only_world m \<Longrightarrow> (\<And>a. keeps only_world (k a)) \<Longrightarrow> (\<And>e. keeps only_world (h e)) \<Longrightarrow>
   keeps only_world (attempt m k h)"
  by (rule keeps_andthen keeps_attempt; blast intro: only_world_trans)+

lemmas keeps_world = keeps_pure [of only_world, OF only_world_refl] keeps_world_seq
  keeps_if [of _ only_world] keeps_option [of only_world] keeps_reply [of only_world]

lemma ask_world: "keeps only_world (ask cl q)" "keeps only_world (ask_ready cl)"
  "keeps only_world (ask_now cl q)"
  by (auto simp: keeps_def ask_def ask_ready_def ask_now_def only_world_def split: prod.splits)

lemma ask_never_throws [never_throws_intros]:
  "never_throws (ask cl q)" "never_throws (ask_ready cl)" "never_throws (ask_now cl q)"
  by (auto simp: never_throws_def ask_def ask_ready_def ask_now_def split: prod.splits)

lemma skip_world: "keeps only_world (should_skip_unavailable_sink l)"
  "never_throws (should_skip_unavailable_sink l)"
  by (auto simp: keeps_def never_throws_def should_skip_unavailable_sink_def)

lemma get_sink_state_world: "keeps only_world (get_sink_state c)" "never_throws (get_sink_state c)"
  unfolding get_sink_state_def
  by (intro keeps_world ask_world)
     (intro never_throws_intros)

lemma change_sink_state_world:
  "keeps only_world (change_sink_state l c tr a)" "never_throws (change_sink_state l c tr a)"
  unfolding change_sink_state_def
  by (intro keeps_world ask_world)
     (intro never_throws_intros)

lemma set_sink_subscriptions_yaml_world:
  "keeps only_world (set_sink_subscriptions_yaml E l c subs)"
  "never_throws (set_sink_subscriptions_yaml E l c subs)"
  unfolding set_sink_subscriptions_yaml_def
  by (intro keeps_world ask_world skip_world)
     (intro never_throws_intros skip_world)

lemma bring_down_world:
  "keeps only_world (bring_down_if_active l c g st)" "never_throws (bring_down_if_active l c g st)"
  unfolding bring_down_if_active_def
  by (intro keeps_world change_sink_state_world get_sink_state_world)
     (intro never_throws_intros change_sink_state_world get_sink_state_world)

lemma configure_world:
  "keeps only_world (configure_if_unconfigured l c st)"
  "never_throws (configure_if_unconfigured l c st)"
  unfolding configure_if_unconfigured_def
  by (intro keeps_world change_sink_state_world)
     (intro never_throws_intros change_sink_state_world)

lemma apply_selection_to_sink_world:
  "keeps only_world (apply_selection_to_sink E l n c g p subs)"
  "never_throws (apply_selection_to_sink E l n c g p subs)"
  unfolding apply_selection_to_sink_def
  by (intro keeps_world get_sink_state_world skip_world bring_down_world configure_world set_sink_subscriptions_yaml_world change_sink_state_world)
     (intro never_throws_intros get_sink_state_world skip_world bring_down_world configure_world set_sink_subscriptions_yaml_world change_sink_state_world)

lemma deactivate_sink_world:
  "keeps only_world (deactivate_sink l n c g)" "never_throws (deactivate_sink l n c g)"
  unfolding deactivate_sink_def
  by (intro keeps_world get_sink_state_world skip_world change_sink_state_world)
     (intro never_throws_intros get_sink_state_world skip_world change_sink_state_world)

lemma kafka_wrappers_world:
  "keeps only_world (get_kafka_sink_state E)" "never_throws (get_kafka_sink_state E)"
  "keeps only_world (change_kafka_sink_state E tr a)" "never_throws (change_kafka_sink_state E tr a)"
  "keeps only_world (set_kafka_sink_subscriptions_yaml E subs)"
  "never_throws (set_kafka_sink_subscriptions_yaml E subs)"
  by (simp_all add: get_kafka_sink_state_def change_kafka_sink_state_def
      set_kafka_sink_subscriptions_yaml_def get_sink_state_world change_sink_state_world
      set_sink_subscriptions_yaml_world)

lemma read_deactivate_world:
  "keeps only_world (deactivate_kafka_sink E)" "never_throws (deactivate_kafka_sink E)"
  "keeps only_world (apply_to_mosquitto E subs)" "never_throws (apply_to_mosquitto E subs)"
  by (auto intro!: keepsI never_throwsI
      simp: deactivate_kafka_sink_def apply_to_mosquitto_def
        keeps_snd [OF deactivate_sink_world(1)] never_throwsD [OF deactivate_sink_world(2)]
        keeps_snd [OF apply_selection_to_sink_world(1)]
        never_throwsD [OF apply_selection_to_sink_world(2)])

lemma set_introspection_world:
  "keeps only_world (set_introspection_enabled E b)" "never_throws (set_introspection_enabled E b)"
  unfolding set_introspection_enabled_def
  by (intro keeps_world ask_world)
     (intro never_throws_intros)

lemma disable_introspection_world:
  "keeps only_world (disable_introspection E)" "never_throws (disable_introspection E)"
proof -
  have "keeps only_world (attempt (set_introspection_enabled E False) ret (\<lambda>_. ret ()))"
    "never_throws (attempt (set_introspection_enabled E False) ret (\<lambda>_. ret ()))"
    by (intro keeps_world set_introspection_world)
     (intro never_throws_intros set_introspection_world)
  then show "keeps only_world (disable_introspection E)" "never_throws (disable_introspection E)"
    by (simp_all add: keeps_def never_throws_def disable_introspection_def)
qed

lemma infer_from_topics_no_exc: "infer_from_topics infos subs \<noteq> Exc e"
  by (simp add: infer_from_topics_def Let_def)

lemma infer_missing_types_world:
  "keeps only_world (infer_missing_types E subs)" "never_throws (infer_missing_types E subs)"
  unfolding infer_missing_types_def
  by (intro keeps_world ask_world)
     (intro never_throws_intros infer_from_topics_no_exc)

lemma validated_selection_world:
  "keeps only_world (validated_selection E subs)" "never_throws (validated_selection E subs)"
  using infer_missing_types_world [of E subs]
  by (simp_all add: keeps_def never_throws_def validated_selection_def)

lemma check_topic_limits_world:
  "keeps only_world (check_topic_limits subs)" "never_throws (check_topic_limits subs)"
  by (simp_all add: keeps_def never_throws_def check_topic_limits_def ensure_topic_limits_def)

lemma discover_all_topics_world:
  "keeps only_world (discover_all_topics E)" "never_throws (discover_all_topics E)"
proof -
  have k: "keeps only_world (\<lambda>s. andthen (check_topic_limits (filter_discovered infos s))
      (\<lambda>_. ret (filter_discovered infos s)) s)" for infos :: "topic_info list"
    by (rule keeps_read) (intro keeps_world check_topic_limits_world)
  show "keeps only_world (discover_all_topics E)"
    unfolding discover_all_topics_def
    by (intro keeps_world ask_world set_introspection_world k)
  have n: "never_throws (\<lambda>s. andthen (check_topic_limits (filter_discovered infos s))
      (\<lambda>_. ret (filter_discovered infos s)) s)" for infos :: "topic_info list"
    by (rule never_throws_read) (intro never_throws_intros check_topic_limits_world)
  show "never_throws (discover_all_topics E)"
    unfolding discover_all_topics_def
    by (intro never_throws_intros set_introspection_world n)
qed

lemma lift_plan_world:
  "keeps only_world (lift_exec r)" "never_throws (lift_exec (build_topic_tools_plan es))"
  using build_plan_outcome [of es] by (auto simp: keeps_def never_throws_def)

lemmas world_only = get_sink_state_world change_sink_state_world set_sink_subscriptions_yaml_world
  bring_down_world configure_world apply_selection_to_sink_world deactivate_sink_world
  kafka_wrappers_world read_deactivate_world set_introspection_world disable_introspection_world
  infer_missing_types_world validated_selection_world check_topic_limits_world
  discover_all_topics_world lift_plan_world

lemmas keeps_only_world = get_sink_state_world(1) change_sink_state_world(1)
  set_sink_subscriptions_yaml_world(1) bring_down_world(1) configure_world(1)
  apply_selection_to_sink_world(1) deactivate_sink_world(1) kafka_wrappers_world(1,3,5)
  read_deactivate_world(1,3) set_introspection_world(1) disable_introspection_world(1)
  infer_missing_types_world(1) validated_selection_world(1) check_topic_limits_world(1)
  discover_all_topics_world(1) lift_plan_world(1)

lemma only_worldE:
  assumes "keeps only_world m" "m s = (r, t)"
  obtains w where "t = s\<lparr>ct_world := w\<rparr>"
  using keepsD [OF assms] unfolding only_world_def by blast

section \<open>Topic tools: what loading and unloading do to the map\<close>

definition tool_frame :: "'w controller \<Rightarrow> 'w controller \<Rightarrow> bool" where
  "tool_frame s t \<longleftrightarrow> (\<exists>w m. t = s\<lparr>ct_world := w, active_topic_tools := m\<rparr> \<and>
     (ordered_map (active_topic_tools s) \<longrightarrow> ordered_map m))"

lemma tool_frame_refl [simp]: "tool_frame s s"
  unfolding tool_frame_def
  by (rule exI [of _ "ct_world s"], rule exI [of _ "active_topic_tools s"]) simp

lemma tool_frameI:
  "t = s\<lparr>ct_world := w, active_topic_tools := m\<rparr> \<Longrightarrow>
   (ordered_map (active_topic_tools s) \<Longrightarrow> ordered_map m) \<Longrightarrow> tool_frame s t"
  unfolding tool_frame_def by blast

lemma tool_frame_trans:
  assumes "tool_frame a b" "tool_frame b c" shows "tool_frame a c"
proof -
  obtain w m where b: "b = a\<lparr>ct_world := w, active_topic_tools := m\<rparr>"
    "ordered_map (active_topic_tools a) \<longrightarrow> ordered_map m"
    using assms(1) unfolding tool_frame_def by blast
  obtain v n where c: "c = b\<lparr>ct_world := v, active_topic_tools := n\<rparr>"
    "ordered_map (active_topic_tools b) \<longrightarrow> ordered_map n"
    using assms(2) unfolding tool_frame_def by blast
  show ?thesis by (rule tool_frameI [where w = v and m = n]) (use b c in simp_all)
qed

lemma only_world_tool_frame: "only_world s t \<Longrightarrow> tool_frame s t"
proof -
  assume "only_world s t"
  then obtain w where t: "t = s\<lparr>ct_world := w\<rparr>" by (auto simp: only_world_def)
  then have "t = s\<lparr>ct_world := w, active_topic_tools := active_topic_tools s\<rparr>" by simp
  then show ?thesis unfolding tool_frame_def by blast
qed

lemma unload_tools_world:
  "keeps only_world (unload_tools E m)" "never_throws (unload_tools E m)"
proof (induction m)
  case (Cons a m)
  obtain k tool where a: "a = (k, tool)" by (cases a)
  have "keeps only_world (deactivate_and_unload_tool E tool)"
    "never_throws (deactivate_and_unload_tool E tool)"
    unfolding deactivate_and_unload_tool_def
    by (intro keeps_world ask_world) (intro never_throws_intros)
  then show "keeps only_world (unload_tools E (a # m))" "never_throws (unload_tools E (a # m))"
    using Cons unfolding a unload_tools.simps
    by (blast intro: keeps_world_seq never_throws_andthen)+
qed (simp_all add: keeps_def never_throws_def)

lemma clear_active_topic_tools_cases:
  assumes "clear_active_topic_tools E s = (r, t)"
  obtains (cleared) w where "r = Ret ()" "t = s\<lparr>ct_world := w, active_topic_tools := []\<rparr>"
    | (stuck) w e where "r = Err e" "t = s\<lparr>ct_world := w\<rparr>"
  using assms unfolding clear_active_topic_tools_def
proof (cases rule: andthen_cases)
  case (ok a s')
  obtain w where s': "s' = s\<lparr>ct_world := w\<rparr>"
    using ok(1) by (rule only_worldE [OF unload_tools_world(1)])
  show ?thesis by (rule cleared [of w]) (use ok(2) s' in auto)
next
  case (err e)
  then show ?thesis using stuck by (metis only_worldE [OF unload_tools_world(1)])
next
  case (exc e)
  then show ?thesis using never_throwsD [OF unload_tools_world(2)] by metis
qed

lemma load_tool_world:
  "keeps only_world (load_and_activate_topic_tool E tool)"
  "never_throws (load_and_activate_topic_tool E tool)"
  unfolding load_and_activate_topic_tool_def
  by (intro keeps_world ask_world) (intro never_throws_intros)

lemma load_tool_config:
  "load_and_activate_topic_tool E tool s = (Ret a, t) \<Longrightarrow> at_config a = tool"
  unfolding load_and_activate_topic_tool_def andthen_Ret_iff
  by (elim exE conjE) (auto split: reply.split_asm if_split_asm)

lemma keeps_tool_seq:
  "keeps tool_frame m \<Longrightarrow> (\<And>a. keeps tool_frame (k a)) \<Longrightarrow> keeps tool_frame (andthen m k)"
  by (rule keeps_andthen) (blast intro: tool_frame_trans)

lemma load_tools_frame:
  "keeps tool_frame (load_tools E tools)" "never_throws (load_tools E tools)"
proof (induction tools)
  case (Cons tool tools)
  have load: "keeps tool_frame (load_and_activate_topic_tool E tool)"
    using load_tool_world(1) only_world_tool_frame by (metis keepsI keeps_snd)
  have assign: "keeps tool_frame (update_state (\<lambda>s. s\<lparr>active_topic_tools :=
      map_assign (rt_input_topic tool) a (active_topic_tools s)\<rparr>))" for a
  proof (rule keepsI)
    fix s
    show "tool_frame s (snd (update_state (\<lambda>s. s\<lparr>active_topic_tools :=
        map_assign (rt_input_topic tool) a (active_topic_tools s)\<rparr>) s))"
      by (rule tool_frameI [where w = "ct_world s" and
            m = "map_assign (rt_input_topic tool) a (active_topic_tools s)"])
        (simp_all add: ordered_map_assign)
  qed
  show "keeps tool_frame (load_tools E (tool # tools))"
    unfolding load_tools.simps
    by (intro keeps_tool_seq load assign Cons.IH(1))
  show "never_throws (load_tools E (tool # tools))"
    unfolding load_tools.simps by (intro never_throws_intros load_tool_world Cons.IH(2))
qed (simp_all add: keeps_def never_throws_def)

text \<open>A load that succeeds leaves one entry per input topic, each for a tool of the plan.\<close>

lemma load_tools_Ret:
  "load_tools E tools s = (Ret (), t) \<Longrightarrow>
     fst ` set (active_topic_tools t) =
       fst ` set (active_topic_tools s) \<union> rt_input_topic ` set tools \<and>
     (\<forall>k a. map_of (active_topic_tools t) k = Some a \<longrightarrow>
        map_of (active_topic_tools s) k = Some a \<or>
        at_config a \<in> set tools \<and> rt_input_topic (at_config a) = k)"
proof (induction tools arbitrary: s)
  case (Cons tool tools)
  obtain a s1 where 1: "load_and_activate_topic_tool E tool s = (Ret a, s1)"
    and 2: "load_tools E tools (s1\<lparr>active_topic_tools :=
        map_assign (rt_input_topic tool) a (active_topic_tools s1)\<rparr>) = (Ret (), t)"
    using Cons.prems by (auto simp: andthen_Ret_iff)
  obtain w where s1: "s1 = s\<lparr>ct_world := w\<rparr>"
    using 1 by (rule only_worldE [OF load_tool_world(1)])
  have "at_config a = tool" using 1 by (rule load_tool_config)
  with Cons.IH [OF 2] s1 show ?case
    by (auto simp: keys_map_assign map_of_map_assign split: if_splits)
qed simp

section \<open>What applying a selection does\<close>

lemma keeps_tool_option:
  "keeps tool_frame m \<Longrightarrow> (\<And>a. keeps tool_frame (k a)) \<Longrightarrow>
   keeps tool_frame (case x of None \<Rightarrow> m | Some a \<Rightarrow> k a)"
  by (cases x) simp_all

lemma keeps_tool_world: "keeps only_world m \<Longrightarrow> keeps tool_frame m"
  using only_world_tool_frame by (metis keepsI keeps_snd)

lemma clear_tools_frame:
  "keeps tool_frame (clear_active_topic_tools E)" "never_throws (clear_active_topic_tools E)"
proof -
  have "tool_frame s t \<and> r \<noteq> Exc e" if "clear_active_topic_tools E s = (r, t)" for s r t e
    using that
  proof (cases rule: clear_active_topic_tools_cases)
    case (cleared w)
    then show ?thesis by (auto intro: tool_frameI [where w = w and m = "[]"])
  next
    case (stuck w e)
    then show ?thesis by (auto intro!: only_world_tool_frame simp: only_world_def)
  qed
  then show "keeps tool_frame (clear_active_topic_tools E)"
    "never_throws (clear_active_topic_tools E)"
    by (metis keepsI prod.collapse, metis never_throwsI)
qed

lemma reconcile_frame:
  "keeps tool_frame (reconcile_topic_tools E plan)" "never_throws (reconcile_topic_tools E plan)"
  unfolding reconcile_topic_tools_def
  by (intro keeps_tool_seq clear_tools_frame load_tools_frame)
     (intro never_throws_intros clear_tools_frame load_tools_frame)

lemma reconfigure_frame:
  "keeps tool_frame (reconfigure_sinks E topics)" "never_throws (reconfigure_sinks E topics)"
  unfolding reconfigure_sinks_def
  by (intro keeps_tool_seq keeps_tool_option keeps_if [of _ tool_frame]
        keeps_pure [of tool_frame, OF tool_frame_refl] reconcile_frame
        keeps_only_world [THEN keeps_tool_world])
     (intro never_throws_intros reconcile_frame world_only)

lemma apply_selection_never_throws: "never_throws (apply_selection E topics)"
  unfolding apply_selection_def split_beta
  by (intro never_throws_intros reconfigure_frame world_only)

lemma infer_missing_types_typed:
  "\<forall>s \<in> set subs. ti_type (sel_topic s) \<noteq> [] \<Longrightarrow> infer_missing_types E subs = ret subs"
  by (simp add: infer_missing_types_def)

lemma infer_missing_types_Ret:
  assumes "infer_missing_types E subs s = (Ret out, t)"
  shows "(\<exists>types. out = map (resolve_type types) subs) \<and>
    (\<forall>x \<in> set out. ti_type (sel_topic x) \<noteq> [])"
proof (cases "\<forall>x \<in> set subs. ti_type (sel_topic x) \<noteq> []")
  case True
  with assms have "out = subs" by (simp add: infer_missing_types_def)
  moreover have "subs = map (resolve_type []) subs"
    using True by (induction subs) simp_all
  ultimately show ?thesis using True by blast
next
  case False
  then have "infer_missing_types E subs = andthen (ask (sv_introspection E) ()) (\<lambda>r. case r of
      Unavailable \<Rightarrow> fail ''Introspection service not available for type inference''
    | Timeout \<Rightarrow> fail ''Timeout querying introspection_manager for types''
    | Reply topics \<Rightarrow> lift_exec (infer_from_topics topics subs))"
    by (simp only: infer_missing_types_def if_False)
  with assms obtain r s' where r: "(case r of
      Unavailable \<Rightarrow> fail ''Introspection service not available for type inference''
    | Timeout \<Rightarrow> fail ''Timeout querying introspection_manager for types''
    | Reply topics \<Rightarrow> lift_exec (infer_from_topics topics subs)) s' = (Ret out, t)"
    by (auto simp: andthen_Ret_iff)
  then obtain topics where "infer_from_topics topics subs = Ret out"
    by (cases r) auto
  then show ?thesis unfolding infer_from_topics_Ret_iff by blast
qed

lemma validated_selection_Ret:
  assumes "validated_selection E subs s = (Ret out, t)"
  shows "\<exists>types. out = map (resolve_type types) subs"
proof (cases "validate_topics s")
  case True
  then show ?thesis
    using assms infer_missing_types_Ret [of E subs s out t] by (simp add: validated_selection_def)
next
  case False
  have "subs = map (resolve_type []) subs"
    by (induction subs) (simp_all add: resolve_type_def)
  with False assms show ?thesis by (auto simp: validated_selection_def)
qed

text \<open>The plan's tools are exactly the active ones after a successful reconciliation.\<close>

definition tools_match :: "(string \<times> active_topic_tool) list \<Rightarrow> resolved_topic_tool list \<Rightarrow> bool" where
  "tools_match m tools \<longleftrightarrow> ordered_map m \<and>
     fst ` set m = rt_input_topic ` set tools \<and>
     (\<forall>k a. map_of m k = Some a \<longrightarrow> at_config a \<in> set tools \<and> rt_input_topic (at_config a) = k)"

lemma reconcile_Ret:
  assumes "reconcile_topic_tools E plan s = (Ret (), t)"
  shows "\<exists>w m. t = s\<lparr>ct_world := w, active_topic_tools := m\<rparr> \<and> tools_match m (plan_tools plan)"
proof -
  obtain s' where 1: "clear_active_topic_tools E s = (Ret (), s')"
    and 2: "load_tools E (plan_tools plan) s' = (Ret (), t)"
    using assms by (auto simp: reconcile_topic_tools_def andthen_Ret_iff)
  obtain w where s': "s' = s\<lparr>ct_world := w, active_topic_tools := []\<rparr>"
    using 1
  proof (cases rule: clear_active_topic_tools_cases)
    case (cleared w)
    show thesis using cleared(2) by (rule that)
  qed simp
  have nil: "ordered_map (active_topic_tools s')" by (simp add: s')
  obtain v m where t: "t = s'\<lparr>ct_world := v, active_topic_tools := m\<rparr>" "ordered_map m"
    using keepsD [OF load_tools_frame(1) 2] nil unfolding tool_frame_def by blast
  have at: "active_topic_tools s' = []" "active_topic_tools t = m" using s' t(1) by simp_all
  have "tools_match m (plan_tools plan)"
    using load_tools_Ret [OF 2, unfolded at] t(2) unfolding tools_match_def by simp
  moreover have "t = s\<lparr>ct_world := v, active_topic_tools := m\<rparr>" using s' t by simp
  ultimately show ?thesis by blast
qed

text \<open>A successful run of reconfigure_sinks(), call by call.\<close>

lemma reconfigure_steps:
  assumes "reconfigure_sinks E topics s = (Ret (v, sinks), t)"
  obtains st s1 s2 s3 s4 s5 s6 s7 plan st' where "topics \<noteq> []"
    "get_kafka_sink_state E s = (Ret (Some st), s1)"
    "validated_selection E topics s1 = (Ret v, s2)"
    "build_topic_tools_plan v = Ret plan"
    "bring_down_if_active ''kafka_sink'' (Some (sv_change_state E)) (Some (sv_get_state E)) st s2
       = (Ret st', s3)"
    "configure_if_unconfigured ''kafka_sink'' (Some (sv_change_state E)) st' s3 = (Ret (), s4)"
    "reconcile_topic_tools E plan s4 = (Ret (), s5)"
    "set_kafka_sink_subscriptions_yaml E (plan_sink_topics plan) s5 = (Ret (), s6)"
    "change_kafka_sink_state E TRANSITION_ACTIVATE ''activate'' s6 = (Ret (), s7)"
    "apply_to_mosquitto E (plan_sink_topics plan) s7 = (Ret (), t)"
    "sinks = plan_sink_topics plan"
proof -
  have "topics \<noteq> []" using assms by (auto simp: reconfigure_sinks_def)
  then show thesis
    using assms that unfolding reconfigure_sinks_def
    by (auto simp: andthen_Ret_iff split: option.split_asm)
qed

lemma reconfigure_Ret:
  assumes "reconfigure_sinks E topics s = (Ret (v, sinks), t)"
  shows "topics \<noteq> [] \<and> (\<exists>types. v = map (resolve_type types) topics) \<and>
    (\<exists>plan w m. build_topic_tools_plan v = Ret plan \<and> sinks = plan_sink_topics plan \<and>
       t = s\<lparr>ct_world := w, active_topic_tools := m\<rparr> \<and> tools_match m (plan_tools plan))"
  using assms
proof (cases rule: reconfigure_steps)
  case c: (1 st s1 s2 s3 s4 s5 s6 s7 plan st')
  have "only_world s s4"
    using keepsD [OF kafka_wrappers_world(1) c(2)] keepsD [OF validated_selection_world(1) c(3)]
      keepsD [OF bring_down_world(1) c(5)] keepsD [OF configure_world(1) c(6)]
    by (blast intro: only_world_trans)
  moreover have "only_world s5 t"
    using keepsD [OF kafka_wrappers_world(5) c(8)] keepsD [OF kafka_wrappers_world(3) c(9)]
      keepsD [OF read_deactivate_world(3) c(10)]
    by (blast intro: only_world_trans)
  ultimately obtain w4 w where w: "s4 = s\<lparr>ct_world := w4\<rparr>" "t = s5\<lparr>ct_world := w\<rparr>"
    unfolding only_world_def by blast
  obtain w5 m where m: "s5 = s4\<lparr>ct_world := w5, active_topic_tools := m\<rparr>"
    "tools_match m (plan_tools plan)"
    using reconcile_Ret [OF c(7)] by blast
  have t: "t = s\<lparr>ct_world := w, active_topic_tools := m\<rparr>" unfolding w(2) m(1) w(1) by simp
  show ?thesis
    using validated_selection_Ret [OF c(3)] c(1,4,11) t m(2) by blast
qed

lemma disable_introspection_Ret: "disable_introspection E s = (r, t) \<Longrightarrow> r = Ret ()"
proof (cases "disable_introspection_after_apply s")
  case True
  assume "disable_introspection E s = (r, t)"
  with True have "attempt (set_introspection_enabled E False) ret (\<lambda>_. ret ()) s = (r, t)"
    by (simp add: disable_introspection_def)
  then show ?thesis
    by (cases rule: attempt_cases) (simp_all add: never_throwsD [OF set_introspection_world(2)])
qed (simp add: disable_introspection_def)

text \<open>
  The two outcomes of apply_selection(): the new selection is recorded, or nothing but the tools
  and the world have changed.
\<close>

lemma apply_selection_cases:
  assumes "apply_selection E topics s = (r, t)"
  obtains (applied) types plan w m stamp where "r = Ret ()" "topics \<noteq> []"
      "build_topic_tools_plan (map (resolve_type types) topics) = Ret plan"
      "t = s\<lparr>ct_world := w, active_topic_tools := m,
             applied_selection := \<lparr>snap_topics = map (resolve_type types) topics,
                snap_sink_topics = plan_sink_topics plan, snap_timestamp = stamp\<rparr>\<rparr>"
      "tools_match m (plan_tools plan)"
  | (failed) e where "r = Err e" "tool_frame s t"
  using assms unfolding apply_selection_def
proof (cases rule: andthen_cases)
  case (ok a s1)
  obtain v sinks where a: "a = (v, sinks)" by (cases a)
  obtain types plan w m where p: "topics \<noteq> []" "v = map (resolve_type types) topics"
    "build_topic_tools_plan v = Ret plan" "sinks = plan_sink_topics plan"
    "s1 = s\<lparr>ct_world := w, active_topic_tools := m\<rparr>" "tools_match m (plan_tools plan)"
    using reconfigure_Ret [OF ok(1) [unfolded a]] by blast
  have d: "disable_introspection E (record_applied E v sinks s1) = (r, t)"
    using ok(2) by (simp add: a andthen_simps)
  obtain w' where t: "t = (record_applied E v sinks s1)\<lparr>ct_world := w'\<rparr>"
    using d by (rule only_worldE [OF disable_introspection_world(1)])
  have "r = Ret ()" using d by (rule disable_introspection_Ret)
  then show ?thesis
    using p t by (intro applied [where types = types and plan = plan and w = w' and
          m = m and stamp = "sv_now E w"]) (simp_all add: record_applied_def)
next
  case (err e)
  then show ?thesis using failed keepsD [OF reconfigure_frame(1)] by metis
next
  case (exc e)
  then show ?thesis using never_throwsD [OF reconfigure_frame(2)] by metis
qed

section \<open>The invariant\<close>

definition snapshot_planned :: "selection_snapshot \<Rightarrow> bool" where
  "snapshot_planned sn \<longleftrightarrow>
     snap_sink_topics sn = map sink_topic_of (snap_topics sn) \<and>
     (\<forall>e \<in> set (snap_topics sn). plannable e)"

definition within_limit :: "'w controller \<Rightarrow> selection_snapshot \<Rightarrow> bool" where
  "within_limit s sn \<longleftrightarrow> length (snap_topics sn) \<le> unat (all_mode_max_topics s)"

text \<open>
  Every snapshot is a selection together with its own plan; what is applied, cached from the GUI
  or discovered respects the safety limit; the GUI cache has all its types; the map of tools is
  ordered; and between two handlers the controller is never busy.
\<close>

definition controller_inv :: "'w controller \<Rightarrow> bool" where
  "controller_inv s \<longleftrightarrow> phase s \<noteq> BUSY \<and> ordered_map (active_topic_tools s) \<and>
     (\<forall>sn \<in> {applied_selection s, last_gui_selection s, last_file_selection s,
              last_all_selection s}. snapshot_planned sn) \<and>
     (\<forall>sn \<in> {applied_selection s, last_gui_selection s, last_all_selection s}.
        within_limit s sn) \<and>
     (\<forall>e \<in> set (snap_topics (last_gui_selection s)). ti_type (sel_topic e) \<noteq> [])"

definition inv_step :: "'w controller \<Rightarrow> 'w controller \<Rightarrow> bool" where
  "inv_step s t \<longleftrightarrow> (controller_inv s \<longrightarrow> controller_inv t)"

lemma inv_step_refl [simp]: "inv_step s s"
  by (simp add: inv_step_def)

lemma inv_step_trans: "inv_step a b \<Longrightarrow> inv_step b c \<Longrightarrow> inv_step a c"
  by (simp add: inv_step_def)

lemma only_world_inv: "only_world s t \<Longrightarrow> inv_step s t"
  by (auto simp: only_world_def inv_step_def controller_inv_def within_limit_def)

lemma tool_frame_inv: "tool_frame s t \<Longrightarrow> inv_step s t"
  by (auto simp: tool_frame_def inv_step_def controller_inv_def within_limit_def)

lemma keeps_inv_seq:
  "keeps inv_step m \<Longrightarrow> (\<And>a. keeps inv_step (k a)) \<Longrightarrow> keeps inv_step (andthen m k)"
  "keeps inv_step m \<Longrightarrow> (\<And>a. keeps inv_step (k a)) \<Longrightarrow> (\<And>e. keeps inv_step (h e)) \<Longrightarrow>
   keeps inv_step (attempt m k h)"
  by (rule keeps_andthen keeps_attempt; blast intro: inv_step_trans)+

lemma keeps_inv_world: "keeps only_world m \<Longrightarrow> keeps inv_step m"
  using only_world_inv by (metis keepsI keeps_snd)

lemma keeps_inv_update:
  "(\<And>s. controller_inv s \<Longrightarrow> controller_inv (f s)) \<Longrightarrow> keeps inv_step (update_state f)"
  by (simp add: keeps_def inv_step_def)

lemmas keeps_inv = keeps_pure [of inv_step, OF inv_step_refl] keeps_inv_seq
  keeps_if [of _ inv_step] keeps_option [of inv_step]
  keeps_only_world [THEN keeps_inv_world]

lemma empty_snapshot_ok [simp]:
  "snapshot_planned empty_snapshot" "within_limit s empty_snapshot" "snap_topics empty_snapshot = []"
  by (simp_all add: snapshot_planned_def within_limit_def empty_snapshot_def)

lemma new_controller_inv: "controller_inv (new_controller p w)"
  by (simp add: new_controller_def controller_inv_def Let_def)

lemma plan_snapshot:
  "build_topic_tools_plan es = Ret plan \<Longrightarrow>
   snapshot_planned \<lparr>snap_topics = es, snap_sink_topics = plan_sink_topics plan,
     snap_timestamp = ts\<rparr>"
  by (simp add: build_plan_Ret_iff snapshot_planned_def)

lemma selection_from_file_inv: "keeps inv_step (selection_from_file E path f)"
proof -
  have load: "keeps only_world
      (\<lambda>s. lift_exec (load_file_selection (sv_yaml E) (sv_load_file E (ct_world s)) path) s)"
    by (rule keepsI) simp
  have plan: "keeps inv_step (andthen (lift_exec (build_topic_tools_plan sel)) (\<lambda>plan.
      andthen (update_state (\<lambda>s. s\<lparr>last_file_selection :=
        snapshot_now E sel (plan_sink_topics plan) s\<rparr>)) (\<lambda>_.
      ret (sel, plan_sink_topics plan))))" for sel
    using build_plan_outcome [of sel]
    by (auto intro!: keepsI simp: andthen_def inv_step_def controller_inv_def snapshot_now_def
        plan_snapshot within_limit_def)
  show ?thesis
    unfolding selection_from_file_def
    by (intro keeps_inv keeps_inv_world [OF load] plan)
qed

lemma check_topic_limits_cases:
  assumes "check_topic_limits subs s = (r, t)"
  shows "t = s \<and> (r = Ret () \<and> length subs \<le> unat (all_mode_max_topics s) \<or> (\<exists>e. r = Err e))"
  using assms by (auto simp: check_topic_limits_def ensure_topic_limits_def split: if_split_asm)

lemma discover_limit:
  assumes "discover_all_topics E s = (Ret sel, t)"
  shows "length sel \<le> unat (all_mode_max_topics t) \<and>
    sel = map (\<lambda>i. \<lparr>sel_topic = i, sel_topic_tools = None\<rparr>) (map sel_topic sel)"
proof -
  obtain infos s1 where "andthen (check_topic_limits (filter_discovered infos s1))
      (\<lambda>_. ret (filter_discovered infos s1)) s1 = (Ret sel, t)"
    using assms unfolding discover_all_topics_def
    by (auto simp: andthen_Ret_iff split: if_split_asm option.split_asm)
  then show ?thesis
    using check_topic_limits_cases [of "filter_discovered infos s1" s1]
    by (auto simp: andthen_Ret_iff filter_discovered_def)
qed

lemma selection_from_all_inv: "keeps inv_step (selection_from_all E)"
proof (rule keepsI)
  fix s
  obtain r t where rt: "selection_from_all E s = (r, t)" by (cases "selection_from_all E s")
  then have "inv_step s t" unfolding selection_from_all_def
  proof (cases rule: andthen_cases)
    case (ok sel s1)
    have "inv_step s s1"
      using ok(1) by (rule keepsD [OF discover_all_topics_world(1) [THEN keeps_inv_world]])
    moreover have "inv_step s1 t"
      using ok(2) build_plan_outcome [of sel] discover_limit [OF ok(1), THEN conjunct1]
      by (auto simp: andthen_def inv_step_def controller_inv_def snapshot_now_def
          plan_snapshot within_limit_def)
    ultimately show ?thesis by (rule inv_step_trans)
  qed (use keepsD [OF discover_all_topics_world(1) [THEN keeps_inv_world]] in blast)+
  with rt show "inv_step s (snd (selection_from_all E s))" by simp
qed

text \<open>Applying keeps what the invariant says of the data; the caller sets the phase.\<close>

lemma apply_selection_inv:
  assumes "apply_selection E topics s = (r, t)" and "controller_inv (s\<lparr>phase := IDLE\<rparr>)"
    and "length topics \<le> unat (all_mode_max_topics s)"
  shows "phase t = phase s \<and> controller_inv (t\<lparr>phase := IDLE\<rparr>) \<and>
    controller_inv (t\<lparr>phase := ERROR\<rparr>) \<and> all_mode_max_topics t = all_mode_max_topics s \<and>
    (\<forall>e. r \<noteq> Exc e) \<and>
    (r = Ret () \<longrightarrow> length (snap_topics (applied_selection t)) = length topics \<and>
       snapshot_planned (applied_selection t) \<and>
       ((\<forall>e \<in> set topics. ti_type (sel_topic e) \<noteq> []) \<longrightarrow>
          snap_topics (applied_selection t) = topics))"
  using assms(1)
proof (cases rule: apply_selection_cases)
  case (applied types plan w m stamp)
  have "snapshot_planned (applied_selection t)"
    using applied(4) plan_snapshot [OF applied(3)] by simp
  moreover have "map (resolve_type types) topics = topics"
    if "\<forall>e \<in> set topics. ti_type (sel_topic e) \<noteq> []"
    using that by (induction topics) simp_all
  ultimately show ?thesis
    using applied(1,4,5) assms(2,3) plan_snapshot [OF applied(3)]
    by (auto simp: controller_inv_def within_limit_def tools_match_def)
next
  case (failed e)
  obtain w m where t: "t = s\<lparr>ct_world := w, active_topic_tools := m\<rparr>"
    "ordered_map (active_topic_tools s) \<longrightarrow> ordered_map m"
    using failed(2) unfolding tool_frame_def by blast
  show ?thesis
    using t assms(2) failed(1) by (auto simp: controller_inv_def within_limit_def)
qed

lemma inv_phase: "controller_inv s \<Longrightarrow> ph \<noteq> BUSY \<Longrightarrow> controller_inv (s\<lparr>phase := ph\<rparr>)"
  by (auto simp: controller_inv_def within_limit_def)

lemma apply_phased_cases:
  assumes "apply_phased E topics s = (r, t)"
  obtains (applied) s' where "r = Ret ()" "apply_selection E topics (s\<lparr>phase := BUSY\<rparr>) = (Ret (), s')"
      "t = s'\<lparr>phase := IDLE\<rparr>"
  | (failed) e s' where "r = Err e" "apply_selection E topics (s\<lparr>phase := BUSY\<rparr>) = (Err e, s')"
      "t = s'\<lparr>phase := ERROR\<rparr>"
proof -
  have "attempt (apply_selection E topics) (\<lambda>_. set_phase IDLE)
       (\<lambda>e. andthen (set_phase ERROR) (\<lambda>_. fail e)) (s\<lparr>phase := BUSY\<rparr>) = (r, t)"
    using assms by (simp add: apply_phased_def set_phase_def andthen_simps)
  then show ?thesis
    by (cases rule: attempt_cases)
       (auto simp: set_phase_def andthen_simps never_throwsD [OF apply_selection_never_throws]
        intro: applied failed)
qed

lemma checked_apply_inv:
  "keeps inv_step (andthen (check_topic_limits sel)
     (\<lambda>_. if b then apply_phased E sel else ret ()))"
proof (rule keepsI)
  fix s
  obtain r t where rt: "andthen (check_topic_limits sel)
      (\<lambda>_. if b then apply_phased E sel else ret ()) s = (r, t)"
    by (cases "andthen (check_topic_limits sel) (\<lambda>_. if b then apply_phased E sel else ret ()) s")
  then have "inv_step s t"
  proof (cases rule: andthen_cases)
    case (ok a s')
    then have s': "s' = s" and len: "length sel \<le> unat (all_mode_max_topics s)"
      using check_topic_limits_cases [OF ok(1)] by auto
    show ?thesis
    proof (cases b)
      case True
      have inv: "controller_inv ((s\<lparr>phase := BUSY\<rparr>)\<lparr>phase := IDLE\<rparr>)" if "controller_inv s"
        using inv_phase [OF that, of IDLE] by simp
      have "apply_phased E sel s = (r, t)" using ok(2) s' True by simp
      then show ?thesis
      proof (cases rule: apply_phased_cases)
        case (applied u)
        then show ?thesis using apply_selection_inv [OF applied(2)] inv len
          by (simp add: inv_step_def)
      next
        case (failed e u)
        then show ?thesis using apply_selection_inv [OF failed(2)] inv len
          by (simp add: inv_step_def)
      qed
    qed (use ok s' in simp)
  next
    case (err e)
    then show ?thesis using check_topic_limits_cases [OF err(1)] by simp
  next
    case (exc e)
    then show ?thesis using check_topic_limits_cases [OF exc(1)] by simp
  qed
  with rt show "inv_step s (snd (andthen (check_topic_limits sel)
      (\<lambda>_. if b then apply_phased E sel else ret ()) s))" by simp
qed

lemma ensure_planned_inv: "keeps inv_step (ensure_planned sel)"
  unfolding ensure_planned_def by (intro keeps_inv)

lemma note_error_inv: "controller_inv s \<Longrightarrow> controller_inv (note_error E msg s)"
  by (simp add: note_error_def controller_inv_def within_limit_def)

lemma reject_inv: "keeps inv_step (reject E msg)"
  unfolding reject_def by (intro keeps_inv keeps_inv_update note_error_inv)

lemma switch_selection_inv:
  fixes E :: "('n, 'w) services"
  shows "keeps inv_step (switch_selection E mode)"
proof -
  have from_file: "keeps inv_step (\<lambda>s :: 'w controller. if selection_file_path s = [] then fail m s
      else andthen (selection_from_file E (selection_file_path s) g) (\<lambda>sel. ret (Some sel)) s)" for m g
  proof (rule keepsI)
    fix s :: "'w controller"
    have "keeps inv_step (andthen (selection_from_file E (selection_file_path s) g)
        (\<lambda>sel. ret (Some sel)))" by (intro keeps_inv selection_from_file_inv)
    then show "inv_step s (snd (if selection_file_path s = [] then fail m s
      else andthen (selection_from_file E (selection_file_path s) g) (\<lambda>sel. ret (Some sel)) s))"
      by (auto simp: keeps_def)
  qed
  have all: "keeps inv_step (andthen (selection_from_all E) (\<lambda>sel. ret (Some sel)))"
    by (intro keeps_inv selection_from_all_inv)
  show ?thesis
    unfolding switch_selection_def by (cases mode) (simp_all add: from_file all, simp add: keeps_def)
qed

lemma switch_mode_inv: "keeps inv_step (switch_mode E mode path b)"
proof (rule keepsI)
  fix s
  let ?body = "andthen (update_state (\<lambda>s. s\<lparr>selection_mode := mode,
            selection_file_path := (if path \<noteq> [] then path else selection_file_path s)\<rparr>))
          (\<lambda>_. if \<not> b then ret ()
        else andthen (switch_selection E mode) (\<lambda>found. case found of
            None \<Rightarrow> ret ()
          | Some sel \<Rightarrow> andthen (ensure_planned sel) (\<lambda>selection.
              andthen (check_topic_limits selection) (\<lambda>_. apply_phased E selection))))"
  have "keeps inv_step (andthen (check_topic_limits sel) (\<lambda>_. apply_phased E sel))" for sel
    using checked_apply_inv [of sel True E] by simp
  then have rest: "keeps inv_step (andthen (ensure_planned sel) (\<lambda>selection.
      andthen (check_topic_limits selection) (\<lambda>_. apply_phased E selection)))" for sel
    by (rule keeps_inv_seq(1) [OF ensure_planned_inv])
  have "keeps inv_step ?body"
    by (intro keeps_inv_seq keeps_inv_update keeps_if [of _ inv_step] keeps_option [of inv_step]
        keeps_pure [of inv_step, OF inv_step_refl] switch_selection_inv rest)
      (auto simp: controller_inv_def within_limit_def)
  then show "inv_step s (snd (switch_mode E mode path b s))"
    by (auto simp: switch_mode_def keeps_def)
qed

lemma handle_apply_inv: "keeps inv_step (handle_apply_selection E req)"
proof (rule keepsI)
  fix s
  let ?req = "map (\<lambda>t. \<lparr>sel_topic = t, sel_topic_tools = None\<rparr>) req"
  let ?apply = "\<lambda>topics. attempt (check_topic_limits topics)
      (\<lambda>_. attempt (andthen (set_phase BUSY) (\<lambda>_. apply_selection E topics))
        (\<lambda>_. andthen (update_state (\<lambda>s. s\<lparr>last_gui_selection :=
               snapshot_now E topics (snap_sink_topics (applied_selection s)) s\<rparr>))
           (\<lambda>_. andthen (set_phase IDLE) (\<lambda>_. respond True ''Selection applied'')))
        (\<lambda>e. andthen (set_phase ERROR) (\<lambda>_. reject E e)))
      (reject E)"
  have applying: "inv_step s1 t"
    if typed: "\<forall>e \<in> set topics. ti_type (sel_topic e) \<noteq> []" and run: "?apply topics s1 = (r, t)"
    for topics s1 r t
    using run
  proof (cases rule: attempt_cases)
    case (err e s2)
    then show ?thesis
      using check_topic_limits_cases [OF err(1)] keepsD [OF reject_inv err(2)] by simp
  next
    case (exc e)
    then show ?thesis using check_topic_limits_cases [OF exc(1)] by simp
  next
    case (ok a s2)
    then have s2: "s2 = s1" and len: "length topics \<le> unat (all_mode_max_topics s1)"
      using check_topic_limits_cases [OF ok(1)] by auto
    have inv: "controller_inv ((s1\<lparr>phase := BUSY\<rparr>)\<lparr>phase := IDLE\<rparr>)" if "controller_inv s1"
      using inv_phase [OF that, of IDLE] by simp
    from ok(2) [unfolded s2] show ?thesis
    proof (cases rule: attempt_cases)
      case (ok b s3)
      have run: "apply_selection E topics (s1\<lparr>phase := BUSY\<rparr>) = (Ret b, s3)"
        using ok(1) by (simp add: set_phase_def andthen_simps)
      have t: "t = s3\<lparr>last_gui_selection :=
          snapshot_now E topics (snap_sink_topics (applied_selection s3)) s3, phase := IDLE\<rparr>"
        using ok(2) by (simp add: set_phase_def andthen_simps)
      show ?thesis
        unfolding inv_step_def
      proof (rule impI)
        assume "controller_inv s1"
        note post = apply_selection_inv [OF run inv [OF this]]
        have "all_mode_max_topics s3 = all_mode_max_topics s1"
          "snap_topics (applied_selection s3) = topics"
          "snapshot_planned (applied_selection s3)" "controller_inv (s3\<lparr>phase := IDLE\<rparr>)"
          using post len typed by simp_all
        then show "controller_inv t"
          using len typed t
          by (simp add: controller_inv_def within_limit_def snapshot_planned_def snapshot_now_def)
      qed
    next
      case (err e s3)
      have failed: "apply_selection E topics (s1\<lparr>phase := BUSY\<rparr>) = (Err e, s3)"
        using err(1) by (simp add: set_phase_def andthen_simps)
      have "controller_inv (s3\<lparr>phase := ERROR\<rparr>)" if "controller_inv s1"
        using apply_selection_inv [OF failed inv [OF that]] len by simp
      moreover have "reject E e (s3\<lparr>phase := ERROR\<rparr>) = (r, t)"
        using err(2) by (simp add: set_phase_def andthen_simps)
      ultimately show ?thesis
        using keepsD [OF reject_inv] unfolding inv_step_def by blast
    next
      case (exc e)
      then have "apply_selection E topics (s1\<lparr>phase := BUSY\<rparr>) = (Exc e, t)"
        by (simp add: set_phase_def andthen_simps)
      then show ?thesis using never_throwsD [OF apply_selection_never_throws] by metis
    qed
  qed
  obtain r t where rt: "handle_apply_selection E req s = (r, t)"
    by (cases "handle_apply_selection E req s")
  have "inv_step s t"
  proof (cases "phase s = BUSY \<or> selection_mode s \<noteq> Mode_GUI")
    case True
    then show ?thesis using rt by (auto simp: handle_apply_selection_def split: if_split_asm)
  next
    case False
    then have "attempt (infer_missing_types E ?req) ?apply
        (\<lambda>e. reject E (''Failed to infer topic types: '' @ e)) s = (r, t)"
      using rt by (simp add: handle_apply_selection_def)
    then show ?thesis
    proof (cases rule: attempt_cases)
      case (ok topics s1)
      have "inv_step s s1" by (rule keepsD [OF infer_missing_types_world(1) [THEN keeps_inv_world] ok(1)])
      moreover have "inv_step s1 t"
        using infer_missing_types_Ret [OF ok(1)] ok(2) by (intro applying) simp_all
      ultimately show ?thesis by (rule inv_step_trans)
    next
      case (err e s1)
      show ?thesis
        using keepsD [OF infer_missing_types_world(1) [THEN keeps_inv_world] err(1)]
          keepsD [OF reject_inv err(2)] by (rule inv_step_trans)
    next
      case (exc e)
      then show ?thesis
        using keepsD [OF infer_missing_types_world(1) [THEN keeps_inv_world] exc(1)] by simp
    qed
  qed
  with rt show "inv_step s (snd (handle_apply_selection E req s))" by simp
qed

lemma keeps_guard:
  "(\<And>s. b s \<Longrightarrow> inv_step s (snd (m s))) \<Longrightarrow> keeps inv_step n \<Longrightarrow>
   keeps inv_step (\<lambda>s. if b s then m s else n s)"
  by (simp add: keeps_def)

lemma reload_source_inv: "keeps inv_step (reload_source E req)"
proof (rule keepsI)
  fix s
  show "inv_step s (snd (reload_source E req s))"
    by (auto simp: reload_source_def keeps_snd [OF selection_from_file_inv]
        keeps_snd [OF selection_from_all_inv] split: selection_mode.split)
qed

lemma handle_reload_inv: "keeps inv_step (handle_reload_selection E req)"
proof -
  have "keeps inv_step (attempt (andthen (reload_source E req) (\<lambda>sel.
                 andthen (ensure_planned sel) (\<lambda>selection.
                 andthen (check_topic_limits selection) (\<lambda>_.
                 if rr_apply_now req then apply_phased E selection else ret ()))))
          (\<lambda>_. respond True (if rr_apply_now req then ''Selection reloaded and applied''
                            else ''Selection reloaded''))
          (reject E))"
    by (rule keeps_inv_seq(2) keeps_inv_seq(1) reload_source_inv ensure_planned_inv
        checked_apply_inv reject_inv keeps_pure inv_step_refl)+
  then show ?thesis
    unfolding handle_reload_selection_def by (auto simp: keeps_def)
qed

lemma clear_tools_inv: "keeps inv_step (clear_active_topic_tools E)"
  using keeps_snd [OF clear_tools_frame(1)] tool_frame_inv by (metis keepsI)

lemma handle_stop_inv: "keeps inv_step (handle_stop_streaming E reset)"
proof -
  have mosquitto: "keeps inv_step (\<lambda>s. deactivate_sink ''mosquitto_sink'' (mosquitto_sink_node_name s)
      (mosquitto_client s (sv_mosquitto_change_state E))
      (mosquitto_client s (sv_mosquitto_get_state E)) s)"
    by (rule keepsI) (rule keeps_snd [OF deactivate_sink_world(1) [THEN keeps_inv_world]])
  have finished: "keeps inv_step (update_state (\<lambda>s.
      (if reset
       then s\<lparr>last_gui_selection := empty_snapshot, last_file_selection := empty_snapshot,
              last_all_selection := empty_snapshot\<rparr>
       else s)\<lparr>applied_selection := empty_snapshot, phase := IDLE\<rparr>))"
    by (rule keeps_inv_update) (auto simp: controller_inv_def within_limit_def)
  have error: "keeps inv_step (set_phase ERROR)"
    unfolding set_phase_def by (rule keeps_inv_update) (simp add: inv_phase)
  show ?thesis
    unfolding handle_stop_streaming_def
    by (rule keepsI, split if_split, intro conjI impI, simp, rule keeps_snd)
       (intro keeps_inv_seq mosquitto clear_tools_inv finished error reject_inv
          keeps_pure [of inv_step, OF inv_step_refl]
          read_deactivate_world(1) [THEN keeps_inv_world])
qed

lemma handle_status_inv: "keeps inv_step (handle_get_status E)"
proof -
  have m: "keeps inv_step (mosquitto_observed E)"
    by (rule keepsI)
       (simp add: mosquitto_observed_def keeps_snd [OF get_sink_state_world(1) [THEN keeps_inv_world]])
  have f: "keeps inv_step (\<lambda>s. ret (status_of k q s) s)" for k q
    by (rule keepsI) simp
  show ?thesis
    unfolding handle_get_status_def
    by (intro keeps_inv_seq m f kafka_wrappers_world(1) [THEN keeps_inv_world])
qed

lemma handle_mode_inv: "keeps inv_step (handle_set_selection_mode E req)"
proof -
  have path: "keeps inv_step (update_state (\<lambda>s. s\<lparr>selection_file_path := f s\<rparr>))" for f
    by (rule keeps_inv_update) (auto simp: controller_inv_def within_limit_def)
  show ?thesis
    unfolding handle_set_selection_mode_def split_beta
    by (intro keeps_if [of _ inv_step] keeps_inv_seq switch_mode_inv path
        keeps_pure [of inv_step, OF inv_step_refl])
qed

lemma param_change_inv: "keeps inv_step (on_param_change E ps)"
proof (rule keepsI)
  fix s
  have upd: "keeps inv_step (update_state (\<lambda>s. s\<lparr>selection_file_path := p,
      auto_apply_on_mode_change := f s\<rparr>))" for p f
    by (rule keeps_inv_update) (auto simp: controller_inv_def within_limit_def)
  have "keeps inv_step (andthen (lift_exec scanned) (\<lambda>scanned. case scanned of
          None \<Rightarrow> result_of False m
        | Some sc \<Rightarrow>
            (case sc_new_mode sc of
               None \<Rightarrow> result_of True []
             | Some mode \<Rightarrow>
                 attempt (switch_mode E mode (sc_new_file_path sc) (sc_request_apply sc))
                   (\<lambda>_. andthen (update_state (\<lambda>s. s\<lparr>
                        selection_file_path := sc_new_file_path sc,
                        auto_apply_on_mode_change :=
                          (case sc_new_auto_apply sc of
                             Some b \<Rightarrow> b | None \<Rightarrow> auto_apply_on_mode_change s)\<rparr>))
                      (\<lambda>_. result_of True []))
                   (result_of False))))" for scanned m
    by (intro keeps_inv_seq keeps_option [of inv_step] keeps_pure [of inv_step, OF inv_step_refl]
        switch_mode_inv upd)
  then show "inv_step s (snd (on_param_change E ps s))"
    unfolding on_param_change_def by (rule keeps_snd)
qed

lemma startup_inv: "keeps inv_step (startup_apply E)"
proof (rule keepsI)
  fix s
  have cancel: "keeps inv_step (update_state (\<lambda>s. s\<lparr>startup_timer := False\<rparr>))"
    by (rule keeps_inv_update) (auto simp: controller_inv_def within_limit_def)
  have "keeps inv_step (andthen (attempt (switch_mode E mode path True) ret
      (\<lambda>e. update_state (note_error E e))) (\<lambda>_. update_state (\<lambda>s. s\<lparr>startup_timer := False\<rparr>)))"
    for mode path
    by (intro keeps_inv_seq switch_mode_inv keeps_inv_update note_error_inv
        keeps_pure [of inv_step, OF inv_step_refl])
       (auto simp: controller_inv_def within_limit_def)
  then show "inv_step s (snd (startup_apply E s))"
    using cancel by (auto simp: startup_apply_def Let_def keeps_def)
qed

lemma controller_step_inv:
  assumes "controller_step E s t" "controller_inv s"
  shows "controller_inv t"
proof -
  have world: "inv_step s (s\<lparr>ct_world := w\<rparr>)" for s :: "'b controller" and w
    by (rule only_world_inv) (auto simp: only_world_def)
  from assms(1) have "inv_step s t"
    by cases (simp_all add: keeps_snd [OF handle_apply_inv] keeps_snd [OF handle_reload_inv]
        keeps_snd [OF handle_stop_inv] keeps_snd [OF handle_status_inv]
        keeps_snd [OF handle_mode_inv] keeps_snd [OF param_change_inv]
        keeps_snd [OF startup_inv] world)
  then show ?thesis using assms(2) by (simp add: inv_step_def)
qed

lemma controller_reachable_inv: "controller_reachable E s \<Longrightarrow> controller_inv s"
  by (induction rule: controller_reachable.induct)
     (auto simp: new_controller_inv intro: controller_step_inv)

section \<open>The handlers, case by case\<close>

lemma respond_reject: "reject E msg s = (Ret \<lparr>resp_success = False, resp_message = msg\<rparr>, note_error E msg s)"
  by (simp add: reject_def andthen_simps)

lemma note_error_simps [simp]:
  "phase (note_error E m s) = phase s" "applied_selection (note_error E m s) = applied_selection s"
  "last_gui_selection (note_error E m s) = last_gui_selection s"
  "last_file_selection (note_error E m s) = last_file_selection s"
  "last_all_selection (note_error E m s) = last_all_selection s"
  "selection_mode (note_error E m s) = selection_mode s" "last_error (note_error E m s) = m"
  "active_topic_tools (note_error E m s) = active_topic_tools s"
  "ct_world (note_error E m s) = ct_world s"
  by (simp_all add: note_error_def)

text \<open>What the selections hold, and everything a handler shows of them.\<close>

definition same_selections :: "'w controller \<Rightarrow> 'w controller \<Rightarrow> bool" where
  "same_selections s t \<longleftrightarrow> applied_selection t = applied_selection s \<and>
     last_gui_selection t = last_gui_selection s \<and> last_file_selection t = last_file_selection s \<and>
     last_all_selection t = last_all_selection s"

lemma same_selections_frame: "tool_frame s t \<Longrightarrow> same_selections s t \<and> phase t = phase s"
  unfolding tool_frame_def by (elim exE conjE) (simp add: same_selections_def)

lemma only_world_frame: "only_world s t \<Longrightarrow> same_selections s t \<and> phase t = phase s \<and>
    all_mode_max_topics t = all_mode_max_topics s"
  unfolding only_world_def by (elim exE) (simp add: same_selections_def)

definition gui_request :: "topic_info list \<Rightarrow> topic_selection list" where
  "gui_request req = map (\<lambda>t. \<lparr>sel_topic = t, sel_topic_tools = None\<rparr>) req"

lemma handle_apply_cases:
  assumes "handle_apply_selection E req s = (r, t)"
  obtains (refused) m where "r = Ret \<lparr>resp_success = False, resp_message = m\<rparr>" "t = s"
  | (rejected) m where "r = Ret \<lparr>resp_success = False, resp_message = m\<rparr>"
      "same_selections s t" "phase t = phase s" "last_error t = m"
  | (failed) m where "r = Ret \<lparr>resp_success = False, resp_message = m\<rparr>"
      "same_selections s t" "phase t = ERROR" "last_error t = m"
  | (applied) topics s1 s2 where
      "r = Ret \<lparr>resp_success = True, resp_message = ''Selection applied''\<rparr>"
      "selection_mode s = Mode_GUI"
      "infer_missing_types E (gui_request req) s = (Ret topics, s1)"
      "length topics \<le> unat (all_mode_max_topics s)"
      "apply_selection E topics (s1\<lparr>phase := BUSY\<rparr>) = (Ret (), s2)"
      "t = s2\<lparr>last_gui_selection :=
             snapshot_now E topics (snap_sink_topics (applied_selection s2)) s2, phase := IDLE\<rparr>"
proof (cases "phase s = BUSY \<or> selection_mode s \<noteq> Mode_GUI")
  case True
  then show ?thesis using assms refused
    by (auto simp: handle_apply_selection_def split: if_split_asm)
next
  case False
  let ?apply = "\<lambda>topics. attempt (check_topic_limits topics)
      (\<lambda>_. attempt (andthen (set_phase BUSY) (\<lambda>_. apply_selection E topics))
        (\<lambda>_. andthen (update_state (\<lambda>s. s\<lparr>last_gui_selection :=
               snapshot_now E topics (snap_sink_topics (applied_selection s)) s\<rparr>))
           (\<lambda>_. andthen (set_phase IDLE) (\<lambda>_. respond True ''Selection applied'')))
        (\<lambda>e. andthen (set_phase ERROR) (\<lambda>_. reject E e)))
      (reject E)"
  have "attempt (infer_missing_types E (gui_request req)) ?apply
      (\<lambda>e. reject E (''Failed to infer topic types: '' @ e)) s = (r, t)"
    using assms False by (simp add: handle_apply_selection_def gui_request_def)
  then show ?thesis
  proof (cases rule: attempt_cases)
    case (err e s1)
    have "only_world s s1" by (rule keepsD [OF infer_missing_types_world(1) err(1)])
    then show ?thesis
      using err(2) only_world_frame [of s s1]
      by (intro rejected) (auto simp: respond_reject same_selections_def)
  next
    case (exc e)
    then show ?thesis using never_throwsD [OF infer_missing_types_world(2)] by metis
  next
    case (ok topics s1)
    note infer = ok(1)
    have w1: "same_selections s s1 \<and> phase s1 = phase s \<and>
        all_mode_max_topics s1 = all_mode_max_topics s"
      by (rule only_world_frame [OF keepsD [OF infer_missing_types_world(1) infer]])
    from ok(2) show ?thesis
    proof (cases rule: attempt_cases)
      case (err e s2)
      then show ?thesis
        using check_topic_limits_cases [OF err(1)] w1
        by (intro rejected) (auto simp: respond_reject same_selections_def)
    next
      case (exc e)
      then show ?thesis using never_throwsD [OF check_topic_limits_world(2)] by metis
    next
      case (ok a s2)
      have s2: "s2 = s1" and len: "length topics \<le> unat (all_mode_max_topics s)"
        using check_topic_limits_cases [OF ok(1)] w1 ok(1) by auto
      from ok(2) [unfolded s2] show ?thesis
      proof (cases rule: attempt_cases)
        case (ok b s3)
        show ?thesis
        proof (rule applied [OF _ _ infer len])
          show "apply_selection E topics (s1\<lparr>phase := BUSY\<rparr>) = (Ret (), s3)"
            using ok(1) by (simp add: set_phase_def andthen_simps)
        qed (use ok(2) False in \<open>simp_all add: set_phase_def andthen_simps\<close>)
      next
        case (err e s3)
        have "apply_selection E topics (s1\<lparr>phase := BUSY\<rparr>) = (Err e, s3)"
          using err(1) by (simp add: set_phase_def andthen_simps)
        then have "tool_frame (s1\<lparr>phase := BUSY\<rparr>) s3"
          by (cases rule: apply_selection_cases) simp_all
        then have "same_selections s s3"
          using same_selections_frame [of "s1\<lparr>phase := BUSY\<rparr>" s3] w1
          by (simp add: same_selections_def)
        moreover have "reject E e (s3\<lparr>phase := ERROR\<rparr>) = (r, t)"
          using err(2) by (simp add: set_phase_def andthen_simps)
        ultimately show ?thesis
          by (intro failed) (auto simp: respond_reject same_selections_def)
      next
        case (exc e)
        have "apply_selection E topics (s1\<lparr>phase := BUSY\<rparr>) = (Exc e, t)"
          using exc(1) by (simp add: set_phase_def andthen_simps)
        then show ?thesis using never_throwsD [OF apply_selection_never_throws] by metis
      qed
    qed
  qed
qed

text \<open>A selection from the GUI carries no tools: its plan is the topics themselves.\<close>

lemma gui_plan:
  assumes "build_topic_tools_plan (map (resolve_type types) (gui_request req)) = Ret plan"
  shows "plan_tools plan = []" and
    "plan_sink_topics plan = map sel_topic (map (resolve_type types) (gui_request req))"
proof -
  have none: "entry_tool e = None" if "e \<in> set (map (resolve_type types) (gui_request req))" for e
    using that by (auto simp: gui_request_def entry_tool_def)
  have plan: "plan_tools plan = List.map_filter tool_of (map (resolve_type types) (gui_request req))"
    "plan_sink_topics plan = map sink_topic_of (map (resolve_type types) (gui_request req))"
    using assms by (simp_all add: build_plan_Ret_iff)
  have nil: "List.map_filter tool_of es = []" if "\<forall>e \<in> set es. entry_tool e = None" for es
    using that by (induction es) (simp_all add: map_filter_simps tool_of_def)
  show "plan_tools plan = []"
    unfolding plan(1) by (rule nil) (intro ballI none)
  show "plan_sink_topics plan = map sel_topic (map (resolve_type types) (gui_request req))"
    unfolding plan(2) using none by (intro map_cong refl) (simp add: sink_topic_of_def)
qed

lemma tools_match_Nil: "tools_match m [] \<longleftrightarrow> m = []"
  by (auto simp: tools_match_def)

section \<open>Who writes the selection mode\<close>

definition same_mode :: "'w controller \<Rightarrow> 'w controller \<Rightarrow> bool" where
  "same_mode s t \<longleftrightarrow> selection_mode t = selection_mode s"

lemma same_mode_refl [simp]: "same_mode s s"
  by (simp add: same_mode_def)

lemma keeps_mode_seq:
  "keeps same_mode m \<Longrightarrow> (\<And>a. keeps same_mode (k a)) \<Longrightarrow> keeps same_mode (andthen m k)"
  "keeps same_mode m \<Longrightarrow> (\<And>a. keeps same_mode (k a)) \<Longrightarrow> (\<And>e. keeps same_mode (h e)) \<Longrightarrow>
   keeps same_mode (attempt m k h)"
  by (rule keeps_andthen keeps_attempt; simp add: same_mode_def)+

lemma only_world_mode: "only_world s t \<Longrightarrow> same_mode s t"
  unfolding only_world_def by (elim exE) (simp add: same_mode_def)

lemma keeps_mode_world: "keeps only_world m \<Longrightarrow> keeps same_mode m"
  using only_world_mode by (metis keepsI keeps_snd)

lemma selection_from_file_mode: "keeps same_mode (selection_from_file E path f)"
proof -
  have load: "keeps only_world
      (\<lambda>s. lift_exec (load_file_selection (sv_yaml E) (sv_load_file E (ct_world s)) path) s)"
    by (rule keepsI) simp
  have upd: "keeps same_mode (update_state (\<lambda>s. s\<lparr>last_file_selection := g s\<rparr>))" for g
    by (rule keepsI) (simp add: same_mode_def)
  show ?thesis
    unfolding selection_from_file_def
    by (intro keeps_mode_seq upd keeps_mode_world [OF load]
        keeps_pure [of same_mode, OF same_mode_refl]
        infer_missing_types_world(1) [THEN keeps_mode_world])
qed

lemma selection_from_all_mode: "keeps same_mode (selection_from_all E)"
proof -
  have upd: "keeps same_mode (update_state (\<lambda>s. s\<lparr>last_all_selection := g s\<rparr>))" for g
    by (rule keepsI) (simp add: same_mode_def)
  show ?thesis
    unfolding selection_from_all_def
    by (intro keeps_mode_seq upd keeps_pure [of same_mode, OF same_mode_refl]
        discover_all_topics_world(1) [THEN keeps_mode_world])
qed

lemma switch_selection_mode: "keeps same_mode (switch_selection E mode)"
proof (rule keepsI)
  fix s
  have "keeps same_mode (andthen (selection_from_all E) (\<lambda>sel. ret (Some sel)))"
    "keeps same_mode (andthen (selection_from_file E path f) (\<lambda>sel. ret (Some sel)))" for path f
    by (intro keeps_mode_seq selection_from_all_mode selection_from_file_mode
        keeps_pure [of same_mode, OF same_mode_refl])+
  then show "same_mode s (snd (switch_selection E mode s))"
    by (cases mode) (simp_all add: switch_selection_def keeps_def)
qed

lemma apply_phased_mode: "keeps same_mode (apply_phased E sel)"
proof (rule keepsI)
  fix s
  obtain r t where rt: "apply_phased E sel s = (r, t)" by (cases "apply_phased E sel s")
  have after: "selection_mode u = selection_mode s"
    if "apply_selection E sel (s\<lparr>phase := BUSY\<rparr>) = (q, u)" for q u
    using that by (cases rule: apply_selection_cases) (auto simp: tool_frame_def)
  from rt have "same_mode s t"
  proof (cases rule: apply_phased_cases)
    case (applied s')
    then show ?thesis using after [OF applied(2)] by (simp add: same_mode_def)
  next
    case (failed e s')
    then show ?thesis using after [OF failed(2)] by (simp add: same_mode_def)
  qed
  with rt show "same_mode s (snd (apply_phased E sel s))" by simp
qed

text \<open>switch_mode() takes the new mode over before anything of it can fail.\<close>

lemma switch_mode_sets_mode:
  assumes "phase s \<noteq> BUSY"
  shows "selection_mode (snd (switch_mode E mode path b s)) = mode"
proof -
  let ?s1 = "s\<lparr>selection_mode := mode,
      selection_file_path := (if path \<noteq> [] then path else selection_file_path s)\<rparr>"
  let ?rest = "if \<not> b then ret ()
        else andthen (switch_selection E mode) (\<lambda>found. case found of
            None \<Rightarrow> ret ()
          | Some sel \<Rightarrow> andthen (ensure_planned sel) (\<lambda>selection.
              andthen (check_topic_limits selection) (\<lambda>_. apply_phased E selection)))"
  have "keeps same_mode (ensure_planned sel)" for sel
    unfolding ensure_planned_def
    by (intro keeps_mode_seq keeps_if [of _ same_mode] keeps_pure [of same_mode, OF same_mode_refl])
  then have "keeps same_mode ?rest"
    by (intro keeps_mode_seq keeps_if [of _ same_mode] keeps_option [of same_mode]
        keeps_pure [of same_mode, OF same_mode_refl] switch_selection_mode apply_phased_mode
        check_topic_limits_world(1) [THEN keeps_mode_world])
  then have "same_mode ?s1 (snd (?rest ?s1))" by (rule keeps_snd)
  then show ?thesis
    using assms by (simp add: switch_mode_def andthen_simps same_mode_def)
qed

end
