(* ===== verification/Dispatcher_Properties.thy ===== *)
theory Dispatcher_Properties
  imports Dispatcher_Invariant
begin

text \<open>
  dispatcher_controller, the properties of the node: what its handlers promise, and a small
  world of services on which they are run.
\<close>

section \<open>A sample world\<close>

text \<open>
  The Kafka sink as a lifecycle node, a component container that hands out consecutive ids, and
  an introspection manager that knows one topic; there is no Mosquitto sink.
\<close>

record sample_world =
  sw_state :: u8
  sw_parameters :: "parameter list"
  sw_loaded :: "u64 list"
  sw_next_id :: u64

definition sample_change_state :: "transition \<Rightarrow> sample_world \<Rightarrow> bool option \<times> sample_world" where
  "sample_change_state tr w =
     (case tr of
        TRANSITION_CONFIGURE \<Rightarrow>
          if sw_state w = PRIMARY_STATE_UNCONFIGURED
          then (Some True, w\<lparr>sw_state := PRIMARY_STATE_INACTIVE\<rparr>) else (Some False, w)
      | TRANSITION_ACTIVATE \<Rightarrow>
          if sw_state w = PRIMARY_STATE_INACTIVE
          then (Some True, w\<lparr>sw_state := PRIMARY_STATE_ACTIVE\<rparr>) else (Some False, w)
      | TRANSITION_DEACTIVATE \<Rightarrow>
          if sw_state w = PRIMARY_STATE_ACTIVE
          then (Some True, w\<lparr>sw_state := PRIMARY_STATE_INACTIVE\<rparr>) else (Some False, w))"

definition always :: "('q \<Rightarrow> 'w \<Rightarrow> 'r option \<times> 'w) \<Rightarrow> ('q, 'r, 'w) client" where
  "always f = \<lparr>cl_ready = (\<lambda>w. (True, w)), cl_call = f\<rparr>"

definition sample_services :: "ytree \<Rightarrow> (ytree, sample_world) services" where
  "sample_services doc =
     \<lparr>sv_change_state = always sample_change_state,
      sv_get_state = always (\<lambda>_ w. (Some (sw_state w), w)),
      sv_set_parameters = always (\<lambda>ps w.
        (Some (map (\<lambda>_. \<lparr>sr_successful = True, sr_reason = []\<rparr>) ps), w\<lparr>sw_parameters := ps\<rparr>)),
      sv_mosquitto_change_state = always (\<lambda>_ w. (None, w)),
      sv_mosquitto_get_state = always (\<lambda>_ w. (None, w)),
      sv_mosquitto_set_parameters = always (\<lambda>_ w. (None, w)),
      sv_introspection = always (\<lambda>_ w. (Some sample_answer, w)),
      sv_introspection_param = always (\<lambda>_ w. (None, w)),
      sv_load_node = always (\<lambda>q w.
        (Some \<lparr>ld_success = True, ld_unique_id = sw_next_id w, ld_full_node_name = lr_node_name q\<rparr>,
         w\<lparr>sw_loaded := sw_next_id w # sw_loaded w, sw_next_id := sw_next_id w + 1\<rparr>)),
      sv_unload_node = always (\<lambda>q w.
        if q \<in> set (sw_loaded w) then (Some True, w\<lparr>sw_loaded := removeAll q (sw_loaded w)\<rparr>)
        else (Some False, w)),
      sv_lifecycle_get_state = (\<lambda>_. always (\<lambda>_ w. (None, w))),
      sv_lifecycle_change_state = (\<lambda>_. always (\<lambda>_ w. (None, w))),
      sv_namespace = ''/'', sv_now = (\<lambda>_. 7),
      sv_yaml = sample_yaml (\<lambda>_. Exc []), sv_load_file = (\<lambda>_ _. Ret doc), sv_emit = (\<lambda>_. [])\<rparr>"

definition sample_params :: "string \<Rightarrow> controller_params" where
  "sample_params mode =
     \<lparr>cp_kafka_sink_node_name = ''/kafka_sink'', cp_mosquitto_sink_node_name = [],
      cp_validate_topics = False, cp_disable_introspection_after_apply = True,
      cp_selection_file_path = [], cp_auto_apply_on_mode_change = True,
      cp_allow_missing_sinks = True, cp_all_mode_max_topics = 200, cp_all_mode_allowlist = [],
      cp_all_mode_denylist = [], cp_all_mode_hide_rosout = True, cp_selection_mode = mode\<rparr>"

definition sample_start :: sample_world where
  "sample_start = \<lparr>sw_state = PRIMARY_STATE_UNCONFIGURED, sw_parameters = [], sw_loaded = [],
     sw_next_id = 1\<rparr>"

definition sample_gui :: "sample_world controller" where
  "sample_gui = new_controller (sample_params ''gui'') sample_start"

text \<open>A controller in file mode after a successful reload of the sample file.\<close>

definition sample_reloaded :: "srv_response exec \<times> sample_world controller" where
  "sample_reloaded =
     handle_reload_selection (sample_services sample_file)
       \<lparr>rr_selection_file_path = ''f.yaml'', rr_apply_now = True\<rparr>
       (new_controller (sample_params ''file'') sample_start)"

lemma sample_reloaded_runs:
  "fst sample_reloaded =
     Ret \<lparr>resp_success = True, resp_message = ''Selection reloaded and applied''\<rparr>"
  by code_simp

section \<open>Properties\<close>

lemma get_sink_state_Ret: "\<exists>x t. get_sink_state c s = (Ret x, t)"
  by (cases c) (auto simp: get_sink_state_def andthen_def ask_def split: prod.splits)


lemma sample_reloaded_reachable: "controller_reachable (sample_services sample_file) (snd sample_reloaded)"
  unfolding sample_reloaded_def by (rule reach_step [OF reach_new step_reload])


text \<open>
  Get_status() reads and does not write.  In a reachable state it always succeeds, changes
  nothing in the node, reports the sink topics of the applied selection and the last error, and
  never reports reconciling: the phase is BUSY only inside a handler, which holds the mutex.
\<close>

theorem status_is_a_read:
  assumes "controller_reachable E s" and "handle_get_status E s = (r, t)"
  shows "\<exists>st w. r = Ret st \<and> t = s\<lparr>ct_world := w\<rparr> \<and> st_success st \<and> \<not> st_reconciling st \<and>
    st_applied_topics st = snap_sink_topics (applied_selection s) \<and>
    st_last_error st = last_error s \<and>
    st_selection_mode st = mode_to_string (selection_mode s) \<and>
    (mosquitto_sink_node_name s = [] \<longrightarrow> st_mosquitto_sink_state st = ''disabled'')"
proof -
  have inv: "controller_inv s" using assms(1) by (rule controller_reachable_inv)
  obtain k s1 where 1: "get_kafka_sink_state E s = (Ret k, s1)"
    unfolding get_kafka_sink_state_def using get_sink_state_Ret by blast
  obtain q s2 where 2: "mosquitto_observed E s1 = (Ret q, s2)"
    using get_sink_state_Ret [of "mosquitto_client s1 (sv_mosquitto_get_state E)" s1]
    by (cases "mosquitto_sink_node_name s1 = []") (auto simp: mosquitto_observed_def)
  have "only_world s s1" by (rule keepsD [OF kafka_wrappers_world(1) 1])
  moreover have "only_world s1 s2"
    using 2 keepsD [OF get_sink_state_world(1)]
    by (auto simp: mosquitto_observed_def split: if_split_asm)
  ultimately have "only_world s s2" by (rule only_world_trans)
  then obtain w where w: "s2 = s\<lparr>ct_world := w\<rparr>" unfolding only_world_def by blast
  have "r = Ret (status_of k q s2)" "t = s2"
    using assms(2) 1 2 by (auto simp: handle_get_status_def andthen_simps)
  moreover have "st_applied_topics (status_of k q s2) = snap_sink_topics (applied_selection s2)"
    using inv w by (simp add: status_of_def to_topic_info_def controller_inv_def snapshot_planned_def)
  moreover have "phase s2 \<noteq> BUSY" using inv w by (simp add: controller_inv_def)
  ultimately show ?thesis
    using w by (intro exI [of _ "status_of k q s2"] exI [of _ w]) (simp add: status_of_def)
qed

theorem status_is_a_read_witness:
  "\<exists>st. fst (handle_get_status (sample_services sample_file) (snd sample_reloaded)) = Ret st \<and>
     \<not> st_reconciling st \<and> st_success st"
proof -
  obtain r t where rt:
    "handle_get_status (sample_services sample_file) (snd sample_reloaded) = (r, t)"
    by (cases "handle_get_status (sample_services sample_file) (snd sample_reloaded)")
  show ?thesis
    using status_is_a_read [OF sample_reloaded_reachable rt] rt by auto
qed



text \<open>
  C21: stop_streaming.  On success nothing is applied, no tool is loaded, the phase is IDLE and
  the caches are emptied exactly when the request asks for it; on failure the phase is ERROR with
  the message in last_error, and every selection is what it was.
\<close>

theorem stop_outcome:
  assumes "phase s \<noteq> BUSY" and "handle_stop_streaming E reset s = (r, t)"
  shows "\<exists>resp. r = Ret resp \<and>
    (if resp_success resp
     then applied_selection t = empty_snapshot \<and> active_topic_tools t = [] \<and> phase t = IDLE \<and>
       (last_gui_selection t, last_file_selection t, last_all_selection t) =
         (if reset then (empty_snapshot, empty_snapshot, empty_snapshot)
          else (last_gui_selection s, last_file_selection s, last_all_selection s))
     else same_selections s t \<and> phase t = ERROR \<and> last_error t = resp_message resp)"
proof -
  let ?m = "\<lambda>s. deactivate_sink ''mosquitto_sink'' (mosquitto_sink_node_name s)
      (mosquitto_client s (sv_mosquitto_change_state E))
      (mosquitto_client s (sv_mosquitto_get_state E)) s"
  let ?stop = "andthen (deactivate_kafka_sink E) (\<lambda>_. andthen ?m (\<lambda>_. clear_active_topic_tools E))"
  have m: "keeps only_world ?m" "never_throws ?m"
    by (auto intro!: keepsI never_throwsI simp: keeps_snd [OF deactivate_sink_world(1)]
        never_throwsD [OF deactivate_sink_world(2)])
  have frame: "keeps tool_frame ?stop"
    by (intro keeps_tool_seq clear_tools_frame keeps_tool_world m read_deactivate_world(1))
  have nothrow: "never_throws ?stop"
    by (intro never_throws_intros clear_tools_frame m read_deactivate_world(2))
  have run: "attempt ?stop
      (\<lambda>_. andthen (update_state (\<lambda>s.
              (if reset
               then s\<lparr>last_gui_selection := empty_snapshot, last_file_selection := empty_snapshot,
                      last_all_selection := empty_snapshot\<rparr>
               else s)\<lparr>applied_selection := empty_snapshot, phase := IDLE\<rparr>))
            (\<lambda>_. respond True ''Streaming stopped''))
      (\<lambda>e. andthen (set_phase ERROR) (\<lambda>_. reject E e)) s = (r, t)"
    using assms by (simp add: handle_stop_streaming_def)
  then show ?thesis
  proof (cases rule: attempt_cases)
    case (ok a s1)
    obtain s0 where "clear_active_topic_tools E s0 = (Ret (), s1)"
      using ok(1) by (auto simp: andthen_Ret_iff)
    then have "active_topic_tools s1 = []"
      by (cases rule: clear_active_topic_tools_cases) simp_all
    moreover have "same_selections s s1"
      using same_selections_frame [OF keepsD [OF frame ok(1)]] by simp
    moreover have "r = Ret \<lparr>resp_success = True, resp_message = ''Streaming stopped''\<rparr>"
      "t = (if reset
            then s1\<lparr>last_gui_selection := empty_snapshot, last_file_selection := empty_snapshot,
                    last_all_selection := empty_snapshot\<rparr>
            else s1)\<lparr>applied_selection := empty_snapshot, phase := IDLE\<rparr>"
      using ok(2) by (simp_all add: andthen_simps)
    ultimately show ?thesis by (cases reset) (simp_all add: same_selections_def)
  next
    case (err e s1)
    have "same_selections s s1"
      using same_selections_frame [OF keepsD [OF frame err(1)]] by simp
    moreover have "reject E e (s1\<lparr>phase := ERROR\<rparr>) = (r, t)"
      using err(2) by (simp add: set_phase_def andthen_simps)
    ultimately show ?thesis by (auto simp: respond_reject same_selections_def)
  next
    case (exc e)
    then show ?thesis using never_throwsD [OF nothrow, of s e t] by blast
  qed
qed

theorem stop_outcome_witness:
  "applied_selection (snd (handle_stop_streaming (sample_services sample_file) True
     (snd sample_reloaded))) = empty_snapshot"
proof -
  let ?run = "handle_stop_streaming (sample_services sample_file) True (snd sample_reloaded)"
  have ok: "fst ?run = Ret \<lparr>resp_success = True, resp_message = ''Streaming stopped''\<rparr>"
    by code_simp
  then have run: "?run = (Ret \<lparr>resp_success = True, resp_message = ''Streaming stopped''\<rparr>, snd ?run)"
    by (metis prod.collapse)
  have "phase (snd sample_reloaded) \<noteq> BUSY"
    using controller_reachable_inv [OF sample_reloaded_reachable] by (simp add: controller_inv_def)
  from stop_outcome [OF this run] obtain resp where
    "Ret \<lparr>resp_success = True, resp_message = ''Streaming stopped''\<rparr> = Ret resp"
    "resp_success resp \<longrightarrow> applied_selection (snd ?run) = empty_snapshot"
    by (metis (no_types, lifting))
  then show ?thesis by auto
qed

text \<open>
  A container that no longer has the first active tool (it crashed, or an earlier
  stop_streaming unloaded it and failed on a later one, which keeps the whole map) makes every
  further unload round fail: the tools stay registered, so stop_streaming and apply_selection
  cannot succeed again.
\<close>

theorem partial_unload_blocks_forever:
  assumes lost: "active_topic_tools s = (k, tool) # rest" "at_unique_id tool \<notin> loaded (ct_world s)"
    and ready: "\<And>w b w'. cl_ready (sv_unload_node E) w = (b, w') \<Longrightarrow> loaded w' = loaded w"
    and unload: "\<And>q w w'. cl_call (sv_unload_node E) q w = (Some True, w') \<Longrightarrow> q \<in> loaded w"
    and run: "clear_active_topic_tools E s = (r, t)"
  shows "(\<exists>e. r = Err e) \<and> active_topic_tools t = active_topic_tools s"
proof -
  have fails: "fst (deactivate_and_unload_tool E tool s) \<noteq> Ret ()"
    using lost(2)
    by (auto simp: deactivate_and_unload_tool_def andthen_def ask_def wait_and_call_def
        split: prod.splits bool.splits option.splits dest: ready unload)
  from run show ?thesis
  proof (cases rule: clear_active_topic_tools_cases)
    case (cleared w)
    then show ?thesis
      using run fails lost(1)
      by (auto simp: clear_active_topic_tools_def andthen_Ret_iff)
  next
    case (stuck w e)
    then show ?thesis by simp
  qed
qed

text \<open>A controller whose container has lost the tool it loaded.\<close>

definition sample_lost :: "sample_world controller" where
  "sample_lost = (snd sample_reloaded)\<lparr>ct_world := sample_start\<rparr>"

theorem partial_unload_blocks_forever_witness:
  "\<exists>e. fst (clear_active_topic_tools (sample_services sample_file) sample_lost) = Err e"
proof -
  have len: "length (active_topic_tools sample_lost) = 1"
    unfolding sample_lost_def by code_simp
  then obtain k tool where tools: "active_topic_tools sample_lost = [(k, tool)]"
    by (cases "active_topic_tools sample_lost") auto
  have world: "ct_world sample_lost = sample_start" by (simp add: sample_lost_def)
  let ?E = "sample_services sample_file"
  have "(\<exists>e. fst (clear_active_topic_tools ?E sample_lost) = Err e) \<and>
      active_topic_tools (snd (clear_active_topic_tools ?E sample_lost)) =
      active_topic_tools sample_lost"
  proof (rule partial_unload_blocks_forever [where loaded = "\<lambda>w. set (sw_loaded w)"])
    show "active_topic_tools sample_lost = (k, tool) # []" by (rule tools)
    show "at_unique_id tool \<notin> set (sw_loaded (ct_world sample_lost))"
      unfolding world by (simp add: sample_start_def)
    show "set (sw_loaded w') = set (sw_loaded w)"
      if "cl_ready (sv_unload_node ?E) w = (b, w')" for w b w'
      using that by (simp add: sample_services_def always_def)
    show "q \<in> set (sw_loaded w)" if "cl_call (sv_unload_node ?E) q w = (Some True, w')" for q w w'
      using that by (simp add: sample_services_def always_def split: if_split_asm)
    show "clear_active_topic_tools ?E sample_lost =
        (fst (clear_active_topic_tools ?E sample_lost), snd (clear_active_topic_tools ?E sample_lost))"
      by simp
  qed
  then show ?thesis by blast
qed

text \<open>
  A rejected parameter update is not undone.  When the callback rejects a change of
  selection_mode because the new mode could not be applied, rclcpp keeps the old parameter value,
  but the node has already switched: from then on it works in the rejected mode.
\<close>

theorem rejected_mode_change_sticks:
  assumes "phase s \<noteq> BUSY"
    and "scan_parameters ps \<lparr>sc_new_mode = None, sc_new_file_path = selection_file_path s,
           sc_request_apply = auto_apply_on_mode_change s, sc_new_auto_apply = None\<rparr> = Ret (Some sc)"
    and "sc_new_mode sc = Some mode"
    and "on_param_change E ps s = (Ret res, t)" and "\<not> sr_successful res"
  shows "selection_mode t = mode"
proof -
  have "attempt (switch_mode E mode (sc_new_file_path sc) (sc_request_apply sc))
      (\<lambda>_. andthen (update_state (\<lambda>s. s\<lparr>
          selection_file_path := sc_new_file_path sc,
          auto_apply_on_mode_change :=
            (case sc_new_auto_apply sc of
               Some b \<Rightarrow> b | None \<Rightarrow> auto_apply_on_mode_change s)\<rparr>))
        (\<lambda>_. result_of True []))
      (result_of False) s = (Ret res, t)"
    using assms(2,3,4) by (simp add: on_param_change_def andthen_simps)
  then show ?thesis
  proof (cases rule: attempt_cases)
    case (err e s')
    then show ?thesis
      using switch_mode_sets_mode [OF assms(1), of E mode "sc_new_file_path sc" "sc_request_apply sc"]
      by simp
  qed (use assms(5) in \<open>auto simp: andthen_simps\<close>)
qed

definition sample_mode_change :: "parameter list" where
  "sample_mode_change = [mk_param ''selection_mode'' (PString ''file'')]"

theorem rejected_mode_change_sticks_witness:
  "selection_mode (snd (on_param_change (sample_services sample_file) sample_mode_change sample_gui))
     = Mode_FILE \<and>
   fst (on_param_change (sample_services sample_file) sample_mode_change sample_gui) =
     Ret \<lparr>sr_successful = False, sr_reason = ''selection_file_path is empty''\<rparr>"
proof -
  let ?run = "on_param_change (sample_services sample_file) sample_mode_change sample_gui"
  have fst: "fst ?run =
    Ret \<lparr>sr_successful = False, sr_reason = ''selection_file_path is empty''\<rparr>" by code_simp
  have "selection_mode (snd ?run) = Mode_FILE"
  proof (rule rejected_mode_change_sticks)
    show "?run = (Ret \<lparr>sr_successful = False, sr_reason = ''selection_file_path is empty''\<rparr>, snd ?run)"
      using fst by (metis prod.collapse)
    show "scan_parameters sample_mode_change
        \<lparr>sc_new_mode = None, sc_new_file_path = selection_file_path sample_gui,
           sc_request_apply = auto_apply_on_mode_change sample_gui, sc_new_auto_apply = None\<rparr> =
        Ret (Some \<lparr>sc_new_mode = Some Mode_FILE, sc_new_file_path = [], sc_request_apply = True,
           sc_new_auto_apply = None\<rparr>)" by code_simp
    show "phase sample_gui \<noteq> BUSY" by (simp add: sample_gui_def new_controller_def Let_def)
  qed simp_all
  with fst show ?thesis by simp
qed

text \<open>
  With allow_missing_sinks, a Kafka sink whose set_parameters service is not reachable does
  not stop apply_selection(): the new subscriptions are skipped, yet the sink is activated and the
  selection counts as applied.
\<close>

theorem unreachable_parameters_are_skipped:
  assumes "allow_missing_sinks s"
    and "cl_ready (sv_set_parameters E) (ct_world s) = (False, w)"
  shows "set_kafka_sink_subscriptions_yaml E subs s = (Ret (), s\<lparr>ct_world := w\<rparr>)"
  using assms
  by (simp add: set_kafka_sink_subscriptions_yaml_def set_sink_subscriptions_yaml_def andthen_def
      ask_def wait_and_call_def should_skip_unavailable_sink_def)

definition deaf_services :: "(ytree, sample_world) services" where
  "deaf_services = (sample_services sample_file)
     \<lparr>sv_set_parameters := \<lparr>cl_ready = (\<lambda>w. (False, w)), cl_call = (\<lambda>_ w. (None, w))\<rparr>\<rparr>"

theorem unreachable_parameters_are_skipped_witness:
  "fst (set_kafka_sink_subscriptions_yaml deaf_services [mk_topic ''/scan'' ''T''] sample_gui) = Ret () \<and>
   fst (handle_apply_selection deaf_services [mk_topic ''/scan'' []] sample_gui) =
     Ret \<lparr>resp_success = True, resp_message = ''Selection applied''\<rparr> \<and>
   sw_parameters (ct_world (snd (handle_apply_selection deaf_services [mk_topic ''/scan'' []]
     sample_gui))) = []"
proof (intro conjI)
  have "allow_missing_sinks sample_gui"
    by (simp add: sample_gui_def new_controller_def sample_params_def Let_def)
  moreover have "cl_ready (sv_set_parameters deaf_services) w = (False, w)" for w
    by (simp add: deaf_services_def)
  ultimately show
    "fst (set_kafka_sink_subscriptions_yaml deaf_services [mk_topic ''/scan'' ''T''] sample_gui) = Ret ()"
    using unreachable_parameters_are_skipped by (metis fst_conv)
qed (code_simp, code_simp)

end
