(* ===== verification/Introspection_Manager.thy ===== *)
theory Introspection_Manager
  imports Ros_Types
begin

text \<open>
  introspection_manager: the node that keeps the list of topics of the ROS graph, filters hidden
  ones, publishes changes and serves the list
  (introspection_manager/src/introspection_manager_node.cpp).  The monitor thread runs beside the
  executor, so its loop body is three steps: checking the event and reading the graph, storing
  the result, and taking a new graph event.
\<close>

section \<open>Hidden topics\<close>

type_synonym topic_map = "(string \<times> string list) list"

text \<open>The loop over the tokens between slashes.\<close>

function is_topic_hidden :: "string \<Rightarrow> bool" where
  "is_topic_hidden topic_name =
     (if topic_name = [] then False
      else
        (let token = takeWhile (\<lambda>c. c \<noteq> CHR ''/'') topic_name;
             remaining = dropWhile (\<lambda>c. c \<noteq> CHR ''/'') topic_name
         in if token \<noteq> [] \<and> hd token = CHR ''_'' then True
            else if remaining = [] then False
            else is_topic_hidden (tl remaining)))"
  by pat_completeness auto

termination
proof (relation "measure length"; simp)
  fix topic_name :: string
  assume "topic_name \<noteq> []"
  have "length (dropWhile (\<lambda>c. c \<noteq> CHR ''/'') topic_name) \<le> length topic_name"
    by (rule length_dropWhile_le)
  with \<open>topic_name \<noteq> []\<close>
  show "length (dropWhile (\<lambda>c. c \<noteq> CHR ''/'') topic_name) - Suc 0 < length topic_name"
    by (cases topic_name) auto
qed

declare is_topic_hidden.simps [simp del]

definition filter_hidden_topics :: "bool \<Rightarrow> topic_map \<Rightarrow> topic_map" where
  "filter_hidden_topics filter_hidden topics =
     (if \<not> filter_hidden then topics else filter (\<lambda>p. \<not> is_topic_hidden (fst p)) topics)"

text \<open>The entries of a topics message: one per topic and type, in the order of the map.\<close>

definition topic_entries :: "topic_map \<Rightarrow> topic_info list" where
  "topic_entries topics = concat (map (\<lambda>(n, types). map (mk_topic n) types) topics)"

section \<open>State\<close>

datatype monitor_pc = NoMonitor | Waiting | Computed topic_map | Rearm

record publisher_qos =
  qos_depth :: u64
  qos_best_effort :: bool
  qos_transient_local :: bool

record introspection =
  im_qos :: publisher_qos
  im_publish_on_change :: bool
  im_filter_hidden :: bool
  im_run_graph_monitor :: bool
  im_monitor :: monitor_pc
  im_event :: bool
  im_active_topics :: topic_map
  im_previous_topics :: topic_map
  im_published :: "topic_info list list"
  im_graph :: topic_map

record introspection_params =
  ip_publisher_queue_depth :: int
  ip_publisher_reliability :: string
  ip_publisher_durability :: string
  ip_publish_on_change :: bool
  ip_filter_hidden :: bool
  ip_introspection_enabled :: bool

text \<open>
  The constructor.  The queue depth is a C++ int turned into a size_t, and anything but
  best_effort and transient_local falls back to reliable and volatile; the graph event is new, so
  nothing is pending on it.
\<close>

definition make_publisher_qos :: "int \<Rightarrow> string \<Rightarrow> string \<Rightarrow> publisher_qos" where
  "make_publisher_qos depth reliability durability =
     \<lparr>qos_depth = word_of_int (narrow32 depth),
      qos_best_effort = (reliability = ''best_effort''),
      qos_transient_local = (durability = ''transient_local'')\<rparr>"

definition new_introspection :: "introspection_params \<Rightarrow> topic_map \<Rightarrow> introspection" where
  "new_introspection p graph =
     (let initial = filter_hidden_topics (ip_filter_hidden p) graph
      in \<lparr>im_qos = make_publisher_qos (ip_publisher_queue_depth p)
            (ip_publisher_reliability p) (ip_publisher_durability p),
          im_publish_on_change = ip_publish_on_change p, im_filter_hidden = ip_filter_hidden p,
          im_run_graph_monitor = ip_introspection_enabled p,
          im_monitor = (if ip_introspection_enabled p then Waiting else NoMonitor),
          im_event = False, im_active_topics = initial, im_previous_topics = initial,
          im_published = [], im_graph = graph\<rparr>)"

section \<open>Operations\<close>

definition publish_topics_info :: "topic_map \<Rightarrow> introspection \<Rightarrow> introspection" where
  "publish_topics_info topics s = s\<lparr>im_published := im_published s @ [topic_entries topics]\<rparr>"

text \<open>update_topics(): reading the graph, and everything after that.\<close>

definition read_graph :: "introspection \<Rightarrow> topic_map" where
  "read_graph s = filter_hidden_topics (im_filter_hidden s) (im_graph s)"

definition store_topics :: "topic_map \<Rightarrow> introspection \<Rightarrow> introspection" where
  "store_topics topics s =
     (let changed = (topics \<noteq> im_previous_topics s);
          s1 = s\<lparr>im_active_topics := topics\<rparr>;
          s2 = (if changed \<and> im_publish_on_change s1 then publish_topics_info topics s1 else s1)
      in s2\<lparr>im_previous_topics := topics\<rparr>)"

definition update_topics :: "introspection \<Rightarrow> introspection" where
  "update_topics s = store_topics (read_graph s) s"

definition handle_get_topics :: "introspection \<Rightarrow> topic_info list" where
  "handle_get_topics s = topic_entries (im_active_topics s)"

text \<open>The steps of monitor_graph().\<close>

definition monitor_check :: "introspection \<Rightarrow> introspection" where
  "monitor_check s =
     (if \<not> im_run_graph_monitor s then s\<lparr>im_monitor := NoMonitor\<rparr>
      else if im_event s then s\<lparr>im_event := False, im_monitor := Computed (read_graph s)\<rparr>
      else s)"

definition monitor_store :: "topic_map \<Rightarrow> introspection \<Rightarrow> introspection" where
  "monitor_store topics s = (store_topics topics s)\<lparr>im_monitor := Rearm\<rparr>"

definition monitor_rearm :: "introspection \<Rightarrow> introspection" where
  "monitor_rearm s = s\<lparr>im_event := False, im_monitor := Waiting\<rparr>"

definition monitor_graph :: "introspection \<Rightarrow> introspection" where
  "monitor_graph s =
     (case im_monitor s of
        NoMonitor \<Rightarrow> s
      | Waiting \<Rightarrow> monitor_check s
      | Computed topics \<Rightarrow> monitor_store topics s
      | Rearm \<Rightarrow> monitor_rearm s)"

text \<open>join(): the thread runs to its end, which it reaches after at most three more steps.\<close>

definition join_monitor :: "introspection \<Rightarrow> introspection" where
  "join_monitor s = monitor_graph (monitor_graph (monitor_graph s))"

text \<open>The parameter callback, a loop that applies each parameter as it comes to it.\<close>

definition set_enabled :: "bool \<Rightarrow> introspection \<Rightarrow> introspection" where
  "set_enabled enable s =
     (if enable \<and> \<not> im_run_graph_monitor s
      then s\<lparr>im_run_graph_monitor := True, im_event := False, im_monitor := Waiting\<rparr>
      else if \<not> enable \<and> im_run_graph_monitor s
      then join_monitor (s\<lparr>im_run_graph_monitor := False\<rparr>)
      else s)"

fun set_parameters :: "parameter list \<Rightarrow> (introspection, unit) prog" where
  "set_parameters [] = ret ()"
| "set_parameters (p # ps) =
     (if p_name p = ''publish_on_change''
      then andthen (lift_exec (as_bool p)) (\<lambda>b.
           andthen (update_state (\<lambda>s. s\<lparr>im_publish_on_change := b\<rparr>)) (\<lambda>_. set_parameters ps))
      else if p_name p = ''filter_hidden''
      then andthen (lift_exec (as_bool p)) (\<lambda>b.
           andthen (update_state (\<lambda>s. update_topics (s\<lparr>im_filter_hidden := b\<rparr>)))
             (\<lambda>_. set_parameters ps))
      else if p_name p = ''introspection_enabled''
      then andthen (lift_exec (as_bool p)) (\<lambda>b.
           andthen (update_state (set_enabled b)) (\<lambda>_. set_parameters ps))
      else set_parameters ps)"

definition destroy_introspection :: "introspection \<Rightarrow> introspection" where
  "destroy_introspection s = join_monitor (s\<lparr>im_run_graph_monitor := False\<rparr>)"

text \<open>
  The environment changes the graph, which sets the event the node holds; the executor and the
  monitor thread take turns.
\<close>

inductive im_step :: "introspection \<Rightarrow> introspection \<Rightarrow> bool" where
  im_graph: "im_step s (s\<lparr>im_graph := g, im_event := True\<rparr>)"
| im_monitor: "im_step s (monitor_graph s)"
| im_parameters: "im_step s (snd (set_parameters ps s))"

inductive im_reachable :: "introspection \<Rightarrow> bool" where
  im_new: "im_reachable (new_introspection p g)"
| im_next: "im_reachable s \<Longrightarrow> im_step s t \<Longrightarrow> im_reachable t"

section \<open>Lemmas\<close>

lemma hidden_token:
  assumes "CHR ''/'' \<notin> set pre"
  shows "(case pre of [] \<Rightarrow> False | c # _ \<Rightarrow> c = CHR ''_'') \<or> is_topic_hidden rest \<longleftrightarrow>
    is_topic_hidden (pre @ CHR ''/'' # rest)"
proof -
  have "takeWhile (\<lambda>c. c \<noteq> CHR ''/'') (pre @ CHR ''/'' # rest) = pre"
    "dropWhile (\<lambda>c. c \<noteq> CHR ''/'') (pre @ CHR ''/'' # rest) = CHR ''/'' # rest"
    using assms by (induction pre) auto
  then show ?thesis
    by (subst (2) is_topic_hidden.simps) (auto simp: Let_def split: list.splits)
qed

lemma hidden_no_slash:
  assumes "CHR ''/'' \<notin> set s"
  shows "is_topic_hidden s \<longleftrightarrow> (\<exists>t. s = CHR ''_'' # t)"
proof -
  have "takeWhile (\<lambda>c. c \<noteq> CHR ''/'') s = s" "dropWhile (\<lambda>c. c \<noteq> CHR ''/'') s = []"
    using assms by (induction s) auto
  then show ?thesis
    by (subst is_topic_hidden.simps) (cases s; auto simp: Let_def)
qed

lemma topic_entries_mem:
  "i \<in> set (topic_entries m) \<longleftrightarrow> (\<exists>types. (ti_name i, types) \<in> set m \<and> ti_type i \<in> set types)"
  by (cases i) (auto simp: topic_entries_def mk_topic_def)

lemma filter_hidden_mem:
  "p \<in> set (filter_hidden_topics b m) \<longleftrightarrow> p \<in> set m \<and> (b \<longrightarrow> \<not> is_topic_hidden (fst p))"
  by (simp add: filter_hidden_topics_def)

lemma store_topics_simps [simp]:
  "im_active_topics (store_topics m s) = m" "im_previous_topics (store_topics m s) = m"
  "im_filter_hidden (store_topics m s) = im_filter_hidden s"
  "im_run_graph_monitor (store_topics m s) = im_run_graph_monitor s"
  "im_monitor (store_topics m s) = im_monitor s" "im_event (store_topics m s) = im_event s"
  "im_graph (store_topics m s) = im_graph s"
  "im_publish_on_change (store_topics m s) = im_publish_on_change s"
  by (simp_all add: store_topics_def publish_topics_info_def Let_def)

lemma store_topics_published:
  "im_published (store_topics m s) =
     im_published s @ (if m \<noteq> im_previous_topics s \<and> im_publish_on_change s
                       then [topic_entries m] else [])"
  by (simp add: store_topics_def publish_topics_info_def Let_def)

text \<open>Nothing hidden is stored, or on its way to be stored.\<close>

definition no_hidden :: "topic_map \<Rightarrow> bool" where
  "no_hidden m \<longleftrightarrow> (\<forall>p \<in> set m. \<not> is_topic_hidden (fst p))"

definition visible_only :: "introspection \<Rightarrow> bool" where
  "visible_only s \<longleftrightarrow> no_hidden (im_active_topics s) \<and>
     (\<forall>m. im_monitor s = Computed m \<longrightarrow> no_hidden m)"

lemma no_hidden_filter: "no_hidden (filter_hidden_topics True m)"
  by (simp add: no_hidden_def filter_hidden_topics_def)

lemma monitor_frame [simp]:
  "im_filter_hidden (monitor_graph s) = im_filter_hidden s"
  "im_run_graph_monitor (monitor_graph s) = im_run_graph_monitor s"
  "im_graph (monitor_graph s) = im_graph s"
  by (simp_all add: monitor_graph_def monitor_check_def monitor_store_def monitor_rearm_def
      split: monitor_pc.split)

lemma monitor_visible:
  assumes "visible_only s" "im_filter_hidden s"
  shows "visible_only (monitor_graph s)"
  using assms no_hidden_filter [of "im_graph s"]
  by (cases "im_monitor s")
     (auto simp: monitor_graph_def monitor_check_def monitor_store_def monitor_rearm_def
        visible_only_def read_graph_def)

lemma set_enabled_visible:
  assumes "visible_only s" "im_filter_hidden s"
  shows "visible_only (set_enabled b s)" "im_filter_hidden (set_enabled b s)"
proof -
  have "visible_only (s\<lparr>im_run_graph_monitor := False\<rparr>)"
    using assms by (simp add: visible_only_def)
  then have "visible_only (join_monitor (s\<lparr>im_run_graph_monitor := False\<rparr>))"
    using assms(2) by (simp add: join_monitor_def monitor_visible)
  then show "visible_only (set_enabled b s)"
    using assms by (simp add: set_enabled_def visible_only_def)
  show "im_filter_hidden (set_enabled b s)"
    using assms(2) by (simp add: set_enabled_def join_monitor_def)
qed

text \<open>What the parameter callback keeps: a computed list is clean, and so is the active one when
  the filter is on.\<close>

definition clean :: "introspection \<Rightarrow> bool" where
  "clean s \<longleftrightarrow> (\<forall>m. im_monitor s = Computed m \<longrightarrow> no_hidden m) \<and>
     (im_filter_hidden s \<longrightarrow> no_hidden (im_active_topics s))"

lemma clean_visible: "im_filter_hidden s \<Longrightarrow> clean s \<longleftrightarrow> visible_only s"
  by (auto simp: clean_def visible_only_def)

lemma join_clean: "clean s \<Longrightarrow> clean (join_monitor (s\<lparr>im_run_graph_monitor := False\<rparr>))"
  by (cases "im_monitor s")
     (simp_all add: join_monitor_def monitor_graph_def monitor_check_def monitor_store_def
        monitor_rearm_def clean_def)

lemma set_enabled_clean: "clean s \<Longrightarrow> clean (set_enabled b s)"
  by (simp add: set_enabled_def join_clean) (simp add: clean_def)

lemma update_clean: "clean s \<Longrightarrow> clean (update_topics (s\<lparr>im_filter_hidden := b\<rparr>))"
  by (cases b) (auto simp: clean_def update_topics_def read_graph_def no_hidden_filter)

lemma set_parameters_clean: "clean s \<Longrightarrow> clean (snd (set_parameters ps s))"
proof (induction ps arbitrary: s)
  case (Cons p ps)
  have publish: "clean (s\<lparr>im_publish_on_change := b\<rparr>)" for b
    using Cons.prems by (simp add: clean_def)
  show ?case
  proof (cases "as_bool p")
    case (Ret b)
    then show ?thesis
      using Cons.IH [OF Cons.prems] Cons.IH [OF publish]
        Cons.IH [OF set_enabled_clean [OF Cons.prems]] Cons.IH [OF update_clean [OF Cons.prems]]
      by (simp add: andthen_simps)
  qed (use Cons.IH [OF Cons.prems] Cons.prems in \<open>simp_all add: andthen_simps\<close>)
qed simp

lemma im_step_visible:
  assumes "im_step s t" "visible_only s" "im_filter_hidden s" "im_filter_hidden t"
  shows "visible_only t"
  using assms(1)
proof cases
  case (im_graph g)
  then show ?thesis using assms by (simp add: visible_only_def)
next
  case im_monitor
  then show ?thesis using assms by (simp add: monitor_visible)
next
  case (im_parameters ps)
  have "clean s" using assms by (simp add: clean_visible)
  then have "clean t" unfolding im_parameters by (rule set_parameters_clean)
  then show ?thesis using assms(4) by (simp add: clean_visible)
qed

section \<open>Properties\<close>

definition sample_introspection :: "bool \<Rightarrow> bool \<Rightarrow> introspection_params" where
  "sample_introspection filter_on enabled =
     \<lparr>ip_publisher_queue_depth = 10, ip_publisher_reliability = ''reliable'',
      ip_publisher_durability = ''volatile'', ip_publish_on_change = True, ip_filter_hidden = filter_on, ip_introspection_enabled = enabled\<rparr>"

definition graph_a :: topic_map where
  "graph_a = [(''/_hidden'', [''T'']), (''/odom'', [''nav_msgs/msg/Odometry''])]"

definition graph_b :: topic_map where
  "graph_b = graph_a @ [(''/scan'', [''sensor_msgs/msg/LaserScan''])]"

text \<open>
  C23: the scanning loop of is_topic_hidden() terminates and decides exactly whether some segment
  of the name, between slashes, begins with an underscore.
\<close>

theorem hidden_means_underscored_segment:
  "is_topic_hidden name \<longleftrightarrow>
     (\<exists>front behind. name = front @ CHR ''_'' # behind \<and> (front = [] \<or> last front = CHR ''/''))"
proof (induction "length name" arbitrary: name rule: less_induct)
  case less
  show ?case
  proof (cases "CHR ''/'' \<in> set name")
    case False
    have no: "front = []" if "name = front @ CHR ''_'' # behind" "front = [] \<or> last front = CHR ''/''"
      for front behind using that False by (cases "front = []") (auto dest: last_in_set)
    have "is_topic_hidden name \<longleftrightarrow> (\<exists>t. name = CHR ''_'' # t)"
      using False by (rule hidden_no_slash)
    also have "\<dots> \<longleftrightarrow> (\<exists>front behind. name = front @ CHR ''_'' # behind \<and>
        (front = [] \<or> last front = CHR ''/''))"
      using no by (metis append_Nil)
    finally show ?thesis .
  next
    case True
    then obtain pre rest where name: "name = pre @ CHR ''/'' # rest" and pre: "CHR ''/'' \<notin> set pre"
      by (meson split_list_first)
    have IH: "is_topic_hidden rest \<longleftrightarrow> (\<exists>front behind. rest = front @ CHR ''_'' # behind \<and>
        (front = [] \<or> last front = CHR ''/''))"
      using less name by simp
    have "(\<exists>front behind. name = front @ CHR ''_'' # behind \<and> (front = [] \<or> last front = CHR ''/'')) \<longleftrightarrow>
      (\<exists>t. pre = CHR ''_'' # t) \<or> (\<exists>front behind. rest = front @ CHR ''_'' # behind \<and>
        (front = [] \<or> last front = CHR ''/''))" (is "?l \<longleftrightarrow> ?p \<or> ?r")
    proof
      assume ?l
      then obtain front behind where f: "pre @ CHR ''/'' # rest = front @ CHR ''_'' # behind"
        "front = [] \<or> last front = CHR ''/''" using name by auto
      then obtain us where "pre = front @ us \<and> us @ CHR ''/'' # rest = CHR ''_'' # behind \<or>
          pre @ us = front \<and> CHR ''/'' # rest = us @ CHR ''_'' # behind"
        by (auto simp: append_eq_append_conv2)
      then show "?p \<or> ?r"
      proof (elim disjE conjE)
        assume us: "pre = front @ us" "us @ CHR ''/'' # rest = CHR ''_'' # behind"
        have "front = []" using f(2) us(1) pre by (cases "front = []") (auto dest: last_in_set)
        moreover have "us \<noteq> [] \<and> hd us = CHR ''_''" using us(2) by (cases us) auto
        ultimately show ?thesis using us(1) by (metis append_Nil list.collapse)
      next
        assume us: "pre @ us = front" "CHR ''/'' # rest = us @ CHR ''_'' # behind"
        then obtain us' where "us = CHR ''/'' # us'" by (cases us) auto
        then have "rest = us' @ CHR ''_'' # behind" "us' = [] \<or> last us' = CHR ''/''"
          using us f(2) by (auto split: if_split_asm)
        then show ?thesis by blast
      qed
    next
      assume "?p \<or> ?r"
      then show ?l
      proof (elim disjE exE conjE)
        fix t assume "pre = CHR ''_'' # t"
        then have "name = [] @ CHR ''_'' # (t @ CHR ''/'' # rest)" using name by simp
        then show ?l by blast
      next
        fix front behind
        assume "rest = front @ CHR ''_'' # behind" "front = []"
        then have "name = (pre @ [CHR ''/'']) @ CHR ''_'' # behind" using name by simp
        then show ?l by (metis last_snoc)
      next
        fix front behind
        assume "rest = front @ CHR ''_'' # behind" "last front = CHR ''/''"
        then have "name = (pre @ CHR ''/'' # front) @ CHR ''_'' # behind" using name by simp
        moreover have "last (pre @ CHR ''/'' # front) = CHR ''/''"
          using \<open>last front = _\<close> by (cases "front = []") auto
        ultimately show ?l by blast
      qed
    qed
    moreover have "is_topic_hidden name \<longleftrightarrow> (\<exists>t. pre = CHR ''_'' # t) \<or> is_topic_hidden rest"
      unfolding name hidden_token [OF pre, symmetric] by (auto split: list.splits)
    ultimately show ?thesis using IH by simp
  qed
qed



text \<open>
  C36: one undisturbed round of the monitor thread after a graph event brings the list up to date:
  the active and the previous list become the filtered graph, a message with exactly its entries
  is published if and only if the list changed and publishing is on, and the thread waits again.
\<close>

theorem monitor_round_refreshes:
  assumes "im_monitor s = Waiting" "im_run_graph_monitor s" "im_event s"
  shows "monitor_graph (monitor_graph (monitor_graph s)) =
    s\<lparr>im_active_topics := read_graph s, im_previous_topics := read_graph s,
      im_published := im_published s @
        (if read_graph s \<noteq> im_previous_topics s \<and> im_publish_on_change s
         then [topic_entries (read_graph s)] else []),
      im_event := False, im_monitor := Waiting\<rparr>"
  using assms
  by (cases s) (auto simp: monitor_graph_def monitor_check_def monitor_store_def monitor_rearm_def
      store_topics_def publish_topics_info_def read_graph_def Let_def)

theorem monitor_round_refreshes_witness:
  "handle_get_topics (monitor_graph (monitor_graph (monitor_graph
      ((new_introspection (sample_introspection True True) graph_a)
        \<lparr>im_graph := graph_b, im_event := True\<rparr>)))) =
    [mk_topic ''/odom'' ''nav_msgs/msg/Odometry'', mk_topic ''/scan'' ''sensor_msgs/msg/LaserScan'']"
proof -
  let ?s = "(new_introspection (sample_introspection True True) graph_a)
      \<lparr>im_graph := graph_b, im_event := True\<rparr>"
  have "im_monitor ?s = Waiting" "im_run_graph_monitor ?s" "im_event ?s"
    by (simp_all add: new_introspection_def sample_introspection_def Let_def)
  note monitor_round_refreshes [OF this]
  then have "handle_get_topics (monitor_graph (monitor_graph (monitor_graph ?s))) =
      topic_entries (read_graph ?s)" by (simp add: handle_get_topics_def)
  also have "\<dots> = [mk_topic ''/odom'' ''nav_msgs/msg/Odometry'',
      mk_topic ''/scan'' ''sensor_msgs/msg/LaserScan'']" by code_simp
  finally show ?thesis .
qed

text \<open>
  Switching introspection_enabled behind on does not read the graph: the thread waits on a new
  event, so however long it runs, the list that was current when the node was switched off is
  served until the graph changes again.
\<close>

theorem enabling_serves_the_old_list:
  assumes "\<not> im_run_graph_monitor s"
    and "set_parameters [mk_param ''introspection_enabled'' (PBool True)] s = (Ret (), t)"
  shows "handle_get_topics ((monitor_graph ^^ n) t) = handle_get_topics s"
proof -
  have t: "t = s\<lparr>im_run_graph_monitor := True, im_event := False, im_monitor := Waiting\<rparr>"
    using assms by (simp add: andthen_def as_bool_def set_enabled_def)
  have "monitor_graph t = t" by (simp add: t monitor_graph_def monitor_check_def)
  then have "(monitor_graph ^^ n) t = t" by (induction n) simp_all
  then show ?thesis by (simp add: t handle_get_topics_def)
qed

theorem enabling_serves_the_old_list_witness:
  "handle_get_topics ((monitor_graph ^^ 5)
     (snd (set_parameters [mk_param ''introspection_enabled'' (PBool True)]
       ((new_introspection (sample_introspection True False) graph_a)\<lparr>im_graph := graph_b\<rparr>)))) =
   [mk_topic ''/odom'' ''nav_msgs/msg/Odometry'']"
proof -
  let ?s = "(new_introspection (sample_introspection True False) graph_a)\<lparr>im_graph := graph_b\<rparr>"
  let ?run = "set_parameters [mk_param ''introspection_enabled'' (PBool True)] ?s"
  have "\<not> im_run_graph_monitor ?s"
    by (simp add: new_introspection_def sample_introspection_def Let_def)
  moreover have "?run = (Ret (), snd ?run)"
    by (simp add: andthen_def as_bool_def)
  ultimately have "handle_get_topics ((monitor_graph ^^ 5) (snd ?run)) = handle_get_topics ?s"
    by (rule enabling_serves_the_old_list)
  also have "\<dots> = [mk_topic ''/odom'' ''nav_msgs/msg/Odometry'']" by code_simp
  finally show ?thesis .
qed

text \<open>
  A change of the graph between the monitor's read and its get_graph_event() is lost: the
  event that the change sets is thrown away, and the node stays with the old list although its
  thread is running and has nothing pending.
\<close>

theorem change_during_update_is_lost:
  "\<exists>s. im_reachable s \<and> im_run_graph_monitor s \<and> im_monitor s = Waiting \<and> \<not> im_event s \<and>
     im_active_topics s \<noteq> read_graph s \<and> monitor_graph s = s"
proof -
  let ?s0 = "new_introspection (sample_introspection True True) graph_a"
  let ?s1 = "?s0\<lparr>im_graph := graph_a, im_event := True\<rparr>"
  let ?s2 = "monitor_graph ?s1"
  let ?s3 = "?s2\<lparr>im_graph := graph_b, im_event := True\<rparr>"
  let ?s5 = "monitor_graph (monitor_graph ?s3)"
  have "im_reachable ?s5"
    by (intro im_next [OF _ im_monitor] im_next [OF _ im_graph] im_new)
  moreover have "im_run_graph_monitor ?s5 \<and> im_monitor ?s5 = Waiting \<and> \<not> im_event ?s5"
    by code_simp
  moreover have "im_active_topics ?s5 \<noteq> read_graph ?s5" by code_simp
  moreover have "monitor_graph ?s5 = ?s5" by code_simp
  ultimately show ?thesis by blast
qed

end
