(* ===== verification/Kafka_Producer.thy ===== *)
theory Kafka_Producer
  imports Prelude
begin

text \<open>
  kafka_client: the class KafkaProducer of kafka_bridge/kafka_client, an asynchronous producer
  with a bounded buffer of pending records and a background poll thread.

  librdkafka is a parameter: the record \<open>rdkafka\<close> holds the five calls the class makes (Conf::set,
  Producer::create, produce, poll and flush, err2str) over an opaque state \<open>'w\<close> of the library and
  the brokers.  The mutex makes every method body one step; the poll thread releases it between
  its locked section, the library's poll and the wait, so its progress is the field \<open>kp_thread\<close>.
\<close>

section \<open>Data\<close>

record kafka_header =
  header_key :: string
  header_value :: string

datatype startup_mode = STRICT | TOLERANT

datatype producer_status = STOPPED | STARTING | RUNNING | DEGRADED | FAILED

datatype send_status = SENT | QUEUE_FULL | PRODUCER_UNAVAILABLE | SEND_ERROR

record producer_config =
  bootstrap_servers :: string
  client_id :: string
  acks :: string
  linger_ms :: "int option"
  batch_size :: "int option"
  queue_buffering_max_kbytes :: "int option"
  max_in_flight :: "int option"
  retries :: "int option"
  retry_backoff_ms :: "int option"
  enable_idempotence :: bool
  max_queue_messages :: nat
  drop_when_full :: bool
  startup_mode :: startup_mode
  poll_timeout_ms :: int
  reconnect_backoff_ms :: int
  flush_timeout_ms :: int

definition default_producer_config :: producer_config where
  "default_producer_config =
     \<lparr>bootstrap_servers = ''localhost:9092'', client_id = ''kafka_client'', acks = ''all'',
      linger_ms = None, batch_size = None, queue_buffering_max_kbytes = None,
      max_in_flight = None, retries = None, retry_backoff_ms = None,
      enable_idempotence = False, max_queue_messages = 1024, drop_when_full = True,
      startup_mode = TOLERANT, poll_timeout_ms = 100, reconnect_backoff_ms = 1000,
      flush_timeout_ms = 3000\<rparr>"

record send_result =
  res_status :: send_status
  res_error :: string
  res_buffered :: bool

record producer_health =
  h_status :: producer_status
  h_last_error :: string
  h_sent_ok :: u64
  h_dropped_queue_full :: u64
  h_send_errors :: u64

record queued_record =
  q_topic :: string
  q_key :: "u8 list"
  q_value :: "u8 list"
  q_timestamp_ms :: int
  q_headers :: "kafka_header list"

section \<open>The library\<close>

datatype rk_error = ERR_NO_ERROR | ERR_QUEUE_FULL | ERR_OTHER nat

text \<open>The arguments of one produce() call: the key is a null pointer when it is empty.\<close>

record produce_call =
  pc_topic :: string
  pc_payload :: "u8 list"
  pc_key :: "u8 list option"
  pc_timestamp :: int
  pc_headers :: "(string \<times> string) list"

record 'w rdkafka =
  rk_conf_set :: "(string \<times> string) list \<Rightarrow> string \<Rightarrow> string \<Rightarrow> string option"
  rk_create :: "(string \<times> string) list \<Rightarrow> 'w \<Rightarrow> string option \<times> 'w"
  rk_produce :: "produce_call \<Rightarrow> 'w \<Rightarrow> rk_error \<times> 'w"
  rk_poll :: "int \<Rightarrow> 'w \<Rightarrow> 'w"
  rk_flush :: "int \<Rightarrow> 'w \<Rightarrow> 'w"
  rk_err2str :: "rk_error \<Rightarrow> string"

section \<open>State\<close>

datatype poll_thread = NoThread | LoopTop | PollUnlocked | CondWait | Exited

record 'w producer =
  kp_config :: producer_config
  kp_world :: 'w
  kp_producer :: bool
  kp_pending :: "queued_record list"
  kp_thread :: poll_thread
  kp_running :: bool
  kp_sent_ok :: u64
  kp_dropped :: u64
  kp_errors :: u64
  kp_status :: producer_status
  kp_last_error :: string

definition new_producer :: "producer_config \<Rightarrow> 'w \<Rightarrow> 'w producer" where
  "new_producer cfg w =
     \<lparr>kp_config = cfg, kp_world = w, kp_producer = False, kp_pending = [],
      kp_thread = NoThread, kp_running = False, kp_sent_ok = 0, kp_dropped = 0,
      kp_errors = 0, kp_status = STOPPED, kp_last_error = []\<rparr>"

section \<open>Operations\<close>

definition update_last_error_locked :: "string \<Rightarrow> 'w producer \<Rightarrow> 'w producer" where
  "update_last_error_locked msg s = s\<lparr>kp_last_error := msg\<rparr>"

text \<open>An unset option sets nothing; the others are printed in decimal.\<close>

definition set_optional_conf :: "string \<Rightarrow> int option \<Rightarrow> (string \<times> string) list" where
  "set_optional_conf key v = (case v of None \<Rightarrow> [] | Some n \<Rightarrow> [(key, show_int n)])"

definition producer_settings :: "producer_config \<Rightarrow> (string \<times> string) list" where
  "producer_settings cfg =
     [(''bootstrap.servers'', bootstrap_servers cfg), (''client.id'', client_id cfg),
      (''acks'', acks cfg)]
     @ set_optional_conf ''linger.ms'' (linger_ms cfg)
     @ set_optional_conf ''batch.size'' (batch_size cfg)
     @ set_optional_conf ''queue.buffering.max.kbytes'' (queue_buffering_max_kbytes cfg)
     @ set_optional_conf ''max.in.flight.requests.per.connection'' (max_in_flight cfg)
     @ set_optional_conf ''retries'' (retries cfg)
     @ set_optional_conf ''retry.backoff.ms'' (retry_backoff_ms cfg)
     @ (if enable_idempotence cfg then [(''enable.idempotence'', ''true'')] else [])"

fun apply_conf ::
  "'w rdkafka \<Rightarrow> (string \<times> string) list \<Rightarrow> (string \<times> string) list
     \<Rightarrow> string + (string \<times> string) list" where
  "apply_conf lib [] conf = Inr conf"
| "apply_conf lib ((k, v) # kvs) conf =
     (case rk_conf_set lib conf k v of
        Some err \<Rightarrow> Inl err
      | None \<Rightarrow> apply_conf lib kvs (conf @ [(k, v)]))"

text \<open>\<open>None\<close> is success, \<open>Some\<close> the error message of a false return.\<close>

definition create_producer_locked ::
  "'w rdkafka \<Rightarrow> 'w producer \<Rightarrow> string option \<times> 'w producer" where
  "create_producer_locked lib s =
     (case apply_conf lib (producer_settings (kp_config s)) [] of
        Inl err \<Rightarrow> (Some err, s)
      | Inr conf \<Rightarrow>
          (case rk_create lib conf (kp_world s) of
             (Some err, w) \<Rightarrow> (Some err, s\<lparr>kp_world := w\<rparr>)
           | (None, w) \<Rightarrow>
               (None, s\<lparr>kp_world := w, kp_producer := True, kp_status := RUNNING,
                        kp_last_error := []\<rparr>)))"

definition produce_call_of :: "queued_record \<Rightarrow> produce_call" where
  "produce_call_of r =
     \<lparr>pc_topic = q_topic r, pc_payload = q_value r,
      pc_key = (if q_key r = [] then None else Some (q_key r)),
      pc_timestamp = q_timestamp_ms r,
      pc_headers = map (\<lambda>h. (header_key h, header_value h)) (q_headers r)\<rparr>"

definition try_produce_locked ::
  "'w rdkafka \<Rightarrow> queued_record \<Rightarrow> 'w producer \<Rightarrow> send_result \<times> 'w producer" where
  "try_produce_locked lib r s =
     (if \<not> kp_producer s
      then (\<lparr>res_status = PRODUCER_UNAVAILABLE, res_error = ''producer not available'',
             res_buffered = False\<rparr>, s)
      else case rk_produce lib (produce_call_of r) (kp_world s) of (err, w) \<Rightarrow>
        let s = s\<lparr>kp_world := w\<rparr> in
        if err = ERR_NO_ERROR
        then (\<lparr>res_status = SENT, res_error = [], res_buffered = False\<rparr>,
              s\<lparr>kp_sent_ok := kp_sent_ok s + 1\<rparr>)
        else if err = ERR_QUEUE_FULL
        then (\<lparr>res_status = QUEUE_FULL, res_error = rk_err2str lib err, res_buffered = False\<rparr>, s)
        else (\<lparr>res_status = SEND_ERROR, res_error = rk_err2str lib err, res_buffered = False\<rparr>,
              update_last_error_locked (rk_err2str lib err) (s\<lparr>kp_errors := kp_errors s + 1\<rparr>)))"

definition buffer_record :: "queued_record \<Rightarrow> 'w producer \<Rightarrow> send_result \<times> 'w producer" where
  "buffer_record r s =
     (if max_queue_messages (kp_config s) \<le> length (kp_pending s)
      then (\<lparr>res_status = QUEUE_FULL, res_error = ''pending buffer full'', res_buffered = False\<rparr>,
            s\<lparr>kp_dropped := kp_dropped s + 1\<rparr>)
      else (\<lparr>res_status = QUEUE_FULL, res_error = ''buffered for retry'', res_buffered = True\<rparr>,
            s\<lparr>kp_pending := kp_pending s @ [r]\<rparr>))"

definition send :: "'w rdkafka \<Rightarrow> queued_record \<Rightarrow> 'w producer \<Rightarrow> send_result \<times> 'w producer" where
  "send lib r s =
     (if \<not> kp_running s
      then (\<lparr>res_status = PRODUCER_UNAVAILABLE, res_error = ''producer stopped'',
             res_buffered = False\<rparr>, s)
      else if kp_producer s
      then (case try_produce_locked lib r s of (res, s') \<Rightarrow>
        if res_status res \<noteq> QUEUE_FULL \<or> drop_when_full (kp_config s')
        then (res, if res_status res = QUEUE_FULL \<and> drop_when_full (kp_config s')
                   then s'\<lparr>kp_dropped := kp_dropped s' + 1\<rparr> else s')
        else buffer_record r s')
      else buffer_record r s)"

lemma try_produce_pending:
  "try_produce_locked lib r s = (res, s') \<Longrightarrow> kp_pending s' = kp_pending s"
  by (auto simp: try_produce_locked_def update_last_error_locked_def Let_def
        split: if_splits prod.splits)

text \<open>
  The inner loop of poll_loop(): the front record is tried; a full library queue stops the loop
  when records may wait, and costs the record when they are dropped; every other result removes
  the record.
\<close>

function drain_pending :: "'w rdkafka \<Rightarrow> 'w producer \<Rightarrow> 'w producer" where
  "drain_pending lib s =
     (case kp_pending s of
        [] \<Rightarrow> s
      | r # _ \<Rightarrow>
          (case try_produce_locked lib r s of (res, s') \<Rightarrow>
             if res_status res = QUEUE_FULL \<and> \<not> drop_when_full (kp_config s') then s'
             else
               (let s'' = (if res_status res = QUEUE_FULL \<and> drop_when_full (kp_config s')
                           then s'\<lparr>kp_dropped := kp_dropped s' + 1\<rparr> else s')
                in drain_pending lib (s''\<lparr>kp_pending := tl (kp_pending s'')\<rparr>))))"
  by pat_completeness auto
termination
  by (relation "measure (\<lambda>(lib, s). length (kp_pending s))") 
     (auto split: if_splits dest!: try_produce_pending [OF sym])

declare drain_pending.simps [simp del]

text \<open>The locked section of one iteration: create the producer if there is none, then drain.\<close>

definition poll_locked :: "'w rdkafka \<Rightarrow> 'w producer \<Rightarrow> 'w producer" where
  "poll_locked lib s =
     (let s1 = (if kp_producer s then s
                else case create_producer_locked lib s of
                  (None, s') \<Rightarrow> s'
                | (Some err, s') \<Rightarrow>
                    update_last_error_locked err (s'\<lparr>kp_status := DEGRADED\<rparr>))
      in if kp_producer s1 then drain_pending lib s1 else s1)"

definition poll_unlocked :: "'w rdkafka \<Rightarrow> 'w producer \<Rightarrow> 'w producer" where
  "poll_unlocked lib s =
     (if kp_producer s
      then s\<lparr>kp_world := rk_poll lib (poll_timeout_ms (kp_config s)) (kp_world s)\<rparr> else s)"

text \<open>
  The wait at the end of an iteration: how long the condition variable may block.  wait_for with
  a predicate returns at once when the predicate already holds.
\<close>

definition wait_predicate :: "'w producer \<Rightarrow> bool" where
  "wait_predicate s \<longleftrightarrow> \<not> kp_running s \<or> kp_pending s \<noteq> []"

definition poll_wait_ms :: "'w producer \<Rightarrow> int" where
  "poll_wait_ms s =
     (if wait_predicate s then 0
      else if kp_producer s then poll_timeout_ms (kp_config s)
      else reconnect_backoff_ms (kp_config s))"

text \<open>
  start(): the compare-and-swap that claims the producer, and the locked rest.  A STRICT start
  gives the claim back on failure; a TOLERANT one goes on without a producer.
\<close>

definition start_rest :: "'w rdkafka \<Rightarrow> 'w producer \<Rightarrow> bool \<times> 'w producer" where
  "start_rest lib s =
     (case create_producer_locked lib s of
        (None, s') \<Rightarrow> (True, s'\<lparr>kp_thread := LoopTop\<rparr>)
      | (Some err, s') \<Rightarrow>
          if startup_mode (kp_config s') = STRICT
          then (False, update_last_error_locked err
                         (s'\<lparr>kp_running := False, kp_status := FAILED\<rparr>))
          else (True, (update_last_error_locked err (s'\<lparr>kp_status := DEGRADED\<rparr>))
                        \<lparr>kp_thread := LoopTop\<rparr>))"

definition start :: "'w rdkafka \<Rightarrow> 'w producer \<Rightarrow> bool \<times> 'w producer" where
  "start lib s =
     (if kp_running s then (True, s)
      else start_rest lib (s\<lparr>kp_running := True, kp_status := STARTING\<rparr>))"

text \<open>
  stop(): the compare-and-swap, the join (the thread finishes the iteration it is in) and the
  locked shutdown.
\<close>

definition stop_flag :: "'w producer \<Rightarrow> 'w producer" where
  "stop_flag s = s\<lparr>kp_running := False\<rparr>"

definition join_thread :: "'w rdkafka \<Rightarrow> 'w producer \<Rightarrow> 'w producer" where
  "join_thread lib s =
     (if kp_thread s = PollUnlocked then poll_unlocked lib s else s)\<lparr>kp_thread := NoThread\<rparr>"

definition stop_rest :: "'w rdkafka \<Rightarrow> 'w producer \<Rightarrow> 'w producer" where
  "stop_rest lib s =
     (let s = (if kp_producer s
               then s\<lparr>kp_world := rk_flush lib (flush_timeout_ms (kp_config s)) (kp_world s)\<rparr>
               else s)
      in s\<lparr>kp_producer := False, kp_pending := [], kp_status := STOPPED\<rparr>)"

definition stop :: "'w rdkafka \<Rightarrow> 'w producer \<Rightarrow> 'w producer" where
  "stop lib s =
     (if \<not> kp_running s then s else stop_rest lib (join_thread lib (stop_flag s)))"

definition health :: "'w producer \<Rightarrow> producer_health" where
  "health s =
     \<lparr>h_status = kp_status s, h_last_error = kp_last_error s, h_sent_ok = kp_sent_ok s,
      h_dropped_queue_full = kp_dropped s, h_send_errors = kp_errors s\<rparr>"

section \<open>One call at a time\<close>

text \<open>The three results of a produce() call, each with the state it leaves.\<close>

lemma try_produce_cases:
  assumes "kp_producer s" and "try_produce_locked lib r s = (res, s')"
  obtains
    (sent) w where "rk_produce lib (produce_call_of r) (kp_world s) = (ERR_NO_ERROR, w)"
      "res = \<lparr>res_status = SENT, res_error = [], res_buffered = False\<rparr>"
      "s' = s\<lparr>kp_world := w, kp_sent_ok := kp_sent_ok s + 1\<rparr>"
  | (full) w where "rk_produce lib (produce_call_of r) (kp_world s) = (ERR_QUEUE_FULL, w)"
      "res = \<lparr>res_status = QUEUE_FULL, res_error = rk_err2str lib ERR_QUEUE_FULL,
              res_buffered = False\<rparr>"
      "s' = s\<lparr>kp_world := w\<rparr>"
  | (error) w n where "rk_produce lib (produce_call_of r) (kp_world s) = (ERR_OTHER n, w)"
      "res = \<lparr>res_status = SEND_ERROR, res_error = rk_err2str lib (ERR_OTHER n),
              res_buffered = False\<rparr>"
      "s' = s\<lparr>kp_world := w, kp_errors := kp_errors s + 1,
              kp_last_error := rk_err2str lib (ERR_OTHER n)\<rparr>"
proof -
  obtain err w where p: "rk_produce lib (produce_call_of r) (kp_world s) = (err, w)"
    by (cases "rk_produce lib (produce_call_of r) (kp_world s)")
  show thesis
  proof (cases err)
    case ERR_NO_ERROR
    then show thesis using sent [of w] p assms by (simp add: try_produce_locked_def)
  next
    case ERR_QUEUE_FULL
    then show thesis using full [of w] p assms by (simp add: try_produce_locked_def)
  next
    case (ERR_OTHER n)
    then show thesis
      using error [of n w] p assms
      by (simp add: try_produce_locked_def update_last_error_locked_def)
  qed
qed

text \<open>What no send and no poll changes: configuration, claim, producer handle and thread.\<close>

definition same_shell :: "'w producer \<Rightarrow> 'w producer \<Rightarrow> bool" where
  "same_shell s s' \<longleftrightarrow> kp_config s' = kp_config s \<and> kp_running s' = kp_running s \<and>
     kp_producer s' = kp_producer s \<and> kp_thread s' = kp_thread s \<and> kp_status s' = kp_status s"

lemma same_shell_refl [simp]: "same_shell s s"
  by (simp add: same_shell_def)

lemma same_shell_trans: "same_shell a b \<Longrightarrow> same_shell b c \<Longrightarrow> same_shell a c"
  by (simp add: same_shell_def)

lemma try_produce_shell:
  "try_produce_locked lib r s = (res, s') \<Longrightarrow> same_shell s s'"
  by (auto simp: try_produce_locked_def update_last_error_locked_def Let_def same_shell_def
        split: if_splits prod.splits)

lemma send_shell: "send lib r s = (res, s') \<Longrightarrow> same_shell s s'"
  using try_produce_shell [of lib r s]
  by (auto simp: send_def buffer_record_def same_shell_def split: if_splits prod.splits)

text \<open>
  The number of records the producer has taken and settled or still holds.  The counters are
  64-bit words, so the sum is one too.
\<close>

definition settled :: "'w producer \<Rightarrow> u64" where
  "settled s = kp_sent_ok s + kp_dropped s + kp_errors s + of_nat (length (kp_pending s))"

lemma settled_updates [simp]:
  "settled (s\<lparr>kp_dropped := kp_dropped s + 1\<rparr>) = settled s + 1"
  "settled (s\<lparr>kp_sent_ok := kp_sent_ok s + 1\<rparr>) = settled s + 1"
  "settled (s\<lparr>kp_errors := kp_errors s + 1\<rparr>) = settled s + 1"
  by (simp_all add: settled_def)

lemma buffer_record_settled:
  "buffer_record r s = (res, s') \<Longrightarrow> settled s' = settled s + 1"
  by (auto simp: buffer_record_def settled_def split: if_splits)

lemma send_settled:
  assumes run: "kp_running s" and snd: "send lib r s = (res, s')"
  shows "settled s' = settled s + 1"
proof (cases "kp_producer s")
  case False
  with run snd show ?thesis by (simp add: send_def buffer_record_settled)
next
  case True
  obtain res1 s1 where t: "try_produce_locked lib r s = (res1, s1)"
    by (cases "try_produce_locked lib r s")
  from True t show ?thesis
  proof (cases rule: try_produce_cases)
    case (sent w)
    with run True snd t show ?thesis by (auto simp: send_def settled_def)
  next
    case (full w)
    have eq: "settled s1 = settled s" using full by (simp add: settled_def)
    show ?thesis
    proof (cases "drop_when_full (kp_config s1)")
      case True
      with run \<open>kp_producer s\<close> snd t full have "s' = s1\<lparr>kp_dropped := kp_dropped s1 + 1\<rparr>"
        by (simp add: send_def split: if_splits)
      then show ?thesis using eq by simp
    next
      case False
      with run \<open>kp_producer s\<close> snd t full have "buffer_record r s1 = (res, s')"
        by (simp add: send_def)
      then show ?thesis using eq by (simp add: buffer_record_settled)
    qed
  next
    case (error w n)
    with run True snd t show ?thesis by (auto simp: send_def settled_def)
  qed
qed

lemma send_stopped:
  "\<not> kp_running s \<Longrightarrow> send lib r s =
     (\<lparr>res_status = PRODUCER_UNAVAILABLE, res_error = ''producer stopped'',
       res_buffered = False\<rparr>, s)"
  by (simp add: send_def)

lemma buffer_record_bounded:
  "length (kp_pending s) \<le> max_queue_messages (kp_config s) \<Longrightarrow> buffer_record r s = (res, s') \<Longrightarrow>
     length (kp_pending s') \<le> max_queue_messages (kp_config s')"
  by (auto simp: buffer_record_def split: if_splits)

lemma send_bounded:
  assumes bound: "length (kp_pending s) \<le> max_queue_messages (kp_config s)"
    and snd: "send lib r s = (res, s')"
  shows "length (kp_pending s') \<le> max_queue_messages (kp_config s')"
proof (cases "kp_running s \<and> kp_producer s")
  case False
  with snd bound show ?thesis
    by (auto simp: send_def intro: buffer_record_bounded split: if_splits)
next
  case True
  obtain res1 s1 where t: "try_produce_locked lib r s = (res1, s1)"
    by (cases "try_produce_locked lib r s")
  then have b1: "length (kp_pending s1) \<le> max_queue_messages (kp_config s1)"
    using bound try_produce_shell [OF t] try_produce_pending [OF t] by (simp add: same_shell_def)
  from True t snd b1 buffer_record_bounded [OF b1] show ?thesis
    by (auto simp: send_def split: if_splits)
qed

section \<open>The drain loop\<close>

text \<open>
  What the loop is for: hand the waiting records to the library in the order they were accepted,
  stop at the first one that must wait.  The result is the records that still wait and the
  library after the calls.
\<close>

fun hand_over ::
  "'w rdkafka \<Rightarrow> bool \<Rightarrow> queued_record list \<Rightarrow> 'w \<Rightarrow> queued_record list \<times> 'w" where
  "hand_over lib drops [] w = ([], w)"
| "hand_over lib drops (r # rs) w =
     (case rk_produce lib (produce_call_of r) w of (err, w') \<Rightarrow>
        if err = ERR_QUEUE_FULL \<and> \<not> drops then (r # rs, w') else hand_over lib drops rs w')"

lemma hand_over_suffix: "\<exists>gone. rs = gone @ fst (hand_over lib drops rs w)"
proof (induction lib drops rs w rule: hand_over.induct)
  case (2 lib drops r rs w)
  obtain err w' where p: "rk_produce lib (produce_call_of r) w = (err, w')"
    by (cases "rk_produce lib (produce_call_of r) w")
  show ?case
  proof (cases "err = ERR_QUEUE_FULL \<and> \<not> drops")
    case True
    with p show ?thesis by simp
  next
    case False
    then obtain gone where "rs = gone @ fst (hand_over lib drops rs w')"
      using "2.IH" [OF p [symmetric] False] by blast
    with p False have "r # rs = (r # gone) @ fst (hand_over lib drops (r # rs) w)" by auto
    then show ?thesis by blast
  qed
qed simp

lemma hand_over_drops: "fst (hand_over lib True rs w) = []"
  by (induction rs arbitrary: w) (auto split: prod.splits)

lemma drain_unfold:
  "kp_pending s = [] \<Longrightarrow> drain_pending lib s = s"
  "kp_pending s = r # rs \<Longrightarrow> try_produce_locked lib r s = (res, s') \<Longrightarrow>
     drain_pending lib s =
       (if res_status res = QUEUE_FULL \<and> \<not> drop_when_full (kp_config s') then s'
        else drain_pending lib
          ((if res_status res = QUEUE_FULL then s'\<lparr>kp_dropped := kp_dropped s' + 1\<rparr> else s')
             \<lparr>kp_pending := rs\<rparr>))"
  by (simp_all add: drain_pending.simps [of lib s] try_produce_pending)

text \<open>The counters and buffer after one removal, for the induction over the loop.\<close>

lemma drain_induct [consumes 1, case_names empty full step]:
  assumes prod: "kp_producer s"
    and empty: "\<And>s. kp_producer s \<Longrightarrow> kp_pending s = [] \<Longrightarrow> P s s"
    and full: "\<And>s r rs w. kp_producer s \<Longrightarrow> kp_pending s = r # rs \<Longrightarrow>
        rk_produce lib (produce_call_of r) (kp_world s) = (ERR_QUEUE_FULL, w) \<Longrightarrow>
        \<not> drop_when_full (kp_config s) \<Longrightarrow> P s (s\<lparr>kp_world := w\<rparr>)"
    and step: "\<And>s r rs err w s1 t. kp_producer s \<Longrightarrow> kp_pending s = r # rs \<Longrightarrow>
        rk_produce lib (produce_call_of r) (kp_world s) = (err, w) \<Longrightarrow>
        err = ERR_QUEUE_FULL \<longrightarrow> drop_when_full (kp_config s) \<Longrightarrow>
        same_shell s s1 \<Longrightarrow> kp_pending s1 = rs \<Longrightarrow> kp_world s1 = w \<Longrightarrow>
        settled s1 = settled s \<Longrightarrow> P s1 t \<Longrightarrow> P s t"
  shows "P s (drain_pending lib s)"
  using prod
proof (induction "length (kp_pending s)" arbitrary: s)
  case 0
  then show ?case using empty by (simp add: drain_unfold)
next
  case (Suc n)
  then obtain r rs where p: "kp_pending s = r # rs" by (cases "kp_pending s") auto
  obtain res s' where t: "try_produce_locked lib r s = (res, s')"
    by (cases "try_produce_locked lib r s")
  note d = drain_unfold(2) [OF p t]
  have n: "n = length rs" using Suc.hyps(2) p by simp
  have go: "P s (drain_pending lib s1)"
    if "rk_produce lib (produce_call_of r) (kp_world s) = (err, w)"
      "err = ERR_QUEUE_FULL \<longrightarrow> drop_when_full (kp_config s)"
      "same_shell s s1" "kp_pending s1 = rs" "kp_world s1 = w" "settled s1 = settled s"
    for err w s1
  proof -
    have "kp_producer s1" using that(3) Suc.prems by (simp add: same_shell_def)
    then have "P s1 (drain_pending lib s1)" using Suc.hyps(1) [of s1] that(4) n by simp
    then show ?thesis using step [OF Suc.prems p that] by blast
  qed
  from Suc.prems t show ?case
  proof (cases rule: try_produce_cases)
    case (sent w)
    then show ?thesis using go [OF sent(1)] d p by (simp add: same_shell_def settled_def)
  next
    case (full w)
    show ?thesis
    proof (cases "drop_when_full (kp_config s)")
      case True
      with full show ?thesis using go [OF full(1)] d p by (simp add: same_shell_def settled_def)
    next
      case False
      with full d show ?thesis using assms(3) [OF Suc.prems p full(1) False] by simp
    qed
  next
    case (error w n)
    then show ?thesis using go [OF error(1)] d p by (simp add: same_shell_def settled_def)
  qed
qed

lemma drain_shell: "kp_producer s \<Longrightarrow> same_shell s (drain_pending lib s)"
  by (induction rule: drain_induct) (auto simp: same_shell_def)

lemma drain_settled: "kp_producer s \<Longrightarrow> settled (drain_pending lib s) = settled s"
  by (induction rule: drain_induct) (simp_all add: settled_def)

lemma drain_hand_over:
  "kp_producer s \<Longrightarrow>
     (kp_pending (drain_pending lib s), kp_world (drain_pending lib s)) =
       hand_over lib (drop_when_full (kp_config s)) (kp_pending s) (kp_world s)"
  by (induction rule: drain_induct) (auto simp: same_shell_def)

section \<open>Every interleaving\<close>

text \<open>
  The senders, the poll thread and the owner of the producer interleave.  A step is one locked
  section or one unlocked library call; its event records what the accounting needs: whether a
  send was accepted, and how many waiting records a shutdown discards.  A start is two steps, the
  claim and the rest, with senders in between; the lifecycle nodes that own a producer never
  overlap a start with a stop.
\<close>

datatype kp_event =
    Ev_send queued_record bool
  | Ev_poll_locked | Ev_poll_unlocked | Ev_wake | Ev_exit
  | Ev_start_claim | Ev_start_rest | Ev_stop_flag | Ev_stop_rest nat

inductive kp_step :: "'w rdkafka \<Rightarrow> 'w producer \<Rightarrow> kp_event \<Rightarrow> 'w producer \<Rightarrow> bool"
  for lib where
  step_send: "kp_step lib s (Ev_send r (kp_running s)) (snd (send lib r s))"
| step_poll: "kp_thread s = LoopTop \<Longrightarrow> kp_running s \<Longrightarrow>
    kp_step lib s Ev_poll_locked ((poll_locked lib s)\<lparr>kp_thread := PollUnlocked\<rparr>)"
| step_unlocked: "kp_thread s = PollUnlocked \<Longrightarrow>
    kp_step lib s Ev_poll_unlocked ((poll_unlocked lib s)\<lparr>kp_thread := CondWait\<rparr>)"
| step_wake: "kp_thread s = CondWait \<Longrightarrow> kp_step lib s Ev_wake (s\<lparr>kp_thread := LoopTop\<rparr>)"
| step_exit: "kp_thread s = LoopTop \<Longrightarrow> \<not> kp_running s \<Longrightarrow>
    kp_step lib s Ev_exit (s\<lparr>kp_thread := Exited\<rparr>)"
| step_claim: "kp_thread s = NoThread \<Longrightarrow> \<not> kp_running s \<Longrightarrow>
    kp_step lib s Ev_start_claim (s\<lparr>kp_running := True, kp_status := STARTING\<rparr>)"
| step_start: "kp_thread s = NoThread \<Longrightarrow> kp_running s \<Longrightarrow>
    kp_step lib s Ev_start_rest (snd (start_rest lib s))"
| step_flag: "kp_thread s \<in> {LoopTop, PollUnlocked, CondWait} \<Longrightarrow> kp_running s \<Longrightarrow>
    kp_step lib s Ev_stop_flag (stop_flag s)"
| step_stop: "kp_thread s = Exited \<Longrightarrow> \<not> kp_running s \<Longrightarrow>
    kp_step lib s (Ev_stop_rest (length (kp_pending s)))
      ((stop_rest lib s)\<lparr>kp_thread := NoThread\<rparr>)"

inductive_cases kp_step_E: "kp_step lib s e s'"

inductive kp_run :: "'w rdkafka \<Rightarrow> 'w producer \<Rightarrow> kp_event list \<Rightarrow> 'w producer \<Rightarrow> bool"
  for lib s where
  run_nil: "kp_run lib s [] s"
| run_snoc: "kp_run lib s es t \<Longrightarrow> kp_step lib t e u \<Longrightarrow> kp_run lib s (es @ [e]) u"

fun accepted :: "kp_event \<Rightarrow> nat" where
  "accepted (Ev_send r ok) = (if ok then 1 else 0)"
| "accepted _ = 0"

fun discarded :: "kp_event \<Rightarrow> nat" where
  "discarded (Ev_stop_rest n) = n"
| "discarded _ = 0"

text \<open>
  The invariant.  While the poll thread exists the status says whether there is a librdkafka
  producer; without a thread and without a claim there is none.
\<close>

definition kp_inv :: "'w producer \<Rightarrow> bool" where
  "kp_inv s \<longleftrightarrow>
     length (kp_pending s) \<le> max_queue_messages (kp_config s) \<and>
     (kp_thread s = NoThread \<longrightarrow> \<not> kp_producer s) \<and>
     (kp_thread s \<noteq> NoThread \<longrightarrow> kp_status s = (if kp_producer s then RUNNING else DEGRADED)) \<and>
     (kp_thread s = Exited \<longrightarrow> \<not> kp_running s)"

lemma create_producer_cases:
  assumes "create_producer_locked lib s = (e, s')"
  obtains (ok) w where "e = None"
      "s' = s\<lparr>kp_world := w, kp_producer := True, kp_status := RUNNING, kp_last_error := []\<rparr>"
  | (failed) w err where "e = Some err" "s' = s\<lparr>kp_world := w\<rparr>"
  using assms
  by (auto simp: create_producer_locked_def split: sum.splits prod.splits option.splits)
     (metis surjective update_convs(2))

lemma drain_facts:
  assumes "kp_producer s"
  shows "kp_config (drain_pending lib s) = kp_config s"
    and "kp_producer (drain_pending lib s)"
    and "kp_running (drain_pending lib s) = kp_running s"
    and "kp_status (drain_pending lib s) = kp_status s"
    and "kp_thread (drain_pending lib s) = kp_thread s"
    and "length (kp_pending (drain_pending lib s)) \<le> length (kp_pending s)"
proof -
  from drain_shell [OF assms, of lib] assms
  show "kp_config (drain_pending lib s) = kp_config s" "kp_producer (drain_pending lib s)"
    "kp_running (drain_pending lib s) = kp_running s"
    "kp_status (drain_pending lib s) = kp_status s"
    "kp_thread (drain_pending lib s) = kp_thread s"
    by (simp_all add: same_shell_def)
  have "kp_pending (drain_pending lib s) =
      fst (hand_over lib (drop_when_full (kp_config s)) (kp_pending s) (kp_world s))"
    using drain_hand_over [OF assms, of lib] by (metis fst_conv)
  then show "length (kp_pending (drain_pending lib s)) \<le> length (kp_pending s)"
    using hand_over_suffix [of "kp_pending s" lib "drop_when_full (kp_config s)" "kp_world s"]
    by (metis length_append le_add2)
qed

lemma poll_locked_facts:
  shows "kp_config (poll_locked lib s) = kp_config s"
    and "kp_running (poll_locked lib s) = kp_running s"
    and "kp_thread (poll_locked lib s) = kp_thread s"
    and "length (kp_pending (poll_locked lib s)) \<le> length (kp_pending s)"
    and "settled (poll_locked lib s) = settled s"
    and "\<not> kp_producer s \<or> kp_status s = RUNNING \<Longrightarrow>
      kp_status (poll_locked lib s) =
        (if kp_producer (poll_locked lib s) then RUNNING else DEGRADED)"
proof -
  obtain e s1 where c: "create_producer_locked lib s = (e, s1)"
    by (cases "create_producer_locked lib s")
  let ?G = "\<lambda>t. kp_config t = kp_config s \<and> kp_running t = kp_running s \<and>
    kp_thread t = kp_thread s \<and> length (kp_pending t) \<le> length (kp_pending s) \<and>
    settled t = settled s \<and>
    (\<not> kp_producer s \<or> kp_status s = RUNNING \<longrightarrow>
       kp_status t = (if kp_producer t then RUNNING else DEGRADED))"
  have "?G (poll_locked lib s)"
  proof (cases "kp_producer s")
    case True
    then show ?thesis by (simp add: poll_locked_def drain_facts drain_settled)
  next
    case False
    from c show ?thesis
    proof (cases rule: create_producer_cases)
      case (ok w)
      let ?t = "s\<lparr>kp_world := w, kp_producer := True, kp_status := RUNNING, kp_last_error := []\<rparr>"
      have "poll_locked lib s = drain_pending lib ?t"
        using ok c False by (simp add: poll_locked_def)
      moreover have "settled ?t = settled s" by (simp add: settled_def)
      ultimately show ?thesis
        using drain_facts [of ?t lib] drain_settled [of ?t lib] by simp
    next
      case (failed w err)
      with c False show ?thesis
        by (simp add: poll_locked_def update_last_error_locked_def settled_def)
    qed
  qed
  then show "kp_config (poll_locked lib s) = kp_config s"
    "kp_running (poll_locked lib s) = kp_running s"
    "kp_thread (poll_locked lib s) = kp_thread s"
    "length (kp_pending (poll_locked lib s)) \<le> length (kp_pending s)"
    "settled (poll_locked lib s) = settled s"
    "\<not> kp_producer s \<or> kp_status s = RUNNING \<Longrightarrow>
      kp_status (poll_locked lib s) =
        (if kp_producer (poll_locked lib s) then RUNNING else DEGRADED)"
    by simp_all
qed

lemma start_rest_facts:
  assumes "\<not> kp_producer s"
  shows "kp_config (snd (start_rest lib s)) = kp_config s"
    and "kp_pending (snd (start_rest lib s)) = kp_pending s"
    and "settled (snd (start_rest lib s)) = settled s"
    and "kp_thread s = NoThread \<Longrightarrow> kp_thread (snd (start_rest lib s)) = NoThread \<Longrightarrow>
      \<not> kp_producer (snd (start_rest lib s))"
    and "kp_thread s = NoThread \<Longrightarrow> kp_thread (snd (start_rest lib s)) \<noteq> NoThread \<Longrightarrow>
      kp_thread (snd (start_rest lib s)) = LoopTop \<and>
      kp_status (snd (start_rest lib s)) =
        (if kp_producer (snd (start_rest lib s)) then RUNNING else DEGRADED)"
proof -
  obtain e s1 where c: "create_producer_locked lib s = (e, s1)"
    by (cases "create_producer_locked lib s")
  let ?G = "\<lambda>t. kp_config t = kp_config s \<and> kp_pending t = kp_pending s \<and>
    settled t = settled s \<and>
    (kp_thread s = NoThread \<longrightarrow>
       (if kp_thread t = NoThread then \<not> kp_producer t
        else kp_thread t = LoopTop \<and> kp_status t = (if kp_producer t then RUNNING else DEGRADED)))"
  from c have "?G (snd (start_rest lib s))"
  proof (cases rule: create_producer_cases)
    case (ok w)
    with c show ?thesis by (simp add: start_rest_def settled_def)
  next
    case (failed w err)
    with c assms show ?thesis
      by (simp add: start_rest_def update_last_error_locked_def settled_def)
  qed
  then show "kp_config (snd (start_rest lib s)) = kp_config s"
    "kp_pending (snd (start_rest lib s)) = kp_pending s"
    "settled (snd (start_rest lib s)) = settled s"
    "kp_thread s = NoThread \<Longrightarrow> kp_thread (snd (start_rest lib s)) = NoThread \<Longrightarrow>
      \<not> kp_producer (snd (start_rest lib s))"
    "kp_thread s = NoThread \<Longrightarrow> kp_thread (snd (start_rest lib s)) \<noteq> NoThread \<Longrightarrow>
      kp_thread (snd (start_rest lib s)) = LoopTop \<and>
      kp_status (snd (start_rest lib s)) =
        (if kp_producer (snd (start_rest lib s)) then RUNNING else DEGRADED)"
    by auto
qed

lemma poll_unlocked_fields [simp]:
  "kp_config (poll_unlocked lib s) = kp_config s"
  "kp_pending (poll_unlocked lib s) = kp_pending s"
  "kp_producer (poll_unlocked lib s) = kp_producer s"
  "kp_status (poll_unlocked lib s) = kp_status s"
  "kp_running (poll_unlocked lib s) = kp_running s"
  "settled (poll_unlocked lib s) = settled s"
  by (simp_all add: poll_unlocked_def settled_def)

lemma stop_rest_fields [simp]:
  "kp_config (stop_rest lib s) = kp_config s"
  "kp_pending (stop_rest lib s) = []"
  "kp_producer (stop_rest lib s) = False"
  "kp_status (stop_rest lib s) = STOPPED"
  "kp_running (stop_rest lib s) = kp_running s"
  "kp_thread (stop_rest lib s) = kp_thread s"
  "settled (stop_rest lib s) = settled s - of_nat (length (kp_pending s))"
  by (simp_all add: stop_rest_def settled_def Let_def)

lemma settled_thread [simp]:
  "settled (s\<lparr>kp_thread := t\<rparr>) = settled s"
  "settled (s\<lparr>kp_running := b\<rparr>) = settled s"
  "settled (s\<lparr>kp_status := x\<rparr>) = settled s"
  by (simp_all add: settled_def)

lemma kp_step_inv: "kp_step lib s e s' \<Longrightarrow> kp_inv s \<Longrightarrow> kp_inv s'"
proof (induction rule: kp_step.induct)
  case (step_send s r)
  obtain res t where t: "send lib r s = (res, t)" by (cases "send lib r s")
  have "length (kp_pending t) \<le> max_queue_messages (kp_config t)"
    using step_send t by (auto simp: kp_inv_def intro: send_bounded)
  with send_shell [OF t] step_send t show ?case by (simp add: kp_inv_def same_shell_def)
next
  case (step_poll s)
  then show ?case
    using poll_locked_facts [where lib = lib and s = s] by (auto simp: kp_inv_def split: if_splits)
next
  case (step_start s)
  then show ?case using start_rest_facts [of s lib] by (auto simp: kp_inv_def)
qed (auto simp: kp_inv_def stop_flag_def)

lemma kp_run_inv: "kp_run lib s es t \<Longrightarrow> kp_inv s \<Longrightarrow> kp_inv t"
  by (induction rule: kp_run.induct) (auto intro: kp_step_inv)

lemma kp_inv_new: "kp_inv (new_producer cfg w)"
  by (simp add: kp_inv_def new_producer_def)

lemma kp_step_settled:
  "kp_step lib s e s' \<Longrightarrow> kp_inv s \<Longrightarrow>
     settled s' + of_nat (discarded e) = settled s + of_nat (accepted e)"
proof (induction rule: kp_step.induct)
  case (step_send s r)
  obtain res t where t: "send lib r s = (res, t)" by (cases "send lib r s")
  then show ?case by (cases "kp_running s") (simp_all add: send_settled send_stopped)
next
  case (step_start s)
  then show ?case by (simp add: kp_inv_def start_rest_facts)
qed (simp_all add: poll_locked_facts stop_flag_def)

lemma kp_run_settled:
  "kp_run lib s es t \<Longrightarrow> kp_inv s \<Longrightarrow>
     settled t + of_nat (sum_list (map discarded es)) =
       settled s + of_nat (sum_list (map accepted es))"
proof (induction rule: kp_run.induct)
  case run_nil
  show ?case by simp
next
  case (run_snoc es t e u)
  have "kp_inv t" using run_snoc.hyps(1) run_snoc.prems by (rule kp_run_inv)
  with run_snoc.hyps(2) have "settled u + of_nat (discarded e) = settled t + of_nat (accepted e)"
    by (rule kp_step_settled)
  then have "settled u + of_nat (discarded e) + of_nat (sum_list (map discarded es)) =
      settled t + of_nat (sum_list (map discarded es)) + of_nat (accepted e)"
    by (simp only: ac_simps)
  then show ?case using run_snoc by (simp add: ac_simps)
qed

lemma kp_step_config: "kp_step lib a e b \<Longrightarrow> kp_inv a \<Longrightarrow> kp_config b = kp_config a"
proof (induction rule: kp_step.induct)
  case (step_send s r)
  obtain res t where "send lib r s = (res, t)" by (cases "send lib r s")
  with send_shell [OF this] show ?case by (simp add: same_shell_def)
qed (simp_all add: poll_locked_facts start_rest_facts kp_inv_def stop_flag_def)

text \<open>A claimed producer stays claimed while its thread polls and while records are sent.\<close>

lemma send_up:
  assumes "kp_inv p" "kp_running p" "send lib r p = (res, p')"
  shows "kp_inv p' \<and> kp_running p'"
proof
  have "kp_step lib p (Ev_send r (kp_running p)) p'"
    using step_send [of lib p r] assms(3) by simp
  then show "kp_inv p'" by (rule kp_step_inv [OF _ assms(1)])
  show "kp_running p'" using send_shell [OF assms(3)] assms(2) by (simp add: same_shell_def)
qed

lemma poll_step_up:
  assumes "kp_inv p" "kp_running p" "kp_step lib p e p'"
    and "e \<in> {Ev_poll_locked, Ev_poll_unlocked, Ev_wake}"
  shows "kp_inv p' \<and> kp_running p'"
proof
  show "kp_inv p'" by (rule kp_step_inv [OF assms(3,1)])
  show "kp_running p'"
    using assms(2-4) poll_locked_facts [where lib = lib and s = p] by (auto elim: kp_step_E)
qed

text \<open>A new producer that starts is up.\<close>

lemma start_rest_running: "start_rest lib s = (True, t) \<Longrightarrow> kp_running t = kp_running s"
  by (auto simp: start_rest_def create_producer_locked_def update_last_error_locked_def
      split: sum.splits prod.splits option.splits if_splits)

lemma start_new:
  assumes "start lib (new_producer cfg w) = (True, p)"
  shows "kp_inv p \<and> kp_running p"
proof -
  let ?n = "new_producer cfg w" and ?c = "(new_producer cfg w)\<lparr>kp_running := True, kp_status := STARTING\<rparr>"
  have rest: "start_rest lib ?c = (True, p)"
    using assms by (simp add: start_def new_producer_def)
  have "kp_step lib ?n Ev_start_claim ?c"
    by (rule step_claim) (simp_all add: new_producer_def)
  then have "kp_inv ?c" using kp_inv_new by (rule kp_step_inv)
  moreover have "kp_step lib ?c Ev_start_rest (snd (start_rest lib ?c))"
    by (rule step_start) (simp_all add: new_producer_def)
  ultimately have "kp_inv p" using rest by (auto dest: kp_step_inv)
  moreover have "kp_running p" using start_rest_running [OF rest] by simp
  ultimately show ?thesis ..
qed

lemma kp_run_config: "kp_run lib s es t \<Longrightarrow> kp_inv s \<Longrightarrow> kp_config t = kp_config s"
  by (induction rule: kp_run.induct) (auto dest: kp_step_config kp_run_inv)

section \<open>A sample library and run\<close>

text \<open>
  A librdkafka instance for concrete runs: its state is the list of calls it has accepted, it
  takes \<open>cap\<close> of them before its queue is full, and it can be created when \<open>up\<close> holds.
\<close>

definition sample_rdkafka :: "bool \<Rightarrow> nat \<Rightarrow> produce_call list rdkafka" where
  "sample_rdkafka up cap =
     \<lparr>rk_conf_set = (\<lambda>_ _ _. None),
      rk_create = (\<lambda>_ w. (if up then None else Some ''no broker'', w)),
      rk_produce = (\<lambda>c w. if cap \<le> length w then (ERR_QUEUE_FULL, w)
                          else (ERR_NO_ERROR, w @ [c])),
      rk_poll = (\<lambda>_ w. w), rk_flush = (\<lambda>_ w. w),
      rk_err2str = (\<lambda>_. ''queue full'')\<rparr>"

definition sample_record :: "string \<Rightarrow> queued_record" where
  "sample_record t =
     \<lparr>q_topic = t, q_key = [], q_value = [1, 2], q_timestamp_ms = 0, q_headers = []\<rparr>"

definition sample_started :: "bool \<Rightarrow> nat \<Rightarrow> produce_call list producer" where
  "sample_started up cap =
     (new_producer default_producer_config [])
       \<lparr>kp_producer := up, kp_thread := LoopTop, kp_running := True,
        kp_status := (if up then RUNNING else DEGRADED),
        kp_last_error := (if up then [] else ''no broker'')\<rparr>"

lemma sample_conf [simp]: "apply_conf (sample_rdkafka up cap) kvs conf = Inr (conf @ kvs)"
  by (induction kvs arbitrary: conf) (auto simp: sample_rdkafka_def)

lemma sample_rdkafka_simps [simp]:
  "rk_create (sample_rdkafka up cap) conf w = (if up then None else Some ''no broker'', w)"
  "rk_produce (sample_rdkafka up cap) c w =
     (if cap \<le> length w then (ERR_QUEUE_FULL, w) else (ERR_NO_ERROR, w @ [c]))"
  by (simp_all add: sample_rdkafka_def)

lemma sample_create:
  "create_producer_locked (sample_rdkafka True cap) s =
     (None, s\<lparr>kp_producer := True, kp_status := RUNNING, kp_last_error := []\<rparr>)"
  "create_producer_locked (sample_rdkafka False cap) s = (Some ''no broker'', s)"
  by (simp_all add: create_producer_locked_def)

lemma sample_start_run:
  "kp_run (sample_rdkafka up cap) (new_producer default_producer_config [])
     [Ev_start_claim, Ev_start_rest] (sample_started up cap)"
proof -
  let ?lib = "sample_rdkafka up cap" and ?s = "new_producer default_producer_config []"
  have 1: "kp_step ?lib ?s Ev_start_claim (?s\<lparr>kp_running := True, kp_status := STARTING\<rparr>)"
    by (rule step_claim) (simp_all add: new_producer_def)
  have "kp_step ?lib (?s\<lparr>kp_running := True, kp_status := STARTING\<rparr>) Ev_start_rest
      (snd (start_rest ?lib (?s\<lparr>kp_running := True, kp_status := STARTING\<rparr>)))"
    by (rule step_start) (simp_all add: new_producer_def)
  moreover have "snd (start_rest ?lib (?s\<lparr>kp_running := True, kp_status := STARTING\<rparr>)) =
      sample_started up cap"
    by (cases up) (simp_all add: start_rest_def sample_create sample_started_def new_producer_def
          update_last_error_locked_def default_producer_config_def)
  ultimately show ?thesis
    using run_snoc [OF run_snoc [OF run_nil 1]] by simp
qed

lemma sample_send_run:
  "kp_run (sample_rdkafka True 1) (new_producer default_producer_config [])
     [Ev_start_claim, Ev_start_rest, Ev_send (sample_record ''a'') True]
     (snd (send (sample_rdkafka True 1) (sample_record ''a'') (sample_started True 1)))"
proof -
  have "kp_step (sample_rdkafka True 1) (sample_started True 1)
      (Ev_send (sample_record ''a'') (kp_running (sample_started True 1)))
      (snd (send (sample_rdkafka True 1) (sample_record ''a'') (sample_started True 1)))"
    by (rule step_send)
  then show ?thesis
    using run_snoc [OF sample_start_run] by (fastforce simp: sample_started_def)
qed

section \<open>Properties\<close>

text \<open>
  C2: No record is lost or counted twice.  From a new producer, under every interleaving of
  senders, poll thread, starts and stops, the records accepted by send() are exactly the ones
  counted as sent, dropped or failed, the ones that still wait, and the ones a stop() discarded
  (as 64-bit counters).
\<close>

theorem producer_accounting:
  "kp_run lib (new_producer cfg w) es s \<Longrightarrow>
     kp_sent_ok s + kp_dropped s + kp_errors s + of_nat (length (kp_pending s))
       + of_nat (sum_list (map discarded es)) = of_nat (sum_list (map accepted es))"
  using kp_run_settled [OF _ kp_inv_new] by (fastforce simp: settled_def new_producer_def)

theorem producer_accounting_witness:
  "kp_run (sample_rdkafka True 1) (new_producer default_producer_config [])
     [Ev_start_claim, Ev_start_rest, Ev_send (sample_record ''a'') True]
     (snd (send (sample_rdkafka True 1) (sample_record ''a'') (sample_started True 1))) \<and>
   settled (snd (send (sample_rdkafka True 1) (sample_record ''a'') (sample_started True 1))) = 1"
  using sample_send_run producer_accounting [OF sample_send_run]
  by (simp add: settled_def)

text \<open>
  C19: In every reachable state the buffer holds at most max_queue_messages records, and while the
  poll thread exists the reported status is truthful: RUNNING exactly when a librdkafka producer
  exists and DEGRADED otherwise.
\<close>

theorem producer_bounded_and_truthful:
  assumes "kp_run lib (new_producer cfg w) es s"
  shows "length (kp_pending s) \<le> max_queue_messages cfg \<and>
    (kp_thread s \<noteq> NoThread \<longrightarrow>
      h_status (health s) = (if kp_producer s then RUNNING else DEGRADED))"
  using kp_run_inv [OF assms kp_inv_new] kp_run_config [OF assms kp_inv_new]
  by (simp add: kp_inv_def health_def new_producer_def)

theorem producer_bounded_and_truthful_witness:
  "kp_thread (sample_started False 1) \<noteq> NoThread \<and> h_status (health (sample_started False 1)) = DEGRADED"
proof -
  have "kp_thread (sample_started False 1) \<noteq> NoThread" by (simp add: sample_started_def)
  with producer_bounded_and_truthful [OF sample_start_run [of False 1]] show ?thesis
    by (simp add: sample_started_def new_producer_def)
qed

text \<open>
  C20: The poll loop hands the waiting records to librdkafka in the order they were accepted, one
  produce() call each, and leaves a suffix of them.  Afterwards nothing waits, unless the library
  reported a full queue for the record now at the front and the configuration keeps records.
\<close>

theorem drain_is_fifo:
  assumes "kp_producer s"
  shows "(kp_pending (drain_pending lib s), kp_world (drain_pending lib s)) =
           hand_over lib (drop_when_full (kp_config s)) (kp_pending s) (kp_world s) \<and>
    (\<exists>gone. kp_pending s = gone @ kp_pending (drain_pending lib s)) \<and>
    (drop_when_full (kp_config s) \<longrightarrow> kp_pending (drain_pending lib s) = [])"
proof -
  have eq: "(kp_pending (drain_pending lib s), kp_world (drain_pending lib s)) =
      hand_over lib (drop_when_full (kp_config s)) (kp_pending s) (kp_world s)"
    using assms by (rule drain_hand_over)
  moreover have "\<exists>gone. kp_pending s = gone @ kp_pending (drain_pending lib s)"
    using hand_over_suffix [of "kp_pending s"] eq by (metis fst_conv)
  moreover have "drop_when_full (kp_config s) \<Longrightarrow> kp_pending (drain_pending lib s) = []"
    using hand_over_drops [of lib "kp_pending s" "kp_world s"] eq by (metis fst_conv)
  ultimately show ?thesis by blast
qed

theorem drain_is_fifo_witness:
  "kp_pending (drain_pending (sample_rdkafka True 1)
     ((sample_started True 1)\<lparr>kp_pending := [sample_record ''a'', sample_record ''b'']\<rparr>)) = []"
proof -
  have p: "kp_producer ((sample_started True 1)
      \<lparr>kp_pending := [sample_record ''a'', sample_record ''b'']\<rparr>)"
    by (simp add: sample_started_def)
  show ?thesis
    using drain_is_fifo [OF p, of "sample_rdkafka True 1"]
    by (simp add: sample_started_def new_producer_def default_producer_config_def)
qed

text \<open>
  C34: start() on a producer that is not running.  If librdkafka accepts the configuration, it
  returns true with status RUNNING; if not, a TOLERANT start still returns true (DEGRADED, claim
  kept, poll thread started, which retries) and a STRICT start returns false, gives the claim
  back, starts no thread and reports FAILED with the library's message.
\<close>

theorem start_outcome:
  assumes "\<not> kp_running s" and "create_producer_locked lib (s\<lparr>kp_running := True,
      kp_status := STARTING\<rparr>) = (e, t)" and "start lib s = (ok, s')"
  shows "case e of
      None \<Rightarrow> ok \<and> kp_status s' = RUNNING \<and> kp_producer s' \<and> kp_running s' \<and>
        kp_thread s' = LoopTop
    | Some err \<Rightarrow> kp_last_error s' = err \<and>
        (if startup_mode (kp_config s) = STRICT
         then \<not> ok \<and> kp_status s' = FAILED \<and> \<not> kp_running s' \<and> kp_thread s' = kp_thread s
         else ok \<and> kp_status s' = DEGRADED \<and> kp_running s' \<and> kp_thread s' = LoopTop)"
  using assms(2)
proof (cases rule: create_producer_cases)
  case (ok w)
  with assms show ?thesis by (auto simp: start_def start_rest_def)
next
  case (failed w err)
  with assms show ?thesis
    by (auto simp: start_def start_rest_def update_last_error_locked_def split: if_splits)
qed

theorem start_outcome_witness:
  "kp_status (snd (start (sample_rdkafka False 1)
     (new_producer (default_producer_config\<lparr>startup_mode := STRICT\<rparr>) []))) = FAILED"
proof -
  let ?s = "new_producer (default_producer_config\<lparr>startup_mode := STRICT\<rparr>) [] ::
    produce_call list producer"
  obtain ok s' where st: "start (sample_rdkafka False 1) ?s = (ok, s')"
    by (cases "start (sample_rdkafka False 1) ?s")
  have "\<not> kp_running ?s" by (simp add: new_producer_def)
  from start_outcome [OF this sample_create(2) st] st show ?thesis
    by (simp add: new_producer_def)
qed

text \<open>
  A running producer without a librdkafka handle does not back off while records wait: the
  condition variable's predicate already holds, so the next attempt to create the producer
  follows at once, whatever reconnect_backoff_ms says.
\<close>

theorem degraded_loop_does_not_back_off:
  assumes "kp_running s" and "\<not> kp_producer s" and "kp_pending s \<noteq> []"
    and "create_producer_locked lib s = (Some err, t)"
  shows "poll_wait_ms (poll_locked lib s) = 0 \<and> kp_pending (poll_locked lib s) = kp_pending s"
  using assms(4)
proof (cases rule: create_producer_cases)
  case (failed w err')
  with assms show ?thesis
    by (simp add: poll_locked_def update_last_error_locked_def poll_wait_ms_def wait_predicate_def)
qed simp

theorem degraded_loop_does_not_back_off_witness:
  "poll_wait_ms (poll_locked (sample_rdkafka False 1)
     ((sample_started False 1)\<lparr>kp_pending := [sample_record ''a'']\<rparr>)) = 0 \<and>
   reconnect_backoff_ms (kp_config (sample_started False 1)) = 1000"
proof -
  let ?s = "(sample_started False 1)\<lparr>kp_pending := [sample_record ''a'']\<rparr>"
  have "create_producer_locked (sample_rdkafka False 1) ?s = (Some ''no broker'', ?s)"
    by (simp add: sample_create)
  from degraded_loop_does_not_back_off [OF _ _ _ this] show ?thesis
    by (simp add: sample_started_def new_producer_def default_producer_config_def)
qed

text \<open>
  Send() does not wait its turn: when records wait for a retry and the library accepts a new
  one, the new record is handed over first and the waiting ones stay behind it.
\<close>

theorem send_overtakes_waiting_records:
  assumes "kp_running s" and "kp_producer s" and "kp_pending s = old # rest"
    and "rk_produce lib (produce_call_of r) (kp_world s) = (ERR_NO_ERROR, w)"
  shows "res_status (fst (send lib r s)) = SENT \<and>
    kp_world (snd (send lib r s)) = w \<and> kp_pending (snd (send lib r s)) = old # rest"
  using assms by (simp add: send_def try_produce_locked_def Let_def)

theorem send_overtakes_waiting_records_witness:
  "res_status (fst (send (sample_rdkafka True 1) (sample_record ''b'')
     ((sample_started True 1)\<lparr>kp_pending := [sample_record ''a'']\<rparr>))) = SENT"
  using send_overtakes_waiting_records
    [of "(sample_started True 1)\<lparr>kp_pending := [sample_record ''a'']\<rparr>" "sample_record ''a''" "[]"
      "sample_rdkafka True 1" "sample_record ''b''" "[produce_call_of (sample_record ''b'')]"]
  by (simp add: sample_started_def new_producer_def sample_rdkafka_def)

text \<open>
  C35: stop() is final and repeatable: it leaves no handle, no waiting record, no thread and status
  STOPPED, a second stop() changes nothing, and every later send() is refused unchanged.
\<close>

theorem stop_is_final:
  assumes "kp_running s"
  shows "stop lib (stop lib s) = stop lib s \<and>
    \<not> kp_producer (stop lib s) \<and> kp_pending (stop lib s) = [] \<and>
    kp_thread (stop lib s) = NoThread \<and> kp_status (stop lib s) = STOPPED \<and>
    snd (send lib r (stop lib s)) = stop lib s \<and>
    res_status (fst (send lib r (stop lib s))) = PRODUCER_UNAVAILABLE"
proof -
  define t where "t = join_thread lib (stop_flag s)"
  have t: "\<not> kp_running t" "kp_thread t = NoThread"
    by (simp_all add: t_def join_thread_def stop_flag_def)
  have st: "stop lib s = stop_rest lib t"
    using assms by (simp add: stop_def t_def)
  have "\<not> kp_running (stop_rest lib t)" using t by simp
  then have "stop lib (stop_rest lib t) = stop_rest lib t"
    and "send lib r (stop_rest lib t) =
      (\<lparr>res_status = PRODUCER_UNAVAILABLE, res_error = ''producer stopped'',
        res_buffered = False\<rparr>, stop_rest lib t)"
    by (simp_all only: stop_def send_stopped simp_thms if_True)
  then show ?thesis using t by (simp add: st)
qed

theorem stop_is_final_witness:
  "kp_status (stop (sample_rdkafka True 1) (sample_started True 1)) = STOPPED"
  using stop_is_final [of "sample_started True 1" "sample_rdkafka True 1"]
  by (simp add: sample_started_def)

end
