(* ===== verification/Message_Json.thy ===== *)
theory Message_Json
  imports Ros_Types
begin

text \<open>
  From a serialized ROS message to JSON: the walk over the introspection metadata of a message
  type that kafka_sink uses for its json payloads, and the latency envelope it adds
  (kafka_bridge/kafka_sink/src/kafka_sink_node.cpp, lines 60 to 318).

  The deserialized message is a memory read at typed addresses; rmw, nlohmann::json and the
  allocator are parameters.  A JSON object is a std::map, so its keys are ordered.
\<close>

section \<open>JSON values\<close>

datatype json =
    JNull | JBool bool | JInt int | JUInt nat | JFloat dbl | JStr string
  | JArr "json list" | JObj "(string \<times> json) list"

text \<open>
  nlohmann::json: \<open>jl_parse\<close> without exceptions, and \<open>jl_dump\<close>, which throws (\<open>None\<close>) on a string
  that is not UTF-8.
\<close>

record json_lib =
  jl_parse :: "string \<Rightarrow> json option"
  jl_dump :: "json \<Rightarrow> string option"

definition or_throw :: "string \<Rightarrow> 'a option \<Rightarrow> 'a exec" where
  "or_throw e v = (case v of Some a \<Rightarrow> Ret a | None \<Rightarrow> Exc e)"

lemma or_throw_simps [simp]:
  "or_throw e (Some a) = Ret a" "or_throw e None = Exc e" "or_throw e v \<noteq> Err m"
  by (simp_all add: or_throw_def split: option.split)

definition json_contains :: "json \<Rightarrow> string \<Rightarrow> bool" where
  "json_contains j k \<longleftrightarrow> (case j of JObj m \<Rightarrow> map_of m k \<noteq> None | _ \<Rightarrow> False)"

definition json_at :: "json \<Rightarrow> string \<Rightarrow> json" where
  "json_at j k = (case j of JObj m \<Rightarrow> (case map_of m k of Some v \<Rightarrow> v | None \<Rightarrow> JNull) | _ \<Rightarrow> JNull)"

definition json_is_object :: "json \<Rightarrow> bool" where
  "json_is_object j \<longleftrightarrow> (case j of JObj _ \<Rightarrow> True | _ \<Rightarrow> False)"

text \<open>\<open>j[k] = v\<close>: null becomes an object, other values that are no object throw.\<close>

definition json_assign :: "json \<Rightarrow> string \<Rightarrow> json \<Rightarrow> json exec" where
  "json_assign j k v =
     (case j of
        JObj m \<Rightarrow> Ret (JObj (map_assign k v m))
      | JNull \<Rightarrow> Ret (JObj [(k, v)])
      | _ \<Rightarrow> Exc ''type_error.305'')"

text \<open>\<open>get<int64_t>()\<close> on a number or a boolean; everything else throws.\<close>

definition json_get_int64 :: "json \<Rightarrow> int exec" where
  "json_get_int64 j =
     (case j of
        JInt i \<Rightarrow> Ret i
      | JUInt n \<Rightarrow> Ret (sint (word_of_nat n :: u64))
      | JFloat (Fin q) \<Rightarrow> Ret (if q < 0 then \<lceil>q\<rceil> else \<lfloor>q\<rfloor>)
      | JBool b \<Rightarrow> Ret (if b then 1 else 0)
      | _ \<Rightarrow> Exc ''type_error.302'')"

section \<open>Introspection metadata\<close>

text \<open>
  The constants of rosidl_typesupport_introspection_cpp; a sub-message carries its members, or
  nothing where the source finds a null pointer.
\<close>

datatype ros_type =
    ROS_TYPE_BOOLEAN | ROS_TYPE_CHAR | ROS_TYPE_OCTET | ROS_TYPE_UINT8 | ROS_TYPE_INT8
  | ROS_TYPE_UINT16 | ROS_TYPE_INT16 | ROS_TYPE_UINT32 | ROS_TYPE_INT32 | ROS_TYPE_UINT64
  | ROS_TYPE_INT64 | ROS_TYPE_FLOAT | ROS_TYPE_DOUBLE | ROS_TYPE_STRING | ROS_TYPE_WSTRING
  | ROS_TYPE_MESSAGE "message_members option" | ROS_TYPE_OTHER nat
and message_members = Members (size_of: nat) (members: "message_member list")
and message_member = Member (member_name: string) (type_id: ros_type) (offset: nat)
    (is_array: bool) (array_size: nat) (size_function: "(nat \<Rightarrow> nat) option")
    (get_const_function: "(nat \<Rightarrow> nat \<Rightarrow> nat) option")

text \<open>Typed loads; the address 0 is the null pointer.\<close>

record memory =
  m_bool :: "nat \<Rightarrow> bool"
  m_u8 :: "nat \<Rightarrow> u8"
  m_u16 :: "nat \<Rightarrow> 16 word"
  m_u32 :: "nat \<Rightarrow> 32 word"
  m_u64 :: "nat \<Rightarrow> u64"
  m_float :: "nat \<Rightarrow> dbl"
  m_double :: "nat \<Rightarrow> dbl"
  m_string :: "nat \<Rightarrow> string"
  m_wstring :: "nat \<Rightarrow> string option"
  m_sizeof_string :: nat
  m_sizeof_wstring :: nat

definition member_element_size :: "memory \<Rightarrow> message_member \<Rightarrow> nat" where
  "member_element_size mem m =
     (case type_id m of
        ROS_TYPE_BOOLEAN \<Rightarrow> 1 | ROS_TYPE_CHAR \<Rightarrow> 1 | ROS_TYPE_OCTET \<Rightarrow> 1
      | ROS_TYPE_UINT8 \<Rightarrow> 1 | ROS_TYPE_INT8 \<Rightarrow> 1 | ROS_TYPE_UINT16 \<Rightarrow> 2 | ROS_TYPE_INT16 \<Rightarrow> 2
      | ROS_TYPE_UINT32 \<Rightarrow> 4 | ROS_TYPE_INT32 \<Rightarrow> 4 | ROS_TYPE_UINT64 \<Rightarrow> 8 | ROS_TYPE_INT64 \<Rightarrow> 8
      | ROS_TYPE_FLOAT \<Rightarrow> 4 | ROS_TYPE_DOUBLE \<Rightarrow> 8
      | ROS_TYPE_STRING \<Rightarrow> m_sizeof_string mem | ROS_TYPE_WSTRING \<Rightarrow> m_sizeof_wstring mem
      | ROS_TYPE_MESSAGE ms \<Rightarrow> (case ms of None \<Rightarrow> 0 | Some ms \<Rightarrow> size_of ms)
      | ROS_TYPE_OTHER _ \<Rightarrow> 0)"

definition number_of_elements :: "message_member \<Rightarrow> nat \<Rightarrow> nat" where
  "number_of_elements m array_ptr =
     (if array_size m \<noteq> 0 then array_size m
      else case size_function m of Some f \<Rightarrow> f array_ptr | None \<Rightarrow> 0)"

text \<open>The address of an element; 0 when there is no way to compute it.\<close>

definition element_address :: "memory \<Rightarrow> message_member \<Rightarrow> nat \<Rightarrow> nat \<Rightarrow> nat" where
  "element_address mem m array_ptr index =
     (case get_const_function m of
        Some f \<Rightarrow> f array_ptr index
      | None \<Rightarrow>
          if 0 < member_element_size mem m then array_ptr + index * member_element_size mem m
          else 0)"

definition element_addresses :: "memory \<Rightarrow> message_member \<Rightarrow> nat \<Rightarrow> nat list" where
  "element_addresses mem m array_ptr =
     (if array_ptr = 0 then []
      else filter (\<lambda>a. a \<noteq> 0)
             (map (element_address mem m array_ptr) [0..<number_of_elements m array_ptr]))"

definition json_number :: "dbl \<Rightarrow> json" where
  "json_number d = (if is_finite d then JFloat d else JNull)"

text \<open>What build_json_scalar() makes of a value that is no message.\<close>

definition build_json_primitive :: "memory \<Rightarrow> ros_type \<Rightarrow> nat \<Rightarrow> json exec" where
  "build_json_primitive mem t p =
     (case t of
        ROS_TYPE_BOOLEAN \<Rightarrow> Ret (JBool (m_bool mem p))
      | ROS_TYPE_CHAR \<Rightarrow> Ret (JInt (sint (m_u8 mem p)))
      | ROS_TYPE_OCTET \<Rightarrow> Ret (JUInt (unat (m_u8 mem p)))
      | ROS_TYPE_UINT8 \<Rightarrow> Ret (JUInt (unat (m_u8 mem p)))
      | ROS_TYPE_INT8 \<Rightarrow> Ret (JInt (sint (m_u8 mem p)))
      | ROS_TYPE_UINT16 \<Rightarrow> Ret (JUInt (unat (m_u16 mem p)))
      | ROS_TYPE_INT16 \<Rightarrow> Ret (JInt (sint (m_u16 mem p)))
      | ROS_TYPE_UINT32 \<Rightarrow> Ret (JUInt (unat (m_u32 mem p)))
      | ROS_TYPE_INT32 \<Rightarrow> Ret (JInt (sint (m_u32 mem p)))
      | ROS_TYPE_UINT64 \<Rightarrow> Ret (JUInt (unat (m_u64 mem p)))
      | ROS_TYPE_INT64 \<Rightarrow> Ret (JInt (sint (m_u64 mem p)))
      | ROS_TYPE_FLOAT \<Rightarrow> Ret (json_number (m_float mem p))
      | ROS_TYPE_DOUBLE \<Rightarrow> Ret (json_number (m_double mem p))
      | ROS_TYPE_STRING \<Rightarrow> Ret (JStr (m_string mem p))
      | ROS_TYPE_WSTRING \<Rightarrow> 
          exec_bind (or_throw ''wstring_convert: to_bytes error'' (m_wstring mem p)) (\<lambda>s. Ret (JStr s))
      | _ \<Rightarrow> Ret JNull)"

definition object_of :: "(string \<times> json) list \<Rightarrow> json" where
  "object_of kvs = JObj (fold (\<lambda>(k, v). map_assign k v) kvs [])"

lemma exec_map_cong [fundef_cong]:
  "xs = ys \<Longrightarrow> (\<And>x. x \<in> set ys \<Longrightarrow> f x = g x) \<Longrightarrow> exec_map f xs = exec_map g ys"
  by (induction xs arbitrary: ys) auto

definition sub_message :: "ros_type \<Rightarrow> message_members option" where
  "sub_message t = (case t of ROS_TYPE_MESSAGE ms \<Rightarrow> ms | _ \<Rightarrow> None)"

lemma sub_message_size: "sub_message t = Some sub \<Longrightarrow> size sub < size t"
  by (auto simp: sub_message_def split: ros_type.split_asm)

lemma member_size: "m \<in> set ms \<Longrightarrow> size (type_id m) < Suc (size_list size ms)"
proof (induction ms)
  case (Cons a ms)
  then show ?case by (cases a) auto
qed simp

text \<open>
  The mutual recursion, with the message as the recursive case: a member is a scalar or the
  array of its elements, and an element is a primitive or a message again.
\<close>

function build_json_message :: "memory \<Rightarrow> message_members \<Rightarrow> nat \<Rightarrow> json exec" where
  "build_json_message mem (Members sz ms) base =
     exec_bind
       (exec_map (\<lambda>m.
          exec_bind
            (let scalar = (\<lambda>p.
                   if p = 0 then Ret JNull
                   else case sub_message (type_id m) of
                     Some sub \<Rightarrow> build_json_message mem sub p
                   | None \<Rightarrow> build_json_primitive mem (type_id m) p)
             in if is_array m
                then exec_bind (exec_map scalar (element_addresses mem m (base + offset m)))
                       (\<lambda>vs. Ret (JArr vs))
                else scalar (base + offset m))
            (\<lambda>v. Ret (member_name m, v))) ms)
       (\<lambda>kvs. Ret (object_of kvs))"
  by pat_completeness auto
termination
proof (relation "measure (\<lambda>(mem, ms, p). size ms)")
qed (auto dest!: member_size sub_message_size)

declare build_json_message.simps [simp del]

text \<open>The other three functions of the source, and the equations between the four.\<close>

definition build_json_scalar :: "memory \<Rightarrow> message_member \<Rightarrow> nat \<Rightarrow> json exec" where
  "build_json_scalar mem m value_ptr =
     (if value_ptr = 0 then Ret JNull
      else case sub_message (type_id m) of
        Some sub \<Rightarrow> build_json_message mem sub value_ptr
      | None \<Rightarrow> build_json_primitive mem (type_id m) value_ptr)"

definition build_json_array :: "memory \<Rightarrow> message_member \<Rightarrow> nat \<Rightarrow> json exec" where
  "build_json_array mem m array_ptr =
     exec_bind (exec_map (build_json_scalar mem m) (element_addresses mem m array_ptr))
       (\<lambda>vs. Ret (JArr vs))"

definition build_json_value :: "memory \<Rightarrow> message_member \<Rightarrow> nat \<Rightarrow> json exec" where
  "build_json_value mem m value_ptr =
     (if is_array m then build_json_array mem m value_ptr else build_json_scalar mem m value_ptr)"

lemma build_json_message_eq:
  "build_json_message mem (Members sz ms) base =
     exec_bind
       (exec_map (\<lambda>m. exec_bind (build_json_value mem m (base + offset m))
          (\<lambda>v. Ret (member_name m, v))) ms)
       (\<lambda>kvs. Ret (object_of kvs))"
  unfolding build_json_message.simps build_json_value_def build_json_array_def
    build_json_scalar_def [abs_def] Let_def
  by (rule refl)

section \<open>Serializing\<close>

text \<open>
  What a deserialization needs from outside: the allocator, and rmw_deserialize() into the
  allocated message.  The state of the operation is the number of messages that are allocated and
  not yet freed.
\<close>

record json_env =
  je_json :: json_lib
  je_malloc :: "nat \<Rightarrow> nat"
  je_deserialize :: "u8 list \<Rightarrow> memory option"

text \<open>A type support: whether the rmw handle is there, and the introspection members.\<close>

record type_support =
  ts_rmw :: bool
  ts_introspection :: bool
  ts_members :: "message_members option"

text \<open>
  rosbag2_cpp::get_typesupport_library and get_typesupport_handle, false being a null pointer, and
  the members that an introspection handle carries.
\<close>

record typesupport_lib =
  tl_library :: "string \<Rightarrow> string \<Rightarrow> bool exec"
  tl_handle :: "string \<Rightarrow> string \<Rightarrow> bool exec"
  tl_members :: "string \<Rightarrow> message_members option"

definition serialize_message_to_json ::
  "json_env \<Rightarrow> type_support \<Rightarrow> u8 list \<Rightarrow> (nat, string) prog" where
  "serialize_message_to_json E ts bytes live =
     (if \<not> ts_rmw ts \<or> \<not> ts_introspection ts
      then (Err ''Missing type support for JSON serialization.'', live)
      else case ts_members ts of
        None \<Rightarrow> (Err ''Introspection metadata unavailable.'', live)
      | Some ms \<Rightarrow>
          if size_of ms = 0 then (Err ''Introspection metadata unavailable.'', live)
          else if je_malloc E (size_of ms) = 0
          then (Err ''Failed to allocate message for JSON serialization.'', live)
          else (case je_deserialize E bytes of
              None \<Rightarrow> (Err ''Failed to deserialize message for JSON serialization.'', live)
            | Some mem \<Rightarrow>
                (case exec_bind (build_json_message mem ms (je_malloc E (size_of ms)))
                        (\<lambda>payload. or_throw ''type_error.316'' (jl_dump (je_json E) payload)) of
                   Ret out \<Rightarrow> (Ret out, live)
                 | Err e \<Rightarrow> (Err e, Suc live)
                 | Exc e \<Rightarrow> (Exc e, Suc live))))"

text \<open>
  apply_ts_envelope_to_json(): \<open>None\<close> is the false return that leaves the payload alone.  The
  seconds and nanoseconds of a ROS stamp are 32-bit numbers, so the sum stays within 64 bits.
\<close>

definition stamp_t0 :: "json \<Rightarrow> (string \<times> json) list exec" where
  "stamp_t0 j =
     (let stamp = json_at (json_at j ''header'') ''stamp''
      in if json_contains j ''header'' \<and> json_is_object (json_at j ''header'') \<and>
            json_contains (json_at j ''header'') ''stamp'' \<and> json_is_object stamp \<and>
            json_contains stamp ''sec'' \<and> json_contains stamp ''nanosec''
         then exec_bind (json_get_int64 (json_at stamp ''sec'')) (\<lambda>sec.
              exec_bind (json_get_int64 (json_at stamp ''nanosec'')) (\<lambda>nsec.
              Ret (if sec \<noteq> 0 \<or> nsec \<noteq> 0
                   then [(''t0_ns'', JInt (sec * 1000000000 + nsec))] else [])))
         else Ret [])"

definition apply_ts_envelope_to_json ::
  "json_lib \<Rightarrow> string \<Rightarrow> int \<Rightarrow> string option exec" where
  "apply_ts_envelope_to_json L json_payload t1_ns =
     (case jl_parse L json_payload of
        None \<Rightarrow> Ret None
      | Some j \<Rightarrow>
          exec_bind (stamp_t0 j) (\<lambda>t0.
          exec_bind (json_assign j ''_ts'' (JObj (map_assign ''t1_ns'' (JInt t1_ns) t0))) (\<lambda>j'.
          exec_bind (or_throw ''type_error.316'' (jl_dump L j')) (\<lambda>out. Ret (Some out)))))"

section \<open>Lemmas\<close>

lemma object_of_acc:
  "ordered_map m \<Longrightarrow> ordered_map (fold (\<lambda>(k, v). map_assign k v) kvs m) \<and>
     fst ` set (fold (\<lambda>(k, v). map_assign k v) kvs m) = fst ` set m \<union> fst ` set kvs \<and>
     snd ` set (fold (\<lambda>(k, v). map_assign k v) kvs m) \<subseteq> snd ` set m \<union> snd ` set kvs"
proof (induction kvs arbitrary: m)
  case (Cons a kvs)
  obtain k v where a: "a = (k, v)" by (cases a)
  have "snd ` set (map_assign k v m) \<subseteq> insert v (snd ` set m)"
    by (induction k v m rule: map_assign.induct) auto
  then have "snd ` set (map_assign k v m) \<union> snd ` set kvs \<subseteq> snd ` set m \<union> snd ` set (a # kvs)"
    by (auto simp: a)
  then show ?case
    using Cons.IH [OF ordered_map_assign [OF Cons.prems], of k v]
    by (simp add: a keys_map_assign) blast
qed simp

lemma object_of_shape:
  obtains m where "object_of kvs = JObj m" "ordered_map m" "fst ` set m = fst ` set kvs"
    "snd ` set m \<subseteq> snd ` set kvs"
  using object_of_acc [of "[]" kvs] by (simp add: object_of_def)

text \<open>No non-finite number anywhere.\<close>

fun json_finite :: "json \<Rightarrow> bool" where
  "json_finite (JFloat d) = is_finite d"
| "json_finite (JArr vs) = list_all json_finite vs"
| "json_finite (JObj m) = list_all (\<lambda>(k, v). json_finite v) m"
| "json_finite _ = True"

lemma json_finite_number [simp]: "json_finite (json_number d)"
  by (simp add: json_number_def)

lemma primitive_finite: "build_json_primitive mem t p = Ret j \<Longrightarrow> json_finite j"
  by (cases t) (auto simp: build_json_primitive_def exec_bind_Ret_iff)

lemma message_keys:
  assumes "build_json_message mem (Members sz ms) base = Ret j"
  obtains m where "j = JObj m" "ordered_map m" "fst ` set m = member_name ` set ms"
proof -
  obtain kvs where kvs: "exec_map (\<lambda>m. exec_bind (build_json_value mem m (base + offset m))
      (\<lambda>v. Ret (member_name m, v))) ms = Ret kvs" and j: "j = object_of kvs"
    using assms by (auto simp: build_json_message_eq exec_bind_Ret_iff)
  have "fst ` set kvs = member_name ` set ms"
    using exec_map_Ret [OF kvs]
    by (induction rule: list_all2_induct) (auto simp: exec_bind_Ret_iff)
  then show ?thesis using object_of_shape [of kvs] j that by metis
qed

lemma message_finite:
  "build_json_message mem ms base = Ret j \<Longrightarrow> json_finite j"
proof (induction ms arbitrary: base j rule: measure_induct_rule [where f = size])
  case (less ms)
  obtain sz mem_list where ms: "ms = Members sz mem_list" by (cases ms)
  have scalar: "json_finite v"
    if "m \<in> set mem_list" "build_json_scalar mem m p = Ret v" for m p v
  proof (cases "\<exists>sub. p \<noteq> 0 \<and> sub_message (type_id m) = Some sub")
    case True
    then obtain sub where sub: "p \<noteq> 0" "sub_message (type_id m) = Some sub" by blast
    have "size (type_id m) < size ms" using that(1) member_size ms by simp
    then have "size sub < size ms" using sub_message_size [OF sub(2)] by simp
    then show ?thesis using less that(2) sub by (simp add: build_json_scalar_def)
  next
    case False
    then have "p = 0 \<and> v = JNull \<or> build_json_primitive mem (type_id m) p = Ret v"
      using that(2) by (auto simp: build_json_scalar_def split: if_split_asm option.split_asm)
    then show ?thesis using primitive_finite by auto
  qed
  have "json_finite v" if m: "m \<in> set mem_list" and v: "build_json_value mem m p = Ret v" for m p v
  proof (cases "is_array m")
    case True
    then obtain vs where vs: "exec_map (build_json_scalar mem m) (element_addresses mem m p) = Ret vs"
      "v = JArr vs"
      using v by (auto simp: build_json_value_def build_json_array_def exec_bind_Ret_iff)
    have "json_finite x" if "x \<in> set vs" for x
      using exec_map_mem [OF vs(1) that] scalar [OF m] by blast
    then show ?thesis using vs(2) by (simp add: list_all_iff)
  qed (use v scalar [OF m] in \<open>simp add: build_json_value_def\<close>)
  moreover obtain kvs where kvs: "exec_map (\<lambda>m. exec_bind (build_json_value mem m (base + offset m))
      (\<lambda>v. Ret (member_name m, v))) mem_list = Ret kvs" and j: "j = object_of kvs"
    using less.prems by (auto simp: ms build_json_message_eq exec_bind_Ret_iff)
  ultimately have "\<forall>v \<in> snd ` set kvs. json_finite v"
    by (auto simp: exec_bind_Ret_iff dest!: exec_map_mem [OF kvs])
  moreover obtain m where "j = JObj m" "snd ` set m \<subseteq> snd ` set kvs"
    using object_of_shape [of kvs] j by metis
  ultimately have "\<forall>v \<in> snd ` set m. json_finite v" by blast
  then show ?case using \<open>j = JObj m\<close> by (auto simp: list_all_iff)
qed

section \<open>Properties\<close>

text \<open>A message with a number, a fixed array and a nested message, and a memory for it.\<close>

definition sample_point :: message_members where
  "sample_point = Members 16
     [Member ''x'' ROS_TYPE_DOUBLE 0 False 0 None None,
      Member ''y'' ROS_TYPE_DOUBLE 8 False 0 None None]"

definition sample_message :: message_members where
  "sample_message = Members 48
     [Member ''point'' (ROS_TYPE_MESSAGE (Some sample_point)) 16 False 0 None None,
      Member ''id'' ROS_TYPE_INT8 0 False 0 None None,
      Member ''data'' ROS_TYPE_UINT8 1 True 3 None None]"

definition sample_memory :: memory where
  "sample_memory =
     \<lparr>m_bool = (\<lambda>_. True), m_u8 = (\<lambda>a. 255 - of_nat a), m_u16 = (\<lambda>_. 0), m_u32 = (\<lambda>_. 0),
      m_u64 = (\<lambda>_. 0), m_float = (\<lambda>_. NaN), m_double = (\<lambda>a. if a = 124 then NaN else Fin 1),
      m_string = (\<lambda>_. ''s''), m_wstring = (\<lambda>_. Some ''w''), m_sizeof_string = 32,
      m_sizeof_wstring = 32\<rparr>"

lemma sample_message_json:
  "build_json_message sample_memory sample_message 100 =
     Ret (JObj [(''data'', JArr [JUInt 154, JUInt 153, JUInt 152]), (''id'', JInt (-101)),
                (''point'', JObj [(''x'', JFloat (Fin 1)), (''y'', JNull)])])"
  by code_simp

text \<open>
  C15: the JSON of a message has exactly one entry per member name, in the order of a std::map, and
  no number in it, at any depth, is infinite or not a number: those become null.
\<close>

theorem message_json_is_complete_and_finite:
  assumes "build_json_message mem (Members sz ms) base = Ret j"
  shows "(\<exists>m. j = JObj m \<and> ordered_map m \<and> fst ` set m = member_name ` set ms) \<and> json_finite j"
  using message_keys [OF assms] message_finite [OF assms] by metis

theorem message_json_is_complete_and_finite_witness:
  "json_finite (JObj [(''data'', JArr [JUInt 154, JUInt 153, JUInt 152]), (''id'', JInt (-101)),
                (''point'', JObj [(''x'', JFloat (Fin 1)), (''y'', JNull)])])"
  using message_json_is_complete_and_finite [OF sample_message_json [unfolded sample_message_def]]
  by blast


definition sample_json_env :: "bool \<Rightarrow> json_env" where
  "sample_json_env utf8 =
     \<lparr>je_json = \<lparr>jl_parse = (\<lambda>_. None), jl_dump = (\<lambda>_. if utf8 then Some ''{}'' else None)\<rparr>,
      je_malloc = (\<lambda>_. 100), je_deserialize = (\<lambda>_. Some sample_memory)\<rparr>"

definition sample_support :: type_support where
  "sample_support = \<lparr>ts_rmw = True, ts_introspection = True, ts_members = Some sample_message\<rparr>"


text \<open>
  C33: the latency envelope is only added: when the payload is a JSON object, the new payload is
  that object with the entry _ts set, every other entry is what it was, and _ts holds the given
  time as t1_ns, next to at most t0_ns.
\<close>

theorem envelope_only_adds_ts:
  assumes "apply_ts_envelope_to_json L payload t1 = Ret (Some out)"
    and "jl_parse L payload = Some (JObj m)"
  shows "\<exists>m' ts. jl_dump L (JObj m') = Some out \<and>
     (\<forall>k. k \<noteq> ''_ts'' \<longrightarrow> map_of m' k = map_of m k) \<and>
     map_of m' ''_ts'' = Some (JObj ts) \<and> map_of ts ''t1_ns'' = Some (JInt t1) \<and>
     fst ` set ts \<subseteq> {''t0_ns'', ''t1_ns''}"
proof -
  obtain t0 where t0: "stamp_t0 (JObj m) = Ret t0"
    and out: "jl_dump L (JObj (map_assign ''_ts'' (JObj (map_assign ''t1_ns'' (JInt t1) t0)) m)) = Some out"
    using assms
    by (auto simp: apply_ts_envelope_to_json_def json_assign_def exec_bind_Ret_iff or_throw_def
        split: option.split_asm)
  have "fst ` set t0 \<subseteq> {''t0_ns''}"
    using t0 by (auto simp: stamp_t0_def Let_def exec_bind_Ret_iff split: if_split_asm)
  then have "fst ` set (map_assign ''t1_ns'' (JInt t1) t0) \<subseteq> {''t0_ns'', ''t1_ns''}"
    unfolding keys_map_assign by blast
  then show ?thesis
    using out by (intro exI conjI) (assumption | simp add: map_of_map_assign)+
qed

text \<open>A payload with a stamp, in a library that prints every object the same way.\<close>

definition sample_stamped :: "(string \<times> json) list" where
  "sample_stamped = [(''header'', JObj [(''stamp'', JObj [(''nanosec'', JUInt 5), (''sec'', JUInt 2)])])]"

definition sample_json_lib :: json_lib where
  "sample_json_lib = \<lparr>jl_parse = (\<lambda>_. Some (JObj sample_stamped)), jl_dump = (\<lambda>_. Some ''{}'')\<rparr>"

theorem envelope_only_adds_ts_witness:
  "\<exists>m' ts. map_of m' ''_ts'' = Some (JObj ts) \<and> map_of ts ''t1_ns'' = Some (JInt 9) \<and>
     map_of m' ''header'' = map_of sample_stamped ''header''"
proof -
  have "apply_ts_envelope_to_json sample_json_lib ''{}'' 9 = Ret (Some ''{}'')" by code_simp
  moreover have "jl_parse sample_json_lib ''{}'' = Some (JObj sample_stamped)"
    by (simp add: sample_json_lib_def)
  ultimately obtain m' ts where "\<forall>k. k \<noteq> ''_ts'' \<longrightarrow> map_of m' k = map_of sample_stamped k"
    "map_of m' ''_ts'' = Some (JObj ts)" "map_of ts ''t1_ns'' = Some (JInt 9)"
    using envelope_only_adds_ts by blast
  then show ?thesis by (intro exI [of _ m'] exI [of _ ts]) simp
qed

end
