(* ===== verification/Percentile.thy ===== *)
theory Percentile
  imports Ros_Types
begin

text \<open>
  The latency percentiles of the metrics.  Every node sorts its samples and takes the one at an
  index computed in double arithmetic; the sinks truncate, the consumers round up.  The product is
  modelled with IEEE rounding to nearest even at 53 bits, for the non-negative values that occur.
\<close>

section \<open>Rounding to a double\<close>

fun nat_log2 :: "nat \<Rightarrow> nat" where
  "nat_log2 n = (if n < 2 then 0 else Suc (nat_log2 (n div 2)))"

declare nat_log2.simps [simp del]

text \<open>The binary exponent of a positive number.\<close>

definition binary_exponent :: "rat \<Rightarrow> int" where
  "binary_exponent x =
     (if 1 \<le> x then int (nat_log2 (nat \<lfloor>x\<rfloor>))
      else - int (Suc (nat_log2 (nat \<lceil>1 / x\<rceil> - 1))))"

definition round_even :: "rat \<Rightarrow> int" where
  "round_even y =
     (let d = y - of_int \<lfloor>y\<rfloor>
      in if d < 1 / 2 then \<lfloor>y\<rfloor>
         else if 1 / 2 < d then \<lfloor>y\<rfloor> + 1
         else if even \<lfloor>y\<rfloor> then \<lfloor>y\<rfloor> else \<lfloor>y\<rfloor> + 1)"

definition double_of :: "rat \<Rightarrow> rat" where
  "double_of x =
     (if x \<le> 0 then 0
      else (let s = 2 powi (52 - binary_exponent x) in of_int (round_even (x * s)) / s))"

section \<open>The nodes' functions\<close>

definition floor_index :: "rat \<Rightarrow> nat \<Rightarrow> nat" where
  "floor_index percentile n = nat \<lfloor>double_of (percentile * of_nat (n - 1))\<rfloor>"

text \<open>kafka_sink and mosquitto_sink: the conversion to size_t truncates.\<close>

definition calculate_percentile :: "u64 list \<Rightarrow> rat \<Rightarrow> u64" where
  "calculate_percentile samples percentile =
     (if samples = [] then 0 else sort samples ! floor_index percentile (length samples))"

text \<open>kafka_source and kafka_cdr_to_json clamp the percentile and round the product up.\<close>

definition ceil_index :: "rat \<Rightarrow> nat \<Rightarrow> nat" where
  "ceil_index percentile n =
     nat \<lceil>double_of (min 1 (max 0 percentile) * of_nat (n - 1))\<rceil>"

definition calculate_percentile_ceil :: "u64 list \<Rightarrow> rat \<Rightarrow> u64" where
  "calculate_percentile_ceil samples percentile =
     (if samples = [] then 0 else sort samples ! ceil_index percentile (length samples))"

text \<open>The constants 0.50, 0.95 and 0.99 as doubles.\<close>

definition p50 :: rat where "p50 = 1 / 2"
definition p95 :: rat where "p95 = 4278419646001971 / 2 ^ 52"
definition p99 :: rat where "p99 = 4458563631096791 / 2 ^ 52"

section \<open>Rounding is monotone and keeps integers\<close>

lemma nat_log2_bracket: "0 < n \<Longrightarrow> 2 ^ nat_log2 n \<le> n \<and> n < 2 ^ Suc (nat_log2 n)"
proof (induction n rule: nat_log2.induct)
  case (1 n)
  show ?case
  proof (cases "n < 2")
    case True
    then show ?thesis using 1 by (simp add: nat_log2.simps [of n])
  next
    case False
    then have "2 ^ nat_log2 (n div 2) \<le> n div 2 \<and> n div 2 < 2 ^ Suc (nat_log2 (n div 2))"
      using 1 by simp
    then show ?thesis using False by (auto simp: nat_log2.simps [of n])
  qed
qed

lemma powi_nat: "(2 :: rat) powi int k = of_nat (2 ^ k)"
  by (simp add: power_int_of_nat)

lemma powi_neg: "(2 :: rat) powi (- int k) = 1 / of_nat (2 ^ k)"
  by (simp add: power_int_minus inverse_eq_divide)

lemma minus_Suc_plus: "- int (Suc k) + 1 = - int k"
  by simp

lemma exponent_bracket:
  assumes "0 < x"
  shows "2 powi binary_exponent x \<le> x" and "x < 2 powi (binary_exponent x + 1)"
proof -
  have "2 powi binary_exponent x \<le> x \<and> x < 2 powi (binary_exponent x + 1)"
  proof (cases "1 \<le> x")
    case True
    let ?n = "nat \<lfloor>x\<rfloor>" and ?k = "nat_log2 (nat \<lfloor>x\<rfloor>)"
    have n: "0 < ?n" using True by simp
    have "of_nat (2 ^ ?k) \<le> (of_nat ?n :: rat)" "of_nat (Suc ?n) \<le> (of_nat (2 ^ Suc ?k) :: rat)"
      using nat_log2_bracket [OF n] by (simp_all only: of_nat_le_iff Suc_le_eq)
    moreover have "of_nat ?n \<le> x" "x < of_nat (Suc ?n)"
      using True by linarith+
    ultimately have "of_nat (2 ^ ?k) \<le> x \<and> x < of_nat (2 ^ Suc ?k)" by linarith
    moreover have "(2 :: rat) powi (int ?k + 1) = of_nat (2 ^ Suc ?k)"
      using powi_nat [of "Suc ?k"] by (simp add: add.commute)
    ultimately show ?thesis
      using True powi_nat [of ?k] by (simp only: binary_exponent_def if_True)
  next
    case False
    let ?m = "nat \<lceil>1 / x\<rceil>" and ?k = "nat_log2 (nat \<lceil>1 / x\<rceil> - 1)"
    have inv: "1 < 1 / x" using False assms by simp
    then have m: "0 < ?m - 1" by linarith
    have "of_nat (2 ^ ?k) \<le> (of_nat (?m - 1) :: rat)" "of_nat ?m \<le> (of_nat (2 ^ Suc ?k) :: rat)"
      using nat_log2_bracket [OF m] by (simp_all only: of_nat_le_iff) linarith
    moreover have "of_nat (?m - 1) < 1 / x" "1 / x \<le> of_nat ?m"
      using m inv by linarith+
    ultimately have "of_nat (2 ^ ?k) < 1 / x" "1 / x \<le> of_nat (2 ^ Suc ?k)" by linarith+
    then have "x < 1 / of_nat (2 ^ ?k)" "1 / of_nat (2 ^ Suc ?k) \<le> x"
      using assms by (simp_all add: field_simps)
    moreover have "(2 :: rat) powi (- int (Suc ?k)) = 1 / of_nat (2 ^ Suc ?k)"
      "(2 :: rat) powi (- int (Suc ?k) + 1) = 1 / of_nat (2 ^ ?k)"
      using powi_neg [of "Suc ?k"] powi_neg [of ?k] by (simp_all only: minus_Suc_plus)
    ultimately show ?thesis using False by (simp only: binary_exponent_def if_False)
  qed
  then show "2 powi binary_exponent x \<le> x" and "x < 2 powi (binary_exponent x + 1)" by simp_all
qed

lemma round_even_of_int [simp]: "round_even (of_int n) = n"
  by (simp add: round_even_def)

lemma round_even_mono:
  assumes "y \<le> z" shows "round_even y \<le> round_even z"
proof (cases "\<lfloor>y\<rfloor> = \<lfloor>z\<rfloor>")
  case True
  then show ?thesis using assms by (simp add: round_even_def Let_def)
next
  case False
  have le: "\<lfloor>y\<rfloor> \<le> \<lfloor>z\<rfloor>" using assms by (rule floor_mono)
  have "round_even y \<le> \<lfloor>y\<rfloor> + 1" "\<lfloor>z\<rfloor> \<le> round_even z"
    by (simp_all add: round_even_def Let_def)
  with False le show ?thesis by linarith
qed

lemma double_of_le_power:
  assumes "0 < x" shows "double_of x \<le> 2 powi (binary_exponent x + 1)"
proof -
  let ?e = "binary_exponent x"
  let ?s = "(2 :: rat) powi (52 - ?e)"
  have s: "0 < ?s" by simp
  have eq: "2 powi (?e + 1) * ?s = of_int (2 ^ 53)"
    using power_int_add [of "2 :: rat" "?e + 1" "52 - ?e"] by (simp add: power_int_def)
  have "x * ?s \<le> 2 powi (?e + 1) * ?s"
    using exponent_bracket(2) [OF assms] s by (intro mult_right_mono) simp_all
  then have "round_even (x * ?s) \<le> 2 ^ 53"
    unfolding eq using round_even_mono round_even_of_int by metis
  then have "of_int (round_even (x * ?s)) \<le> (of_int (2 ^ 53) :: rat)" by (simp only: of_int_le_iff)
  then have "of_int (round_even (x * ?s)) / ?s \<le> 2 powi (?e + 1)"
    unfolding eq [symmetric] using s by (simp add: pos_divide_le_eq)
  then show ?thesis using assms by (simp add: double_of_def Let_def)
qed

lemma double_of_ge_power:
  assumes "0 < x" shows "2 powi binary_exponent x \<le> double_of x"
proof -
  let ?e = "binary_exponent x"
  let ?s = "(2 :: rat) powi (52 - ?e)"
  have s: "0 < ?s" by simp
  have eq: "2 powi ?e * ?s = of_int (2 ^ 52)"
    using power_int_add [of "2 :: rat" "?e" "52 - ?e"] by (simp add: power_int_def)
  have "2 powi ?e * ?s \<le> x * ?s"
    using exponent_bracket(1) [OF assms] s by (intro mult_right_mono) simp_all
  then have "2 ^ 52 \<le> round_even (x * ?s)"
    unfolding eq using round_even_mono round_even_of_int by metis
  then have "of_int (2 ^ 52) \<le> (of_int (round_even (x * ?s)) :: rat)" by (simp only: of_int_le_iff)
  then have "2 powi ?e \<le> of_int (round_even (x * ?s)) / ?s"
    unfolding eq [symmetric] using s by (simp add: pos_le_divide_eq)
  then show ?thesis using assms by (simp add: double_of_def Let_def)
qed

lemma double_of_mono:
  assumes "x \<le> y" shows "double_of x \<le> double_of y"
proof (cases "x \<le> 0")
  case True
  have "0 \<le> double_of y"
  proof (cases "y \<le> 0")
    case False
    then have "0 < y" by simp
    from double_of_ge_power [OF this] show ?thesis
      using zero_less_power_int [of "2 :: rat" "binary_exponent y"] by linarith
  qed (simp add: double_of_def)
  then show ?thesis using True by (simp add: double_of_def)
next
  case False
  then have pos: "0 < x" "0 < y" using assms by simp_all
  show ?thesis
  proof (cases "binary_exponent x = binary_exponent y")
    case True
    let ?s = "(2 :: rat) powi (52 - binary_exponent y)"
    have s: "0 < ?s" by simp
    have "x * ?s \<le> y * ?s" using assms s by (intro mult_right_mono) simp_all
    then have "round_even (x * ?s) \<le> round_even (y * ?s)" by (rule round_even_mono)
    then have "of_int (round_even (x * ?s)) / ?s \<le> of_int (round_even (y * ?s)) / ?s"
      using s by (intro divide_right_mono) simp_all
    then show ?thesis using pos True by (simp add: double_of_def Let_def)
  next
    case False
    have "binary_exponent x < binary_exponent y"
    proof (rule ccontr)
      assume "\<not> ?thesis"
      then have "(2 :: rat) powi (binary_exponent y + 1) \<le> 2 powi binary_exponent x"
        using False by (intro power_int_increasing) simp_all
      then show False
        using exponent_bracket(1) [OF pos(1)] exponent_bracket(2) [OF pos(2)] assms by linarith
    qed
    then have "(2 :: rat) powi (binary_exponent x + 1) \<le> 2 powi binary_exponent y"
      by (intro power_int_increasing) simp_all
    then show ?thesis
      using double_of_le_power [OF pos(1)] double_of_ge_power [OF pos(2)] by linarith
  qed
qed

lemma double_of_nat:
  assumes "n < 2 ^ 53" shows "double_of (of_nat n) = of_nat n"
proof (cases "n = 0")
  case False
  let ?e = "nat_log2 n"
  have exp: "binary_exponent (of_nat n) = int ?e"
    using False by (simp add: binary_exponent_def)
  have "2 ^ ?e \<le> n" using nat_log2_bracket [of n] False by simp
  then have "(2 :: nat) ^ ?e < 2 ^ 53" using assms by linarith
  then have "?e < 53" by (rule power_less_imp_less_exp [rotated]) simp
  then have s: "(2 :: rat) powi (52 - int ?e) = of_int (2 ^ (52 - ?e))"
    using powi_nat [of "52 - ?e"] by (simp add: of_nat_diff)
  have "of_nat n * (of_int (2 ^ (52 - ?e)) :: rat) = of_int (int n * 2 ^ (52 - ?e))" by simp
  then have "round_even (of_nat n * of_int (2 ^ (52 - ?e))) = int n * 2 ^ (52 - ?e)"
    by (metis round_even_of_int)
  then show ?thesis using False by (simp add: double_of_def exp s Let_def)
qed (simp add: double_of_def)

section \<open>Sample selection\<close>

text \<open>
  What a percentile needs of its index function: it stays inside the samples, as long as their
  number is exact as a double.  The nodes keep at most 1000.
\<close>

locale percentile_index =
  fixes idx :: "nat \<Rightarrow> nat"
  assumes idx_less: "0 < n \<Longrightarrow> n < 2 ^ 53 \<Longrightarrow> idx n < n"
begin

definition pick :: "u64 list \<Rightarrow> u64" where
  "pick samples = sort samples ! idx (length samples)"

lemma pick_in_set: "samples \<noteq> [] \<Longrightarrow> length samples < 2 ^ 53 \<Longrightarrow> pick samples \<in> set samples"
  using idx_less [of "length samples"] nth_mem [of "idx (length samples)" "sort samples"]
  by (simp add: pick_def)

text \<open>At least as many samples as the index counts are no larger, the others no smaller.\<close>

lemma pick_rank:
  assumes "samples \<noteq> []" "length samples < 2 ^ 53"
  shows "idx (length samples) < length (filter (\<lambda>x. x \<le> pick samples) samples)"
proof -
  let ?i = "idx (length samples)" and ?s = "sort samples"
  have i: "?i < length ?s" using idx_less assms by simp
  have "\<forall>x \<in> set (take (Suc ?i) ?s). x \<le> ?s ! ?i"
  proof
    fix x assume "x \<in> set (take (Suc ?i) ?s)"
    then obtain k where "k < Suc ?i" "x = ?s ! k" using i by (auto simp: in_set_conv_nth)
    then have "k \<le> ?i" "x = ?s ! k" by simp_all
    then show "x \<le> ?s ! ?i" using sorted_nth_mono [of ?s k ?i] i by simp
  qed
  then have "filter (\<lambda>x. x \<le> ?s ! ?i) (take (Suc ?i) ?s) = take (Suc ?i) ?s"
    by (simp add: filter_id_conv)
  then have "Suc ?i = length (filter (\<lambda>x. x \<le> ?s ! ?i) (take (Suc ?i) ?s))" using i by simp
  also have "\<dots> \<le> length (filter (\<lambda>x. x \<le> ?s ! ?i) (take (Suc ?i) ?s @ drop (Suc ?i) ?s))"
    unfolding filter_append length_append by (rule le_add1)
  also have "\<dots> = length (filter (\<lambda>x. x \<le> ?s ! ?i) ?s)" by (simp only: append_take_drop_id)
  also have "\<dots> = length (filter (\<lambda>x. x \<le> ?s ! ?i) samples)"
    by (metis filter_sort length_sort)
  finally show ?thesis by (simp add: pick_def)
qed

end

lemma product_bounds:
  assumes "0 \<le> p" "p \<le> 1" "0 < n" "n < 2 ^ 53"
  shows "0 \<le> double_of (p * of_nat (n - 1)) \<and> double_of (p * of_nat (n - 1)) \<le> of_nat (n - 1)"
proof -
  have "p * of_nat (n - 1) \<le> of_nat (n - 1)" "0 \<le> p * of_nat (n - 1)"
    using assms by (simp_all add: mult_left_le_one_le)
  then have "double_of (p * of_nat (n - 1)) \<le> double_of (of_nat (n - 1))"
    "double_of 0 \<le> double_of (p * of_nat (n - 1))" by (simp_all only: double_of_mono)
  moreover have "double_of (of_nat (n - 1)) = of_nat (n - 1)"
    using assms by (intro double_of_nat) simp
  ultimately show ?thesis by (simp add: double_of_def)
qed

lemma floor_index_less:
  assumes "0 \<le> p" "p \<le> 1" "0 < n" "n < 2 ^ 53" shows "floor_index p n < n"
proof -
  have "\<lfloor>double_of (p * of_nat (n - 1))\<rfloor> \<le> int (n - 1)"
    using floor_mono [OF product_bounds [OF assms, THEN conjunct2]] by simp
  then show ?thesis using assms(3) by (simp add: floor_index_def)
qed

lemma ceil_index_less:
  assumes "0 < n" "n < 2 ^ 53" shows "ceil_index p n < n"
proof -
  have p: "0 \<le> min 1 (max 0 p)" "min 1 (max 0 p) \<le> 1" by simp_all
  have "\<lceil>double_of (min 1 (max 0 p) * of_nat (n - 1))\<rceil> \<le> int (n - 1)"
    using ceiling_mono [OF product_bounds [OF p assms, THEN conjunct2]] by simp
  then show ?thesis using assms(1) by (simp add: ceil_index_def)
qed

interpretation sink95: percentile_index "floor_index p95"
  by unfold_locales (simp add: floor_index_less p95_def)

interpretation sink99: percentile_index "floor_index p99"
  by unfold_locales (simp add: floor_index_less p99_def)

interpretation consumer: percentile_index "ceil_index p" for p
  by unfold_locales (rule ceil_index_less)

section \<open>Properties\<close>



text \<open>
  the percentile of the consumers, which round up after clamping, also stays inside the
  samples, whatever percentile is asked for.
\<close>

theorem consumer_percentile_in_bounds:
  assumes "samples \<noteq> []" "length samples < 2 ^ 53"
  shows "ceil_index p (length samples) < length samples \<and>
    calculate_percentile_ceil samples p \<in> set samples \<and>
    ceil_index p (length samples) <
      length (filter (\<lambda>x. x \<le> calculate_percentile_ceil samples p) samples)"
  using assms consumer.pick_in_set [of samples p] consumer.pick_rank [of samples p]
    consumer.idx_less [of "length samples" p]
  by (simp add: calculate_percentile_ceil_def consumer.pick_def)

theorem consumer_percentile_in_bounds_witness:
  "calculate_percentile_ceil [5, 3] p50 \<in> {5, 3}"
  using consumer_percentile_in_bounds [of "[5, 3]" p50] by simp

end
