(* ===== verification/Lifecycle.thy ===== *)
theory Lifecycle
  imports Ros_Types
begin

text \<open>
  The managed-node life cycle around the nodes' callbacks: which callback runs in which primary
  state and where its result leads.  An interface \<open>managed_node\<close> states what a node promises of
  its callbacks; that its promise holds in every reachable state is proved once.
\<close>

datatype lc_state = Unconfigured | Inactive | Active | Finalized

fun lc_id :: "lc_state \<Rightarrow> u8" where
  "lc_id Unconfigured = PRIMARY_STATE_UNCONFIGURED"
| "lc_id Inactive = PRIMARY_STATE_INACTIVE"
| "lc_id Active = PRIMARY_STATE_ACTIVE"
| "lc_id Finalized = PRIMARY_STATE_FINALIZED"

lemma lc_id_inj: "lc_id a = lc_id b \<Longrightarrow> a = b"
  by (cases a; cases b; simp)

text \<open>The callbacks: SUCCESS is \<open>Ret True\<close>, FAILURE \<open>Ret False\<close>, and a throw is an error.\<close>

record 'n managed =
  on_configure :: "('n, bool) prog"
  on_activate :: "('n, bool) prog"
  on_deactivate :: "('n, bool) prog"
  on_cleanup :: "('n, bool) prog"
  on_shutdown :: "('n, bool) prog"

text \<open>
  Where a callback leads: on success to its goal, on failure to where the node was; an error goes
  through error processing, which ends in Unconfigured or in Finalized.
\<close>

inductive lc_outcome :: "bool exec \<Rightarrow> lc_state \<Rightarrow> lc_state \<Rightarrow> lc_state \<Rightarrow> bool" where
  "lc_outcome (Ret True) from goal goal"
| "lc_outcome (Ret False) from goal from"
| "lc_outcome (Err e) from goal Unconfigured"
| "lc_outcome (Err e) from goal Finalized"
| "lc_outcome (Exc e) from goal Unconfigured"
| "lc_outcome (Exc e) from goal Finalized"

inductive_cases lc_outcomeE: "lc_outcome r from goal st"

inductive lc_step ::
  "'n managed \<Rightarrow> (lc_state \<Rightarrow> 'n \<Rightarrow> 'n \<Rightarrow> bool) \<Rightarrow> lc_state \<times> 'n \<Rightarrow> lc_state \<times> 'n \<Rightarrow> bool"
  for M internal where
  lc_configure: "on_configure M s = (r, t) \<Longrightarrow> lc_outcome r Unconfigured Inactive st \<Longrightarrow>
    lc_step M internal (Unconfigured, s) (st, t)"
| lc_activate: "on_activate M s = (r, t) \<Longrightarrow> lc_outcome r Inactive Active st \<Longrightarrow>
    lc_step M internal (Inactive, s) (st, t)"
| lc_deactivate: "on_deactivate M s = (r, t) \<Longrightarrow> lc_outcome r Active Inactive st \<Longrightarrow>
    lc_step M internal (Active, s) (st, t)"
| lc_cleanup: "on_cleanup M s = (r, t) \<Longrightarrow> lc_outcome r Inactive Unconfigured st \<Longrightarrow>
    lc_step M internal (Inactive, s) (st, t)"
| lc_shutdown: "on_shutdown M s = (r, t) \<Longrightarrow> st0 \<noteq> Finalized \<Longrightarrow> lc_outcome r st0 Finalized st \<Longrightarrow>
    lc_step M internal (st0, s) (st, t)"
| lc_internal: "internal st s t \<Longrightarrow> lc_step M internal (st, s) (st, t)"

inductive lc_reachable ::
  "'n managed \<Rightarrow> (lc_state \<Rightarrow> 'n \<Rightarrow> 'n \<Rightarrow> bool) \<Rightarrow> ('n \<Rightarrow> bool) \<Rightarrow> lc_state \<times> 'n \<Rightarrow> bool"
  for M internal start where
  lc_start: "start s \<Longrightarrow> lc_reachable M internal start (Unconfigured, s)"
| lc_next: "lc_reachable M internal start a \<Longrightarrow> lc_step M internal a b \<Longrightarrow>
    lc_reachable M internal start b"

text \<open>
  What a node promises: \<open>Q st s\<close> of its state \<open>s\<close> while it is in the primary state \<open>st\<close>.  After an
  error the promise has to hold for both ends of the error processing.
\<close>

locale managed_node =
  fixes M :: "'n managed"
    and internal :: "lc_state \<Rightarrow> 'n \<Rightarrow> 'n \<Rightarrow> bool"
    and start :: "'n \<Rightarrow> bool"
    and Q :: "lc_state \<Rightarrow> 'n \<Rightarrow> bool"
  assumes starts: "start s \<Longrightarrow> Q Unconfigured s"
    and configures: "Q Unconfigured s \<Longrightarrow> on_configure M s = (r, t) \<Longrightarrow>
      lc_outcome r Unconfigured Inactive st \<Longrightarrow> Q st t"
    and activates: "Q Inactive s \<Longrightarrow> on_activate M s = (r, t) \<Longrightarrow>
      lc_outcome r Inactive Active st \<Longrightarrow> Q st t"
    and deactivates: "Q Active s \<Longrightarrow> on_deactivate M s = (r, t) \<Longrightarrow>
      lc_outcome r Active Inactive st \<Longrightarrow> Q st t"
    and cleans_up: "Q Inactive s \<Longrightarrow> on_cleanup M s = (r, t) \<Longrightarrow>
      lc_outcome r Inactive Unconfigured st \<Longrightarrow> Q st t"
    and shuts_down: "Q st0 s \<Longrightarrow> st0 \<noteq> Finalized \<Longrightarrow> on_shutdown M s = (r, t) \<Longrightarrow>
      lc_outcome r st0 Finalized st \<Longrightarrow> Q st t"
    and runs: "Q st s \<Longrightarrow> internal st s t \<Longrightarrow> Q st t"
begin

lemma step_keeps: "lc_step M internal a b \<Longrightarrow> Q (fst a) (snd a) \<Longrightarrow> Q (fst b) (snd b)"
  by (induction rule: lc_step.induct)
     (auto intro: configures activates deactivates cleans_up shuts_down runs)

lemma reachable_keeps: "lc_reachable M internal start a \<Longrightarrow> Q (fst a) (snd a)"
  by (induction rule: lc_reachable.induct) (auto intro: starts step_keeps)

end

end
