(* ===== verification/Kafka_Sink.thy ===== *)
theory Kafka_Sink
  imports Kafka_Producer Message_Json Percentile Lifecycle "HOL-Library.Signed_Division"
begin

text \<open>
  kafka_sink: the managed node that subscribes to the configured ROS topics and forwards every
  message to Kafka (kafka_bridge/kafka_sink/src/kafka_sink_node.cpp).  It holds a KafkaProducer
  while it is active, serializes through Message_Json when the json format is asked for, and
  publishes its counters through Percentile.

  The node's executor runs one callback at a time, so a lifecycle callback, a parameter callback,
  a message and a metrics timer are each one step; the producer's poll thread runs in between.
  rclcpp, rosbag2_cpp, yaml-cpp and librdkafka are parameters, gathered in \<open>sink_env\<close>.
\<close>

section \<open>Data\<close>

record sub_config =
  sc_topic_name :: string
  sc_msg_type :: string
  sc_kafka_name :: "string option"
  sc_kafka_key :: "string option"

datatype topic_mapping_mode = PREFIX_ROS_TOPIC | FIXED

datatype payload_format = CDR | JSON

record kafka_parameters =
  par_bootstrap_servers :: string
  par_client_id :: string
  par_acks :: string
  par_topic_prefix :: string
  par_message_key :: string
  par_mapping_mode :: topic_mapping_mode
  par_fixed_topic :: string
  par_strict_startup :: bool
  par_max_queue_messages :: nat
  par_drop_when_full :: bool
  par_linger_ms :: "int option"
  par_batch_size :: "int option"
  par_payload_format :: payload_format

definition default_kafka_parameters :: kafka_parameters where
  "default_kafka_parameters =
     \<lparr>par_bootstrap_servers = ''localhost:9092'', par_client_id = ''kafka_sink'',
      par_acks = ''all'', par_topic_prefix = ''ros2'', par_message_key = ''robot'',
      par_mapping_mode = PREFIX_ROS_TOPIC, par_fixed_topic = ''ros2.raw'',
      par_strict_startup = False, par_max_queue_messages = 1024, par_drop_when_full = True,
      par_linger_ms = None, par_batch_size = None, par_payload_format = CDR\<rparr>"

record subscription_runtime =
  rt_log_label :: string
  rt_ros_topic :: string
  rt_msg_type :: string
  rt_kafka_topic :: string
  rt_message_key_bytes :: "u8 list"
  rt_payload_format :: payload_format
  rt_type_support :: type_support
  rt_next_log_time_ns :: int
  rt_sent_ok :: u64
  rt_dropped :: u64
  rt_errors :: u64
  rt_msgs_total :: u64
  rt_bytes_total :: u64
  rt_serialize_accum :: u64
  rt_send_accum :: u64
  rt_serialize_max :: u64
  rt_send_max :: u64
  rt_size_min :: u64
  rt_size_max :: u64
  rt_msg_seq :: u64
  rt_serialize_samples :: "u64 list"
  rt_send_samples :: "u64 list"
  rt_prev_msgs_total :: u64
  rt_prev_sent_ok :: u64
  rt_prev_dropped :: u64
  rt_prev_errors :: u64
  rt_prev_bytes_total :: u64
  rt_prev_serialize_accum :: u64
  rt_prev_send_accum :: u64

definition new_runtime :: subscription_runtime where
  "new_runtime =
     \<lparr>rt_log_label = [], rt_ros_topic = [], rt_msg_type = [], rt_kafka_topic = [],
      rt_message_key_bytes = [], rt_payload_format = CDR,
      rt_type_support = \<lparr>ts_rmw = False, ts_introspection = False, ts_members = None\<rparr>,
      rt_next_log_time_ns = 0, rt_sent_ok = 0, rt_dropped = 0, rt_errors = 0,
      rt_msgs_total = 0, rt_bytes_total = 0, rt_serialize_accum = 0, rt_send_accum = 0,
      rt_serialize_max = 0, rt_send_max = 0, rt_size_min = 2 ^ 64 - 1, rt_size_max = 0,
      rt_msg_seq = 0, rt_serialize_samples = [], rt_send_samples = [],
      rt_prev_msgs_total = 0, rt_prev_sent_ok = 0, rt_prev_dropped = 0, rt_prev_errors = 0,
      rt_prev_bytes_total = 0, rt_prev_serialize_accum = 0, rt_prev_send_accum = 0\<rparr>"

text \<open>The runtime is shared between the subscription and its callback; both see this one.\<close>

record active_sub =
  as_subscription :: bool
  as_topic_name :: string
  as_msg_type :: string
  as_runtime :: subscription_runtime

text \<open>
  \<open>ks_broker\<close> is the state of librdkafka and the brokers while the node holds no producer,
  \<open>ks_published\<close> what was published on the metrics topic, \<open>ks_live_messages\<close> the messages that
  the JSON path has allocated and not freed.
\<close>

record 'k kafka_sink =
  ks_store :: "string \<Rightarrow> param_value"
  ks_configured :: "sub_config list"
  ks_active :: "active_sub list"
  ks_params :: kafka_parameters
  ks_producer :: "'k producer option"
  ks_broker :: 'k
  ks_is_active :: bool
  ks_qos_depth :: int
  ks_metrics_enabled :: bool
  ks_metrics_interval_ms :: int
  ks_metrics_topic :: string
  ks_metrics_pub :: bool
  ks_metrics_timer :: bool
  ks_telemetry_enabled :: bool
  ks_telemetry_log_every_n :: int
  ks_live_messages :: nat
  ks_published :: "string list"

text \<open>
  The libraries.  A false result of \<open>se_subscribe\<close> is a null pointer.
\<close>

record ('k, 'y) sink_env =
  se_rdkafka :: "'k rdkafka"
  se_yaml :: "'y yaml"
  se_json :: json_env
  se_typesupport :: typesupport_lib
  se_subscribe :: "string \<Rightarrow> string \<Rightarrow> int \<Rightarrow> bool exec"
  se_publisher :: "string \<Rightarrow> unit exec"
  se_timer :: "int \<Rightarrow> unit exec"

section \<open>Configuration\<close>

text \<open>
  load_type_support(): the two handles are written before they are tested, so a false return can
  leave one of them set.  Every throw is a false return.
\<close>

definition load_type_support ::
  "typesupport_lib \<Rightarrow> string \<Rightarrow> type_support \<Rightarrow> bool \<times> type_support" where
  "load_type_support T t ts =
     (case (tl_library T t ''rosidl_typesupport_cpp'',
            tl_library T t ''rosidl_typesupport_introspection_cpp'') of
        (Ret ts_lib, Ret introspection_lib) \<Rightarrow>
          if \<not> ts_lib \<or> \<not> introspection_lib then (False, ts)
          else (case tl_handle T t ''rosidl_typesupport_cpp'' of
              Ret rmw \<Rightarrow>
                (let ts = ts\<lparr>ts_rmw := rmw\<rparr>
                 in case tl_handle T t ''rosidl_typesupport_introspection_cpp'' of
                      Ret intro \<Rightarrow>
                        (rmw \<and> intro,
                         ts\<lparr>ts_introspection := intro,
                            ts_members := (if intro then tl_members T t else None)\<rparr>)
                    | _ \<Rightarrow> (False, ts))
            | _ \<Rightarrow> (False, ts))
      | _ \<Rightarrow> (False, ts))"

lemma load_type_support_True:
  "load_type_support T t ts = (True, ts') \<Longrightarrow> ts_rmw ts' \<and> ts_introspection ts'"
  by (auto simp: load_type_support_def Let_def split: exec.splits if_splits)

lemma load_type_support_complete:
  "fst (load_type_support T t ts) \<Longrightarrow>
     ts_rmw (snd (load_type_support T t ts)) \<and> ts_introspection (snd (load_type_support T t ts))"
  by (cases "load_type_support T t ts") (simp add: load_type_support_True)

text \<open>
  parse_subscriptions_yaml(): every failure is a throw, which both callers turn into a message.
\<close>

definition non_empty :: "string \<Rightarrow> string option" where
  "non_empty s = (if s = [] then None else Some s)"

definition parse_subscription :: "'y yaml \<Rightarrow> 'y \<Rightarrow> sub_config exec" where
  "parse_subscription Y entry =
     (if \<not> y_is_map Y entry then Exc ''Each subscription entry must be a map.''
      else
        exec_bind (y_get Y entry ''topic_name'') (\<lambda>topic_node.
        exec_bind (y_get Y entry ''msg_type'') (\<lambda>type_node.
        case (topic_node, type_node) of
          (Some tn, Some mn) \<Rightarrow>
            exec_bind (y_as_string Y tn) (\<lambda>topic.
            exec_bind (y_as_string Y mn) (\<lambda>ty.
            exec_bind (y_field Y entry ''kafka_name'') (\<lambda>kname.
            if trim topic = [] \<or> trim ty = []
            then Exc ''Subscription entries must have non-empty topic_name and msg_type.''
            else
              exec_bind (y_field Y entry ''kafka_key'') (\<lambda>kkey.
              Ret \<lparr>sc_topic_name = trim topic, sc_msg_type = trim ty,
                   sc_kafka_name = Option.bind kname (non_empty \<circ> trim),
                   sc_kafka_key = Option.bind kkey (non_empty \<circ> trim)\<rparr>))))
        | _ \<Rightarrow> Exc ''Each subscription entry requires 'topic_name' and 'msg_type'.'')))"

definition parse_subscriptions_yaml :: "'y yaml \<Rightarrow> string \<Rightarrow> sub_config list exec" where
  "parse_subscriptions_yaml Y yaml_text =
     (if yaml_text = [] then Ret []
      else case y_load Y yaml_text of
        Ret doc \<Rightarrow>
          if \<not> y_is_sequence Y doc
          then Exc ''Parameter 'subscriptions_yaml' must be a YAML sequence.''
          else exec_map (parse_subscription Y) (y_elements Y doc)
      | Err e \<Rightarrow> Exc e
      | Exc e \<Rightarrow> Exc (''Failed to parse subscriptions_yaml: '' @ e))"

text \<open>The parameters the constructor declares, with their defaults.\<close>

definition declared_parameters :: "(string \<times> param_value) list" where
  "declared_parameters =
     [(''subscriptions_yaml'', PString []), (''qos_depth'', PInt 10),
      (''metrics.enabled'', PBool False), (''metrics.interval_ms'', PInt 1000),
      (''metrics.topic'', PString ''kafka_sink/metrics''),
      (''telemetry.enabled'', PBool False), (''telemetry.log_every_n'', PInt 1),
      (''kafka.bootstrap_servers'', PString (par_bootstrap_servers default_kafka_parameters)),
      (''kafka.client_id'', PString (par_client_id default_kafka_parameters)),
      (''kafka.acks'', PString (par_acks default_kafka_parameters)),
      (''kafka.topic_prefix'', PString (par_topic_prefix default_kafka_parameters)),
      (''kafka.message_key'', PString (par_message_key default_kafka_parameters)),
      (''kafka.topic_mapping_mode'', PString ''prefix_ros_topic''),
      (''kafka.fixed_topic'', PString (par_fixed_topic default_kafka_parameters)),
      (''kafka.strict_startup'', PBool (par_strict_startup default_kafka_parameters)),
      (''kafka.max_queue_messages'',
         PInt (int (par_max_queue_messages default_kafka_parameters))),
      (''kafka.drop_when_full'', PBool (par_drop_when_full default_kafka_parameters)),
      (''kafka.linger_ms'', PInt (- 1)), (''kafka.batch_size'', PInt (- 1)),
      (''kafka.payload_format'', PString ''cdr'')]"

text \<open>The constructor; \<open>overrides\<close> are the values given on start-up.\<close>

definition new_kafka_sink :: "(string \<Rightarrow> param_value option) \<Rightarrow> 'k \<Rightarrow> 'k kafka_sink" where
  "new_kafka_sink overrides w =
     \<lparr>ks_store = (\<lambda>n. case map_of declared_parameters n of
                      None \<Rightarrow> PNotSet
                    | Some v \<Rightarrow> (case overrides n of Some x \<Rightarrow> x | None \<Rightarrow> v)),
      ks_configured = [], ks_active = [], ks_params = default_kafka_parameters,
      ks_producer = None, ks_broker = w, ks_is_active = False, ks_qos_depth = 10,
      ks_metrics_enabled = False, ks_metrics_interval_ms = 1000,
      ks_metrics_topic = ''kafka_sink/metrics'', ks_metrics_pub = False,
      ks_metrics_timer = False, ks_telemetry_enabled = False, ks_telemetry_log_every_n = 1,
      ks_live_messages = 0, ks_published = []\<rparr>"

definition validate_qos_depth :: "int \<Rightarrow> string option" where
  "validate_qos_depth d =
     (if d \<le> 0 then Some ''qos_depth must be greater than zero.'' else None)"

definition validate_kafka_parameters :: "kafka_parameters \<Rightarrow> string option" where
  "validate_kafka_parameters p =
     (if par_bootstrap_servers p = [] then Some ''kafka.bootstrap_servers cannot be empty.''
      else if par_client_id p = [] then Some ''kafka.client_id cannot be empty.''
      else if par_acks p = [] then Some ''kafka.acks cannot be empty.''
      else if par_message_key p = [] then Some ''kafka.message_key cannot be empty.''
      else if par_max_queue_messages p = 0
      then Some ''kafka.max_queue_messages must be greater than zero.''
      else if par_mapping_mode p = FIXED \<and> par_fixed_topic p = []
      then Some ''kafka.fixed_topic cannot be empty when mapping mode is 'fixed'.''
      else None)"

text \<open>The conversions that the parameter callback and the configuration share.\<close>

definition mapping_mode_of :: "string \<Rightarrow> topic_mapping_mode option" where
  "mapping_mode_of s =
     (if s = ''prefix_ros_topic'' then Some PREFIX_ROS_TOPIC
      else if s = ''fixed'' then Some FIXED else None)"

definition payload_format_of :: "string \<Rightarrow> payload_format option" where
  "payload_format_of s =
     (if s = ''cdr'' then Some CDR else if s = ''json'' then Some JSON else None)"

definition queue_bound :: "int \<Rightarrow> nat" where
  "queue_bound v = (let value = narrow32 v in if 0 < value then nat value else 0)"

definition optional_ms :: "int \<Rightarrow> int option" where
  "optional_ms v = (let value = narrow32 v in if 0 \<le> value then Some value else None)"

definition or_fail :: "string \<Rightarrow> 'a option \<Rightarrow> 'a exec" where
  "or_fail e v = (case v of Some a \<Rightarrow> Ret a | None \<Rightarrow> Err e)"

lemma or_fail_simps [simp]: "or_fail e (Some a) = Ret a" "or_fail e None = Err e"
  by (simp_all add: or_fail_def)

section \<open>Parameter updates\<close>

text \<open>
  What on_parameters_set() collects before it applies anything.  \<open>pd_yaml\<close> is the pending text,
  there when an update is required.
\<close>

record pending =
  pd_yaml :: "string option"
  pd_depth :: int
  pd_kafka :: kafka_parameters
  pd_kafka_changed :: bool
  pd_metrics_changed :: bool
  pd_metrics_enabled :: bool
  pd_metrics_interval_ms :: int
  pd_metrics_topic :: string
  pd_telemetry_changed :: bool
  pd_telemetry_enabled :: bool
  pd_telemetry_log_every_n :: int

definition new_pending :: "'k kafka_sink \<Rightarrow> pending" where
  "new_pending s =
     \<lparr>pd_yaml = None, pd_depth = ks_qos_depth s, pd_kafka = ks_params s,
      pd_kafka_changed = False, pd_metrics_changed = False,
      pd_metrics_enabled = ks_metrics_enabled s,
      pd_metrics_interval_ms = ks_metrics_interval_ms s,
      pd_metrics_topic = ks_metrics_topic s, pd_telemetry_changed = False,
      pd_telemetry_enabled = ks_telemetry_enabled s,
      pd_telemetry_log_every_n = ks_telemetry_log_every_n s\<rparr>"

text \<open>A parameter whose name begins with "kafka."; unknown ones change nothing.\<close>

definition collect_kafka :: "parameter \<Rightarrow> kafka_parameters \<Rightarrow> kafka_parameters exec" where
  "collect_kafka p k =
     (let n = p_name p;
          str = (\<lambda>f. exec_bind (as_string p) (\<lambda>v. Ret (f v)));
          bool = (\<lambda>f. exec_bind (as_bool p) (\<lambda>v. Ret (f v)));
          num = (\<lambda>f. exec_bind (as_int p) (\<lambda>v. Ret (f v)))
      in if n = ''kafka.bootstrap_servers'' then str (\<lambda>v. k\<lparr>par_bootstrap_servers := v\<rparr>)
         else if n = ''kafka.client_id'' then str (\<lambda>v. k\<lparr>par_client_id := v\<rparr>)
         else if n = ''kafka.acks'' then str (\<lambda>v. k\<lparr>par_acks := v\<rparr>)
         else if n = ''kafka.topic_prefix'' then str (\<lambda>v. k\<lparr>par_topic_prefix := v\<rparr>)
         else if n = ''kafka.message_key'' then str (\<lambda>v. k\<lparr>par_message_key := v\<rparr>)
         else if n = ''kafka.topic_mapping_mode''
         then exec_bind (as_string p) (\<lambda>v.
              exec_bind (or_fail ''invalid kafka.topic_mapping_mode'' (mapping_mode_of v)) (\<lambda>m.
              Ret (k\<lparr>par_mapping_mode := m\<rparr>)))
         else if n = ''kafka.fixed_topic'' then str (\<lambda>v. k\<lparr>par_fixed_topic := v\<rparr>)
         else if n = ''kafka.strict_startup'' then bool (\<lambda>v. k\<lparr>par_strict_startup := v\<rparr>)
         else if n = ''kafka.max_queue_messages''
         then num (\<lambda>v. k\<lparr>par_max_queue_messages := queue_bound v\<rparr>)
         else if n = ''kafka.drop_when_full'' then bool (\<lambda>v. k\<lparr>par_drop_when_full := v\<rparr>)
         else if n = ''kafka.linger_ms'' then num (\<lambda>v. k\<lparr>par_linger_ms := optional_ms v\<rparr>)
         else if n = ''kafka.batch_size'' then num (\<lambda>v. k\<lparr>par_batch_size := optional_ms v\<rparr>)
         else if n = ''kafka.payload_format''
         then exec_bind (as_string p) (\<lambda>v.
              exec_bind (or_fail ''invalid kafka.payload_format'' (payload_format_of v)) (\<lambda>m.
              Ret (k\<lparr>par_payload_format := m\<rparr>)))
         else Ret k)"

text \<open>
  One round of the loop; \<open>state_id\<close> is the primary state the node is in.  An \<open>Err\<close> is an early
  return with the reason of the rejection.
\<close>

definition collect_param :: "u8 \<Rightarrow> parameter \<Rightarrow> pending \<Rightarrow> pending exec" where
  "collect_param state_id p d =
     (let n = p_name p; is_active = (state_id = PRIMARY_STATE_ACTIVE)
      in if n = ''subscriptions_yaml'' then
           (if is_active then Err ''deactivate first''
            else exec_bind (as_string p) (\<lambda>v. Ret (d\<lparr>pd_yaml := Some v\<rparr>)))
         else if n = ''qos_depth''
         then exec_bind (as_int p) (\<lambda>v. Ret (d\<lparr>pd_depth := narrow32 v\<rparr>))
         else if starts_with ''kafka.'' n then
           (if is_active then Err ''deactivate first''
            else exec_bind (collect_kafka p (pd_kafka d)) (\<lambda>k.
                 Ret (d\<lparr>pd_kafka := k, pd_kafka_changed := True\<rparr>)))
         else if starts_with ''metrics.'' n then
           (if is_active then Err ''deactivate first''
            else
             (let d = d\<lparr>pd_metrics_changed := True\<rparr>
              in if n = ''metrics.enabled''
                 then exec_bind (as_bool p) (\<lambda>v. Ret (d\<lparr>pd_metrics_enabled := v\<rparr>))
                 else if n = ''metrics.interval_ms''
                 then exec_bind (as_int p) (\<lambda>v. Ret (d\<lparr>pd_metrics_interval_ms := narrow32 v\<rparr>))
                 else if n = ''metrics.topic''
                 then exec_bind (as_string p) (\<lambda>v. Ret (d\<lparr>pd_metrics_topic := v\<rparr>))
                 else Ret d))
         else if starts_with ''telemetry.'' n then
           (let d = d\<lparr>pd_telemetry_changed := True\<rparr>
            in if n = ''telemetry.enabled''
               then exec_bind (as_bool p) (\<lambda>v. Ret (d\<lparr>pd_telemetry_enabled := v\<rparr>))
               else if n = ''telemetry.log_every_n''
               then exec_bind (as_int p) (\<lambda>v. Ret (d\<lparr>pd_telemetry_log_every_n := narrow32 v\<rparr>))
               else Ret d)
         else Ret d)"

fun collect_params :: "u8 \<Rightarrow> parameter list \<Rightarrow> pending \<Rightarrow> pending exec" where
  "collect_params state_id [] d = Ret d"
| "collect_params state_id (p # ps) d =
     exec_bind (collect_param state_id p d) (collect_params state_id ps)"

text \<open>
  The second half applies group after group; a group that is refused returns at once and leaves
  the earlier groups applied.
\<close>

definition apply_subscriptions ::
  "('k, 'y) sink_env \<Rightarrow> pending \<Rightarrow> ('k kafka_sink, unit) prog" where
  "apply_subscriptions E d s =
     (case pd_yaml d of
        None \<Rightarrow> (Ret (), s)
      | Some text \<Rightarrow>
          (case parse_subscriptions_yaml (se_yaml E) text of
             Ret cs \<Rightarrow> (Ret (), s\<lparr>ks_configured := cs\<rparr>)
           | Err e \<Rightarrow> (Err e, s)
           | Exc e \<Rightarrow> (Err e, s)))"

definition apply_qos_depth :: "pending \<Rightarrow> ('k kafka_sink, unit) prog" where
  "apply_qos_depth d s =
     (case validate_qos_depth (pd_depth d) of
        Some e \<Rightarrow> (Err e, s)
      | None \<Rightarrow> (Ret (), s\<lparr>ks_qos_depth := pd_depth d\<rparr>))"

definition apply_kafka :: "pending \<Rightarrow> ('k kafka_sink, unit) prog" where
  "apply_kafka d s =
     (if \<not> pd_kafka_changed d then (Ret (), s)
      else case validate_kafka_parameters (pd_kafka d) of
        Some e \<Rightarrow> (Err e, s)
      | None \<Rightarrow> (Ret (), s\<lparr>ks_params := pd_kafka d\<rparr>))"

definition apply_metrics :: "pending \<Rightarrow> ('k kafka_sink, unit) prog" where
  "apply_metrics d s =
     (Ret (),
      if pd_metrics_changed d
      then s\<lparr>ks_metrics_enabled := pd_metrics_enabled d,
             ks_metrics_interval_ms := pd_metrics_interval_ms d,
             ks_metrics_topic := pd_metrics_topic d\<rparr>
      else s)"

definition apply_telemetry :: "pending \<Rightarrow> ('k kafka_sink, unit) prog" where
  "apply_telemetry d s =
     (if \<not> pd_telemetry_changed d then (Ret (), s)
      else if pd_telemetry_log_every_n d < 1
      then (Err ''telemetry.log_every_n must be >= 1'', s)
      else (Ret (), s\<lparr>ks_telemetry_enabled := pd_telemetry_enabled d,
                      ks_telemetry_log_every_n := pd_telemetry_log_every_n d\<rparr>))"

definition apply_pending ::
  "('k, 'y) sink_env \<Rightarrow> pending \<Rightarrow> ('k kafka_sink, unit) prog" where
  "apply_pending E d =
     andthen (apply_subscriptions E d) (\<lambda>_.
     andthen (apply_qos_depth d) (\<lambda>_.
     andthen (apply_kafka d) (\<lambda>_.
     andthen (apply_metrics d) (\<lambda>_. apply_telemetry d))))"

definition accepted_result :: set_result where
  "accepted_result = \<lparr>sr_successful = True, sr_reason = ''accepted''\<rparr>"

definition rejected_result :: "string \<Rightarrow> set_result" where
  "rejected_result e = \<lparr>sr_successful = False, sr_reason = e\<rparr>"

definition on_parameters_set ::
  "('k, 'y) sink_env \<Rightarrow> u8 \<Rightarrow> parameter list \<Rightarrow> ('k kafka_sink, set_result) prog" where
  "on_parameters_set E state_id ps =
     (\<lambda>s. attempt (lift_exec (collect_params state_id ps (new_pending s)))
            (\<lambda>d. attempt (apply_pending E d)
                   (\<lambda>_. ret accepted_result) (\<lambda>e. ret (rejected_result e)))
            (\<lambda>e. ret (rejected_result e)) s)"

section \<open>Reading the parameters\<close>

definition get_parameter :: "'k kafka_sink \<Rightarrow> string \<Rightarrow> parameter" where
  "get_parameter s n = mk_param n (ks_store s n)"

definition get_string :: "string \<Rightarrow> ('k kafka_sink, string) prog" where
  "get_string n = (\<lambda>s. lift_exec (as_string (get_parameter s n)) s)"

definition get_bool :: "string \<Rightarrow> ('k kafka_sink, bool) prog" where
  "get_bool n = (\<lambda>s. lift_exec (as_bool (get_parameter s n)) s)"

definition get_int :: "string \<Rightarrow> ('k kafka_sink, int) prog" where
  "get_int n = (\<lambda>s. lift_exec (as_int (get_parameter s n)) s)"

definition read_kafka_parameters ::
  "kafka_parameters \<Rightarrow> ('k kafka_sink, kafka_parameters) prog" where
  "read_kafka_parameters pending =
     andthen (get_string ''kafka.bootstrap_servers'') (\<lambda>servers.
     andthen (get_string ''kafka.client_id'') (\<lambda>client.
     andthen (get_string ''kafka.acks'') (\<lambda>ack.
     andthen (get_string ''kafka.topic_prefix'') (\<lambda>prefix.
     andthen (get_string ''kafka.message_key'') (\<lambda>key.
     andthen (get_string ''kafka.topic_mapping_mode'') (\<lambda>mode.
     andthen (lift_exec (or_fail ''Invalid kafka.topic_mapping_mode value.''
                (mapping_mode_of mode))) (\<lambda>mapping.
     andthen (get_string ''kafka.fixed_topic'') (\<lambda>fixed_topic.
     andthen (get_bool ''kafka.strict_startup'') (\<lambda>strict.
     andthen (get_int ''kafka.max_queue_messages'') (\<lambda>bound.
     andthen (get_bool ''kafka.drop_when_full'') (\<lambda>drops.
     andthen (get_int ''kafka.linger_ms'') (\<lambda>linger.
     andthen (get_int ''kafka.batch_size'') (\<lambda>batch.
     andthen (get_string ''kafka.payload_format'') (\<lambda>fmt.
     andthen (lift_exec (or_fail ''Invalid kafka.payload_format value.''
                (payload_format_of fmt))) (\<lambda>payload.
     ret (pending\<lparr>par_bootstrap_servers := servers, par_client_id := client,
            par_acks := ack, par_topic_prefix := prefix, par_message_key := key,
            par_mapping_mode := mapping, par_fixed_topic := fixed_topic,
            par_strict_startup := strict, par_max_queue_messages := queue_bound bound,
            par_drop_when_full := drops, par_linger_ms := optional_ms linger,
            par_batch_size := optional_ms batch,
            par_payload_format := payload\<rparr>))))))))))))))))"

definition store_kafka_parameters :: "kafka_parameters \<Rightarrow> ('k kafka_sink, unit) prog" where
  "store_kafka_parameters pending s =
     (case validate_kafka_parameters pending of
        Some e \<Rightarrow> (Err e, s)
      | None \<Rightarrow> (Ret (), s\<lparr>ks_params := pending\<rparr>))"

definition configure_kafka_parameters :: "('k kafka_sink, unit) prog" where
  "configure_kafka_parameters s =
     andthen (read_kafka_parameters (ks_params s)) store_kafka_parameters s"

text \<open>The checks of configure_from_parameters(), after it has read and stored everything.\<close>

definition check_configuration ::
  "('k, 'y) sink_env \<Rightarrow> string \<Rightarrow> ('k kafka_sink, unit) prog" where
  "check_configuration E yaml_config s =
     (case validate_qos_depth (ks_qos_depth s) of
        Some e \<Rightarrow> (Err e, s)
      | None \<Rightarrow>
          if ks_telemetry_log_every_n s < 1
          then (Err ''telemetry.log_every_n must be >= 1.'', s)
          else (case parse_subscriptions_yaml (se_yaml E) yaml_config of
              Ret cs \<Rightarrow> configure_kafka_parameters (s\<lparr>ks_configured := cs\<rparr>)
            | Err e \<Rightarrow> (Err e, s)
            | Exc e \<Rightarrow> (Err e, s)))"

definition configure_from_parameters ::
  "('k, 'y) sink_env \<Rightarrow> ('k kafka_sink, unit) prog" where
  "configure_from_parameters E =
     andthen (get_int ''qos_depth'') (\<lambda>depth.
     andthen (update_state (\<lambda>s. s\<lparr>ks_qos_depth := narrow32 depth\<rparr>)) (\<lambda>_.
     andthen (get_string ''subscriptions_yaml'') (\<lambda>yaml_config.
     andthen (get_bool ''metrics.enabled'') (\<lambda>metrics.
     andthen (update_state (\<lambda>s. s\<lparr>ks_metrics_enabled := metrics\<rparr>)) (\<lambda>_.
     andthen (get_int ''metrics.interval_ms'') (\<lambda>interval.
     andthen (update_state (\<lambda>s. s\<lparr>ks_metrics_interval_ms := narrow32 interval\<rparr>)) (\<lambda>_.
     andthen (get_string ''metrics.topic'') (\<lambda>topic.
     andthen (update_state (\<lambda>s. s\<lparr>ks_metrics_topic := topic\<rparr>)) (\<lambda>_.
     andthen (get_bool ''telemetry.enabled'') (\<lambda>telemetry.
     andthen (update_state (\<lambda>s. s\<lparr>ks_telemetry_enabled := telemetry\<rparr>)) (\<lambda>_.
     andthen (get_int ''telemetry.log_every_n'') (\<lambda>every.
     andthen (update_state (\<lambda>s. s\<lparr>ks_telemetry_log_every_n := narrow32 every\<rparr>)) (\<lambda>_.
     check_configuration E yaml_config)))))))))))))"

section \<open>The producer\<close>

definition build_producer_config :: "kafka_parameters \<Rightarrow> producer_config" where
  "build_producer_config p =
     default_producer_config\<lparr>
       bootstrap_servers := par_bootstrap_servers p, client_id := par_client_id p,
       acks := par_acks p, linger_ms := par_linger_ms p, batch_size := par_batch_size p,
       max_queue_messages := par_max_queue_messages p,
       drop_when_full := par_drop_when_full p,
       startup_mode := (if par_strict_startup p then STRICT else TOLERANT)\<rparr>"

text \<open>
  stop_producer(): the pointer is taken away first.  Assigning a new producer destroys an old one,
  whose destructor stops it.
\<close>

definition stop_producer :: "('k, 'y) sink_env \<Rightarrow> 'k kafka_sink \<Rightarrow> 'k kafka_sink" where
  "stop_producer E s =
     (case ks_producer s of
        None \<Rightarrow> s
      | Some p \<Rightarrow>
          s\<lparr>ks_producer := None, ks_broker := kp_world (stop (se_rdkafka E) p)\<rparr>)"

definition start_producer :: "('k, 'y) sink_env \<Rightarrow> ('k kafka_sink, bool) prog" where
  "start_producer E s =
     (let s = stop_producer E s;
          p = new_producer (build_producer_config (ks_params s)) (ks_broker s)
      in case start (se_rdkafka E) p of
           (True, p') \<Rightarrow> (Ret True, s\<lparr>ks_producer := Some p'\<rparr>)
         | (False, p') \<Rightarrow> (Ret False, s\<lparr>ks_broker := kp_world p'\<rparr>))"

section \<open>Subscriptions\<close>

definition map_kafka_topic :: "kafka_parameters \<Rightarrow> string \<Rightarrow> string" where
  "map_kafka_topic p ros_topic =
     (if par_mapping_mode p = FIXED then par_fixed_topic p
      else
       (let normalized = replace_char (CHR ''/'') (CHR ''.'') (drop_front (CHR ''/'') ros_topic);
            prefix = par_topic_prefix p
        in if prefix = [] then normalized
           else if last prefix = CHR ''.'' \<or> normalized = [] then prefix @ normalized
           else prefix @ ''.'' @ normalized))"

definition clear_subscriptions :: "'k kafka_sink \<Rightarrow> 'k kafka_sink" where
  "clear_subscriptions s = s\<lparr>ks_active := []\<rparr>"

definition quoted :: "string \<Rightarrow> string" where
  "quoted s = CHR 0x27 # s @ [CHR 0x27]"

text \<open>The runtime of one entry, up to the creation of the subscription.\<close>

definition prepare_runtime ::
  "('k, 'y) sink_env \<Rightarrow> kafka_parameters \<Rightarrow> sub_config \<Rightarrow> subscription_runtime" where
  "prepare_runtime E p c =
     (let kafka_topic_name = (case sc_kafka_name c of Some n \<Rightarrow> n | None \<Rightarrow> sc_topic_name c);
          key_str = (case sc_kafka_key c of Some k \<Rightarrow> k | None \<Rightarrow> par_message_key p);
          rt = new_runtime\<lparr>rt_ros_topic := sc_topic_name c, rt_msg_type := sc_msg_type c,
                 rt_kafka_topic := map_kafka_topic p kafka_topic_name,
                 rt_message_key_bytes := bytes_of key_str,
                 rt_payload_format := par_payload_format p\<rparr>;
          rt = (if par_payload_format p = JSON
                then (case load_type_support (se_typesupport E) (sc_msg_type c) (rt_type_support rt) of
                   (True, ts) \<Rightarrow> rt\<lparr>rt_type_support := ts\<rparr>
                 | (False, ts) \<Rightarrow> rt\<lparr>rt_type_support := ts, rt_payload_format := CDR\<rparr>)
                else rt)
      in rt\<lparr>rt_log_label := ''topic='' @ quoted (sc_topic_name c) @ '' kafka_topic='' @
               quoted (rt_kafka_topic rt) @ '' type='' @ quoted (sc_msg_type c)\<rparr>)"

text \<open>The second attempt at the type support, after the subscription exists.\<close>

definition retry_type_support ::
  "('k, 'y) sink_env \<Rightarrow> subscription_runtime \<Rightarrow> subscription_runtime" where
  "retry_type_support E rt =
     (if rt_payload_format rt = JSON \<and> \<not> ts_rmw (rt_type_support rt)
      then
       (let ts = (case load_type_support (se_typesupport E) (rt_msg_type rt) (rt_type_support rt) of
                    (True, ts) \<Rightarrow> ts
                  | (False, ts) \<Rightarrow>
                      ts\<lparr>ts_rmw := False, ts_introspection := False, ts_members := None\<rparr>);
            rt = rt\<lparr>rt_type_support := ts\<rparr>
        in if ts_rmw ts \<and> ts_introspection ts then rt else rt\<lparr>rt_payload_format := CDR\<rparr>)
      else rt)"

text \<open>
  The loop of build_subscriptions(): an entry is appended before its subscription is created, so
  the one that fails stays in the list.
\<close>

fun subscribe_all ::
  "('k, 'y) sink_env \<Rightarrow> kafka_parameters \<Rightarrow> int \<Rightarrow> sub_config list
     \<Rightarrow> (active_sub list, bool) prog" where
  "subscribe_all E p depth [] subs = (Ret True, subs)"
| "subscribe_all E p depth (c # cs) subs =
     (let a = \<lparr>as_subscription = False, as_topic_name = sc_topic_name c,
               as_msg_type = sc_msg_type c, as_runtime = prepare_runtime E p c\<rparr>
      in case se_subscribe E (sc_topic_name c) (sc_msg_type c) depth of
           Ret True \<Rightarrow>
             subscribe_all E p depth cs
               (subs @ [a\<lparr>as_subscription := True,
                          as_runtime := retry_type_support E (as_runtime a)\<rparr>])
         | Ret False \<Rightarrow> (Ret False, subs @ [a])
         | Err e \<Rightarrow> (Exc e, subs @ [a])
         | Exc e \<Rightarrow> (Exc e, subs @ [a]))"

definition build_subscriptions :: "('k, 'y) sink_env \<Rightarrow> ('k kafka_sink, bool) prog" where
  "build_subscriptions E s =
     (let s = clear_subscriptions s
      in if ks_producer s = None then (Ret False, s)
         else if ks_configured s = [] then (Ret True, s)
         else (case subscribe_all E (ks_params s) (ks_qos_depth s) (ks_configured s)
                      (ks_active s) of
             (r, subs) \<Rightarrow> (r, s\<lparr>ks_active := subs\<rparr>)))"

section \<open>Lifecycle callbacks\<close>

definition sink_on_configure :: "('k, 'y) sink_env \<Rightarrow> ('k kafka_sink, bool) prog" where
  "sink_on_configure E =
     attempt (configure_from_parameters E) (\<lambda>_. ret True) (\<lambda>_. ret False)"

text \<open>The metrics publisher and timer; either call can throw.\<close>

definition start_metrics :: "('k, 'y) sink_env \<Rightarrow> ('k kafka_sink, bool) prog" where
  "start_metrics E s =
     (if \<not> ks_metrics_enabled s then (Ret True, s)
      else case se_publisher E (ks_metrics_topic s) of
        Ret _ \<Rightarrow>
          (let s = s\<lparr>ks_metrics_pub := True\<rparr>
           in case se_timer E (ks_metrics_interval_ms s) of
                Ret _ \<Rightarrow> (Ret True, s\<lparr>ks_metrics_timer := True\<rparr>)
              | Err e \<Rightarrow> (Exc e, s)
              | Exc e \<Rightarrow> (Exc e, s))
      | Err e \<Rightarrow> (Exc e, s)
      | Exc e \<Rightarrow> (Exc e, s))"

definition sink_on_activate :: "('k, 'y) sink_env \<Rightarrow> ('k kafka_sink, bool) prog" where
  "sink_on_activate E =
     andthen (start_producer E) (\<lambda>started.
       if \<not> started then ret False
       else andthen (build_subscriptions E) (\<lambda>built.
         if \<not> built then andthen (update_state (stop_producer E)) (\<lambda>_. ret False)
         else andthen (update_state (\<lambda>s. s\<lparr>ks_is_active := True\<rparr>)) (\<lambda>_. start_metrics E)))"

definition sink_on_deactivate :: "('k, 'y) sink_env \<Rightarrow> ('k kafka_sink, bool) prog" where
  "sink_on_deactivate E s =
     (let s = s\<lparr>ks_is_active := False\<rparr>;
          s = stop_producer E (clear_subscriptions s)
      in (Ret True, s\<lparr>ks_metrics_timer := False, ks_metrics_pub := False\<rparr>))"

definition sink_on_cleanup :: "('k, 'y) sink_env \<Rightarrow> ('k kafka_sink, bool) prog" where
  "sink_on_cleanup E s =
     (let s = s\<lparr>ks_is_active := False\<rparr>;
          s = clear_subscriptions (stop_producer E s)
      in (Ret True, s\<lparr>ks_configured := [], ks_metrics_timer := False, ks_metrics_pub := False\<rparr>))"

definition sink_on_shutdown :: "('k, 'y) sink_env \<Rightarrow> ('k kafka_sink, bool) prog" where
  "sink_on_shutdown E s =
     (let s = s\<lparr>ks_is_active := False\<rparr>;
          s = clear_subscriptions (stop_producer E s)
      in (Ret True, s\<lparr>ks_configured := []\<rparr>))"

definition kafka_sink_node :: "('k, 'y) sink_env \<Rightarrow> 'k kafka_sink managed" where
  "kafka_sink_node E =
     \<lparr>on_configure = sink_on_configure E, on_activate = sink_on_activate E,
      on_deactivate = sink_on_deactivate E, on_cleanup = sink_on_cleanup E,
      on_shutdown = sink_on_shutdown E\<rparr>"

section \<open>A message\<close>

text \<open>The clock readings of one callback: the node's time and the two measured durations.\<close>

record clock =
  ck_now_ns :: int
  ck_serialize_ns :: u64
  ck_send_ns :: u64

abbreviation kMaxSamples :: nat where "kMaxSamples \<equiv> 1000"
abbreviation kThrottleIntervalNs :: int where "kThrottleIntervalNs \<equiv> 1000000000"

text \<open>
  The payload: JSON with the latency envelope, or the serialized bytes as they are.  An \<open>Err\<close> is
  the reported failure of the serializer; the state counts the messages left allocated.
\<close>

definition encode_payload ::
  "json_env \<Rightarrow> subscription_runtime \<Rightarrow> clock \<Rightarrow> u8 list \<Rightarrow> (nat, u8 list) prog" where
  "encode_payload J rt clk msg =
     (if rt_payload_format rt = JSON
      then andthen (serialize_message_to_json J (rt_type_support rt) msg) (\<lambda>json_payload.
           andthen (lift_exec (apply_ts_envelope_to_json (je_json J) json_payload
                      (ck_now_ns clk))) (\<lambda>stamped.
           ret (bytes_of (case stamped of Some out \<Rightarrow> out | None \<Rightarrow> json_payload))))
      else ret msg)"

text \<open>The statistics of an encoded payload; the message id is the new \<open>rt_msg_seq\<close>.\<close>

definition note_serialized ::
  "clock \<Rightarrow> u8 list \<Rightarrow> subscription_runtime \<Rightarrow> subscription_runtime" where
  "note_serialized clk v rt =
     (let ns = ck_serialize_ns clk; msg_size = of_nat (length v) :: u64
      in rt\<lparr>rt_serialize_accum := rt_serialize_accum rt + ns,
            rt_serialize_max := store_max ns (rt_serialize_max rt),
            rt_msg_seq := rt_msg_seq rt + 1,
            rt_size_min := store_min msg_size (rt_size_min rt),
            rt_size_max := store_max msg_size (rt_size_max rt),
            rt_serialize_samples := push_sample kMaxSamples ns (rt_serialize_samples rt)\<rparr>)"

text \<open>
  The telemetry line: whether this message is logged, and the JSON that is printed.  Printing it
  throws when one of the names is not UTF-8.
\<close>

definition telemetry_due :: "'k kafka_sink \<Rightarrow> subscription_runtime \<Rightarrow> bool" where
  "telemetry_due s rt \<longleftrightarrow>
     ks_telemetry_enabled s \<and>
     (ks_telemetry_log_every_n s \<le> 1 \<or>
      rt_msg_seq rt mod word_of_int (ks_telemetry_log_every_n s) = 0)"

definition telemetry_line :: "clock \<Rightarrow> u8 list \<Rightarrow> subscription_runtime \<Rightarrow> json" where
  "telemetry_line clk v rt =
     object_of [(''msg_id'', JUInt (unat (rt_msg_seq rt))),
       (''ros_topic'', JStr (rt_ros_topic rt)), (''kafka_topic'', JStr (rt_kafka_topic rt)),
       (''payload_bytes'', JUInt (length v)),
       (''serialize_time_ns'', JInt (sint (ck_serialize_ns clk))),
       (''receive_time_ns'', JInt (ck_now_ns clk)),
       (''kafka_timestamp_ms'', JInt (ck_now_ns clk sdiv 1000000)),
       (''payload_format'', JStr (if rt_payload_format rt = JSON then ''json'' else ''cdr''))]"

definition log_telemetry ::
  "json_lib \<Rightarrow> 'k kafka_sink \<Rightarrow> clock \<Rightarrow> u8 list \<Rightarrow> subscription_runtime \<Rightarrow> unit exec" where
  "log_telemetry L s clk v rt =
     (if telemetry_due s rt
      then exec_bind (or_throw ''type_error.316'' (jl_dump L (telemetry_line clk v rt)))
             (\<lambda>_. Ret ())
      else Ret ())"

definition record_of :: "subscription_runtime \<Rightarrow> clock \<Rightarrow> u8 list \<Rightarrow> queued_record" where
  "record_of rt clk v =
     \<lparr>q_topic = rt_kafka_topic rt, q_key = rt_message_key_bytes rt, q_value = v,
      q_timestamp_ms = ck_now_ns clk sdiv 1000000,
      q_headers = [\<lparr>header_key = ''ros_type'', header_value = rt_msg_type rt\<rparr>]\<rparr>"

definition note_received :: "u8 list \<Rightarrow> subscription_runtime \<Rightarrow> subscription_runtime" where
  "note_received v rt =
     rt\<lparr>rt_msgs_total := rt_msgs_total rt + 1,
        rt_bytes_total := rt_bytes_total rt + of_nat (length v)\<rparr>"

text \<open>The statistics of a send and its outcome; everything that is neither sent nor dropped is an error.\<close>

definition count_result :: "send_result \<Rightarrow> subscription_runtime \<Rightarrow> subscription_runtime" where
  "count_result res rt =
     (if res_status res = SENT then rt\<lparr>rt_sent_ok := rt_sent_ok rt + 1\<rparr>
      else if res_status res = QUEUE_FULL \<and> \<not> res_buffered res
      then rt\<lparr>rt_dropped := rt_dropped rt + 1\<rparr>
      else rt\<lparr>rt_errors := rt_errors rt + 1\<rparr>)"

definition note_sent ::
  "clock \<Rightarrow> send_result \<Rightarrow> subscription_runtime \<Rightarrow> subscription_runtime" where
  "note_sent clk res rt =
     (let ns = ck_send_ns clk;
          rt = count_result res
            (rt\<lparr>rt_send_accum := rt_send_accum rt + ns,
                rt_send_max := store_max ns (rt_send_max rt),
                rt_send_samples := push_sample kMaxSamples ns (rt_send_samples rt)\<rparr>)
      in if rt_next_log_time_ns rt \<le> ck_now_ns clk
         then rt\<lparr>rt_next_log_time_ns := ck_now_ns clk + kThrottleIntervalNs\<rparr> else rt)"

definition set_runtime ::
  "nat \<Rightarrow> subscription_runtime \<Rightarrow> 'k kafka_sink \<Rightarrow> 'k kafka_sink" where
  "set_runtime i rt s =
     s\<lparr>ks_active := (ks_active s)[i := (ks_active s ! i)\<lparr>as_runtime := rt\<rparr>]\<rparr>"

text \<open>The subscription's callback for a serialized message on the \<open>i\<close>-th subscription.\<close>

definition on_message ::
  "('k, 'y) sink_env \<Rightarrow> nat \<Rightarrow> clock \<Rightarrow> u8 list \<Rightarrow> ('k kafka_sink, unit) prog" where
  "on_message E i clk msg s =
     (if \<not> ks_is_active s then (Ret (), s)
      else case ks_producer s of
        None \<Rightarrow> (Ret (), s)
      | Some producer \<Rightarrow>
         (let rt = as_runtime (ks_active s ! i)
          in case encode_payload (se_json E) rt clk msg (ks_live_messages s) of
               (Err e, live) \<Rightarrow>
                 (Ret (), set_runtime i (rt\<lparr>rt_errors := rt_errors rt + 1\<rparr>)
                            (s\<lparr>ks_live_messages := live\<rparr>))
             | (Exc e, live) \<Rightarrow> (Exc e, s\<lparr>ks_live_messages := live\<rparr>)
             | (Ret value, live) \<Rightarrow>
                (let s = s\<lparr>ks_live_messages := live\<rparr>;
                     rt = note_serialized clk value rt
                 in case log_telemetry (je_json (se_json E)) s clk value rt of
                      Err e \<Rightarrow> (Exc e, set_runtime i rt s)
                    | Exc e \<Rightarrow> (Exc e, set_runtime i rt s)
                    | Ret _ \<Rightarrow>
                       (let rt = note_received value rt
                        in case send (se_rdkafka E) (record_of rt clk value) producer of
                             (res, producer') \<Rightarrow>
                               (Ret (), set_runtime i (note_sent clk res rt)
                                          (s\<lparr>ks_producer := Some producer'\<rparr>))))))"

section \<open>Metrics\<close>

text \<open>
  The double arithmetic of the report: conversions and quotients of unsigned counters, each
  rounded.  The literals 1000.0, 1e9, 1048576.0 and 1000000.0 are doubles.
\<close>

definition double_u64 :: "u64 \<Rightarrow> rat" where
  "double_u64 w = double_of (of_nat (unat w))"

definition double_div :: "rat \<Rightarrow> rat \<Rightarrow> rat" where
  "double_div a b = double_of (a / b)"

definition interval_sec :: "int \<Rightarrow> rat" where
  "interval_sec ms = (if 0 < ms then double_div (of_int ms) 1000 else 0)"

definition rate_per_sec :: "u64 \<Rightarrow> int \<Rightarrow> rat" where
  "rate_per_sec d ms =
     (if 0 < interval_sec ms then double_div (double_u64 d) (interval_sec ms) else 0)"

definition mb_per_sec :: "u64 \<Rightarrow> u64 \<Rightarrow> rat" where
  "mb_per_sec d_bytes d_ns =
     (if 0 < d_ns
      then double_div (double_div (double_u64 d_bytes) (double_div (double_u64 d_ns) 1000000000))
             1048576
      else 0)"

definition ratio_or_zero :: "u64 \<Rightarrow> u64 \<Rightarrow> rat" where
  "ratio_or_zero a b = (if 0 < b then double_div (double_u64 a) (double_u64 b) else 0)"

definition average :: "u64 \<Rightarrow> u64 \<Rightarrow> u64" where
  "average acc n = (if 0 < n then acc div n else 0)"

abbreviation JU64 :: "u64 \<Rightarrow> json" where "JU64 w \<equiv> JUInt (unat w)"
abbreviation JDbl :: "rat \<Rightarrow> json" where "JDbl q \<equiv> JFloat (Fin q)"

text \<open>The differences since the last report.\<close>

record deltas =
  d_msgs :: u64
  d_sent :: u64
  d_drop :: u64
  d_err :: u64
  d_bytes :: u64
  d_serialize :: u64
  d_send :: u64

definition deltas_of :: "subscription_runtime \<Rightarrow> deltas" where
  "deltas_of rt =
     \<lparr>d_msgs = rt_msgs_total rt - rt_prev_msgs_total rt,
      d_sent = rt_sent_ok rt - rt_prev_sent_ok rt,
      d_drop = rt_dropped rt - rt_prev_dropped rt,
      d_err = rt_errors rt - rt_prev_errors rt,
      d_bytes = rt_bytes_total rt - rt_prev_bytes_total rt,
      d_serialize = rt_serialize_accum rt - rt_prev_serialize_accum rt,
      d_send = rt_send_accum rt - rt_prev_send_accum rt\<rparr>"

definition take_snapshot :: "subscription_runtime \<Rightarrow> subscription_runtime" where
  "take_snapshot rt =
     rt\<lparr>rt_prev_msgs_total := rt_msgs_total rt, rt_prev_sent_ok := rt_sent_ok rt,
        rt_prev_dropped := rt_dropped rt, rt_prev_errors := rt_errors rt,
        rt_prev_bytes_total := rt_bytes_total rt,
        rt_prev_serialize_accum := rt_serialize_accum rt,
        rt_prev_send_accum := rt_send_accum rt\<rparr>"

definition latency_entry :: "deltas \<Rightarrow> subscription_runtime \<Rightarrow> json" where
  "latency_entry d rt =
     object_of [(''serialize_avg'', JU64 (average (d_serialize d) (d_msgs d))),
       (''serialize_p95'', JU64 (calculate_percentile (rt_serialize_samples rt) p95)),
       (''serialize_p99'', JU64 (calculate_percentile (rt_serialize_samples rt) p99)),
       (''serialize_max'', JU64 (rt_serialize_max rt)),
       (''send_avg'', JU64 (average (d_send d) (d_msgs d))),
       (''send_p95'', JU64 (calculate_percentile (rt_send_samples rt) p95)),
       (''send_p99'', JU64 (calculate_percentile (rt_send_samples rt) p99)),
       (''send_max'', JU64 (rt_send_max rt))]"

definition metrics_entry :: "int \<Rightarrow> subscription_runtime \<Rightarrow> json" where
  "metrics_entry ms rt =
     (let d = deltas_of rt;
          ns_per_byte = ratio_or_zero (rt_serialize_accum rt) (rt_bytes_total rt)
      in object_of
        [(''ros_topic'', JStr (rt_ros_topic rt)), (''kafka_topic'', JStr (rt_kafka_topic rt)),
         (''msg_type'', JStr (rt_msg_type rt)),
         (''payload_format'', JStr (if rt_payload_format rt = JSON then ''json'' else ''cdr'')),
         (''interval_ms'', JInt ms),
         (''delta'', object_of [(''received'', JU64 (d_msgs d)), (''sent_ok'', JU64 (d_sent d)),
            (''dropped'', JU64 (d_drop d)), (''errors'', JU64 (d_err d)),
            (''bytes'', JU64 (d_bytes d))]),
         (''rates'', object_of [(''received_per_sec'', JDbl (rate_per_sec (d_msgs d) ms)),
            (''sent_per_sec'', JDbl (rate_per_sec (d_sent d) ms))]),
         (''message_size'', object_of
           [(''avg_bytes'', JDbl (ratio_or_zero (rt_bytes_total rt) (rt_msgs_total rt))),
            (''min_bytes'', JU64 (if rt_size_min rt = 2 ^ 64 - 1 then 0 else rt_size_min rt)),
            (''max_bytes'', JU64 (rt_size_max rt))]),
         (''latency_ns'', latency_entry d rt),
         (''throughput'', object_of
           [(''serialize_mb_per_sec'', JDbl (mb_per_sec (d_bytes d) (d_serialize d))),
            (''send_mb_per_sec'', JDbl (mb_per_sec (d_bytes d) (d_send d)))]),
         (''cpu_efficiency'', object_of
           [(''ns_per_byte'', JDbl ns_per_byte),
            (''bytes_per_cpu_ms'',
              JDbl (if 0 < ns_per_byte then double_div 1000000 ns_per_byte else 0))]),
         (''totals'', object_of [(''received'', JU64 (rt_msgs_total rt)),
            (''sent_ok'', JU64 (rt_sent_ok rt)), (''dropped'', JU64 (rt_dropped rt)),
            (''errors'', JU64 (rt_errors rt)), (''bytes'', JU64 (rt_bytes_total rt))])])"

definition publish_metrics :: "('k, 'y) sink_env \<Rightarrow> ('k kafka_sink, unit) prog" where
  "publish_metrics E s =
     (if \<not> ks_metrics_enabled s \<or> \<not> ks_metrics_pub s then (Ret (), s)
      else
       (let report = JArr (map (\<lambda>a. metrics_entry (ks_metrics_interval_ms s) (as_runtime a))
                             (ks_active s));
            s = s\<lparr>ks_active :=
                  map (\<lambda>a. a\<lparr>as_runtime := take_snapshot (as_runtime a)\<rparr>) (ks_active s)\<rparr>
        in case jl_dump (je_json (se_json E)) report of
             None \<Rightarrow> (Exc ''type_error.316'', s)
           | Some out \<Rightarrow> (Ret (), s\<lparr>ks_published := ks_published s @ [out]\<rparr>)))"

end
