(* ===== verification/Kafka_Sink_Invariant.thy ===== *)
theory Kafka_Sink_Invariant
  imports Kafka_Sink
begin

text \<open>
  The invariant of kafka_sink over its life cycle: an active node holds a running producer and
  exactly the configured subscriptions, any other state forwards nothing.  One lemma per operation,
  then the interpretation of the life-cycle contract on the node.
\<close>

section \<open>What a running subscription is\<close>

text \<open>The part of a runtime that routes its messages, fixed from activation on.\<close>

definition same_route :: "subscription_runtime \<Rightarrow> subscription_runtime \<Rightarrow> bool" where
  "same_route a b \<longleftrightarrow>
     rt_ros_topic b = rt_ros_topic a \<and> rt_msg_type b = rt_msg_type a \<and>
     rt_kafka_topic b = rt_kafka_topic a \<and>
     rt_message_key_bytes b = rt_message_key_bytes a \<and>
     rt_payload_format b = rt_payload_format a \<and> rt_type_support b = rt_type_support a"

lemma same_route_refl [simp]: "same_route a a"
  by (simp add: same_route_def)

lemma same_route_trans: "same_route a b \<Longrightarrow> same_route b c \<Longrightarrow> same_route a c"
  by (simp add: same_route_def)

definition samples_bounded :: "subscription_runtime \<Rightarrow> bool" where
  "samples_bounded rt \<longleftrightarrow>
     length (rt_serialize_samples rt) \<le> kMaxSamples \<and> length (rt_send_samples rt) \<le> kMaxSamples"

text \<open>Every update of a runtime keeps its route and its buffers within bounds.\<close>

named_theorems runtime_updates

definition runtime_step :: "subscription_runtime \<Rightarrow> subscription_runtime \<Rightarrow> bool" where
  "runtime_step a b \<longleftrightarrow> same_route a b \<and> (samples_bounded a \<longrightarrow> samples_bounded b)"

lemma runtime_step_refl [simp]: "runtime_step a a"
  by (simp add: runtime_step_def)

lemma runtime_step_trans: "runtime_step a b \<Longrightarrow> runtime_step b c \<Longrightarrow> runtime_step a c"
  by (auto simp: runtime_step_def elim: same_route_trans)

lemma runtime_step_serialized [runtime_updates]: "runtime_step rt (note_serialized clk v rt)"
  by (simp add: runtime_step_def same_route_def samples_bounded_def note_serialized_def Let_def
      length_push_sample)

lemma runtime_step_received [runtime_updates]: "runtime_step rt (note_received v rt)"
  by (simp add: runtime_step_def same_route_def samples_bounded_def note_received_def)

lemma runtime_step_sent [runtime_updates]: "runtime_step rt (note_sent clk res rt)"
  by (simp add: runtime_step_def same_route_def samples_bounded_def note_sent_def Let_def
      count_result_def length_push_sample)

lemma runtime_step_error [runtime_updates]: "runtime_step rt (rt\<lparr>rt_errors := n\<rparr>)"
  by (simp add: runtime_step_def same_route_def samples_bounded_def)

lemma runtime_step_snapshot [runtime_updates]: "runtime_step rt (take_snapshot rt)"
  by (simp add: runtime_step_def same_route_def samples_bounded_def take_snapshot_def)

definition kafka_name_of :: "sub_config \<Rightarrow> string" where
  "kafka_name_of c = (case sc_kafka_name c of Some n \<Rightarrow> n | None \<Rightarrow> sc_topic_name c)"

definition key_of :: "kafka_parameters \<Rightarrow> sub_config \<Rightarrow> string" where
  "key_of p c = (case sc_kafka_key c of Some k \<Rightarrow> k | None \<Rightarrow> par_message_key p)"

text \<open>
  A subscription that does what its entry of the configuration says: right topic, type, Kafka
  topic and key, and JSON only with a complete type support.
\<close>

definition sub_matches :: "kafka_parameters \<Rightarrow> sub_config \<Rightarrow> active_sub \<Rightarrow> bool" where
  "sub_matches p c a \<longleftrightarrow>
     as_subscription a \<and> as_topic_name a = sc_topic_name c \<and> as_msg_type a = sc_msg_type c \<and>
     rt_ros_topic (as_runtime a) = sc_topic_name c \<and>
     rt_msg_type (as_runtime a) = sc_msg_type c \<and>
     rt_kafka_topic (as_runtime a) = map_kafka_topic p (kafka_name_of c) \<and>
     rt_message_key_bytes (as_runtime a) = bytes_of (key_of p c) \<and>
     (rt_payload_format (as_runtime a) = JSON \<longrightarrow>
        par_payload_format p = JSON \<and> ts_rmw (rt_type_support (as_runtime a)) \<and>
        ts_introspection (rt_type_support (as_runtime a)))"

lemma sub_matches_route:
  "sub_matches p c a \<Longrightarrow> same_route (as_runtime a) rt \<Longrightarrow> sub_matches p c (a\<lparr>as_runtime := rt\<rparr>)"
  by (simp add: sub_matches_def same_route_def)

lemma prepare_runtime_fields:
  "rt_ros_topic (prepare_runtime E p c) = sc_topic_name c"
  "rt_msg_type (prepare_runtime E p c) = sc_msg_type c"
  "rt_kafka_topic (prepare_runtime E p c) = map_kafka_topic p (kafka_name_of c)"
  "rt_message_key_bytes (prepare_runtime E p c) = bytes_of (key_of p c)"
  "samples_bounded (prepare_runtime E p c)"
  "rt_payload_format (prepare_runtime E p c) = JSON \<Longrightarrow>
     par_payload_format p = JSON \<and> ts_rmw (rt_type_support (prepare_runtime E p c)) \<and>
     ts_introspection (rt_type_support (prepare_runtime E p c))"
  by (auto simp: prepare_runtime_def Let_def new_runtime_def samples_bounded_def
      kafka_name_of_def key_of_def dest!: load_type_support_True split: prod.splits bool.splits
      if_splits)

text \<open>With a complete type support there is nothing to retry.\<close>

lemma retry_prepared: "retry_type_support E (prepare_runtime E p c) = prepare_runtime E p c"
  using prepare_runtime_fields(6) [of E p c] by (auto simp: retry_type_support_def)

lemma subscribe_all_matches:
  "subscribe_all E p d cs subs = (Ret True, subs') \<Longrightarrow>
     \<exists>new. subs' = subs @ new \<and> list_all2 (sub_matches p) cs new \<and>
           list_all (\<lambda>a. samples_bounded (as_runtime a)) new"
proof (induction cs arbitrary: subs)
  case Nil
  then show ?case by simp
next
  case (Cons c cs)
  let ?a = "\<lparr>as_subscription = True, as_topic_name = sc_topic_name c,
    as_msg_type = sc_msg_type c, as_runtime = prepare_runtime E p c\<rparr>"
  have "subscribe_all E p d cs (subs @ [?a]) = (Ret True, subs')"
    using Cons.prems by (simp add: Let_def retry_prepared split: exec.splits bool.splits)
  then obtain new where "subs' = (subs @ [?a]) @ new" "list_all2 (sub_matches p) cs new"
    "list_all (\<lambda>a. samples_bounded (as_runtime a)) new"
    using Cons.IH by blast
  moreover have "sub_matches p c ?a"
    using prepare_runtime_fields [of E p c] by (auto simp: sub_matches_def)
  ultimately show ?case
    using prepare_runtime_fields(5) [of E p c] by (intro exI [of _ "?a # new"]) simp
qed

text \<open>Only a library that throws makes the loop throw.\<close>

lemma subscribe_all_throws:
  "(\<And>t ty d. is_ret (se_subscribe E t ty d)) \<Longrightarrow> is_ret (fst (subscribe_all E p d cs subs))"
proof (induction cs arbitrary: subs)
  case (Cons c cs)
  obtain b where "se_subscribe E (sc_topic_name c) (sc_msg_type c) d = Ret b"
    using Cons.prems unfolding is_ret_iff by blast
  then show ?case using Cons by (cases b) (simp_all add: Let_def)
qed simp

section \<open>The invariant\<close>

text \<open>
  While the node is active it forwards: it holds a running producer, and its subscriptions are
  exactly the configured ones.  In every other state it does not forward and holds no producer.
\<close>

definition sink_inv :: "lc_state \<Rightarrow> 'k kafka_sink \<Rightarrow> bool" where
  "sink_inv st s \<longleftrightarrow>
     validate_kafka_parameters (ks_params s) = None \<and>
     (st \<in> {Inactive, Active} \<longrightarrow> 0 < ks_qos_depth s \<and> 1 \<le> ks_telemetry_log_every_n s) \<and>
     (if st = Active
      then ks_is_active s \<and>
           (\<exists>p. ks_producer s = Some p \<and> kp_inv p \<and> kp_running p) \<and>
           list_all2 (sub_matches (ks_params s)) (ks_configured s) (ks_active s) \<and>
           list_all (\<lambda>a. samples_bounded (as_runtime a)) (ks_active s)
      else \<not> ks_is_active s \<and> ks_producer s = None)"

text \<open>The calls of the libraries that create something do not throw.\<close>

definition calm :: "('k, 'y) sink_env \<Rightarrow> bool" where
  "calm E \<longleftrightarrow>
     (\<forall>t ty d. is_ret (se_subscribe E t ty d)) \<and>
     (\<forall>n. se_publisher E n = Ret ()) \<and> (\<forall>ms. se_timer E ms = Ret ())"

text \<open>
  What happens between lifecycle callbacks: a message, a parameter update and the storing of the
  accepted values, the metrics timer, and a step of the producer's poll thread.
\<close>

inductive sink_internal ::
  "('k, 'y) sink_env \<Rightarrow> lc_state \<Rightarrow> 'k kafka_sink \<Rightarrow> 'k kafka_sink \<Rightarrow> bool"
  for E st s where
  si_message: "i < length (ks_active s) \<Longrightarrow> on_message E i clk msg s = (r, t) \<Longrightarrow>
    sink_internal E st s t"
| si_params: "on_parameters_set E (lc_id st) ps s = (r, t) \<Longrightarrow> sink_internal E st s t"
| si_store: "sink_internal E st s (s\<lparr>ks_store := f\<rparr>)"
| si_metrics: "publish_metrics E s = (r, t) \<Longrightarrow> sink_internal E st s t"
| si_poll: "ks_producer s = Some p \<Longrightarrow> e \<in> {Ev_poll_locked, Ev_poll_unlocked, Ev_wake} \<Longrightarrow>
    kp_step (se_rdkafka E) p e p' \<Longrightarrow> sink_internal E st s (s\<lparr>ks_producer := Some p'\<rparr>)"

subsection \<open>Start and stop\<close>

lemma sink_inv_new: "sink_inv Unconfigured (new_kafka_sink ov w)"
  by (simp add: sink_inv_def new_kafka_sink_def validate_kafka_parameters_def
      default_kafka_parameters_def)

lemma stop_producer_fields [simp]:
  "ks_producer (stop_producer E s) = None"
  "ks_configured (stop_producer E s) = ks_configured s"
  "ks_active (stop_producer E s) = ks_active s"
  "ks_params (stop_producer E s) = ks_params s"
  "ks_is_active (stop_producer E s) = ks_is_active s"
  "ks_qos_depth (stop_producer E s) = ks_qos_depth s"
  "ks_telemetry_log_every_n (stop_producer E s) = ks_telemetry_log_every_n s"
  by (simp_all add: stop_producer_def split: option.split)

lemma clear_subscriptions_fields [simp]:
  "ks_producer (clear_subscriptions s) = ks_producer s"
  "ks_configured (clear_subscriptions s) = ks_configured s"
  "ks_active (clear_subscriptions s) = []"
  "ks_params (clear_subscriptions s) = ks_params s"
  "ks_is_active (clear_subscriptions s) = ks_is_active s"
  "ks_qos_depth (clear_subscriptions s) = ks_qos_depth s"
  "ks_telemetry_log_every_n (clear_subscriptions s) = ks_telemetry_log_every_n s"
  by (simp_all add: clear_subscriptions_def)

lemma start_producer_cases:
  assumes "start_producer E s = (r, t)"
  obtains (started) p where "r = Ret True" "t = (stop_producer E s)\<lparr>ks_producer := Some p\<rparr>"
      "kp_inv p" "kp_running p"
    | (refused) w where "r = Ret False" "t = (stop_producer E s)\<lparr>ks_broker := w\<rparr>"
proof -
  let ?n = "new_producer (build_producer_config (ks_params s)) (ks_broker (stop_producer E s))"
  obtain ok p where st: "start (se_rdkafka E) ?n = (ok, p)"
    by (cases "start (se_rdkafka E) ?n")
  show thesis
  proof (cases ok)
    case True
    then show thesis
      using started [of p] assms st start_new [of "se_rdkafka E"]
      by (simp add: start_producer_def Let_def)
  next
    case False
    then show thesis
      using refused [of "kp_world p"] assms st by (simp add: start_producer_def Let_def)
  qed
qed

text \<open>Subscriptions are built only with a producer; the rest of the node stays.\<close>

lemma build_subscriptions_facts:
  assumes "build_subscriptions E s = (r, t)" "ks_producer s \<noteq> None"
  shows "t = s\<lparr>ks_active := ks_active t\<rparr>"
    and "r = Ret True \<Longrightarrow> list_all2 (sub_matches (ks_params s)) (ks_configured s) (ks_active t)"
    and "r = Ret True \<Longrightarrow> list_all (\<lambda>a. samples_bounded (as_runtime a)) (ks_active t)"
    and "calm E \<Longrightarrow> is_ret r"
proof -
  obtain q subs where sub:
      "subscribe_all E (ks_params s) (ks_qos_depth s) (ks_configured s) [] = (q, subs)"
    by (cases "subscribe_all E (ks_params s) (ks_qos_depth s) (ks_configured s) []")
  then have t: "r = q" "t = s\<lparr>ks_active := subs\<rparr>"
    using assms
    by (auto simp: build_subscriptions_def clear_subscriptions_def Let_def split: if_split_asm)
  then show "t = s\<lparr>ks_active := ks_active t\<rparr>" by simp
  have all: "list_all2 (sub_matches (ks_params s)) (ks_configured s) subs \<and>
       list_all (\<lambda>a. samples_bounded (as_runtime a)) subs" if "r = Ret True"
    using subscribe_all_matches [of E "ks_params s" "ks_qos_depth s" "ks_configured s" "[]" subs]
      sub t(1) that by auto
  show "list_all2 (sub_matches (ks_params s)) (ks_configured s) (ks_active t)" if "r = Ret True"
    using all [OF that] t(2) by simp
  show "list_all (\<lambda>a. samples_bounded (as_runtime a)) (ks_active t)" if "r = Ret True"
    using all [OF that] t(2) by simp
  show "is_ret r" if "calm E"
    using subscribe_all_throws [of E "ks_params s" "ks_qos_depth s" "ks_configured s" "[]"]
      that sub t(1) by (simp add: calm_def)
qed

subsection \<open>Configuration and parameter updates\<close>

text \<open>What configuring may touch: neither the producer nor the flag, and no invalid parameters.\<close>

definition config_frame :: "'k kafka_sink \<Rightarrow> 'k kafka_sink \<Rightarrow> bool" where
  "config_frame a b \<longleftrightarrow>
     ks_producer b = ks_producer a \<and> ks_is_active b = ks_is_active a \<and>
     (ks_params b = ks_params a \<or> validate_kafka_parameters (ks_params b) = None)"

lemma config_frame_refl [simp]: "config_frame a a"
  by (simp add: config_frame_def)

lemma config_frame_trans: "config_frame a b \<Longrightarrow> config_frame b c \<Longrightarrow> config_frame a c"
  by (auto simp: config_frame_def)

lemma keeps_config_seq:
  "keeps config_frame m \<Longrightarrow> (\<And>a. keeps config_frame (k a)) \<Longrightarrow> keeps config_frame (andthen m k)"
  by (rule keeps_andthen; blast intro: config_frame_trans)

lemma keeps_gets [keeps_intros]:
  assumes "\<And>s. R s s"
  shows "keeps R (get_string n)" "keeps R (get_bool n)" "keeps R (get_int n)"
  using assms by (simp_all add: keeps_def get_string_def get_bool_def get_int_def)

lemma keeps_eq_seq:
  "keeps (=) m \<Longrightarrow> (\<And>a. keeps (=) (k a)) \<Longrightarrow> keeps (=) (andthen m k)"
  by (rule keeps_andthen; simp)

lemma read_kafka_parameters_pure: "keeps (=) (read_kafka_parameters pending)"
  unfolding read_kafka_parameters_def by (intro keeps_eq_seq keeps_gets keeps_pure refl)

lemma configure_kafka_cases:
  assumes "configure_kafka_parameters s = (r, t)"
  obtains (stored) p where "r = Ret ()" "validate_kafka_parameters p = None"
      "t = s\<lparr>ks_params := p\<rparr>"
    | (refused) "r \<noteq> Ret ()" "t = s"
  using assms unfolding configure_kafka_parameters_def
proof (cases rule: andthen_cases)
  case (ok p s')
  have "s' = s" using keepsD [OF read_kafka_parameters_pure ok(1)] by simp
  then show thesis
    using ok(2) stored [of p] refused
    by (cases "validate_kafka_parameters p") (auto simp: store_kafka_parameters_def)
qed (use refused keepsD [OF read_kafka_parameters_pure] in auto)

lemma check_configuration_frame:
  fixes E :: "('k, 'y) sink_env"
  shows "keeps config_frame (check_configuration E yaml_config)"
proof (rule keepsI)
  fix s :: "'k kafka_sink"
  have "config_frame s t"
    if "configure_kafka_parameters (s\<lparr>ks_configured := cs\<rparr>) = (r, t)" for cs r t
    using that by (cases rule: configure_kafka_cases) (simp_all add: config_frame_def)
  then have "config_frame s (snd (configure_kafka_parameters (s\<lparr>ks_configured := cs\<rparr>)))" for cs
    by (metis prod.collapse)
  then show "config_frame s (snd (check_configuration E yaml_config s))"
    by (simp add: check_configuration_def split: option.split exec.split)
qed

lemma keeps_config_update:
  "(\<And>s. config_frame s (f s)) \<Longrightarrow> keeps config_frame (update_state f)"
  by (rule keeps_update)

lemma configure_frame: "keeps config_frame (configure_from_parameters E)"
  unfolding configure_from_parameters_def
  by (intro keeps_config_seq keeps_gets keeps_config_update check_configuration_frame
        config_frame_refl)
     (simp_all add: config_frame_def)

lemma check_configuration_ensures:
  "ensures (\<lambda>t. 0 < ks_qos_depth t \<and> 1 \<le> ks_telemetry_log_every_n t)
     (check_configuration E yaml_config)"
proof (rule ensuresI)
  fix s a t assume "check_configuration E yaml_config s = (Ret a, t)"
  then obtain cs where checked: "0 < ks_qos_depth s" "1 \<le> ks_telemetry_log_every_n s"
    and run: "configure_kafka_parameters (s\<lparr>ks_configured := cs\<rparr>) = (Ret a, t)"
    by (simp add: check_configuration_def validate_qos_depth_def
        split: if_split_asm exec.split_asm)
  from run show "0 < ks_qos_depth t \<and> 1 \<le> ks_telemetry_log_every_n t"
    by (cases rule: configure_kafka_cases) (use checked in simp_all)
qed

lemma configure_ensures:
  "ensures (\<lambda>t. 0 < ks_qos_depth t \<and> 1 \<le> ks_telemetry_log_every_n t)
     (configure_from_parameters E)"
  unfolding configure_from_parameters_def
  by (intro ensures_andthen check_configuration_ensures)

text \<open>In the active state a parameter update cannot change what is subscribed or where it goes.\<close>

lemma collect_params_active:
  "collect_params PRIMARY_STATE_ACTIVE ps d = Ret d' \<Longrightarrow>
     pd_yaml d' = pd_yaml d \<and> pd_kafka_changed d' = pd_kafka_changed d"
proof (induction ps arbitrary: d)
  case (Cons p ps)
  then obtain e where "collect_param PRIMARY_STATE_ACTIVE p d = Ret e"
    "collect_params PRIMARY_STATE_ACTIVE ps e = Ret d'"
    by (auto simp: exec_bind_Ret_iff)
  moreover from this(1) have "pd_yaml e = pd_yaml d \<and> pd_kafka_changed e = pd_kafka_changed d"
    by (auto simp: collect_param_def Let_def exec_bind_Ret_iff split: if_split_asm)
  ultimately show ?case using Cons.IH by metis
qed simp

definition update_frame :: "pending \<Rightarrow> 'k kafka_sink \<Rightarrow> 'k kafka_sink \<Rightarrow> bool" where
  "update_frame d a b \<longleftrightarrow>
     ks_producer b = ks_producer a \<and> ks_is_active b = ks_is_active a \<and>
     ks_active b = ks_active a \<and>
     (validate_kafka_parameters (ks_params a) = None \<longrightarrow>
        validate_kafka_parameters (ks_params b) = None) \<and>
     (0 < ks_qos_depth a \<longrightarrow> 0 < ks_qos_depth b) \<and>
     (1 \<le> ks_telemetry_log_every_n a \<longrightarrow> 1 \<le> ks_telemetry_log_every_n b) \<and>
     (pd_yaml d = None \<longrightarrow> ks_configured b = ks_configured a) \<and>
     (\<not> pd_kafka_changed d \<longrightarrow> ks_params b = ks_params a)"

lemma update_frame_refl [simp]: "update_frame d a a"
  by (simp add: update_frame_def)

lemma update_frame_trans: "update_frame d a b \<Longrightarrow> update_frame d b c \<Longrightarrow> update_frame d a c"
  by (simp add: update_frame_def)

lemma keeps_update_seq:
  "keeps (update_frame d) m \<Longrightarrow> (\<And>a. keeps (update_frame d) (k a)) \<Longrightarrow>
     keeps (update_frame d) (andthen m k)"
  by (rule keeps_andthen; blast intro: update_frame_trans)

lemma apply_pending_frame: "keeps (update_frame d) (apply_pending E d)"
proof -
  have "keeps (update_frame d) (apply_subscriptions E d)" "keeps (update_frame d) (apply_qos_depth d)"
    "keeps (update_frame d) (apply_kafka d)" "keeps (update_frame d) (apply_metrics d)"
    "keeps (update_frame d) (apply_telemetry d)"
    by (simp_all add: keeps_def update_frame_def apply_subscriptions_def apply_qos_depth_def
        apply_kafka_def apply_metrics_def apply_telemetry_def validate_qos_depth_def
        split: option.split exec.split)
  then show ?thesis unfolding apply_pending_def by (intro keeps_update_seq)
qed

lemma on_parameters_set_cases:
  assumes "on_parameters_set E st ps s = (r, t)"
  obtains (applied) d u where "collect_params st ps (new_pending s) = Ret d"
      "apply_pending E d s = (u, t)" "r = (case u of Ret _ \<Rightarrow> Ret accepted_result
         | Err e \<Rightarrow> Ret (rejected_result e) | Exc e \<Rightarrow> Exc e)"
    | (early) e where "collect_params st ps (new_pending s) = Err e" "t = s"
        "r = Ret (rejected_result e)"
    | (thrown) e where "collect_params st ps (new_pending s) = Exc e" "t = s" "r = Exc e"
proof (cases "collect_params st ps (new_pending s)")
  case (Ret d)
  obtain u v where "apply_pending E d s = (u, v)" by (cases "apply_pending E d s")
  then show thesis
    using applied [of d u] assms Ret
    by (cases u) (simp_all add: on_parameters_set_def attempt_def)
qed (use early thrown assms in \<open>simp_all add: on_parameters_set_def attempt_def\<close>)

lemma on_parameters_set_frame:
  assumes "on_parameters_set E st ps s = (r, t)"
  obtains d where "update_frame d s t"
    "st = PRIMARY_STATE_ACTIVE \<Longrightarrow> pd_yaml d = None \<and> \<not> pd_kafka_changed d"
  using assms
proof (cases rule: on_parameters_set_cases)
  case (applied d u)
  show thesis
  proof (rule that [of d])
    show "update_frame d s t" using applied(2) by (rule keepsD [OF apply_pending_frame])
    show "pd_yaml d = None \<and> \<not> pd_kafka_changed d" if "st = PRIMARY_STATE_ACTIVE"
      using collect_params_active [of ps "new_pending s" d] applied(1) that
      by (simp add: new_pending_def)
  qed
qed (use that [of "new_pending s"] in \<open>simp_all add: new_pending_def\<close>)

lemma on_parameters_set_inv:
  assumes inv: "sink_inv st s" and run: "on_parameters_set E (lc_id st) ps s = (r, t)"
  shows "sink_inv st t"
  using run
proof (cases rule: on_parameters_set_frame)
  case (1 d)
  then show ?thesis using inv by (cases st) (auto simp: sink_inv_def update_frame_def)
qed

subsection \<open>Messages and metrics\<close>

text \<open>
  What a message or the metrics timer changes: the counters of subscriptions, the producer by one
  send, and nothing else that the invariant speaks about.
\<close>

definition traffic_frame :: "('k, 'y) sink_env \<Rightarrow> 'k kafka_sink \<Rightarrow> 'k kafka_sink \<Rightarrow> bool" where
  "traffic_frame E a b \<longleftrightarrow>
     ks_is_active b = ks_is_active a \<and> ks_params b = ks_params a \<and>
     ks_configured b = ks_configured a \<and> ks_qos_depth b = ks_qos_depth a \<and>
     ks_telemetry_log_every_n b = ks_telemetry_log_every_n a \<and>
     (ks_producer b = ks_producer a \<or>
      (\<exists>p rec. ks_producer a = Some p \<and>
         ks_producer b = Some (snd (send (se_rdkafka E) rec p)))) \<and>
     list_all2 (\<lambda>x y. \<exists>rt. y = x\<lparr>as_runtime := rt\<rparr> \<and> runtime_step (as_runtime x) rt)
       (ks_active a) (ks_active b)"

lemma set_runtime_step:
  assumes "runtime_step (as_runtime (ks_active s ! i)) rt"
  shows "list_all2 (\<lambda>x y. \<exists>rt. y = x\<lparr>as_runtime := rt\<rparr> \<and> runtime_step (as_runtime x) rt)
    (ks_active s) (ks_active (set_runtime i rt s))"
  unfolding set_runtime_def
proof (simp, rule list_all2_update_refl)
  show "\<exists>rt. x = x\<lparr>as_runtime := rt\<rparr> \<and> runtime_step (as_runtime x) rt" for x :: active_sub
    by (rule exI [of _ "as_runtime x"]) simp
  show "\<exists>rt'. (ks_active s ! i)\<lparr>as_runtime := rt\<rparr> = (ks_active s ! i)\<lparr>as_runtime := rt'\<rparr> \<and>
      runtime_step (as_runtime (ks_active s ! i)) rt'"
    using assms by blast
qed

lemma set_runtime_fields [simp]:
  "ks_is_active (set_runtime i rt s) = ks_is_active s"
  "ks_params (set_runtime i rt s) = ks_params s"
  "ks_configured (set_runtime i rt s) = ks_configured s"
  "ks_qos_depth (set_runtime i rt s) = ks_qos_depth s"
  "ks_telemetry_log_every_n (set_runtime i rt s) = ks_telemetry_log_every_n s"
  "ks_producer (set_runtime i rt s) = ks_producer s"
  "ks_live_messages (set_runtime i rt s) = ks_live_messages s"
  by (simp_all add: set_runtime_def)

lemma traffic_frame_set_runtime:
  assumes "runtime_step (as_runtime (ks_active s ! i)) rt"
    and "t = set_runtime i rt (s\<lparr>ks_live_messages := live\<rparr>)"
  shows "traffic_frame E s t"
  unfolding assms(2) traffic_frame_def
  using set_runtime_step [of "s\<lparr>ks_live_messages := live\<rparr>" i rt] assms(1) by simp

lemma traffic_frame_refl [simp]: "traffic_frame E s (s\<lparr>ks_live_messages := live\<rparr>)" "traffic_frame E s s"
proof -
  have "list_all2 (\<lambda>x y. \<exists>rt. y = x\<lparr>as_runtime := rt\<rparr> \<and> runtime_step (as_runtime x) rt) xs xs"
    for xs :: "active_sub list"
  proof (rule list_all2_refl)
    show "\<exists>rt. x = x\<lparr>as_runtime := rt\<rparr> \<and> runtime_step (as_runtime x) rt" for x :: active_sub
      by (rule exI [of _ "as_runtime x"]) simp
  qed
  then show "traffic_frame E s (s\<lparr>ks_live_messages := live\<rparr>)" "traffic_frame E s s"
    by (simp_all add: traffic_frame_def)
qed

text \<open>The ways a message can end.\<close>

lemma on_message_cases:
  assumes "on_message E i clk msg s = (r, t)"
  obtains (ignored) "\<not> ks_is_active s \<or> ks_producer s = None" "r = Ret ()" "t = s"
    | (unencoded) p e live where "ks_is_active s" "ks_producer s = Some p" "r = Ret ()"
        "encode_payload (se_json E) (as_runtime (ks_active s ! i)) clk msg (ks_live_messages s) =
           (Err e, live)"
        "t = set_runtime i (as_runtime (ks_active s ! i)
               \<lparr>rt_errors := rt_errors (as_runtime (ks_active s ! i)) + 1\<rparr>)
             (s\<lparr>ks_live_messages := live\<rparr>)"
    | (thrown) p e live where "ks_is_active s" "ks_producer s = Some p" "r = Exc e"
        "encode_payload (se_json E) (as_runtime (ks_active s ! i)) clk msg (ks_live_messages s) =
           (Exc e, live)"
        "t = s\<lparr>ks_live_messages := live\<rparr>"
    | (unlogged) p e live v where "ks_is_active s" "ks_producer s = Some p" "r = Exc e"
        "encode_payload (se_json E) (as_runtime (ks_active s ! i)) clk msg (ks_live_messages s) =
           (Ret v, live)"
        "t = set_runtime i (note_serialized clk v (as_runtime (ks_active s ! i)))
             (s\<lparr>ks_live_messages := live\<rparr>)"
    | (sent) p v live res p' where "ks_is_active s" "ks_producer s = Some p" "r = Ret ()"
        "encode_payload (se_json E) (as_runtime (ks_active s ! i)) clk msg (ks_live_messages s) =
           (Ret v, live)"
        "send (se_rdkafka E) (record_of (as_runtime (ks_active s ! i)) clk v) p = (res, p')"
        "t = set_runtime i (note_sent clk res (note_received v (note_serialized clk v
               (as_runtime (ks_active s ! i)))))
             (s\<lparr>ks_live_messages := live, ks_producer := Some p'\<rparr>)"
proof (cases "ks_is_active s \<and> ks_producer s \<noteq> None")
  case False
  then show thesis
    using ignored assms by (auto simp: on_message_def split: if_split_asm)
next
  case True
  then obtain p where p: "ks_is_active s" "ks_producer s = Some p" by blast
  let ?rt = "as_runtime (ks_active s ! i)"
  obtain q live where enc: "encode_payload (se_json E) ?rt clk msg (ks_live_messages s) = (q, live)"
    by (cases "encode_payload (se_json E) ?rt clk msg (ks_live_messages s)")
  have same_record: "record_of (note_received v (note_serialized clk v ?rt)) clk v = record_of ?rt clk v"
    for v by (simp add: record_of_def note_received_def note_serialized_def Let_def)
  show thesis
  proof (cases q)
    case (Err e)
    then show thesis using unencoded [of p e live] p enc assms by (simp add: on_message_def Let_def)
  next
    case (Exc e)
    then show thesis using thrown [of p e live] p enc assms by (simp add: on_message_def Let_def)
  next
    case (Ret v)
    let ?s = "s\<lparr>ks_live_messages := live\<rparr>" and ?n = "note_serialized clk v ?rt"
    obtain res p' where snd: "send (se_rdkafka E) (record_of ?rt clk v) p = (res, p')"
      by (cases "send (se_rdkafka E) (record_of ?rt clk v) p")
    show thesis
    proof (cases "log_telemetry (je_json (se_json E)) ?s clk v ?n")
      case (Ret u)
      then show thesis
        using sent [of p v live res p'] \<open>q = Ret v\<close> p enc snd assms
        by (simp add: on_message_def same_record Let_def)
    next
      case (Err e)
      then show thesis
        using unlogged [of p e v live] \<open>q = Ret v\<close> p enc assms by (simp add: on_message_def Let_def)
    next
      case (Exc e)
      then show thesis
        using unlogged [of p e v live] \<open>q = Ret v\<close> p enc assms by (simp add: on_message_def Let_def)
    qed
  qed
qed

lemma on_message_frame:
  assumes "on_message E i clk msg s = (r, t)"
  shows "traffic_frame E s t"
  using assms
proof (cases rule: on_message_cases)
  case (unencoded p e live)
  show ?thesis by (rule traffic_frame_set_runtime [OF runtime_step_error unencoded(5)])
next
  case (unlogged p e live v)
  show ?thesis by (rule traffic_frame_set_runtime [OF runtime_step_serialized unlogged(5)])
next
  case (sent p v live res p')
  let ?s = "s\<lparr>ks_live_messages := live, ks_producer := Some p'\<rparr>"
  have "runtime_step (as_runtime (ks_active s ! i)) (note_sent clk res (note_received v
      (note_serialized clk v (as_runtime (ks_active s ! i)))))"
    by (rule runtime_step_trans [OF runtime_step_serialized
          runtime_step_trans [OF runtime_step_received runtime_step_sent]])
  then have "list_all2 (\<lambda>x y. \<exists>rt. y = x\<lparr>as_runtime := rt\<rparr> \<and> runtime_step (as_runtime x) rt)
      (ks_active s) (ks_active t)"
    using set_runtime_step [of ?s i] sent(6) by simp
  moreover have "\<exists>p rec. ks_producer s = Some p \<and>
      ks_producer t = Some (snd (send (se_rdkafka E) rec p))"
    by (rule exI [of _ p], rule exI [of _ "record_of (as_runtime (ks_active s ! i)) clk v"])
       (simp add: sent(2,5,6))
  ultimately show ?thesis using sent(6) by (simp add: traffic_frame_def)
qed simp_all

lemma publish_metrics_frame:
  assumes "publish_metrics E s = (r, t)"
  shows "traffic_frame E s t"
proof -
  have step: "list_all2 (\<lambda>x y. \<exists>rt. y = x\<lparr>as_runtime := rt\<rparr> \<and> runtime_step (as_runtime x) rt)
      xs (map (\<lambda>a. a\<lparr>as_runtime := take_snapshot (as_runtime a)\<rparr>) xs)" for xs
    by (induction xs) (auto intro: runtime_step_snapshot)
  show ?thesis
  proof (cases "\<not> ks_metrics_enabled s \<or> \<not> ks_metrics_pub s")
    case True
    then show ?thesis using assms by (simp add: publish_metrics_def)
  next
    case False
    then show ?thesis
      using assms step [of "ks_active s"]
      by (auto simp: publish_metrics_def traffic_frame_def Let_def split: option.split_asm)
  qed
qed

lemma traffic_inv:
  assumes inv: "sink_inv st s" and frame: "traffic_frame E s t"
  shows "sink_inv st t"
proof (cases "st = Active")
  case False
  then show ?thesis using assms by (auto simp: sink_inv_def traffic_frame_def)
next
  case True
  have step: "list_all2 (\<lambda>x y. \<exists>rt. y = x\<lparr>as_runtime := rt\<rparr> \<and> runtime_step (as_runtime x) rt)
      (ks_active s) (ks_active t)"
    using frame by (simp add: traffic_frame_def)
  have match: "list_all2 (sub_matches (ks_params s)) (ks_configured s) (ks_active s)"
    and bound: "list_all (\<lambda>a. samples_bounded (as_runtime a)) (ks_active s)"
    using inv True by (simp_all add: sink_inv_def)
  have "list_all2 (sub_matches (ks_params s)) (ks_configured s) (ks_active t)"
    using list_all2_trans [OF _ match step, of "sub_matches (ks_params s)"]
    by (auto simp: runtime_step_def intro: sub_matches_route)
  moreover have "list_all (\<lambda>a. samples_bounded (as_runtime a)) (ks_active t)"
    using step bound by (induction rule: list_all2_induct) (auto simp: runtime_step_def)
  moreover have "\<exists>p. ks_producer t = Some p \<and> kp_inv p \<and> kp_running p"
  proof -
    obtain p where p: "ks_producer s = Some p" "kp_inv p" "kp_running p"
      using inv True by (auto simp: sink_inv_def)
    have "kp_inv (snd (send (se_rdkafka E) rec p)) \<and> kp_running (snd (send (se_rdkafka E) rec p))"
      for rec
    proof
      show "kp_inv (snd (send (se_rdkafka E) rec p))" by (rule kp_step_inv [OF step_send p(2)])
      show "kp_running (snd (send (se_rdkafka E) rec p))"
        using send_shell [of "se_rdkafka E" rec p] p(3)
        by (cases "send (se_rdkafka E) rec p") (simp add: same_shell_def)
    qed
    then show ?thesis using p frame by (auto simp: traffic_frame_def)
  qed
  ultimately show ?thesis using assms True by (simp add: sink_inv_def traffic_frame_def)
qed

subsection \<open>The lifecycle callbacks\<close>

lemma start_metrics_fields:
  assumes "start_metrics E s = (r, t)"
  shows "ks_producer t = ks_producer s \<and> ks_is_active t = ks_is_active s \<and>
    ks_active t = ks_active s \<and> ks_params t = ks_params s \<and>
    ks_configured t = ks_configured s \<and> ks_qos_depth t = ks_qos_depth s \<and>
    ks_telemetry_log_every_n t = ks_telemetry_log_every_n s"
  using assms by (auto simp: start_metrics_def Let_def split: if_split_asm exec.split_asm)

lemma start_metrics_calm: "calm E \<Longrightarrow> start_metrics E s = (r, t) \<Longrightarrow> r = Ret True"
  by (auto simp: start_metrics_def calm_def split: if_split_asm)

text \<open>The outcomes of on_activate() when nothing throws.\<close>

lemma on_activate_cases:
  assumes run: "sink_on_activate E s = (r, t)" and calm: "calm E"
  obtains (active) p subs where "r = Ret True" "kp_inv p" "kp_running p"
      "list_all2 (sub_matches (ks_params s)) (ks_configured s) subs"
      "list_all (\<lambda>a. samples_bounded (as_runtime a)) subs"
      "ks_is_active t" "ks_producer t = Some p" "ks_active t = subs"
      "ks_params t = ks_params s" "ks_configured t = ks_configured s"
      "ks_qos_depth t = ks_qos_depth s"
      "ks_telemetry_log_every_n t = ks_telemetry_log_every_n s"
    | (failed) "r = Ret False" "ks_producer t = None" "ks_is_active t = ks_is_active s"
      "ks_params t = ks_params s" "ks_qos_depth t = ks_qos_depth s"
      "ks_telemetry_log_every_n t = ks_telemetry_log_every_n s"
  using run unfolding sink_on_activate_def
proof (cases rule: andthen_cases)
  case (ok started s1)
  from ok(1) show thesis
  proof (cases rule: start_producer_cases)
    case (refused w)
    then show thesis using ok(2) failed by auto
  next
    case (started p)
    obtain q s2 where b: "build_subscriptions E s1 = (q, s2)"
      by (cases "build_subscriptions E s1")
    have "ks_producer s1 \<noteq> None" using started(2) by simp
    note subs = build_subscriptions_facts [OF b this]
    from subs(4) [OF calm] consider "q = Ret True" | "q = Ret False" by (auto simp: is_ret_iff)
    then show thesis
    proof cases
      case 2
      then have "t = stop_producer E s2" "r = Ret False"
        using ok(2) b started(1) by (simp_all add: andthen_def)
      moreover have "ks_is_active s2 = ks_is_active s" "ks_params s2 = ks_params s"
        "ks_qos_depth s2 = ks_qos_depth s"
        "ks_telemetry_log_every_n s2 = ks_telemetry_log_every_n s"
        by (subst subs(1), simp add: started(2))+
      ultimately show thesis using failed by simp
    next
      case 1
      then have "start_metrics E (s2\<lparr>ks_is_active := True\<rparr>) = (r, t)"
        using ok(2) b started(1) by (simp add: andthen_def)
      from start_metrics_fields [OF this] start_metrics_calm [OF calm this]
      have t: "r = Ret True" "ks_is_active t" "ks_producer t = ks_producer s2"
        "ks_active t = ks_active s2" "ks_params t = ks_params s2" "ks_configured t = ks_configured s2"
        "ks_qos_depth t = ks_qos_depth s2"
        "ks_telemetry_log_every_n t = ks_telemetry_log_every_n s2"
        by simp_all
      have "ks_producer s2 = Some p" "ks_params s2 = ks_params s" "ks_configured s2 = ks_configured s"
        "ks_qos_depth s2 = ks_qos_depth s"
        "ks_telemetry_log_every_n s2 = ks_telemetry_log_every_n s"
        by (subst subs(1), simp add: started(2))+
      then show thesis
        using active [of p "ks_active s2"] t subs(2,3) [OF 1] started by simp
    qed
  qed
next
  case (err e)
  from err(1) show thesis by (cases rule: start_producer_cases) simp_all
next
  case (exc e)
  from exc(1) show thesis by (cases rule: start_producer_cases) simp_all
qed

lemma configure_inv:
  assumes inv: "sink_inv Unconfigured s" and run: "sink_on_configure E s = (r, t)"
    and out: "lc_outcome r Unconfigured Inactive st"
  shows "sink_inv st t"
  using run unfolding sink_on_configure_def
proof (cases rule: attempt_cases)
  case (ok u s')
  then have "config_frame s t" "0 < ks_qos_depth t \<and> 1 \<le> ks_telemetry_log_every_n t"
    using keepsD [OF configure_frame ok(1)] ensuresD [OF configure_ensures ok(1)] by simp_all
  then show ?thesis
    using inv out ok(2) by (auto simp: sink_inv_def config_frame_def elim: lc_outcomeE)
next
  case (err e s')
  then have "config_frame s t" using keepsD [OF configure_frame err(1)] by simp
  then show ?thesis
    using inv out err(2) by (auto simp: sink_inv_def config_frame_def elim!: lc_outcomeE)
next
  case (exc e)
  then have "config_frame s t" using keepsD [OF configure_frame exc(1)] by simp
  then show ?thesis
    using inv out exc(2) by (auto simp: sink_inv_def config_frame_def elim!: lc_outcomeE)
qed

lemma activate_inv:
  assumes inv: "sink_inv Inactive s" and run: "sink_on_activate E s = (r, t)"
    and out: "lc_outcome r Inactive Active st" and calm: "calm E"
  shows "sink_inv st t"
  using run calm
proof (cases rule: on_activate_cases)
  case (active p subs)
  then show ?thesis using inv out by (auto simp: sink_inv_def elim: lc_outcomeE)
next
  case failed
  then show ?thesis using inv out by (auto simp: sink_inv_def elim: lc_outcomeE)
qed

lemma poll_step_inv:
  assumes inv: "sink_inv st s" and p: "ks_producer s = Some p"
    and e: "e \<in> {Ev_poll_locked, Ev_poll_unlocked, Ev_wake}" and step: "kp_step (se_rdkafka E) p e p'"
  shows "sink_inv st (s\<lparr>ks_producer := Some p'\<rparr>)"
proof (cases "st = Active")
  case False
  then show ?thesis using inv p by (simp add: sink_inv_def)
next
  case True
  then show ?thesis using inv p poll_step_up [OF _ _ step e] by (simp add: sink_inv_def)
qed

lemma internal_inv:
  assumes "sink_inv st s" "sink_internal E st s t"
  shows "sink_inv st t"
  using assms(2)
proof cases
  case (si_message i clk msg r)
  show ?thesis by (rule traffic_inv [OF assms(1) on_message_frame [OF si_message(2)]])
next
  case (si_params ps r)
  then show ?thesis using on_parameters_set_inv [OF assms(1)] by blast
next
  case (si_store f)
  then show ?thesis using assms(1) by (simp add: sink_inv_def)
next
  case (si_metrics r)
  show ?thesis by (rule traffic_inv [OF assms(1) publish_metrics_frame [OF si_metrics]])
next
  case (si_poll p e p')
  then show ?thesis using poll_step_inv [OF assms(1)] by blast
qed

lemma kafka_sink_node_simps [simp]:
  "on_configure (kafka_sink_node E) = sink_on_configure E"
  "on_activate (kafka_sink_node E) = sink_on_activate E"
  "on_deactivate (kafka_sink_node E) = sink_on_deactivate E"
  "on_cleanup (kafka_sink_node E) = sink_on_cleanup E"
  "on_shutdown (kafka_sink_node E) = sink_on_shutdown E"
  by (simp_all add: kafka_sink_node_def)

text \<open>The node keeps the life cycle's contract, as long as nothing throws while it activates.\<close>

lemma deactivate_inv:
  assumes "sink_inv Active s" "sink_on_deactivate E s = (r, t)" "lc_outcome r Active Inactive st"
  shows "sink_inv st t"
  using assms by (auto simp: sink_inv_def sink_on_deactivate_def Let_def elim!: lc_outcomeE)

lemma cleanup_inv:
  assumes "sink_inv Inactive s" "sink_on_cleanup E s = (r, t)"
    "lc_outcome r Inactive Unconfigured st"
  shows "sink_inv st t"
  using assms by (auto simp: sink_inv_def sink_on_cleanup_def Let_def elim!: lc_outcomeE)

lemma shutdown_inv:
  assumes "sink_inv st0 s" "sink_on_shutdown E s = (r, t)" "lc_outcome r st0 Finalized st"
  shows "sink_inv st t"
  using assms by (auto simp: sink_inv_def sink_on_shutdown_def Let_def elim!: lc_outcomeE)

interpretation kafka_sink: managed_node "kafka_sink_node E" "sink_internal E"
  "\<lambda>s. \<exists>ov w. s = new_kafka_sink ov w" "\<lambda>st s. calm E \<longrightarrow> sink_inv st s" for E
proof (unfold_locales, unfold kafka_sink_node_simps)
  show "calm E \<longrightarrow> sink_inv Unconfigured s" if "\<exists>ov w. s = new_kafka_sink ov w" for s
    using that by (auto intro: sink_inv_new)
  show "calm E \<longrightarrow> sink_inv st t"
    if "calm E \<longrightarrow> sink_inv Unconfigured s" "sink_on_configure E s = (r, t)"
      "lc_outcome r Unconfigured Inactive st" for s r t st
    using that by (blast intro: configure_inv)
  show "calm E \<longrightarrow> sink_inv st t"
    if "calm E \<longrightarrow> sink_inv Inactive s" "sink_on_activate E s = (r, t)"
      "lc_outcome r Inactive Active st" for s r t st
    using that by (blast intro: activate_inv)
  show "calm E \<longrightarrow> sink_inv st t"
    if "calm E \<longrightarrow> sink_inv Active s" "sink_on_deactivate E s = (r, t)"
      "lc_outcome r Active Inactive st" for s r t st
    using that by (blast intro: deactivate_inv)
  show "calm E \<longrightarrow> sink_inv st t"
    if "calm E \<longrightarrow> sink_inv Inactive s" "sink_on_cleanup E s = (r, t)"
      "lc_outcome r Inactive Unconfigured st" for s r t st
    using that by (blast intro: cleanup_inv)
  show "calm E \<longrightarrow> sink_inv st t"
    if "calm E \<longrightarrow> sink_inv st0 s" "st0 \<noteq> Finalized" "sink_on_shutdown E s = (r, t)"
      "lc_outcome r st0 Finalized st" for st0 s r t st
    using that by (blast intro: shutdown_inv)
  show "calm E \<longrightarrow> sink_inv st t"
    if "calm E \<longrightarrow> sink_inv st s" "sink_internal E st s t" for st s t
    using that by (blast intro: internal_inv)
qed

end
