(* ===== verification/Kafka_Sink_Properties.thy ===== *)
theory Kafka_Sink_Properties
  imports Kafka_Sink_Invariant
begin

text \<open>
  What the invariant and the operations of kafka_sink come to: the life cycle, the accounting of
  each message, clean configurations, and two behaviours that the code does not intend.
\<close>

section \<open>A sample node\<close>

text \<open>
  Libraries that work, a subscriptions document with one padded entry, and a timer that refuses a
  negative period, as rclcpp does when \<open>strict_timer\<close> holds.
\<close>

definition sample_entry :: ytree where
  "sample_entry =
     YMap [(''topic_name'', YScalar '' /odom ''), (''msg_type'', YScalar ''nav_msgs/msg/Odometry''),
           (''kafka_key'', YScalar '' '')]"

definition sample_sink_env :: "bool \<Rightarrow> (produce_call list, ytree) sink_env" where
  "sample_sink_env strict_timer =
     \<lparr>se_rdkafka = sample_rdkafka True 1,
      se_yaml = sample_yaml (\<lambda>text. if text = ''one'' then Ret (YSeq [sample_entry])
                               else Exc ''bad document''),
      se_json = sample_json_env True,
      se_typesupport = \<lparr>tl_library = (\<lambda>_ _. Ret True), tl_handle = (\<lambda>_ _. Ret True),
        tl_members = (\<lambda>_. Some sample_message)\<rparr>,
      se_subscribe = (\<lambda>_ _ _. Ret True), se_publisher = (\<lambda>_. Ret ()),
      se_timer = (\<lambda>ms. if strict_timer \<and> ms < 0
                     then Exc ''timer period cannot be negative'' else Ret ())\<rparr>"

text \<open>The node, configured and activated; \<open>ms\<close> is the metrics interval.\<close>

definition sample_sink :: "int \<Rightarrow> produce_call list kafka_sink" where
  "sample_sink ms =
     new_kafka_sink (\<lambda>n. if n = ''subscriptions_yaml'' then Some (PString ''one'')
                      else if n = ''metrics.enabled'' then Some (PBool True)
                      else if n = ''metrics.interval_ms'' then Some (PInt ms) else None) []"

definition sample_configured :: "bool \<Rightarrow> int \<Rightarrow> produce_call list kafka_sink" where
  "sample_configured strict ms =
     snd (sink_on_configure (sample_sink_env strict) (sample_sink ms))"

definition sample_active :: "bool \<Rightarrow> int \<Rightarrow> produce_call list kafka_sink" where
  "sample_active strict ms =
     snd (sink_on_activate (sample_sink_env strict) (sample_configured strict ms))"

lemma sample_calm: "calm (sample_sink_env False)"
  by (simp add: calm_def sample_sink_env_def)

lemma sample_configures:
  "sink_on_configure (sample_sink_env strict) (sample_sink ms) = (Ret True, sample_configured strict ms)"
proof -
  have "fst (sink_on_configure (sample_sink_env strict) (sample_sink ms)) = Ret True"
    by code_simp
  then show ?thesis by (metis prod.collapse sample_configured_def)
qed

lemma sample_activates:
  "sink_on_activate (sample_sink_env False) (sample_configured False 1000) =
     (Ret True, sample_active False 1000)"
proof -
  have "fst (sink_on_activate (sample_sink_env False) (sample_configured False 1000)) = Ret True"
    by code_simp
  then show ?thesis by (metis prod.collapse sample_active_def)
qed

lemma sample_reachable:
  "lc_reachable (kafka_sink_node (sample_sink_env False)) (sink_internal (sample_sink_env False))
     (\<lambda>s. \<exists>ov w. s = new_kafka_sink ov w) (Active, sample_active False 1000)"
proof -
  let ?M = "kafka_sink_node (sample_sink_env False)" and ?I = "sink_internal (sample_sink_env False)"
  have "lc_reachable ?M ?I (\<lambda>s. \<exists>ov w. s = new_kafka_sink ov w) (Unconfigured, sample_sink 1000)"
    by (rule lc_start) (auto simp: sample_sink_def)
  moreover have "lc_step ?M ?I (Unconfigured, sample_sink 1000) (Inactive, sample_configured False 1000)"
    by (rule lc_configure [of _ _ "Ret True"]) (simp_all add: sample_configures lc_outcome.intros)
  moreover have "lc_step ?M ?I (Inactive, sample_configured False 1000)
      (Active, sample_active False 1000)"
    by (rule lc_activate [of _ _ "Ret True"]) (simp_all add: sample_activates lc_outcome.intros)
  ultimately show ?thesis by (blast intro: lc_next)
qed

lemma parse_subscription_Ret:
  assumes "parse_subscription Y e = Ret c"
  obtains topic ty kname kkey where "trim topic \<noteq> []" "trim ty \<noteq> []"
    "c = \<lparr>sc_topic_name = trim topic, sc_msg_type = trim ty,
          sc_kafka_name = Option.bind kname (non_empty \<circ> trim),
          sc_kafka_key = Option.bind kkey (non_empty \<circ> trim)\<rparr>"
proof -
  obtain tn mn where nodes: "y_is_map Y e" "y_get Y e ''topic_name'' = Ret (Some tn)"
    "y_get Y e ''msg_type'' = Ret (Some mn)"
    using assms
    by (cases "y_get Y e ''topic_name''"; cases "y_get Y e ''msg_type''")
       (auto simp: parse_subscription_def split: if_split_asm option.split_asm)
  show thesis
    using assms that unfolding parse_subscription_def
    by (auto simp: nodes exec_bind_Ret_iff split: if_split_asm)
qed

section \<open>Properties\<close>



text \<open>
  C7: A message that the callback of an active node handles raises exactly one of the counters
  sent, dropped and errors by one and touches no other subscription.  If it could be encoded, it
  is counted with its size and handed to the producer once, and a record that the producer only
  buffered is counted as an error; if it could not, the producer is left alone.
\<close>

theorem message_is_counted_once:
  assumes "ks_is_active s" "ks_producer s = Some p" "i < length (ks_active s)"
    and run: "on_message E i clk msg s = (Ret (), t)"
    and rt: "rt = as_runtime (ks_active s ! i)" "rt' = as_runtime (ks_active t ! i)"
  shows "rt_sent_ok rt' + rt_dropped rt' + rt_errors rt' =
      rt_sent_ok rt + rt_dropped rt + rt_errors rt + 1 \<and>
    (\<forall>j. j \<noteq> i \<longrightarrow> ks_active t ! j = ks_active s ! j) \<and>
    (case fst (encode_payload (se_json E) rt clk msg (ks_live_messages s)) of
       Ret v \<Rightarrow>
         rt_msgs_total rt' = rt_msgs_total rt + 1 \<and>
         rt_bytes_total rt' = rt_bytes_total rt + of_nat (length v) \<and>
         ks_producer t = Some (snd (send (se_rdkafka E) (record_of rt clk v) p)) \<and>
         (res_buffered (fst (send (se_rdkafka E) (record_of rt clk v) p)) \<longrightarrow>
            rt_errors rt' = rt_errors rt + 1)
     | _ \<Rightarrow> rt_msgs_total rt' = rt_msgs_total rt \<and> ks_producer t = Some p)"
  using run
proof (cases rule: on_message_cases)
  case (unencoded q e live)
  then have "rt' = rt\<lparr>rt_errors := rt_errors rt + 1\<rparr>"
    using assms(3) rt by (simp add: set_runtime_def)
  then show ?thesis using unencoded assms(2) rt(1) by (simp add: set_runtime_def)
next
  case (sent q v live res p')
  then have p: "q = p" using assms(2) by simp
  have rt': "rt' = note_sent clk res (note_received v (note_serialized clk v rt))"
    using sent(6) assms(3) rt by (simp add: set_runtime_def)
  have "rt_msgs_total rt' = rt_msgs_total rt + 1" "rt_bytes_total rt' = rt_bytes_total rt + of_nat (length v)"
    "rt_sent_ok rt' + rt_dropped rt' + rt_errors rt' =
      rt_sent_ok rt + rt_dropped rt + rt_errors rt + 1"
    unfolding rt'
    by (simp_all add: note_sent_def note_received_def note_serialized_def count_result_def Let_def)
  moreover have "rt_errors rt' = rt_errors rt + 1" if "res_buffered res"
  proof -
    have "res_status res \<noteq> SENT"
      using sent(5) that by (auto simp: p rt(1) send_def buffer_record_def try_produce_locked_def
          Let_def split: if_split_asm prod.split_asm)
    then show ?thesis
      unfolding rt' using that
      by (simp add: note_sent_def note_received_def note_serialized_def count_result_def Let_def)
  qed
  ultimately show ?thesis using sent p rt(1) by (simp add: set_runtime_def)
qed (use assms in simp_all)

text \<open>Two messages through the sample node: the broker's queue takes one record.\<close>

definition sample_clock :: clock where
  "sample_clock = \<lparr>ck_now_ns = 5000000, ck_serialize_ns = 7, ck_send_ns = 9\<rparr>"

theorem message_is_counted_once_witness:
  "rt_sent_ok (as_runtime (ks_active (snd (on_message (sample_sink_env False) 0 sample_clock [1, 2]
       (sample_active False 1000))) ! 0)) +
   rt_dropped (as_runtime (ks_active (snd (on_message (sample_sink_env False) 0 sample_clock [1, 2]
       (sample_active False 1000))) ! 0)) +
   rt_errors (as_runtime (ks_active (snd (on_message (sample_sink_env False) 0 sample_clock [1, 2]
       (sample_active False 1000))) ! 0)) = 1"
proof -
  let ?s = "sample_active False 1000" and ?E = "sample_sink_env False"
  let ?t = "snd (on_message ?E 0 sample_clock [1, 2] ?s)"
  have active: "ks_is_active ?s" "0 < length (ks_active ?s)" by code_simp+
  have "ks_producer ?s \<noteq> None" by code_simp
  then obtain p where p: "ks_producer ?s = Some p" by blast
  have "fst (on_message ?E 0 sample_clock [1, 2] ?s) = Ret ()" by code_simp
  then have run: "on_message ?E 0 sample_clock [1, 2] ?s = (Ret (), ?t)" by (metis prod.collapse)
  have "rt_sent_ok (as_runtime (ks_active ?s ! 0)) + rt_dropped (as_runtime (ks_active ?s ! 0)) +
      rt_errors (as_runtime (ks_active ?s ! 0)) = 0"
    by code_simp
  then show ?thesis
    using message_is_counted_once [OF active(1) p active(2) run refl refl] by simp
qed

text \<open>
  C24: A parsed configuration has one entry per element of the document, in its order; topic and
  type are trimmed and not empty, and a Kafka name or key is either absent or trimmed and not
  empty.
\<close>

theorem parsed_subscriptions_are_clean:
  assumes "parse_subscriptions_yaml Y text = Ret cs"
  shows "length cs = (if text = [] then 0
      else (case y_load Y text of Ret doc \<Rightarrow> length (y_elements Y doc) | _ \<Rightarrow> 0)) \<and>
    (\<forall>c \<in> set cs. trimmed (sc_topic_name c) \<and> sc_topic_name c \<noteq> [] \<and>
       trimmed (sc_msg_type c) \<and> sc_msg_type c \<noteq> [] \<and>
       (\<forall>x. x \<in> {sc_kafka_name c, sc_kafka_key c} \<longrightarrow>
          x = None \<or> (\<exists>n. x = Some n \<and> trimmed n \<and> n \<noteq> [])))"
proof -
  have clean: "Option.bind v (non_empty \<circ> trim) = None \<or>
      (\<exists>n. Option.bind v (non_empty \<circ> trim) = Some n \<and> trimmed n \<and> n \<noteq> [])" for v
    by (cases v) (auto simp: non_empty_def trimmed_trim)
  have entry: "trimmed (sc_topic_name c) \<and> sc_topic_name c \<noteq> [] \<and>
       trimmed (sc_msg_type c) \<and> sc_msg_type c \<noteq> [] \<and>
       (\<forall>x. x \<in> {sc_kafka_name c, sc_kafka_key c} \<longrightarrow>
          x = None \<or> (\<exists>n. x = Some n \<and> trimmed n \<and> n \<noteq> []))"
    if "parse_subscription Y e = Ret c" for e c
    using that by (rule parse_subscription_Ret) (use clean in \<open>simp add: trimmed_trim\<close>)
  show ?thesis
  proof (cases "text = []")
    case True
    then show ?thesis using assms by (simp add: parse_subscriptions_yaml_def)
  next
    case False
    then obtain doc where doc: "y_load Y text = Ret doc"
      "exec_map (parse_subscription Y) (y_elements Y doc) = Ret cs"
      using assms by (simp add: parse_subscriptions_yaml_def split: exec.split_asm if_split_asm)
    then show ?thesis
      using False exec_map_length [OF doc(2)] exec_map_mem [OF doc(2)] entry by fastforce
  qed
qed

theorem parsed_subscriptions_are_clean_witness:
  "parse_subscriptions_yaml (se_yaml (sample_sink_env False)) ''one'' =
     Ret [\<lparr>sc_topic_name = ''/odom'', sc_msg_type = ''nav_msgs/msg/Odometry'',
           sc_kafka_name = None, sc_kafka_key = None\<rparr>] \<and>
   length [\<lparr>sc_topic_name = ''/odom'', sc_msg_type = ''nav_msgs/msg/Odometry'',
           sc_kafka_name = None, sc_kafka_key = None\<rparr>] = 1 \<and> trimmed ''/odom''"
proof -
  have run: "parse_subscriptions_yaml (se_yaml (sample_sink_env False)) ''one'' =
     Ret [\<lparr>sc_topic_name = ''/odom'', sc_msg_type = ''nav_msgs/msg/Odometry'',
           sc_kafka_name = None, sc_kafka_key = None\<rparr>]" by code_simp
  show ?thesis using run parsed_subscriptions_are_clean [OF run] by simp
qed

text \<open>
  A rejected parameter update can have taken effect.  When a request carries a valid
  subscriptions document and invalid Kafka parameters, the answer is a rejection, and yet the
  configured subscriptions and the queue depth are already the new ones.
\<close>

theorem rejected_update_is_partly_applied:
  assumes "collect_params st ps (new_pending s) = Ret d"
    and "pd_yaml d = Some text" "parse_subscriptions_yaml (se_yaml E) text = Ret cs"
    and "0 < pd_depth d" "pd_kafka_changed d" "validate_kafka_parameters (pd_kafka d) = Some e"
  shows "on_parameters_set E st ps s =
    (Ret (rejected_result e), s\<lparr>ks_configured := cs, ks_qos_depth := pd_depth d\<rparr>)"
  using assms
  by (simp add: on_parameters_set_def attempt_def apply_pending_def andthen_def apply_subscriptions_def
      apply_qos_depth_def validate_qos_depth_def apply_kafka_def)

definition sample_update :: "parameter list" where
  "sample_update =
     [mk_param ''subscriptions_yaml'' (PString ''one''), mk_param ''kafka.acks'' (PString [])]"

theorem rejected_update_is_partly_applied_witness:
  "\<not> (case fst (on_parameters_set (sample_sink_env False) PRIMARY_STATE_INACTIVE sample_update
         (sample_sink 1000)) of Ret res \<Rightarrow> sr_successful res | _ \<Rightarrow> True) \<and>
   length (ks_configured (sample_sink 1000)) = 0 \<and>
   length (ks_configured (snd (on_parameters_set (sample_sink_env False) PRIMARY_STATE_INACTIVE
      sample_update (sample_sink 1000)))) = 1"
proof -
  let ?s = "sample_sink 1000" and ?E = "sample_sink_env False"
  let ?d = "(new_pending ?s)\<lparr>pd_yaml := Some ''one'',
      pd_kafka := (ks_params ?s)\<lparr>par_acks := []\<rparr>, pd_kafka_changed := True\<rparr>"
  let ?cs = "[\<lparr>sc_topic_name = ''/odom'', sc_msg_type = ''nav_msgs/msg/Odometry'',
           sc_kafka_name = None, sc_kafka_key = None\<rparr>]"
  have "collect_params PRIMARY_STATE_INACTIVE sample_update (new_pending ?s) = Ret ?d"
    by (simp add: sample_update_def collect_param_def collect_kafka_def starts_with_def as_string_def
        Let_def new_pending_def)
  moreover have "parse_subscriptions_yaml (se_yaml ?E) ''one'' = Ret ?cs" by code_simp
  moreover have "validate_kafka_parameters ((ks_params ?s)\<lparr>par_acks := []\<rparr>) =
      Some ''kafka.acks cannot be empty.''" "0 < ks_qos_depth ?s" "ks_configured ?s = []"
    by code_simp+
  ultimately show ?thesis
    using rejected_update_is_partly_applied
      [of PRIMARY_STATE_INACTIVE sample_update ?s ?d "''one''" ?E ?cs "''kafka.acks cannot be empty.''"]
    by (simp add: new_pending_def rejected_result_def)
qed

text \<open>
  Metrics.interval_ms is not checked.  When the timer refuses it, on_activate() throws after
  the flag was set: whatever state the error processing ends in, the node forwards messages, with
  its producer running and all its subscriptions in place, although it is not active.
\<close>

theorem refused_timer_leaves_the_node_forwarding:
  assumes "ks_metrics_enabled s" "se_publisher E (ks_metrics_topic s) = Ret ()"
    and timer: "se_timer E (ks_metrics_interval_ms s) = Exc e"
    and started: "start_producer E s = (Ret True, s1)"
    and built: "build_subscriptions E s1 = (Ret True, s2)"
  shows "\<exists>t. lc_step (kafka_sink_node E) (sink_internal E) (Inactive, s) (Finalized, t) \<and>
    lc_step (kafka_sink_node E) (sink_internal E) (Inactive, s) (Unconfigured, t) \<and>
    ks_is_active t \<and> (\<exists>p. ks_producer t = Some p \<and> kp_running p) \<and>
    list_all2 (sub_matches (ks_params s)) (ks_configured s) (ks_active t)"
proof -
  from started obtain p where p: "s1 = (stop_producer E s)\<lparr>ks_producer := Some p\<rparr>" "kp_running p"
    by (cases rule: start_producer_cases) auto
  then have "ks_producer s1 \<noteq> None" by simp
  note facts = build_subscriptions_facts [OF built this]
  let ?t = "s2\<lparr>ks_is_active := True, ks_metrics_pub := True\<rparr>"
  have same: "ks_metrics_enabled s2 = ks_metrics_enabled s" "ks_metrics_topic s2 = ks_metrics_topic s"
    "ks_metrics_interval_ms s2 = ks_metrics_interval_ms s" "ks_producer s2 = Some p"
    by (subst facts(1), simp add: p stop_producer_def split: option.split)+
  then have "sink_on_activate E s = (Exc e, ?t)"
    using started built assms(1,2) timer
    by (simp add: sink_on_activate_def andthen_def start_metrics_def)
  then have "lc_step (kafka_sink_node E) (sink_internal E) (Inactive, s) (st, ?t)"
    if "lc_outcome (Exc e) Inactive Active st" for st
    using that by (auto intro: lc_activate)
  then have "lc_step (kafka_sink_node E) (sink_internal E) (Inactive, s) (Finalized, ?t)"
    "lc_step (kafka_sink_node E) (sink_internal E) (Inactive, s) (Unconfigured, ?t)"
    by (auto intro: lc_outcome.intros)
  moreover have "list_all2 (sub_matches (ks_params s)) (ks_configured s) (ks_active ?t)"
    using facts(2) p(1) by simp
  ultimately show ?thesis using same(4) p(2) by (intro exI [of _ ?t]) simp
qed

theorem refused_timer_leaves_the_node_forwarding_witness:
  "ks_metrics_interval_ms (sample_configured True (-1)) = -1 \<and>
   (\<exists>t. lc_step (kafka_sink_node (sample_sink_env True)) (sink_internal (sample_sink_env True))
          (Inactive, sample_configured True (-1)) (Finalized, t) \<and> ks_is_active t)"
proof
  let ?s = "sample_configured True (-1)" and ?E = "sample_sink_env True"
  let ?s1 = "snd (start_producer ?E ?s)"
  show interval: "ks_metrics_interval_ms ?s = -1" by code_simp
  have enabled: "ks_metrics_enabled ?s" by code_simp
  have "fst (start_producer ?E ?s) = Ret True" by code_simp
  then have started: "start_producer ?E ?s = (Ret True, ?s1)" by (metis prod.collapse)
  have "fst (build_subscriptions ?E ?s1) = Ret True" by code_simp
  then have built: "build_subscriptions ?E ?s1 = (Ret True, snd (build_subscriptions ?E ?s1))"
    by (metis prod.collapse)
  have pub: "se_publisher ?E (ks_metrics_topic ?s) = Ret ()"
    and timer: "se_timer ?E (ks_metrics_interval_ms ?s) = Exc ''timer period cannot be negative''"
    by (simp_all add: interval sample_sink_env_def)
  show "\<exists>t. lc_step (kafka_sink_node ?E) (sink_internal ?E) (Inactive, ?s) (Finalized, t) \<and>
      ks_is_active t"
    using refused_timer_leaves_the_node_forwarding [OF enabled pub timer started built] by blast
qed

end
