(* ===== verification/Kafka_Consumer.thy ===== *)
theory Kafka_Consumer
  imports Message_Json
begin

text \<open>
  What kafka_source and kafka_cdr_to_json share: the librdkafka consumer they start and stop, the
  messages it delivers, the topic_mappings parameter, the cache of type supports and the latency
  of a record.  Both sources repeat this code; the definitions follow kafka_source_node.cpp and the
  node theories use them for either.
\<close>

section \<open>The consumer library\<close>

text \<open>
  Conf::create, Conf::set, KafkaConsumer::create, subscribe, close and the destructor over an opaque state \<open>'c\<close>;
  an error is its message.
\<close>

record 'c consumer_lib =
  kc_conf :: bool
  kc_set :: "(string \<times> string) list \<Rightarrow> string \<Rightarrow> string \<Rightarrow> string option"
  kc_create :: "(string \<times> string) list \<Rightarrow> 'c \<Rightarrow> string option \<times> 'c"
  kc_subscribe :: "string list \<Rightarrow> 'c \<Rightarrow> string option \<times> 'c"
  kc_close :: "'c \<Rightarrow> 'c"
  kc_destroy :: "'c \<Rightarrow> 'c"

text \<open>A record as delivered; \<open>None\<close> as time is MSG_TIMESTAMP_NOT_AVAILABLE.\<close>

record kafka_message =
  km_topic :: string
  km_payload :: "u8 list"
  km_headers :: "(string \<times> string) list"
  km_timestamp :: "int option"

datatype consumed =
    No_message | Timed_out | Partition_eof | Consume_error string | Delivered kafka_message

fun set_consumer_conf ::
  "'c consumer_lib \<Rightarrow> (string \<times> string) list \<Rightarrow> (string \<times> string) list
     \<Rightarrow> (string \<times> string) list exec" where
  "set_consumer_conf L [] conf = Ret conf"
| "set_consumer_conf L ((k, v) # kvs) conf =
     (case kc_set L conf k v of
        Some err \<Rightarrow> Err err
      | None \<Rightarrow> set_consumer_conf L kvs (conf @ [(k, v)]))"

definition consumer_settings :: "string \<Rightarrow> string \<Rightarrow> string \<Rightarrow> (string \<times> string) list" where
  "consumer_settings servers group_id offset_reset =
     [(''bootstrap.servers'', servers), (''group.id'', group_id), (''enable.auto.commit'', ''true''),
      (''auto.offset.reset'', offset_reset), (''allow.auto.create.topics'', ''false'')]"

text \<open>A consumer that is created and then not subscribed is destroyed.\<close>

definition open_consumer ::
  "'c consumer_lib \<Rightarrow> string \<Rightarrow> string \<Rightarrow> string \<Rightarrow> string \<Rightarrow> ('c, unit) prog" where
  "open_consumer L servers group_id offset_reset pattern w =
     (if \<not> kc_conf L then (Err ''Unable to create Kafka configuration.'', w)
      else case set_consumer_conf L (consumer_settings servers group_id offset_reset) [] of
        Err e \<Rightarrow> (Err e, w)
      | Exc e \<Rightarrow> (Exc e, w)
      | Ret conf \<Rightarrow>
          (case kc_create L conf w of
             (Some err, w) \<Rightarrow> (Err err, w)
           | (None, w) \<Rightarrow>
               (case kc_subscribe L [pattern] w of
                  (Some err, w) \<Rightarrow> (Err err, kc_destroy L w)
                | (None, w) \<Rightarrow> (Ret (), w))))"

definition close_consumer :: "'c consumer_lib \<Rightarrow> 'c \<Rightarrow> 'c" where
  "close_consumer L w = kc_destroy L (kc_close L w)"

lemma set_consumer_conf_no_throw: "set_consumer_conf L kvs conf \<noteq> Exc e"
  by (induction L kvs conf rule: set_consumer_conf.induct) (simp_all split: option.split)

lemma open_consumer_no_throw: "never_throws (open_consumer L servers group_id offset_reset pattern)"
  by (rule never_throwsI)
     (auto simp: open_consumer_def set_consumer_conf_no_throw
        split: if_split_asm exec.split_asm prod.split_asm option.split_asm)

section \<open>Topic mappings\<close>

text \<open>
  std::getline with a separator: a separator at the very end starts no further piece, which makes
  no difference here because an empty piece holds no equals sign.
\<close>

fun split_on :: "char \<Rightarrow> string \<Rightarrow> string list" where
  "split_on c [] = []"
| "split_on c (x # s) =
     (if x = c then [] # split_on c s
      else case split_on c s of [] \<Rightarrow> [[x]] | p # ps \<Rightarrow> (x # p) # ps)"

text \<open>One piece: split at the first equals sign, both sides trimmed, both not empty.\<close>

definition mapping_of_piece :: "string \<Rightarrow> (string \<times> string) option" where
  "mapping_of_piece current =
     (if CHR ''='' \<notin> set current then None
      else
       (let key = trim (takeWhile (\<lambda>c. c \<noteq> CHR ''='') current);
            v = trim (tl (dropWhile (\<lambda>c. c \<noteq> CHR ''='') current))
        in if key \<noteq> [] \<and> v \<noteq> [] then Some (key, v) else None))"

definition parse_topic_mappings :: "string \<Rightarrow> string \<Rightarrow> string option" where
  "parse_topic_mappings mappings =
     fold (\<lambda>piece m. case mapping_of_piece piece of
             None \<Rightarrow> m
           | Some (k, v) \<Rightarrow> m(k \<mapsto> v)) (split_on (CHR '','') mappings) Map.empty"

text \<open>Every mapping has a trimmed, non-empty key and value.\<close>

lemma mapping_of_piece_clean:
  "mapping_of_piece p = Some (k, v) \<Longrightarrow> trimmed k \<and> k \<noteq> [] \<and> trimmed v \<and> v \<noteq> []"
  by (auto simp: mapping_of_piece_def Let_def trimmed_trim split: if_split_asm)

lemma parse_topic_mappings_clean:
  assumes "parse_topic_mappings text k = Some v"
  shows "trimmed k \<and> k \<noteq> [] \<and> trimmed v \<and> v \<noteq> []"
proof -
  let ?f = "\<lambda>piece m. case mapping_of_piece piece of None \<Rightarrow> m | Some (k, v) \<Rightarrow> m(k \<mapsto> v)"
  have "fold ?f ps m k = Some v \<Longrightarrow>
      (\<And>k v. m k = Some v \<Longrightarrow> trimmed k \<and> k \<noteq> [] \<and> trimmed v \<and> v \<noteq> []) \<Longrightarrow>
      trimmed k \<and> k \<noteq> [] \<and> trimmed v \<and> v \<noteq> []" for ps m
  proof (induction ps arbitrary: m)
    case (Cons p ps)
    show ?case
    proof (rule Cons.IH)
      show "fold ?f ps (?f p m) k = Some v" using Cons.prems(1) by simp
      show "trimmed k \<and> k \<noteq> [] \<and> trimmed v \<and> v \<noteq> []" if "?f p m k = Some v" for k v
        using that Cons.prems(2) mapping_of_piece_clean
        by (auto split: option.split_asm prod.split_asm if_split_asm)
    qed
  qed simp
  then show ?thesis using assms unfolding parse_topic_mappings_def by fastforce
qed

section \<open>Type supports\<close>

definition find_type_support :: "typesupport_lib \<Rightarrow> string \<Rightarrow> type_support exec" where
  "find_type_support T ros_type =
     exec_bind (tl_library T ros_type ''rosidl_typesupport_cpp'') (\<lambda>ts_lib.
     exec_bind (tl_library T ros_type ''rosidl_typesupport_introspection_cpp'') (\<lambda>introspection_lib.
     if \<not> ts_lib \<or> \<not> introspection_lib then Err ''Typesupport library not found.''
     else
       exec_bind (tl_handle T ros_type ''rosidl_typesupport_cpp'') (\<lambda>rmw.
       exec_bind (tl_handle T ros_type ''rosidl_typesupport_introspection_cpp'') (\<lambda>intro.
       if \<not> rmw \<or> \<not> intro then Err ''Typesupport handle not found.''
       else Ret \<lparr>ts_rmw = True, ts_introspection = True, ts_members = tl_members T ros_type\<rparr>))))"

text \<open>The cache in front of it; a throw of the libraries is a false return like the others.\<close>

definition ensure_type_support ::
  "typesupport_lib \<Rightarrow> string \<Rightarrow> (string \<Rightarrow> type_support option, type_support) prog" where
  "ensure_type_support T ros_type cache =
     (case cache ros_type of
        Some entry \<Rightarrow> (Ret entry, cache)
      | None \<Rightarrow>
          (case find_type_support T ros_type of
             Ret entry \<Rightarrow> (Ret entry, cache(ros_type \<mapsto> entry))
           | Err e \<Rightarrow> (Err e, cache)
           | Exc e \<Rightarrow> (Err e, cache)))"

text \<open>A cached type support is complete, and a second request for a type answers from the cache.\<close>

definition cache_ok :: "(string \<Rightarrow> type_support option) \<Rightarrow> bool" where
  "cache_ok cache \<longleftrightarrow> (\<forall>t ts. cache t = Some ts \<longrightarrow> ts_rmw ts \<and> ts_introspection ts)"

lemma find_type_support_complete:
  "find_type_support T t = Ret ts \<Longrightarrow> ts_rmw ts \<and> ts_introspection ts"
  by (auto simp: find_type_support_def exec_bind_Ret_iff split: if_split_asm)

text \<open>
  What kafka_source and kafka_cdr_to_json ask of their caches: a search that finds complete type
  supports only, behind a map that keeps what was found.
\<close>

locale type_cache =
  fixes search :: "typesupport_lib \<Rightarrow> string \<Rightarrow> type_support exec"
    and ensure :: "typesupport_lib \<Rightarrow> string \<Rightarrow> (string \<Rightarrow> type_support option, type_support) prog"
  assumes search_complete: "search T t = Ret ts \<Longrightarrow> ts_rmw ts \<and> ts_introspection ts"
    and ensure_hit: "cache t = Some ts \<Longrightarrow> ensure T t cache = (Ret ts, cache)"
    and ensure_found: "cache t = None \<Longrightarrow> search T t = Ret ts \<Longrightarrow>
      ensure T t cache = (Ret ts, cache(t \<mapsto> ts))"
    and ensure_failed: "cache t = None \<Longrightarrow> \<not> is_ret (search T t) \<Longrightarrow>
      \<exists>e. ensure T t cache = (Err e, cache)"
begin

lemma ensure_cases:
  assumes "ensure T t cache = (r, cache')"
  obtains (found) ts where "r = Ret ts" "cache' t = Some ts"
      "\<And>u. u \<noteq> t \<Longrightarrow> cache' u = cache u" "cache_ok cache \<Longrightarrow> cache_ok cache'"
    | (missing) e where "r = Err e" "cache' = cache"
proof (cases "cache t")
  case (Some ts)
  then show thesis using assms found [of ts] by (simp add: ensure_hit)
next
  case None
  show thesis
  proof (cases "is_ret (search T t)")
    case True
    then obtain ts where ts: "search T t = Ret ts" by (auto simp: is_ret_iff)
    then have "cache' = cache(t \<mapsto> ts)" "r = Ret ts" using None assms by (simp_all add: ensure_found)
    then show thesis using found [of ts] search_complete [OF ts] by (simp add: cache_ok_def)
  next
    case False
    then show thesis using ensure_failed [of cache t T] None assms missing by auto
  qed
qed

lemma ensure_again:
  assumes "ensure T t cache = (Ret ts, cache')"
  shows "ensure T' t cache' = (Ret ts, cache')"
  using assms by (cases rule: ensure_cases) (auto simp: ensure_hit)

end

interpretation source_cache: type_cache find_type_support ensure_type_support
proof unfold_locales
  show "\<exists>e. ensure_type_support T t cache = (Err e, cache)"
    if "cache t = None" "\<not> is_ret (find_type_support T t)" for cache t T
    using that by (cases "find_type_support T t") (simp_all add: ensure_type_support_def)
qed (simp_all add: ensure_type_support_def find_type_support_complete)

section \<open>A record's header, time and latency\<close>

text \<open>The first ros_type header; absent is the empty string.\<close>

definition ros_type_header :: "kafka_message \<Rightarrow> string" where
  "ros_type_header m =
     (case filter (\<lambda>h. fst h = ''ros_type'') (km_headers m) of
        [] \<Rightarrow> []
      | h # _ \<Rightarrow> snd h)"

definition usable_timestamp :: "kafka_message \<Rightarrow> int option" where
  "usable_timestamp m =
     (case km_timestamp m of None \<Rightarrow> None | Some t \<Rightarrow> if 0 \<le> t then Some t else None)"

text \<open>The latency to be recorded: only a record from the past has one.\<close>

definition record_latency :: "int \<Rightarrow> kafka_message \<Rightarrow> u64 option" where
  "record_latency now_ns m =
     (case usable_timestamp m of
        None \<Rightarrow> None
      | Some t \<Rightarrow>
          if t * 1000000 < now_ns then Some (word_of_int (now_ns - t * 1000000)) else None)"

text \<open>One log line per second; the state is the time from which the next one is due.\<close>

definition should_log_throttled :: "int \<Rightarrow> int \<Rightarrow> bool \<times> int" where
  "should_log_throttled now_ns next_log =
     (if next_log \<le> now_ns then (True, now_ns + 1000000000) else (False, next_log))"

abbreviation kMaxLatencySamples :: nat where "kMaxLatencySamples \<equiv> 1000"

section \<open>Escaped text\<close>

definition hex_digit :: "nat \<Rightarrow> char" where
  "hex_digit n = (if n < 10 then char_of (48 + n) else char_of (55 + n))"

definition escape_char :: "char \<Rightarrow> string" where
  "escape_char c =
     (if c = CHR 0x5C then [CHR 0x5C, CHR 0x5C]
      else if c = CHR 0x22 then [CHR 0x5C, CHR 0x22]
      else if c = CHR 0x0A then [CHR 0x5C, CHR ''n'']
      else if c = CHR 0x0D then [CHR 0x5C, CHR ''r'']
      else if c = CHR 0x09 then [CHR 0x5C, CHR ''t'']
      else if c = CHR 0x08 then [CHR 0x5C, CHR ''b'']
      else if c = CHR 0x0C then [CHR 0x5C, CHR ''f'']
      else if of_char c < (0x20 :: nat)
      then CHR 0x5C # ''u00'' @ [hex_digit (of_char c div 16), hex_digit (of_char c mod 16)]
      else [c])"

definition json_escape :: "string \<Rightarrow> string" where
  "json_escape input = concat (map escape_char input)"

section \<open>Libraries that work\<close>

definition sample_consumer_lib :: "unit consumer_lib" where
  "sample_consumer_lib =
     \<lparr>kc_conf = True, kc_set = (\<lambda>_ _ _. None), kc_create = (\<lambda>_ w. (None, w)),
      kc_subscribe = (\<lambda>_ w. (None, w)), kc_close = (\<lambda>w. w), kc_destroy = (\<lambda>w. w)\<rparr>"

definition sample_typesupport :: typesupport_lib where
  "sample_typesupport =
     \<lparr>tl_library = (\<lambda>t _. Ret (t \<noteq> ''no/msg/Type'')), tl_handle = (\<lambda>_ _. Ret True),
      tl_members = (\<lambda>_. Some sample_message)\<rparr>"

end
