(* ===== verification/Kafka_Source.thy ===== *)
theory Kafka_Source
  imports Kafka_Consumer Percentile Lifecycle
begin

text \<open>
  kafka_source: the managed node that reads CDR records from Kafka on a thread of its own and
  publishes them on ROS topics (kafka_bridge/kafka_source/src/kafka_source_node.cpp).

  The lifecycle and parameter callbacks and the metrics timer run on the executor, poll_loop() on
  the consumer thread; the thread is joined before anything it uses is torn down, so a round of
  its loop is one step between callbacks.
\<close>

section \<open>State\<close>

record source_params =
  sp_bootstrap_servers :: string
  sp_group_id :: string
  sp_topic_pattern :: string
  sp_offset_reset :: string

record topic_metrics =
  tm_ros_topic :: string
  tm_ros_type :: string
  tm_received :: u64
  tm_decoded :: u64
  tm_failed :: u64
  tm_bytes :: u64
  tm_latency_accum :: u64
  tm_latency_max :: u64
  tm_latency_samples :: "u64 list"
  tm_prev_received :: u64
  tm_prev_decoded :: u64
  tm_prev_failed :: u64
  tm_prev_bytes :: u64

definition new_topic_metrics :: "string \<Rightarrow> string \<Rightarrow> topic_metrics" where
  "new_topic_metrics topic ty =
     \<lparr>tm_ros_topic = topic, tm_ros_type = ty, tm_received = 0, tm_decoded = 0, tm_failed = 0,
      tm_bytes = 0, tm_latency_accum = 0, tm_latency_max = 0, tm_latency_samples = [],
      tm_prev_received = 0, tm_prev_decoded = 0, tm_prev_failed = 0, tm_prev_bytes = 0\<rparr>"

text \<open>
  \<open>so_publishers\<close> tells for a cached key whether the stored pointer is set; \<open>so_metrics_pub\<close> whether
  there is a metrics publisher, and if so whether it is activated; \<open>so_published\<close> is the output of
  the node: topic, type and serialized bytes.  The unordered map of metrics is kept sorted by key.
\<close>

record 'c kafka_source =
  so_store :: "string \<Rightarrow> param_value"
  so_params :: source_params
  so_prefix :: string
  so_qos_depth :: int
  so_metrics_enabled :: bool
  so_metrics_interval_ms :: int
  so_metrics_topic :: string
  so_mappings :: "string \<Rightarrow> string option"
  so_consumer :: bool
  so_world :: 'c
  so_thread :: bool
  so_running :: bool
  so_is_active :: bool
  so_cache :: "string \<Rightarrow> type_support option"
  so_publishers :: "string \<Rightarrow> bool option"
  so_metrics :: "(string \<times> topic_metrics) list"
  so_next_log_ns :: int
  so_metrics_pub :: "bool option"
  so_timer :: bool
  so_published :: "(string \<times> string \<times> u8 list) list"
  so_reports :: "string list"

text \<open>
  \<open>ce_order\<close> is the order in which the unordered map is iterated; \<open>ce_create_publisher\<close> returns
  false for a null pointer.
\<close>

record 'c source_env =
  ce_consumer :: "'c consumer_lib"
  ce_typesupport :: typesupport_lib
  ce_create_publisher :: "string \<Rightarrow> string \<Rightarrow> int \<Rightarrow> bool exec"
  ce_metrics_publisher :: "string \<Rightarrow> unit exec"
  ce_timer :: "int \<Rightarrow> unit exec"
  ce_order :: "topic_metrics list \<Rightarrow> topic_metrics list"

definition default_source_params :: source_params where
  "default_source_params =
     \<lparr>sp_bootstrap_servers = ''localhost:9092'', sp_group_id = ''ros2-kafka-source'',
      sp_topic_pattern = ''^ros2'' @ [CHR 0x5C] @ ''..*'', sp_offset_reset = ''latest''\<rparr>"

definition source_declared :: "(string \<times> param_value) list" where
  "source_declared =
     [(''kafka.bootstrap_servers'', PString (sp_bootstrap_servers default_source_params)),
      (''kafka.group_id'', PString (sp_group_id default_source_params)),
      (''kafka.topic_pattern'', PString (sp_topic_pattern default_source_params)),
      (''kafka.offset_reset'', PString (sp_offset_reset default_source_params)),
      (''ros_topic_prefix'', PString ''/kafka_decoded''), (''qos_depth'', PInt 10),
      (''metrics.enabled'', PBool True), (''metrics.interval_ms'', PInt 1000),
      (''metrics.topic'', PString ''kafka_source/metrics''), (''topic_mappings'', PString [])]"

definition new_kafka_source :: "(string \<Rightarrow> param_value option) \<Rightarrow> 'c \<Rightarrow> 'c kafka_source" where
  "new_kafka_source overrides w =
     \<lparr>so_store = (\<lambda>n. case map_of source_declared n of
                      None \<Rightarrow> PNotSet
                    | Some v \<Rightarrow> (case overrides n of Some x \<Rightarrow> x | None \<Rightarrow> v)),
      so_params = default_source_params, so_prefix = ''/kafka_decoded'', so_qos_depth = 10,
      so_metrics_enabled = True, so_metrics_interval_ms = 1000,
      so_metrics_topic = ''kafka_source/metrics'', so_mappings = Map.empty,
      so_consumer = False, so_world = w, so_thread = False, so_running = False,
      so_is_active = False, so_cache = Map.empty, so_publishers = Map.empty, so_metrics = [],
      so_next_log_ns = 0, so_metrics_pub = None, so_timer = False, so_published = [],
      so_reports = []\<rparr>"

section \<open>Parameters\<close>

definition source_validate :: "'c kafka_source \<Rightarrow> string option" where
  "source_validate s =
     (let p = so_params s
      in if sp_bootstrap_servers p = [] then Some ''kafka.bootstrap_servers must be non-empty.''
         else if sp_group_id p = [] then Some ''kafka.group_id must be non-empty.''
         else if sp_topic_pattern p = [] then Some ''kafka.topic_pattern must be non-empty.''
         else if sp_offset_reset p \<noteq> ''latest'' \<and> sp_offset_reset p \<noteq> ''earliest''
         then Some ''kafka.offset_reset must be 'latest' or 'earliest'.''
         else if so_qos_depth s \<le> 0 then Some ''qos_depth must be > 0.''
         else if so_metrics_interval_ms s \<le> 0 then Some ''metrics.interval_ms must be > 0.''
         else if so_metrics_enabled s \<and> so_metrics_topic s = []
         then Some ''metrics.topic must be non-empty when metrics are enabled.''
         else None)"

text \<open>
  One parameter written into the node; the callback writes every parameter of the request before it
  validates anything, and get_parameter() of the configuration writes the same members.
\<close>

definition source_write_param :: "parameter \<Rightarrow> 'c kafka_source \<Rightarrow> 'c kafka_source exec" where
  "source_write_param p s =
     (let n = p_name p;
          str = (\<lambda>f. exec_bind (as_string p) (\<lambda>v. Ret (f v)));
          num = (\<lambda>f. exec_bind (as_int p) (\<lambda>v. Ret (f (narrow32 v))))
      in if n = ''kafka.bootstrap_servers''
         then str (\<lambda>v. s\<lparr>so_params := (so_params s)\<lparr>sp_bootstrap_servers := v\<rparr>\<rparr>)
         else if n = ''kafka.group_id''
         then str (\<lambda>v. s\<lparr>so_params := (so_params s)\<lparr>sp_group_id := v\<rparr>\<rparr>)
         else if n = ''kafka.topic_pattern''
         then str (\<lambda>v. s\<lparr>so_params := (so_params s)\<lparr>sp_topic_pattern := v\<rparr>\<rparr>)
         else if n = ''kafka.offset_reset''
         then str (\<lambda>v. s\<lparr>so_params := (so_params s)\<lparr>sp_offset_reset := v\<rparr>\<rparr>)
         else if n = ''ros_topic_prefix'' then str (\<lambda>v. s\<lparr>so_prefix := v\<rparr>)
         else if n = ''qos_depth'' then num (\<lambda>v. s\<lparr>so_qos_depth := v\<rparr>)
         else if n = ''metrics.enabled''
         then exec_bind (as_bool p) (\<lambda>v. Ret (s\<lparr>so_metrics_enabled := v\<rparr>))
         else if n = ''metrics.interval_ms'' then num (\<lambda>v. s\<lparr>so_metrics_interval_ms := v\<rparr>)
         else if n = ''metrics.topic'' then str (\<lambda>v. s\<lparr>so_metrics_topic := v\<rparr>)
         else if n = ''topic_mappings'' then str (\<lambda>v. s\<lparr>so_mappings := parse_topic_mappings v\<rparr>)
         else Ret s)"

fun source_write_params :: "parameter list \<Rightarrow> ('c kafka_source, unit) prog" where
  "source_write_params [] s = (Ret (), s)"
| "source_write_params (p # ps) s =
     (case source_write_param p s of
        Ret s' \<Rightarrow> source_write_params ps s'
      | Err e \<Rightarrow> (Err e, s)
      | Exc e \<Rightarrow> (Exc e, s))"

definition source_set_params :: "parameter list \<Rightarrow> ('c kafka_source, set_result) prog" where
  "source_set_params ps s =
     (if so_is_active s
      then (Ret \<lparr>sr_successful = False,
                 sr_reason = ''Cannot change parameters while node is active.''\<rparr>, s)
      else andthen (source_write_params ps)
             (\<lambda>_ s. (Ret (case source_validate s of
                       Some e \<Rightarrow> \<lparr>sr_successful = False, sr_reason = e\<rparr>
                     | None \<Rightarrow> \<lparr>sr_successful = True, sr_reason = ''Parameters accepted.''\<rparr>), s)) s)"

text \<open>get_parameter() leaves the member alone when the parameter has no value.\<close>

definition stored_params :: "'c kafka_source \<Rightarrow> parameter list" where
  "stored_params s =
     filter (\<lambda>p. p_value p \<noteq> PNotSet) (map (\<lambda>(n, _). mk_param n (so_store s n)) source_declared)"

definition source_configure :: "('c kafka_source, unit) prog" where
  "source_configure s =
     andthen (source_write_params (stored_params s))
       (\<lambda>_ s. (case source_validate s of Some e \<Rightarrow> Err e | None \<Rightarrow> Ret (), s)) s"

section \<open>Topic names\<close>

text \<open>std::unique with the predicate "both are slashes".\<close>

fun collapse_slashes :: "string \<Rightarrow> string" where
  "collapse_slashes (a # b # s) =
     (if a = CHR ''/'' \<and> b = CHR ''/'' then collapse_slashes (b # s)
      else a # collapse_slashes (b # s))"
| "collapse_slashes s = s"

definition source_prefix :: "string \<Rightarrow> string" where
  "source_prefix p =
     (let p = (if p \<noteq> [] \<and> last p = CHR ''/'' then butlast p else p)
      in if p \<noteq> [] \<and> hd p \<noteq> CHR ''/'' then CHR ''/'' # p else p)"

definition derive_ros_topic :: "string \<Rightarrow> string \<Rightarrow> string" where
  "derive_ros_topic ros_topic_prefix kafka_topic =
     (let suffix = (if starts_with ''ros2.'' kafka_topic then drop 5 kafka_topic else kafka_topic);
          suffix = replace_char (CHR ''.'') (CHR ''/'') suffix;
          prefix = source_prefix ros_topic_prefix
      in if suffix = [] then (if prefix = [] then ''/'' else prefix)
         else
          (let topic = collapse_slashes (prefix @ ''/'' @ suffix)
           in if 1 < length topic \<and> last topic = CHR ''/'' then butlast topic else topic))"


section \<open>The consumer thread\<close>

definition start_consumer :: "'c source_env \<Rightarrow> ('c kafka_source, unit) prog" where
  "start_consumer E s =
     (let p = so_params s
      in case open_consumer (ce_consumer E) (sp_bootstrap_servers p) (sp_group_id p)
                (sp_offset_reset p) (sp_topic_pattern p) (so_world s) of
           (Ret _, w) \<Rightarrow> (Ret (), s\<lparr>so_world := w, so_consumer := True\<rparr>)
         | (Err e, w) \<Rightarrow> (Err e, s\<lparr>so_world := w\<rparr>)
         | (Exc e, w) \<Rightarrow> (Exc e, s\<lparr>so_world := w\<rparr>))"

definition stop_consumer :: "'c source_env \<Rightarrow> 'c kafka_source \<Rightarrow> 'c kafka_source" where
  "stop_consumer E s =
     (if so_consumer s
      then s\<lparr>so_consumer := False, so_world := close_consumer (ce_consumer E) (so_world s)\<rparr>
      else s)"

definition join_consumer_thread :: "'c kafka_source \<Rightarrow> 'c kafka_source" where
  "join_consumer_thread s = s\<lparr>so_thread := False\<rparr>"

definition throttled :: "int \<Rightarrow> 'c kafka_source \<Rightarrow> 'c kafka_source" where
  "throttled now_ns s = s\<lparr>so_next_log_ns := snd (should_log_throttled now_ns (so_next_log_ns s))\<rparr>"

definition ros_topic_for :: "'c kafka_source \<Rightarrow> string \<Rightarrow> string" where
  "ros_topic_for s kafka_topic =
     (case so_mappings s kafka_topic of
        Some t \<Rightarrow> t
      | None \<Rightarrow> derive_ros_topic (so_prefix s) kafka_topic)"

definition metrics_key :: "string \<Rightarrow> string \<Rightarrow> string" where
  "metrics_key ros_topic ros_type = ros_topic @ ''|'' @ ros_type"

text \<open>The entry of a key, created when it is missing, and the update of one that is there.\<close>

definition metrics_entry_of ::
  "string \<Rightarrow> string \<Rightarrow> (string \<times> topic_metrics) list \<Rightarrow> topic_metrics" where
  "metrics_entry_of topic ty ms =
     (case map_of ms (metrics_key topic ty) of
        Some m \<Rightarrow> m
      | None \<Rightarrow> new_topic_metrics topic ty)"

definition update_metrics ::
  "string \<Rightarrow> string \<Rightarrow> (topic_metrics \<Rightarrow> topic_metrics) \<Rightarrow> 'c kafka_source \<Rightarrow> 'c kafka_source" where
  "update_metrics topic ty f s =
     s\<lparr>so_metrics := map_assign (metrics_key topic ty)
         (f (metrics_entry_of topic ty (so_metrics s))) (so_metrics s)\<rparr>"

definition note_record :: "int \<Rightarrow> kafka_message \<Rightarrow> topic_metrics \<Rightarrow> topic_metrics" where
  "note_record now_ns m t =
     (let t = t\<lparr>tm_received := tm_received t + 1,
                tm_bytes := tm_bytes t + of_nat (length (km_payload m))\<rparr>
      in case record_latency now_ns m of
           None \<Rightarrow> t
         | Some l \<Rightarrow>
             t\<lparr>tm_latency_accum := tm_latency_accum t + l,
               tm_latency_max := max (tm_latency_max t) l,
               tm_latency_samples := push_sample kMaxLatencySamples l (tm_latency_samples t)\<rparr>)"

definition note_failed :: "topic_metrics \<Rightarrow> topic_metrics" where
  "note_failed t = t\<lparr>tm_failed := tm_failed t + 1\<rparr>"

definition note_decoded :: "topic_metrics \<Rightarrow> topic_metrics" where
  "note_decoded t = t\<lparr>tm_decoded := tm_decoded t + 1\<rparr>"

text \<open>
  get_or_create_publisher(): what create_generic_publisher returned is cached, a null pointer too;
  when it throws nothing is stored.
\<close>

definition get_or_create_publisher ::
  "'c source_env \<Rightarrow> string \<Rightarrow> string \<Rightarrow> ('c kafka_source, bool) prog" where
  "get_or_create_publisher E ros_topic ros_type s =
     (case so_publishers s (metrics_key ros_topic ros_type) of
        Some b \<Rightarrow> (Ret b, s)
      | None \<Rightarrow>
          (case ce_create_publisher E ros_topic ros_type (so_qos_depth s) of
             Ret b \<Rightarrow> (Ret b, s\<lparr>so_publishers := (so_publishers s)(metrics_key ros_topic ros_type \<mapsto> b)\<rparr>)
           | Err e \<Rightarrow> (Exc e, s)
           | Exc e \<Rightarrow> (Exc e, s)))"

definition publish_cdr ::
  "string \<Rightarrow> string \<Rightarrow> u8 list \<Rightarrow> 'c kafka_source \<Rightarrow> 'c kafka_source" where
  "publish_cdr ros_topic ros_type payload s =
     s\<lparr>so_published := so_published s @ [(ros_topic, ros_type, payload)]\<rparr>"

text \<open>The second half of process_message(): the publisher, the publication and its counter.\<close>

definition fail_record ::
  "int \<Rightarrow> string \<Rightarrow> string \<Rightarrow> 'c kafka_source \<Rightarrow> 'c kafka_source" where
  "fail_record clock_ns topic ty s = throttled clock_ns (update_metrics topic ty note_failed s)"

definition deliver_record ::
  "'c source_env \<Rightarrow> int \<Rightarrow> string \<Rightarrow> string \<Rightarrow> u8 list \<Rightarrow> ('c kafka_source, unit) prog" where
  "deliver_record E clock_ns topic ty payload s =
     (case get_or_create_publisher E topic ty s of
        (Ret True, s) \<Rightarrow>
          (Ret (), update_metrics topic ty note_decoded (publish_cdr topic ty payload s))
      | (Ret False, s) \<Rightarrow> (Ret (), fail_record clock_ns topic ty s)
      | (Err e, s) \<Rightarrow> (Exc e, s)
      | (Exc e, s) \<Rightarrow> (Exc e, s))"

text \<open>
  process_message(): \<open>system_ns\<close> is the system clock, which dates the latency, \<open>clock_ns\<close> the node's
  clock, which throttles the log.
\<close>

definition process_message ::
  "'c source_env \<Rightarrow> int \<Rightarrow> int \<Rightarrow> kafka_message \<Rightarrow> ('c kafka_source, unit) prog" where
  "process_message E system_ns clock_ns m s =
     (if km_payload m = [] then (Ret (), s)
      else if ros_type_header m = [] then (Ret (), throttled clock_ns s)
      else
       (let ty = ros_type_header m;
            topic = ros_topic_for s (km_topic m);
            s = update_metrics topic ty (note_record system_ns m) s
        in case ensure_type_support (ce_typesupport E) ty (so_cache s) of
             (Err _, c) \<Rightarrow> (Ret (), fail_record clock_ns topic ty (s\<lparr>so_cache := c\<rparr>))
           | (Exc e, c) \<Rightarrow> (Exc e, s\<lparr>so_cache := c\<rparr>)
           | (Ret _, c) \<Rightarrow>
               deliver_record E clock_ns topic ty (km_payload m) (s\<lparr>so_cache := c\<rparr>)))"

text \<open>One round of poll_loop(); \<open>world\<close> is the library after the consume() call.\<close>

definition poll_round ::
  "'c source_env \<Rightarrow> int \<Rightarrow> int \<Rightarrow> consumed \<Rightarrow> 'c \<Rightarrow> ('c kafka_source, unit) prog" where
  "poll_round E system_ns clock_ns got world s =
     (if \<not> so_running s \<or> \<not> so_consumer s then (Ret (), s)
      else
       (let s = s\<lparr>so_world := world\<rparr>
        in case got of
             No_message \<Rightarrow> (Ret (), s)
           | Timed_out \<Rightarrow> (Ret (), s)
           | Partition_eof \<Rightarrow> (Ret (), s)
           | Consume_error _ \<Rightarrow> (Ret (), throttled clock_ns s)
           | Delivered m \<Rightarrow> process_message E system_ns clock_ns m s))"

section \<open>Metrics\<close>

text \<open>
  A stream with std::fixed and precision 3: the double, rounded to thousandths (ties to even), with
  exactly three digits after the point.
\<close>

definition show_fixed3 :: "rat \<Rightarrow> string" where
  "show_fixed3 q =
     (let n = nat (round_even (q * 1000));
          d = n mod 1000
      in show_nat (n div 1000) @ ''.'' @
         [char_of (48 + d div 100), char_of (48 + d div 10 mod 10), char_of (48 + d mod 10)])"

definition show_u64 :: "u64 \<Rightarrow> string" where
  "show_u64 w = show_nat (unat w)"

text \<open>A rate: the delta and the interval as doubles, their quotient rounded.\<close>

definition interval_rate :: "u64 \<Rightarrow> int \<Rightarrow> rat" where
  "interval_rate d ms =
     (if 0 < ms then double_of (double_of (of_nat (unat d)) / double_of (of_int ms / 1000)) else 0)"

definition json_key :: "string \<Rightarrow> string" where
  "json_key k = CHR 0x22 # k @ [CHR 0x22, CHR '':'']"

definition json_text :: "string \<Rightarrow> string" where
  "json_text v = CHR 0x22 # json_escape v @ [CHR 0x22]"

definition report_entry :: "int \<Rightarrow> topic_metrics \<Rightarrow> string" where
  "report_entry ms t =
     (let samples = tm_latency_samples t
      in ''{'' @ json_key ''ros_topic'' @ json_text (tm_ros_topic t) @ '','' @
         json_key ''ros_type'' @ json_text (tm_ros_type t) @ '','' @
         json_key ''received'' @ show_u64 (tm_received t) @ '','' @
         json_key ''decoded'' @ show_u64 (tm_decoded t) @ '','' @
         json_key ''failed'' @ show_u64 (tm_failed t) @ '','' @
         json_key ''bytes'' @ show_u64 (tm_bytes t) @ '','' @
         json_key ''rate_msgs_per_s'' @
           show_fixed3 (interval_rate (tm_received t - tm_prev_received t) ms) @ '','' @
         json_key ''rate_bytes_per_s'' @
           show_fixed3 (interval_rate (tm_bytes t - tm_prev_bytes t) ms) @ '','' @
         json_key ''delta_decoded'' @ show_u64 (tm_decoded t - tm_prev_decoded t) @ '','' @
         json_key ''delta_failed'' @ show_u64 (tm_failed t - tm_prev_failed t) @ '','' @
         json_key ''latency_ns_p50'' @ show_u64 (calculate_percentile_ceil samples p50) @ '','' @
         json_key ''latency_ns_p95'' @ show_u64 (calculate_percentile_ceil samples p95) @ '','' @
         json_key ''latency_ns_p99'' @ show_u64 (calculate_percentile_ceil samples p99) @ '','' @
         json_key ''latency_ns_max'' @ show_u64 (tm_latency_max t) @ ''}'')"

fun join_with :: "string \<Rightarrow> string list \<Rightarrow> string" where
  "join_with sep [] = []"
| "join_with sep [x] = x"
| "join_with sep (x # y # xs) = x @ sep @ join_with sep (y # xs)"

definition source_snapshot :: "topic_metrics \<Rightarrow> topic_metrics" where
  "source_snapshot t =
     t\<lparr>tm_prev_received := tm_received t, tm_prev_decoded := tm_decoded t,
       tm_prev_failed := tm_failed t, tm_prev_bytes := tm_bytes t\<rparr>"

definition source_report :: "'c source_env \<Rightarrow> int \<Rightarrow> 'c kafka_source \<Rightarrow> string" where
  "source_report E clock_ns s =
     ''{'' @ json_key ''timestamp_ns'' @ show_int clock_ns @ '','' @ json_key ''topics'' @ ''['' @
     join_with '','' (map (report_entry (so_metrics_interval_ms s))
       (ce_order E (map snd (so_metrics s)))) @ '']}''"

text \<open>A publisher that is not activated drops the report.\<close>

definition source_publish_metrics ::
  "'c source_env \<Rightarrow> int \<Rightarrow> 'c kafka_source \<Rightarrow> 'c kafka_source" where
  "source_publish_metrics E clock_ns s =
     (if \<not> so_metrics_enabled s \<or> so_metrics_pub s = None then s
      else s\<lparr>so_metrics := map (\<lambda>(k, t). (k, source_snapshot t)) (so_metrics s),
             so_reports := (if so_metrics_pub s = Some True
                            then so_reports s @ [source_report E clock_ns s] else so_reports s)\<rparr>)"

text \<open>The old timer is cancelled first; the new one exists only while the node is active.\<close>

definition reset_metrics_timer :: "'c source_env \<Rightarrow> ('c kafka_source, unit) prog" where
  "reset_metrics_timer E s =
     (let s = s\<lparr>so_timer := False\<rparr>
      in if so_metrics_enabled s \<and> so_is_active s
         then (case ce_timer E (so_metrics_interval_ms s) of
                 Ret _ \<Rightarrow> (Ret (), s\<lparr>so_timer := True\<rparr>)
               | Err e \<Rightarrow> (Exc e, s)
               | Exc e \<Rightarrow> (Exc e, s))
         else (Ret (), s))"

section \<open>Lifecycle callbacks\<close>

definition source_on_configure :: "'c source_env \<Rightarrow> ('c kafka_source, bool) prog" where
  "source_on_configure E =
     attempt source_configure
       (\<lambda>_ s. if source_validate s \<noteq> None then (Ret False, s)
              else case ce_metrics_publisher E (so_metrics_topic s) of
                Ret _ \<Rightarrow> (Ret True, s\<lparr>so_metrics_pub := Some False\<rparr>)
              | Err e \<Rightarrow> (Exc e, s)
              | Exc e \<Rightarrow> (Exc e, s))
       (\<lambda>_. ret False)"

definition activate_pub :: "bool \<Rightarrow> 'c kafka_source \<Rightarrow> 'c kafka_source" where
  "activate_pub b s = s\<lparr>so_metrics_pub := map_option (\<lambda>_. b) (so_metrics_pub s)\<rparr>"

definition source_on_activate :: "'c source_env \<Rightarrow> ('c kafka_source, bool) prog" where
  "source_on_activate E =
     attempt (start_consumer E)
       (\<lambda>_. andthen (update_state (\<lambda>s. activate_pub True (s\<lparr>so_is_active := True\<rparr>))) (\<lambda>_.
            andthen (reset_metrics_timer E) (\<lambda>_.
            andthen (update_state (\<lambda>s. s\<lparr>so_running := True, so_thread := True\<rparr>)) (\<lambda>_. ret True))))
       (\<lambda>_. ret False)"

definition source_on_deactivate :: "'c source_env \<Rightarrow> ('c kafka_source, bool) prog" where
  "source_on_deactivate E =
     andthen (update_state (\<lambda>s. (stop_consumer E (join_consumer_thread (s\<lparr>so_running := False\<rparr>)))
                                  \<lparr>so_is_active := False\<rparr>)) (\<lambda>_.
     andthen (reset_metrics_timer E) (\<lambda>_.
     andthen (update_state (activate_pub False)) (\<lambda>_. ret True)))"

definition source_on_cleanup :: "'c source_env \<Rightarrow> ('c kafka_source, bool) prog" where
  "source_on_cleanup E s =
     (let s = stop_consumer E (join_consumer_thread (s\<lparr>so_is_active := False, so_running := False\<rparr>))
      in (Ret True, s\<lparr>so_timer := False, so_metrics_pub := None, so_cache := Map.empty,
                      so_publishers := Map.empty, so_metrics := []\<rparr>))"

definition source_on_shutdown :: "'c source_env \<Rightarrow> ('c kafka_source, bool) prog" where
  "source_on_shutdown E s =
     (Ret True,
      stop_consumer E (join_consumer_thread (s\<lparr>so_is_active := False, so_running := False\<rparr>)))"

definition kafka_source_node :: "'c source_env \<Rightarrow> 'c kafka_source managed" where
  "kafka_source_node E =
     \<lparr>on_configure = source_on_configure E, on_activate = source_on_activate E,
      on_deactivate = source_on_deactivate E, on_cleanup = source_on_cleanup E,
      on_shutdown = source_on_shutdown E\<rparr>"

end
