(* ===== verification/Kafka_Source_Properties.thy ===== *)
theory Kafka_Source_Properties
  imports Kafka_Source
begin

text \<open>
  The life cycle of kafka_source, the accounting of each record it reads, the text of its report
  and a parameter update that is refused too late.
\<close>

section \<open>The invariant\<close>

definition metrics_ok :: "(string \<times> topic_metrics) list \<Rightarrow> bool" where
  "metrics_ok ms \<longleftrightarrow>
     ordered_map ms \<and> (\<forall>k t. map_of ms k = Some t \<longrightarrow>
        k = metrics_key (tm_ros_topic t) (tm_ros_type t) \<and>
        length (tm_latency_samples t) \<le> kMaxLatencySamples)"

text \<open>
  While the node is active it has a consumer, the thread that polls it and the flag that keeps the
  thread going; in every other state it has none of them.
\<close>

definition source_inv :: "lc_state \<Rightarrow> 'c kafka_source \<Rightarrow> bool" where
  "source_inv st s \<longleftrightarrow>
     so_is_active s = (st = Active) \<and> so_running s = (st = Active) \<and>
     so_consumer s = (st = Active) \<and> so_thread s = (st = Active) \<and>
     cache_ok (so_cache s) \<and> metrics_ok (so_metrics s)"

definition source_calm :: "'c source_env \<Rightarrow> bool" where
  "source_calm E \<longleftrightarrow>
     (\<forall>n. ce_metrics_publisher E n = Ret ()) \<and> (\<forall>ms. ce_timer E ms = Ret ())"

inductive source_internal ::
  "'c source_env \<Rightarrow> lc_state \<Rightarrow> 'c kafka_source \<Rightarrow> 'c kafka_source \<Rightarrow> bool"
  for E st s where
  so_poll: "poll_round E system_ns clock_ns got w s = (r, t) \<Longrightarrow> source_internal E st s t"
| so_set: "source_set_params ps s = (r, t) \<Longrightarrow> source_internal E st s t"
| so_put: "source_internal E st s (s\<lparr>so_store := f\<rparr>)"
| so_metrics_tick: "source_internal E st s (source_publish_metrics E clock_ns s)"

subsection \<open>What the steps keep\<close>

definition source_shell :: "'c kafka_source \<Rightarrow> 'c kafka_source \<Rightarrow> bool" where
  "source_shell a b \<longleftrightarrow>
     so_is_active b = so_is_active a \<and> so_running b = so_running a \<and>
     so_consumer b = so_consumer a \<and> so_thread b = so_thread a"

lemma source_shell_refl [simp]: "source_shell a a"
  by (simp add: source_shell_def)

lemma source_shell_trans: "source_shell a b \<Longrightarrow> source_shell b c \<Longrightarrow> source_shell a c"
  by (simp add: source_shell_def)

text \<open>Everything but the parameters stays when a parameter is written.\<close>

definition same_runtime :: "'c kafka_source \<Rightarrow> 'c kafka_source \<Rightarrow> bool" where
  "same_runtime a b \<longleftrightarrow> source_shell a b \<and> so_cache b = so_cache a \<and> so_metrics b = so_metrics a \<and>
     so_store b = so_store a \<and> so_metrics_pub b = so_metrics_pub a"

lemma same_runtime_refl [simp]: "same_runtime a a"
  by (simp add: same_runtime_def)

lemma same_runtime_trans: "same_runtime a b \<Longrightarrow> same_runtime b c \<Longrightarrow> same_runtime a c"
  by (auto simp: same_runtime_def intro: source_shell_trans)

lemma source_write_param_runtime: "source_write_param p s = Ret t \<Longrightarrow> same_runtime s t"
  by (auto simp: source_write_param_def Let_def exec_bind_Ret_iff same_runtime_def source_shell_def
      split: if_split_asm)

lemma source_write_params_runtime: "source_write_params ps s = (r, t) \<Longrightarrow> same_runtime s t"
proof (induction ps arbitrary: s)
  case (Cons p ps)
  show ?case
  proof (cases "source_write_param p s")
    case (Ret s')
    then show ?thesis
      using Cons source_write_param_runtime [OF Ret] by (auto intro: same_runtime_trans)
  qed (use Cons.prems in auto)
qed simp

lemma source_set_params_runtime: "source_set_params ps s = (r, t) \<Longrightarrow> same_runtime s t"
  by (auto simp: source_set_params_def andthen_def split: if_split_asm prod.split_asm exec.split_asm
      dest: source_write_params_runtime)

lemma source_configure_runtime: "source_configure s = (r, t) \<Longrightarrow> same_runtime s t"
  by (auto simp: source_configure_def andthen_def split: prod.split_asm exec.split_asm
      dest: source_write_params_runtime)

lemma source_inv_runtime: "same_runtime s t \<Longrightarrow> source_inv st s \<Longrightarrow> source_inv st t"
  by (simp add: source_inv_def same_runtime_def source_shell_def)

subsection \<open>The metrics map\<close>

lemma metrics_key_new [simp]:
  "tm_ros_topic (new_topic_metrics topic ty) = topic" "tm_ros_type (new_topic_metrics topic ty) = ty"
  "tm_latency_samples (new_topic_metrics topic ty) = []"
  "tm_received (new_topic_metrics topic ty) = 0" "tm_decoded (new_topic_metrics topic ty) = 0"
  "tm_failed (new_topic_metrics topic ty) = 0" "tm_bytes (new_topic_metrics topic ty) = 0"
  by (simp_all add: new_topic_metrics_def)

text \<open>The updates of an entry keep its names and its buffer within the bound.\<close>

definition metrics_update :: "(topic_metrics \<Rightarrow> topic_metrics) \<Rightarrow> bool" where
  "metrics_update f \<longleftrightarrow>
     (\<forall>t. tm_ros_topic (f t) = tm_ros_topic t \<and> tm_ros_type (f t) = tm_ros_type t \<and>
        (length (tm_latency_samples t) \<le> kMaxLatencySamples \<longrightarrow>
         length (tm_latency_samples (f t)) \<le> kMaxLatencySamples))"

lemma metrics_updates:
  "metrics_update (note_record now m)" "metrics_update note_failed" "metrics_update note_decoded"
  "metrics_update source_snapshot"
  by (simp_all add: metrics_update_def note_record_def note_failed_def note_decoded_def
      source_snapshot_def Let_def length_push_sample split: option.split)

text \<open>Two entries that share a key because a name holds a bar are one entry of the map.\<close>

lemma metrics_entry_key:
  assumes "metrics_ok ms"
  shows "metrics_key (tm_ros_topic (metrics_entry_of topic ty ms))
           (tm_ros_type (metrics_entry_of topic ty ms)) = metrics_key topic ty"
    and "length (tm_latency_samples (metrics_entry_of topic ty ms)) \<le> kMaxLatencySamples"
  using assms by (auto simp: metrics_entry_of_def metrics_ok_def split: option.split)

lemma metrics_ok_update:
  assumes "metrics_ok ms" "metrics_update f"
  shows "metrics_ok (map_assign (metrics_key topic ty) (f (metrics_entry_of topic ty ms)) ms)"
  using assms metrics_entry_key [OF assms(1), of topic ty]
  by (auto simp: metrics_ok_def metrics_update_def ordered_map_assign map_of_map_assign
      split: if_split_asm)

lemma update_metrics_fields [simp]:
  "so_is_active (update_metrics topic ty f s) = so_is_active s"
  "so_running (update_metrics topic ty f s) = so_running s"
  "so_consumer (update_metrics topic ty f s) = so_consumer s"
  "so_thread (update_metrics topic ty f s) = so_thread s"
  "so_cache (update_metrics topic ty f s) = so_cache s"
  "so_publishers (update_metrics topic ty f s) = so_publishers s"
  "so_published (update_metrics topic ty f s) = so_published s"
  "so_qos_depth (update_metrics topic ty f s) = so_qos_depth s"
  by (simp_all add: update_metrics_def)

lemma throttled_fields [simp]:
  "so_is_active (throttled now s) = so_is_active s" "so_running (throttled now s) = so_running s"
  "so_consumer (throttled now s) = so_consumer s" "so_thread (throttled now s) = so_thread s"
  "so_cache (throttled now s) = so_cache s" "so_metrics (throttled now s) = so_metrics s"
  "so_published (throttled now s) = so_published s"
  by (simp_all add: throttled_def)

lemma publish_cdr_fields [simp]:
  "so_is_active (publish_cdr topic ty v s) = so_is_active s"
  "so_running (publish_cdr topic ty v s) = so_running s"
  "so_consumer (publish_cdr topic ty v s) = so_consumer s"
  "so_thread (publish_cdr topic ty v s) = so_thread s"
  "so_cache (publish_cdr topic ty v s) = so_cache s"
  "so_metrics (publish_cdr topic ty v s) = so_metrics s"
  "so_published (publish_cdr topic ty v s) = so_published s @ [(topic, ty, v)]"
  by (simp_all add: publish_cdr_def)

lemma get_or_create_publisher_frame:
  "get_or_create_publisher E topic ty s = (r, t) \<Longrightarrow>
     source_shell s t \<and> so_cache t = so_cache s \<and> so_metrics t = so_metrics s \<and>
     so_published t = so_published s \<and> (\<forall>e. r \<noteq> Err e)"
  by (auto simp: get_or_create_publisher_def source_shell_def split: option.split_asm exec.split_asm)

subsection \<open>A record\<close>

text \<open>Two updates of an entry in a row, with anything but the metrics changed in between.\<close>

lemma second_update:
  "so_metrics u = so_metrics (update_metrics topic ty g s) \<Longrightarrow>
     so_metrics (update_metrics topic ty f u) = so_metrics (update_metrics topic ty (f \<circ> g) s)"
  by (simp add: update_metrics_def metrics_entry_of_def map_of_map_assign)

text \<open>How a typed record ends, and what each end counts and publishes.\<close>

definition record_end ::
  "unit exec \<Rightarrow> (topic_metrics \<Rightarrow> topic_metrics) \<Rightarrow> string \<Rightarrow> string \<Rightarrow> u8 list \<Rightarrow>
     'c kafka_source \<Rightarrow> 'c kafka_source \<Rightarrow> bool" where
  "record_end r f topic ty payload s t \<longleftrightarrow>
     (r = Ret () \<and> f = note_decoded \<and> so_published t = so_published s @ [(topic, ty, payload)]) \<or>
     (r = Ret () \<and> f = note_failed \<and> so_published t = so_published s) \<or>
     ((\<exists>e. r = Exc e) \<and> f = id \<and> so_published t = so_published s)"

lemma fail_record_fields [simp]:
  "source_shell s (fail_record clk topic ty s)"
  "so_cache (fail_record clk topic ty s) = so_cache s"
  "so_metrics (fail_record clk topic ty s) = so_metrics (update_metrics topic ty note_failed s)"
  "so_published (fail_record clk topic ty s) = so_published s"
  by (simp_all add: fail_record_def source_shell_def)

lemma deliver_record_cases:
  assumes "deliver_record E clk topic ty payload s = (r, t)"
  obtains f where "record_end r f topic ty payload s t" "source_shell s t" "so_cache t = so_cache s"
    "so_metrics t = (if is_ret r then so_metrics (update_metrics topic ty f s) else so_metrics s)"
proof -
  obtain g u where get: "get_or_create_publisher E topic ty s = (g, u)"
    by (cases "get_or_create_publisher E topic ty s")
  note frame = get_or_create_publisher_frame [OF get]
  have keep: "so_metrics (update_metrics topic ty f u) = so_metrics (update_metrics topic ty f s)" for f
    using frame by (simp add: update_metrics_def)
  consider "g = Ret True" | "g = Ret False" | e where "g = Exc e"
    using frame by (cases g) auto
  then show thesis
  proof cases
    case 1
    then have "r = Ret ()" "t = update_metrics topic ty note_decoded (publish_cdr topic ty payload u)"
      using assms get by (simp_all add: deliver_record_def)
    then show thesis
      using that [of note_decoded] frame
      by (simp add: record_end_def source_shell_def update_metrics_def)
  next
    case 2
    then have "r = Ret ()" "t = fail_record clk topic ty u"
      using assms get by (simp_all add: deliver_record_def)
    then show thesis
      using that [of note_failed] frame keep source_shell_trans [of s u t]
      by (simp add: record_end_def)
  next
    case (3 e)
    then have "r = Exc e" "t = u" using assms get by (simp_all add: deliver_record_def)
    then show thesis using that [of id] frame by (simp add: record_end_def)
  qed
qed
lemma process_message_cases:
  assumes "process_message E now clk m s = (r, t)"
  obtains (empty) "km_payload m = []" "r = Ret ()" "t = s"
    | (untyped) "km_payload m \<noteq> []" "ros_type_header m = []" "r = Ret ()" "t = throttled clk s"
    | (typed) f where "km_payload m \<noteq> []" "ros_type_header m \<noteq> []"
        "record_end r f (ros_topic_for s (km_topic m)) (ros_type_header m) (km_payload m) s t"
        "so_metrics t = so_metrics (update_metrics (ros_topic_for s (km_topic m)) (ros_type_header m)
           (f \<circ> note_record now m) s)"
        "source_shell s t" "cache_ok (so_cache s) \<Longrightarrow> cache_ok (so_cache t)"
proof -
  let ?ty = "ros_type_header m" and ?topic = "ros_topic_for s (km_topic m)"
  let ?s1 = "update_metrics ?topic ?ty (note_record now m) s"
  consider "km_payload m = []" | "km_payload m \<noteq> []" "?ty = []" | "km_payload m \<noteq> []" "?ty \<noteq> []"
    by blast
  then show thesis
  proof cases
    case 1 then show thesis using assms empty by (simp add: process_message_def)
  next
    case 2 then show thesis using assms untyped by (simp add: process_message_def)
  next
    case 3
    obtain q c where ens: "ensure_type_support (ce_typesupport E) ?ty (so_cache s) = (q, c)"
      by (cases "ensure_type_support (ce_typesupport E) ?ty (so_cache s)")
    have shell: "source_shell s (?s1\<lparr>so_cache := c\<rparr>)" by (simp add: source_shell_def)
    from ens show thesis
    proof (cases rule: source_cache.ensure_cases)
      case (missing e)
      have t: "r = Ret ()" "t = fail_record clk ?topic ?ty (?s1\<lparr>so_cache := c\<rparr>)"
        using assms 3 ens missing(1) by (simp_all add: process_message_def Let_def)
      then show thesis
        using typed [OF 3, of note_failed] missing(2) source_shell_trans [OF shell, of t]
          second_update [of "?s1\<lparr>so_cache := c\<rparr>" ?topic ?ty "note_record now m" s note_failed]
        by (simp add: record_end_def)
    next
      case (found ts)
      have "deliver_record E clk ?topic ?ty (km_payload m) (?s1\<lparr>so_cache := c\<rparr>) = (r, t)"
        using assms 3 ens found(1) by (simp add: process_message_def Let_def)
      then obtain f where f: "record_end r f ?topic ?ty (km_payload m) (?s1\<lparr>so_cache := c\<rparr>) t"
        "source_shell (?s1\<lparr>so_cache := c\<rparr>) t" "so_cache t = c"
        "so_metrics t = (if is_ret r then so_metrics (update_metrics ?topic ?ty f (?s1\<lparr>so_cache := c\<rparr>))
           else so_metrics ?s1)"
        by (rule deliver_record_cases) simp
      have "so_metrics t = so_metrics (update_metrics ?topic ?ty (f \<circ> note_record now m) s)"
        using f(1,4) second_update [of "?s1\<lparr>so_cache := c\<rparr>" ?topic ?ty "note_record now m" s f]
        by (auto simp: record_end_def)
      moreover have "record_end r f ?topic ?ty (km_payload m) s t"
        using f(1) by (simp add: record_end_def)
      ultimately show thesis
        using typed [OF 3, of f] source_shell_trans [OF shell f(2)] f(3) found(4) by simp
    qed
  qed
qed

lemma process_message_inv:
  assumes inv: "source_inv st s" and run: "process_message E now clk m s = (r, t)"
  shows "source_inv st t"
  using run
proof (cases rule: process_message_cases)
  case (typed f)
  have "metrics_update f"
    using typed(3) metrics_updates by (auto simp: record_end_def metrics_update_def)
  then have "metrics_update (f \<circ> note_record now m)"
    using metrics_updates(1) [of now m] by (simp add: metrics_update_def)
  then have "metrics_ok (so_metrics t)"
    unfolding typed(4) update_metrics_def using inv
    by (simp add: metrics_ok_update source_inv_def del: comp_apply)
  then show ?thesis using inv typed by (simp add: source_inv_def source_shell_def)
qed (use inv in \<open>simp_all add: source_inv_def\<close>)

lemma poll_round_inv:
  assumes inv: "source_inv st s" and run: "poll_round E now clk got w s = (r, t)"
  shows "source_inv st t"
proof -
  have inv': "source_inv st (s\<lparr>so_world := w\<rparr>)" using inv by (simp add: source_inv_def)
  show ?thesis
    using run inv inv' process_message_inv [OF inv']
    by (auto simp: poll_round_def Let_def source_inv_def split: if_split_asm consumed.split_asm)
qed

lemma source_publish_metrics_inv:
  assumes "source_inv st s" shows "source_inv st (source_publish_metrics E clk s)"
proof -
  have "metrics_ok (map (\<lambda>(k, t). (k, source_snapshot t)) ms)" if "metrics_ok ms" for ms
    using that metrics_updates(4) by (auto simp: metrics_ok_def metrics_update_def)
  then show ?thesis
    using assms by (simp add: source_publish_metrics_def source_inv_def)
qed

subsection \<open>The lifecycle callbacks\<close>

lemma start_consumer_cases:
  assumes "start_consumer E s = (r, t)"
  obtains (opened) w where "r = Ret ()" "t = s\<lparr>so_world := w, so_consumer := True\<rparr>"
    | (failed) e w where "r = Err e" "t = s\<lparr>so_world := w\<rparr>"
proof -
  let ?open = "open_consumer (ce_consumer E) (sp_bootstrap_servers (so_params s))
    (sp_group_id (so_params s)) (sp_offset_reset (so_params s)) (sp_topic_pattern (so_params s))"
  obtain q w where o1: "?open (so_world s) = (q, w)" by (cases "?open (so_world s)")
  have no: "q \<noteq> Exc e" for e using never_throwsD [OF open_consumer_no_throw] o1 by metis
  show thesis
  proof (cases q)
    case (Ret u)
    then have "r = Ret ()" "t = s\<lparr>so_world := w, so_consumer := True\<rparr>"
      using assms o1 by (simp_all add: start_consumer_def Let_def)
    then show thesis by (rule opened)
  next
    case (Err e)
    then have "r = Err e" "t = s\<lparr>so_world := w\<rparr>"
      using assms o1 by (simp_all add: start_consumer_def Let_def)
    then show thesis by (rule failed)
  qed (use no in simp)
qed

lemma stop_consumer_fields [simp]:
  "so_consumer (stop_consumer E s) = False"
  "so_is_active (stop_consumer E s) = so_is_active s"
  "so_running (stop_consumer E s) = so_running s"
  "so_thread (stop_consumer E s) = so_thread s"
  "so_cache (stop_consumer E s) = so_cache s"
  "so_metrics (stop_consumer E s) = so_metrics s"
  by (simp_all add: stop_consumer_def)

lemma reset_timer_calm:
  assumes "source_calm E" "reset_metrics_timer E s = (r, t)"
  shows "r = Ret ()" and "source_shell s t" and "so_cache t = so_cache s" and "so_metrics t = so_metrics s"
  using assms by (auto simp: reset_metrics_timer_def source_calm_def source_shell_def Let_def
      split: if_split_asm)

lemma activate_pub_fields [simp]:
  "so_is_active (activate_pub b s) = so_is_active s" "so_running (activate_pub b s) = so_running s"
  "so_consumer (activate_pub b s) = so_consumer s" "so_thread (activate_pub b s) = so_thread s"
  "so_cache (activate_pub b s) = so_cache s" "so_metrics (activate_pub b s) = so_metrics s"
  by (simp_all add: activate_pub_def)

lemma source_configure_inv:
  assumes inv: "source_inv Unconfigured s" and run: "source_on_configure E s = (r, t)"
    and out: "lc_outcome r Unconfigured Inactive st" and calm: "source_calm E"
  shows "source_inv st t"
proof -
  have idle: "source_inv st t" if "source_inv Unconfigured t" "st \<noteq> Active"
    using that by (simp add: source_inv_def)
  have "st \<noteq> Active" using out by (auto elim: lc_outcomeE)
  moreover have "source_inv Unconfigured t"
    using run unfolding source_on_configure_def
  proof (cases rule: attempt_cases)
    case (ok u s')
    have "source_inv Unconfigured s'" by (rule source_inv_runtime [OF source_configure_runtime [OF ok(1)] inv])
    moreover have "t = s' \<or> t = s'\<lparr>so_metrics_pub := Some False\<rparr>"
      using ok(2) calm by (auto simp: source_calm_def split: if_split_asm)
    ultimately show ?thesis by (auto simp: source_inv_def)
  next
    case (err e s')
    then show ?thesis using source_inv_runtime [OF source_configure_runtime [OF err(1)] inv] by simp
  next
    case (exc e)
    then show ?thesis using source_inv_runtime [OF source_configure_runtime [OF exc(1)] inv] by simp
  qed
  ultimately show ?thesis by (rule idle [rotated])
qed

lemma source_activate_inv:
  assumes inv: "source_inv Inactive s" and run: "source_on_activate E s = (r, t)"
    and out: "lc_outcome r Inactive Active st" and calm: "source_calm E"
  shows "source_inv st t"
  using run unfolding source_on_activate_def
proof (cases rule: attempt_cases)
  case (ok u s1)
  from ok(1) obtain w where s1: "s1 = s\<lparr>so_world := w, so_consumer := True\<rparr>"
    by (cases rule: start_consumer_cases) auto
  obtain q s2 where reset: "reset_metrics_timer E (activate_pub True (s1\<lparr>so_is_active := True\<rparr>)) = (q, s2)"
    by (cases "reset_metrics_timer E (activate_pub True (s1\<lparr>so_is_active := True\<rparr>))")
  note keep = reset_timer_calm [OF calm reset]
  have t: "r = Ret True" "t = s2\<lparr>so_running := True, so_thread := True\<rparr>"
    using ok(2) reset keep(1) by (simp_all add: andthen_def)
  then have "st = Active" using out by (auto elim: lc_outcomeE)
  then show ?thesis using keep inv s1 t(2) by (simp add: source_inv_def source_shell_def)
next
  case (err e s1)
  from err(1) obtain w where "s1 = s\<lparr>so_world := w\<rparr>"
    by (cases rule: start_consumer_cases) auto
  then show ?thesis using err(2) out inv by (auto simp: source_inv_def elim!: lc_outcomeE)
next
  case (exc e)
  from exc(1) show ?thesis by (cases rule: start_consumer_cases) simp_all
qed

lemma source_deactivate_inv:
  assumes inv: "source_inv Active s" and run: "source_on_deactivate E s = (r, t)"
    and out: "lc_outcome r Active Inactive st" and calm: "source_calm E"
  shows "source_inv st t"
proof -
  let ?s1 = "(stop_consumer E (join_consumer_thread (s\<lparr>so_running := False\<rparr>)))\<lparr>so_is_active := False\<rparr>"
  obtain q s2 where reset: "reset_metrics_timer E ?s1 = (q, s2)"
    by (cases "reset_metrics_timer E ?s1")
  note keep = reset_timer_calm [OF calm reset]
  have "r = Ret True" "t = activate_pub False s2"
    using run reset keep(1) by (simp_all add: source_on_deactivate_def andthen_def)
  moreover from this have "st = Inactive" using out by (auto elim: lc_outcomeE)
  ultimately show ?thesis
    using keep inv by (simp add: source_inv_def source_shell_def join_consumer_thread_def)
qed

lemma source_stop_inv:
  assumes "source_inv st0 s" "lc_outcome r st0 goal st" "goal \<noteq> Active"
    "source_on_cleanup E s = (r, t) \<or> source_on_shutdown E s = (r, t)"
  shows "source_inv st t"
proof -
  have "r = Ret True" using assms(4) by (auto simp: source_on_cleanup_def source_on_shutdown_def Let_def)
  then have "st = goal" using assms(2) by (auto elim: lc_outcomeE)
  moreover have "source_inv goal t"
    using assms(1,3,4)
    by (auto simp: source_inv_def source_on_cleanup_def source_on_shutdown_def Let_def
        join_consumer_thread_def cache_ok_def metrics_ok_def)
  ultimately show ?thesis by simp
qed

lemma source_internal_inv:
  assumes inv: "source_inv st s" and step: "source_internal E st s t"
  shows "source_inv st t"
  using step
proof cases
  case so_poll
  show ?thesis by (rule poll_round_inv [OF inv so_poll])
next
  case so_set
  show ?thesis by (rule source_inv_runtime [OF source_set_params_runtime [OF so_set] inv])
next
  case so_put
  then show ?thesis using inv by (simp add: source_inv_def)
next
  case so_metrics_tick
  then show ?thesis using source_publish_metrics_inv [OF inv] by simp
qed

lemma source_inv_new: "source_inv Unconfigured (new_kafka_source ov w)"
  by (simp add: source_inv_def new_kafka_source_def cache_ok_def metrics_ok_def)

lemma kafka_source_node_simps [simp]:
  "on_configure (kafka_source_node E) = source_on_configure E"
  "on_activate (kafka_source_node E) = source_on_activate E"
  "on_deactivate (kafka_source_node E) = source_on_deactivate E"
  "on_cleanup (kafka_source_node E) = source_on_cleanup E"
  "on_shutdown (kafka_source_node E) = source_on_shutdown E"
  by (simp_all add: kafka_source_node_def)

interpretation kafka_source: managed_node "kafka_source_node E" "source_internal E"
  "\<lambda>s. \<exists>ov w. s = new_kafka_source ov w" "\<lambda>st s. source_calm E \<longrightarrow> source_inv st s" for E
proof (unfold_locales, unfold kafka_source_node_simps)
  show "source_calm E \<longrightarrow> source_inv Unconfigured s" if "\<exists>ov w. s = new_kafka_source ov w" for s
    using that by (auto intro: source_inv_new)
  show "source_calm E \<longrightarrow> source_inv st t"
    if "source_calm E \<longrightarrow> source_inv Unconfigured s" "source_on_configure E s = (r, t)"
      "lc_outcome r Unconfigured Inactive st" for s r t st
    using that by (blast intro: source_configure_inv)
  show "source_calm E \<longrightarrow> source_inv st t"
    if "source_calm E \<longrightarrow> source_inv Inactive s" "source_on_activate E s = (r, t)"
      "lc_outcome r Inactive Active st" for s r t st
    using that by (blast intro: source_activate_inv)
  show "source_calm E \<longrightarrow> source_inv st t"
    if "source_calm E \<longrightarrow> source_inv Active s" "source_on_deactivate E s = (r, t)"
      "lc_outcome r Active Inactive st" for s r t st
    using that by (blast intro: source_deactivate_inv)
  show "source_calm E \<longrightarrow> source_inv st t"
    if "source_calm E \<longrightarrow> source_inv Inactive s" "source_on_cleanup E s = (r, t)"
      "lc_outcome r Inactive Unconfigured st" for s r t st
    using that source_stop_inv [OF _ that(3)] by blast
  show "source_calm E \<longrightarrow> source_inv st t"
    if "source_calm E \<longrightarrow> source_inv st0 s" "st0 \<noteq> Finalized" "source_on_shutdown E s = (r, t)"
      "lc_outcome r st0 Finalized st" for st0 s r t st
    using that source_stop_inv [OF _ that(4)] by blast
  show "source_calm E \<longrightarrow> source_inv st t"
    if "source_calm E \<longrightarrow> source_inv st s" "source_internal E st s t" for st s t
    using that by (blast intro: source_internal_inv)
qed

section \<open>The grammar of JSON strings\<close>

text \<open>
  \<open>json_string e v\<close>: between quotes, the text \<open>e\<close> denotes the string \<open>v\<close> (RFC 8259, for the escapes
  below U+0100).
\<close>

definition hex_value :: "char \<Rightarrow> nat option" where
  "hex_value c =
     (let n = of_char c
      in if 48 \<le> n \<and> n < 58 then Some (n - 48)
         else if 65 \<le> n \<and> n < 71 then Some (n - 55)
         else if 97 \<le> n \<and> n < 103 then Some (n - 87) else None)"

definition simple_escape :: "char \<Rightarrow> char option" where
  "simple_escape x =
     (if x = CHR 0x22 then Some (CHR 0x22) else if x = CHR 0x5C then Some (CHR 0x5C)
      else if x = CHR ''/'' then Some (CHR ''/'') else if x = CHR ''b'' then Some (CHR 0x08)
      else if x = CHR ''f'' then Some (CHR 0x0C) else if x = CHR ''n'' then Some (CHR 0x0A)
      else if x = CHR ''r'' then Some (CHR 0x0D) else if x = CHR ''t'' then Some (CHR 0x09)
      else None)"

inductive json_string :: "string \<Rightarrow> string \<Rightarrow> bool" where
  js_nil: "json_string [] []"
| js_plain: "c \<noteq> CHR 0x22 \<Longrightarrow> c \<noteq> CHR 0x5C \<Longrightarrow> (0x20 :: nat) \<le> of_char c \<Longrightarrow> json_string e v \<Longrightarrow>
    json_string (c # e) (c # v)"
| js_simple: "simple_escape x = Some c \<Longrightarrow> json_string e v \<Longrightarrow>
    json_string (CHR 0x5C # x # e) (c # v)"
| js_code: "hex_value a = Some m \<Longrightarrow> hex_value b = Some n \<Longrightarrow> json_string e v \<Longrightarrow>
    json_string (CHR 0x5C # CHR ''u'' # CHR ''0'' # CHR ''0'' # a # b # e)
      (char_of (16 * m + n) # v)"

inductive_cases js_nilE: "json_string [] v"
inductive_cases js_consE: "json_string (c # e) v"

lemma no_simple_u [simp]: "simple_escape (CHR ''u'') = None"
  by (simp add: simple_escape_def)

lemma json_string_plainD:
  "json_string (c # e) v \<Longrightarrow> c \<noteq> CHR 0x5C \<Longrightarrow> \<exists>u. v = c # u \<and> json_string e u"
  by (erule js_consE) blast+

lemma json_string_simpleD:
  "json_string (CHR 0x5C # x # e) v \<Longrightarrow> simple_escape x = Some c \<Longrightarrow>
     \<exists>u. v = c # u \<and> json_string e u"
  by (erule js_consE) (auto simp del: One_nat_def)

lemma json_string_codeD:
  "json_string (CHR 0x5C # CHR ''u'' # CHR ''0'' # CHR ''0'' # a # b # e) v \<Longrightarrow>
     hex_value a = Some m \<Longrightarrow> hex_value b = Some n \<Longrightarrow>
     \<exists>u. v = char_of (16 * m + n) # u \<and> json_string e u"
  by (erule js_consE) (auto simp del: char_of_eq_iff)

lemma json_string_unique: "json_string e v \<Longrightarrow> json_string e w \<Longrightarrow> v = w"
proof (induction arbitrary: w rule: json_string.induct)
  case js_nil
  then show ?case by (rule js_nilE) simp_all
next
  case (js_plain c e v)
  then show ?case using json_string_plainD [OF js_plain.prems] by metis
next
  case (js_simple x c e v)
  then show ?case using json_string_simpleD [OF js_simple.prems] by metis
next
  case (js_code a m b n e v)
  then show ?case using json_string_codeD [OF js_code.prems] by metis
qed

lemma hex_digit_value: "n < 16 \<Longrightarrow> hex_value (hex_digit n) = Some n"
  by (auto simp: hex_digit_def hex_value_def Let_def)

lemma escape_char_string: "json_string e v \<Longrightarrow> json_string (escape_char c @ e) (c # v)"
proof (cases "c \<in> {CHR 0x5C, CHR 0x22, CHR 0x0A, CHR 0x0D, CHR 0x09, CHR 0x08, CHR 0x0C}")
  case True
  assume ev: "json_string e v"
  have simple: "json_string (CHR 0x5C # x # e) (c # v)" if "simple_escape x = Some c" for x
    using that ev by (rule js_simple)
  show ?thesis
    using True simple [of "CHR 0x5C"] simple [of "CHR 0x22"] simple [of "CHR ''n''"]
      simple [of "CHR ''r''"] simple [of "CHR ''t''"] simple [of "CHR ''b''"] simple [of "CHR ''f''"]
    by (elim insertE emptyE) (simp_all add: escape_char_def simple_escape_def)
next
  case False
  assume ev: "json_string e v"
  show ?thesis
  proof (cases "of_char c < (0x20 :: nat)")
    case True
    have "hex_value (hex_digit (of_char c div 16)) = Some (of_char c div 16)"
      "hex_value (hex_digit (of_char c mod 16)) = Some (of_char c mod 16)"
      using True by (simp_all add: hex_digit_value)
    from js_code [OF this ev] show ?thesis
      using False True by (simp add: escape_char_def)
  next
    case False': False
    then show ?thesis using False js_plain [of c e v] ev by (simp add: escape_char_def)
  qed
qed

lemma json_escape_string: "json_string (json_escape s) s"
  by (induction s) (simp_all add: json_escape_def js_nil escape_char_string)

section \<open>Properties\<close>

text \<open>Libraries that work, and a node that is configured and activated with them.\<close>

definition sample_source_env :: "unit source_env" where
  "sample_source_env =
     \<lparr>ce_consumer = sample_consumer_lib, ce_typesupport = sample_typesupport,
      ce_create_publisher = (\<lambda>_ _ _. Ret True), ce_metrics_publisher = (\<lambda>_. Ret ()),
      ce_timer = (\<lambda>_. Ret ()), ce_order = (\<lambda>ms. ms)\<rparr>"

definition sample_source :: "unit kafka_source" where
  "sample_source = new_kafka_source (\<lambda>_. None) ()"

definition sample_source_configured :: "unit kafka_source" where
  "sample_source_configured = snd (source_on_configure sample_source_env sample_source)"

definition sample_source_active :: "unit kafka_source" where
  "sample_source_active = snd (source_on_activate sample_source_env sample_source_configured)"

definition sample_kafka_message :: "string \<Rightarrow> kafka_message" where
  "sample_kafka_message ty =
     \<lparr>km_topic = ''ros2.odom'', km_payload = [1, 2, 3], km_headers = [(''ros_type'', ty)],
      km_timestamp = Some 1\<rparr>"

lemma sample_source_reachable:
  "lc_reachable (kafka_source_node sample_source_env) (source_internal sample_source_env)
     (\<lambda>s. \<exists>ov w. s = new_kafka_source ov w) (Active, sample_source_active)"
proof -
  let ?E = sample_source_env
  let ?s1 = sample_source_configured
  let ?R = "lc_reachable (kafka_source_node ?E) (source_internal ?E) (\<lambda>s. \<exists>ov w. s = new_kafka_source ov w)"
  have "fst (source_on_configure ?E sample_source) = Ret True" by code_simp
  then have c: "source_on_configure ?E sample_source = (Ret True, ?s1)"
    by (metis prod.collapse sample_source_configured_def)
  have "fst (source_on_activate ?E ?s1) = Ret True" by code_simp
  then have a: "source_on_activate ?E ?s1 = (Ret True, sample_source_active)"
    by (metis prod.collapse sample_source_active_def)
  have "?R (Unconfigured, sample_source)" by (rule lc_start) (auto simp: sample_source_def)
  moreover have "lc_step (kafka_source_node ?E) (source_internal ?E) (Unconfigured, sample_source) (Inactive, ?s1)"
    by (rule lc_configure [of _ _ "Ret True"]) (simp_all add: c lc_outcome.intros)
  moreover have "lc_step (kafka_source_node ?E) (source_internal ?E) (Inactive, ?s1) (Active, sample_source_active)"
    by (rule lc_activate [of _ _ "Ret True"]) (simp_all add: a lc_outcome.intros)
  ultimately show ?thesis by (blast intro: lc_next)
qed



text \<open>
  C11: A record with a payload and a type header that process_message() handles without a throw is
  counted once as received, with its size, and once as decoded or failed; it is published once,
  with its own bytes, on the mapped or derived topic, exactly when it is counted as decoded; no
  other entry of the metrics changes.
\<close>

theorem record_is_counted_once:
  assumes run: "process_message E now clk m s = (Ret (), t)"
    and payload: "km_payload m \<noteq> []" and header: "ros_type_header m \<noteq> []"
    and topic: "topic = ros_topic_for s (km_topic m)" and ty: "ty = ros_type_header m"
    and before: "a = metrics_entry_of topic ty (so_metrics s)"
  shows "\<exists>b. map_of (so_metrics t) (metrics_key topic ty) = Some b \<and>
    tm_received b = tm_received a + 1 \<and>
    tm_bytes b = tm_bytes a + of_nat (length (km_payload m)) \<and>
    (if so_published t = so_published s
     then tm_failed b = tm_failed a + 1 \<and> tm_decoded b = tm_decoded a
     else tm_failed b = tm_failed a \<and> tm_decoded b = tm_decoded a + 1 \<and>
          so_published t = so_published s @ [(topic, ty, km_payload m)]) \<and>
    (\<forall>k. k \<noteq> metrics_key topic ty \<longrightarrow> map_of (so_metrics t) k = map_of (so_metrics s) k)"
  using run
proof (cases rule: process_message_cases)
  case (typed f)
  let ?b = "f (note_record now m a)"
  have lookup: "map_of (so_metrics t) = (map_of (so_metrics s))(metrics_key topic ty \<mapsto> ?b)"
    unfolding typed(4) before topic ty by (simp add: update_metrics_def map_of_map_assign)
  have counts: "tm_received (note_record now m a) = tm_received a + 1"
    "tm_bytes (note_record now m a) = tm_bytes a + of_nat (length (km_payload m))"
    "tm_failed (note_record now m a) = tm_failed a" "tm_decoded (note_record now m a) = tm_decoded a"
    by (simp_all add: note_record_def Let_def split: option.split)
  have "f = note_decoded \<and> so_published t = so_published s @ [(topic, ty, km_payload m)] \<or>
      f = note_failed \<and> so_published t = so_published s"
    using typed(3) topic ty by (auto simp: record_end_def)
  then show ?thesis
    using lookup counts by (auto simp: note_decoded_def note_failed_def)
qed (use payload header in simp_all)

theorem record_is_counted_once_witness:
  "map_option tm_decoded (map_of (so_metrics (snd (process_message sample_source_env 9000000 0
       (sample_kafka_message ''T'') sample_source_active))) (metrics_key ''/kafka_decoded/odom'' ''T'')) =
     Some 1"
proof -
  let ?m = "sample_kafka_message ''T''" and ?s = sample_source_active
  let ?run = "process_message sample_source_env 9000000 0 ?m ?s"
  have "fst ?run = Ret ()" by code_simp
  then have run: "?run = (Ret (), snd ?run)" by (metis prod.collapse)
  have topic: "''/kafka_decoded/odom'' = ros_topic_for ?s (km_topic ?m)" by code_simp
  have ty: "''T'' = ros_type_header ?m" by code_simp
  have "km_payload ?m \<noteq> []" "ros_type_header ?m \<noteq> []" by code_simp+
  moreover have "tm_decoded (metrics_entry_of ''/kafka_decoded/odom'' ''T'' (so_metrics ?s)) = 0"
    "so_published (snd ?run) \<noteq> so_published ?s"
    by code_simp+
  ultimately show ?thesis
    using record_is_counted_once [OF run _ _ topic ty refl] by auto
qed

text \<open>
  A refused parameter update stays in the node: on_parameters_set() writes every value before
  it validates, so after a rejection the node holds the refused values, and activating it uses
  them.
\<close>

theorem refused_update_is_kept:
  assumes "\<not> so_is_active s" "source_write_params ps s = (Ret (), u)" "source_validate u = Some e"
  shows "source_set_params ps s = (Ret \<lparr>sr_successful = False, sr_reason = e\<rparr>, u)"
  using assms by (simp add: source_set_params_def andthen_def)

theorem refused_update_is_kept_witness:
  "source_set_params [mk_param ''metrics.interval_ms'' (PInt (-5))] sample_source =
     (Ret \<lparr>sr_successful = False, sr_reason = ''metrics.interval_ms must be > 0.''\<rparr>,
      sample_source\<lparr>so_metrics_interval_ms := -5\<rparr>)"
proof (rule refused_update_is_kept)
  show "\<not> so_is_active sample_source" by code_simp
  have "narrow32 (-5) = -5" by (simp add: narrow32_id)
  then show "source_write_params [mk_param ''metrics.interval_ms'' (PInt (-5))] sample_source =
      (Ret (), sample_source\<lparr>so_metrics_interval_ms := -5\<rparr>)"
    by (simp add: source_write_param_def as_int_def Let_def)
  show "source_validate (sample_source\<lparr>so_metrics_interval_ms := -5\<rparr>) =
      Some ''metrics.interval_ms must be > 0.''"
    by code_simp
qed

text \<open>
  C26: The escaped text of a topic or type name is the content of a valid JSON string, and that
  string denotes the name and nothing else.
\<close>

theorem json_escape_denotes_its_input:
  "json_string (json_escape s) v \<longleftrightarrow> v = s"
  using json_escape_string json_string_unique by blast

end
