(* ===== verification/Json_Walk.thy ===== *)
theory Json_Walk
  imports Message_Json
begin

text \<open>
  The copies of the walk over a message that kafka_cdr_to_json_node.cpp (lines 89 to 248) and
  mosquitto_sink_node.cpp (lines 170 to 331) contain, function by function and loop by loop as they
  stand there, and what mosquitto_sink makes of its copy (lines 333 to 398 and 562 to 585).

  The locale json_walk states what six functions have to do to be such a walk, and shows that they
  then compute the JSON of Message_Json; both copies are interpretations of it, so every theorem
  about build_json_message() speaks of all three nodes.
\<close>

lemma exec_bind_assoc: "exec_bind (exec_bind r f) g = exec_bind r (\<lambda>a. exec_bind (f a) g)"
  by (cases r) simp_all

section \<open>A walk, loop by loop\<close>

text \<open>
  The member loop carries the object it fills, the element loop its index and the array; a scalar
  is null, a primitive or a message again.
\<close>

locale json_walk =
  fixes walk_message :: "memory \<Rightarrow> message_members \<Rightarrow> nat \<Rightarrow> json exec"
    and walk_members :: "memory \<Rightarrow> message_member list \<Rightarrow> nat \<Rightarrow> json \<Rightarrow> json exec"
    and walk_value :: "memory \<Rightarrow> message_member \<Rightarrow> nat \<Rightarrow> json exec"
    and walk_array :: "memory \<Rightarrow> message_member \<Rightarrow> nat \<Rightarrow> json exec"
    and walk_elements :: "memory \<Rightarrow> message_member \<Rightarrow> nat \<Rightarrow> nat \<Rightarrow> nat \<Rightarrow> json list \<Rightarrow> json exec"
    and walk_scalar :: "memory \<Rightarrow> message_member \<Rightarrow> nat \<Rightarrow> json exec"
  assumes walk_message: "walk_message mem (Members sz ms) p = walk_members mem ms p (JObj [])"
    and walk_members_Nil: "walk_members mem [] p j = Ret j"
    and walk_members_Cons: "walk_members mem (m # ms) p j =
      exec_bind (walk_value mem m (p + offset m)) (\<lambda>v.
      exec_bind (json_assign j (member_name m) v) (walk_members mem ms p))"
    and walk_value: "walk_value mem m p = (if is_array m then walk_array mem m p else walk_scalar mem m p)"
    and walk_array: "walk_array mem m p =
      (if p = 0 then Ret (JArr []) else walk_elements mem m p 0 (number_of_elements m p) [])"
    and walk_elements_stop: "n \<le> i \<Longrightarrow> walk_elements mem m p i n out = Ret (JArr out)"
    and walk_elements_step: "i < n \<Longrightarrow> walk_elements mem m p i n out =
      (if element_address mem m p i = 0 then walk_elements mem m p (Suc i) n out
       else exec_bind (walk_scalar mem m (element_address mem m p i))
              (\<lambda>v. walk_elements mem m p (Suc i) n (out @ [v])))"
    and walk_null: "walk_scalar mem m 0 = Ret JNull"
    and walk_primitive: "p \<noteq> 0 \<Longrightarrow> sub_message (type_id m) = None \<Longrightarrow>
      walk_scalar mem m p = build_json_primitive mem (type_id m) p"
    and walk_sub: "p \<noteq> 0 \<Longrightarrow> sub_message (type_id m) = Some sub \<Longrightarrow>
      walk_scalar mem m p = walk_message mem sub p"
begin

text \<open>The element loop appends the elements that have an address, in their order.\<close>

lemma elements_are_appended:
  "walk_elements mem m p i n out =
     exec_bind (exec_map (walk_scalar mem m)
         (filter (\<lambda>a. a \<noteq> 0) (map (element_address mem m p) [i..<n])))
       (\<lambda>vs. Ret (JArr (out @ vs)))"
proof (induction "n - i" arbitrary: i out)
  case 0
  then show ?case by (simp add: walk_elements_stop)
next
  case (Suc d)
  then have "[i..<n] = i # [Suc i..<n]" "i < n" "d = n - Suc i" by (simp_all add: upt_conv_Cons)
  then show ?case
    using Suc(1) [of "Suc i"] by (simp add: walk_elements_step exec_bind_assoc)
qed

lemma array_is_built: "walk_array mem m p =
    exec_bind (exec_map (walk_scalar mem m) (element_addresses mem m p)) (\<lambda>vs. Ret (JArr vs))"
  by (simp add: walk_array element_addresses_def elements_are_appended)

text \<open>The member loop assigns the members one after the other.\<close>

lemma members_are_assigned:
  "walk_members mem ms p (JObj acc) =
     exec_bind (exec_map (\<lambda>m. exec_bind (walk_value mem m (p + offset m)) (\<lambda>v. Ret (member_name m, v))) ms)
       (\<lambda>kvs. Ret (JObj (fold (\<lambda>(k, v). map_assign k v) kvs acc)))"
  by (induction ms arbitrary: acc)
    (simp_all add: walk_members_Nil walk_members_Cons json_assign_def exec_bind_assoc)

lemma message_is_the_reference: "walk_message mem ms p = build_json_message mem ms p"
proof (induction ms arbitrary: p rule: measure_induct_rule [where f = size])
  case (less ms)
  obtain sz l where ms: "ms = Members sz l" by (cases ms)
  have scalar: "walk_scalar mem m q = build_json_scalar mem m q" if "m \<in> set l" for m q
  proof (cases "sub_message (type_id m)")
    case None
    then show ?thesis by (simp add: build_json_scalar_def walk_null walk_primitive)
  next
    case (Some sub)
    have "size sub < size ms"
      using sub_message_size [OF Some] member_size [OF that] ms by simp
    then show ?thesis using Some less by (simp add: build_json_scalar_def walk_null walk_sub)
  qed
  then have "walk_scalar mem m = build_json_scalar mem m" if "m \<in> set l" for m using that by blast
  then have "walk_value mem m q = build_json_value mem m q" if "m \<in> set l" for m q
    using that by (simp add: walk_value build_json_value_def array_is_built build_json_array_def)
  then have "exec_map (\<lambda>m. exec_bind (walk_value mem m (p + offset m)) (\<lambda>v. Ret (member_name m, v))) l =
      exec_map (\<lambda>m. exec_bind (build_json_value mem m (p + offset m)) (\<lambda>v. Ret (member_name m, v))) l"
    by (intro exec_map_cong) simp_all
  then show ?case
    by (simp add: ms walk_message members_are_assigned build_json_message_eq object_of_def)
qed

end

lemma type_id_size: "type_id m = ROS_TYPE_MESSAGE (Some ms) \<Longrightarrow> size ms < size m"
  by (cases m) auto

section \<open>The copy of kafka_cdr_to_json\<close>

definition cj_member_element_size :: "memory \<Rightarrow> message_member \<Rightarrow> nat" where
  "cj_member_element_size mem m =
     (case type_id m of
        ROS_TYPE_BOOLEAN \<Rightarrow> 1
      | ROS_TYPE_CHAR \<Rightarrow> 1
      | ROS_TYPE_OCTET \<Rightarrow> 1
      | ROS_TYPE_UINT8 \<Rightarrow> 1
      | ROS_TYPE_INT8 \<Rightarrow> 1
      | ROS_TYPE_UINT16 \<Rightarrow> 2
      | ROS_TYPE_INT16 \<Rightarrow> 2
      | ROS_TYPE_UINT32 \<Rightarrow> 4
      | ROS_TYPE_INT32 \<Rightarrow> 4
      | ROS_TYPE_UINT64 \<Rightarrow> 8
      | ROS_TYPE_INT64 \<Rightarrow> 8
      | ROS_TYPE_FLOAT \<Rightarrow> 4
      | ROS_TYPE_DOUBLE \<Rightarrow> 8
      | ROS_TYPE_STRING \<Rightarrow> m_sizeof_string mem
      | ROS_TYPE_WSTRING \<Rightarrow> m_sizeof_wstring mem
      | ROS_TYPE_MESSAGE ms \<Rightarrow> (case ms of None \<Rightarrow> 0 | Some ms \<Rightarrow> size_of ms)
      | ROS_TYPE_OTHER _ \<Rightarrow> 0)"

function cj_build_json_message :: "memory \<Rightarrow> message_members \<Rightarrow> nat \<Rightarrow> json exec"
  and cj_members :: "memory \<Rightarrow> message_member list \<Rightarrow> nat \<Rightarrow> json \<Rightarrow> json exec"
  and cj_build_json_value :: "memory \<Rightarrow> message_member \<Rightarrow> nat \<Rightarrow> json exec"
  and cj_build_json_array :: "memory \<Rightarrow> message_member \<Rightarrow> nat \<Rightarrow> json exec"
  and cj_elements :: "memory \<Rightarrow> message_member \<Rightarrow> nat \<Rightarrow> nat \<Rightarrow> nat \<Rightarrow> json list \<Rightarrow> json exec"
  and cj_build_json_scalar :: "memory \<Rightarrow> message_member \<Rightarrow> nat \<Rightarrow> json exec"
where
  "cj_build_json_message mem (Members sz ms) message_ptr = cj_members mem ms message_ptr (JObj [])"
| "cj_members mem [] message_ptr output = Ret output"
| "cj_members mem (m # ms) message_ptr output =
     exec_bind (cj_build_json_value mem m (message_ptr + offset m)) (\<lambda>v.
     exec_bind (json_assign output (member_name m) v) (\<lambda>output.
     cj_members mem ms message_ptr output))"
| "cj_build_json_value mem m value_ptr =
     (if is_array m then cj_build_json_array mem m value_ptr else cj_build_json_scalar mem m value_ptr)"
| "cj_build_json_array mem m array_ptr =
     (if array_ptr = 0 then Ret (JArr [])
      else cj_elements mem m array_ptr 0 (number_of_elements m array_ptr) [])"
| "cj_elements mem m array_ptr index count output =
     (if index < count then
        (let element_ptr =
           (case get_const_function m of
              Some f \<Rightarrow> f array_ptr index
            | None \<Rightarrow>
                if 0 < cj_member_element_size mem m
                then array_ptr + index * cj_member_element_size mem m else 0)
         in if element_ptr = 0 then cj_elements mem m array_ptr (Suc index) count output
            else exec_bind (cj_build_json_scalar mem m element_ptr) (\<lambda>v.
                 cj_elements mem m array_ptr (Suc index) count (output @ [v])))
      else Ret (JArr output))"
| "cj_build_json_scalar mem m value_ptr =
     (if value_ptr = 0 then Ret JNull
      else case type_id m of
        ROS_TYPE_BOOLEAN \<Rightarrow> Ret (JBool (m_bool mem value_ptr))
      | ROS_TYPE_CHAR \<Rightarrow> Ret (JInt (sint (m_u8 mem value_ptr)))
      | ROS_TYPE_OCTET \<Rightarrow> Ret (JUInt (unat (m_u8 mem value_ptr)))
      | ROS_TYPE_UINT8 \<Rightarrow> Ret (JUInt (unat (m_u8 mem value_ptr)))
      | ROS_TYPE_INT8 \<Rightarrow> Ret (JInt (sint (m_u8 mem value_ptr)))
      | ROS_TYPE_UINT16 \<Rightarrow> Ret (JUInt (unat (m_u16 mem value_ptr)))
      | ROS_TYPE_INT16 \<Rightarrow> Ret (JInt (sint (m_u16 mem value_ptr)))
      | ROS_TYPE_UINT32 \<Rightarrow> Ret (JUInt (unat (m_u32 mem value_ptr)))
      | ROS_TYPE_INT32 \<Rightarrow> Ret (JInt (sint (m_u32 mem value_ptr)))
      | ROS_TYPE_UINT64 \<Rightarrow> Ret (JUInt (unat (m_u64 mem value_ptr)))
      | ROS_TYPE_INT64 \<Rightarrow> Ret (JInt (sint (m_u64 mem value_ptr)))
      | ROS_TYPE_FLOAT \<Rightarrow>
          (let value = m_float mem value_ptr in Ret (if is_finite value then JFloat value else JNull))
      | ROS_TYPE_DOUBLE \<Rightarrow>
          (let value = m_double mem value_ptr in Ret (if is_finite value then JFloat value else JNull))
      | ROS_TYPE_STRING \<Rightarrow> Ret (JStr (m_string mem value_ptr))
      | ROS_TYPE_WSTRING \<Rightarrow>
          exec_bind (or_throw ''wstring_convert: to_bytes error'' (m_wstring mem value_ptr))
            (\<lambda>s. Ret (JStr s))
      | ROS_TYPE_MESSAGE ms \<Rightarrow>
          (case ms of None \<Rightarrow> Ret JNull | Some ms \<Rightarrow> cj_build_json_message mem ms value_ptr)
      | ROS_TYPE_OTHER _ \<Rightarrow> Ret JNull)"
  by pat_completeness auto
termination
proof (relation "measures [
    \<lambda>x. case x of Inl (Inl (_, ms, _)) \<Rightarrow> size ms | Inl (Inr (Inl (_, ms, _, _))) \<Rightarrow> size_list size ms
      | Inl (Inr (Inr (_, m, _))) \<Rightarrow> size m | Inr (Inl (_, m, _)) \<Rightarrow> size m
      | Inr (Inr (Inl (_, m, _, _, _, _))) \<Rightarrow> size m | Inr (Inr (Inr (_, m, _))) \<Rightarrow> size m,
    \<lambda>x. case x of Inl (Inl _) \<Rightarrow> 0 | Inl (Inr (Inl _)) \<Rightarrow> 0 | Inl (Inr (Inr _)) \<Rightarrow> 3
      | Inr (Inl _) \<Rightarrow> 2 | Inr (Inr (Inl _)) \<Rightarrow> 1 | Inr (Inr (Inr _)) \<Rightarrow> 0,
    \<lambda>x. case x of Inr (Inr (Inl (_, _, _, index, count, _))) \<Rightarrow> count - index | _ \<Rightarrow> (0 :: nat)]")
qed (auto simp: type_id_size)

declare cj_elements.simps [simp del] cj_build_json_message.simps [simp del]
  cj_build_json_value.simps [simp del] cj_build_json_array.simps [simp del]
  cj_build_json_scalar.simps [simp del]

lemma cj_element_size: "cj_member_element_size = member_element_size"
  by (intro ext) (simp only: cj_member_element_size_def member_element_size_def)

lemma cj_element_address:
  "element_address mem m p i =
     (case get_const_function m of
        Some f \<Rightarrow> f p i
      | None \<Rightarrow>
          if 0 < cj_member_element_size mem m then p + i * cj_member_element_size mem m else 0)"
  by (simp only: element_address_def cj_element_size)

lemma cj_elements_step:
  "cj_elements mem m p i n out =
     (if i < n
      then if element_address mem m p i = 0 then cj_elements mem m p (Suc i) n out
        else exec_bind (cj_build_json_scalar mem m (element_address mem m p i))
               (\<lambda>v. cj_elements mem m p (Suc i) n (out @ [v]))
      else Ret (JArr out))"
  by (subst cj_elements.simps) (simp only: cj_element_address Let_def)

lemma cj_scalar_primitive:
  "p \<noteq> 0 \<Longrightarrow> sub_message (type_id m) = None \<Longrightarrow>
     cj_build_json_scalar mem m p = build_json_primitive mem (type_id m) p"
  by (cases "type_id m")
    (auto simp: cj_build_json_scalar.simps build_json_primitive_def json_number_def sub_message_def
      split: option.split)

interpretation cj_walk: json_walk cj_build_json_message cj_members cj_build_json_value
  cj_build_json_array cj_elements cj_build_json_scalar
proof unfold_locales
  show "cj_build_json_scalar mem m p = cj_build_json_message mem ms p"
    if "p \<noteq> 0" "sub_message (type_id m) = Some ms" for mem m p ms
    using that by (cases "type_id m") (simp_all add: cj_build_json_scalar.simps sub_message_def)
qed (simp_all add: cj_build_json_message.simps cj_build_json_value.simps cj_build_json_array.simps
    cj_scalar_primitive cj_build_json_scalar.simps [of _ _ 0]
    cj_elements_step [of _ _ _ i n for i n] del: exec_bind_simps)

section \<open>The copy of mosquitto_sink\<close>

definition mqtt_member_element_size :: "memory \<Rightarrow> message_member \<Rightarrow> nat" where
  "mqtt_member_element_size mem m =
     (case type_id m of
        ROS_TYPE_BOOLEAN \<Rightarrow> 1
      | ROS_TYPE_CHAR \<Rightarrow> 1
      | ROS_TYPE_OCTET \<Rightarrow> 1
      | ROS_TYPE_UINT8 \<Rightarrow> 1
      | ROS_TYPE_INT8 \<Rightarrow> 1
      | ROS_TYPE_UINT16 \<Rightarrow> 2
      | ROS_TYPE_INT16 \<Rightarrow> 2
      | ROS_TYPE_UINT32 \<Rightarrow> 4
      | ROS_TYPE_INT32 \<Rightarrow> 4
      | ROS_TYPE_UINT64 \<Rightarrow> 8
      | ROS_TYPE_INT64 \<Rightarrow> 8
      | ROS_TYPE_FLOAT \<Rightarrow> 4
      | ROS_TYPE_DOUBLE \<Rightarrow> 8
      | ROS_TYPE_STRING \<Rightarrow> m_sizeof_string mem
      | ROS_TYPE_WSTRING \<Rightarrow> m_sizeof_wstring mem
      | ROS_TYPE_MESSAGE ms \<Rightarrow> (case ms of None \<Rightarrow> 0 | Some ms \<Rightarrow> size_of ms)
      | ROS_TYPE_OTHER _ \<Rightarrow> 0)"

function mqtt_build_json_message :: "memory \<Rightarrow> message_members \<Rightarrow> nat \<Rightarrow> json exec"
  and mqtt_members :: "memory \<Rightarrow> message_member list \<Rightarrow> nat \<Rightarrow> json \<Rightarrow> json exec"
  and mqtt_build_json_value :: "memory \<Rightarrow> message_member \<Rightarrow> nat \<Rightarrow> json exec"
  and mqtt_build_json_array :: "memory \<Rightarrow> message_member \<Rightarrow> nat \<Rightarrow> json exec"
  and mqtt_elements :: "memory \<Rightarrow> message_member \<Rightarrow> nat \<Rightarrow> nat \<Rightarrow> nat \<Rightarrow> json list \<Rightarrow> json exec"
  and mqtt_build_json_scalar :: "memory \<Rightarrow> message_member \<Rightarrow> nat \<Rightarrow> json exec"
where
  "mqtt_build_json_message mem (Members sz ms) message_ptr = mqtt_members mem ms message_ptr (JObj [])"
| "mqtt_members mem [] message_ptr output = Ret output"
| "mqtt_members mem (m # ms) message_ptr output =
     exec_bind (mqtt_build_json_value mem m (message_ptr + offset m)) (\<lambda>v.
     exec_bind (json_assign output (member_name m) v) (\<lambda>output.
     mqtt_members mem ms message_ptr output))"
| "mqtt_build_json_value mem m value_ptr =
     (if is_array m then mqtt_build_json_array mem m value_ptr else mqtt_build_json_scalar mem m value_ptr)"
| "mqtt_build_json_array mem m array_ptr =
     (if array_ptr = 0 then Ret (JArr [])
      else mqtt_elements mem m array_ptr 0 (number_of_elements m array_ptr) [])"
| "mqtt_elements mem m array_ptr index count output =
     (if index < count then
        (let element_ptr =
           (case get_const_function m of
              Some f \<Rightarrow> f array_ptr index
            | None \<Rightarrow>
                if 0 < mqtt_member_element_size mem m
                then array_ptr + index * mqtt_member_element_size mem m else 0)
         in if element_ptr = 0 then mqtt_elements mem m array_ptr (Suc index) count output
            else exec_bind (mqtt_build_json_scalar mem m element_ptr) (\<lambda>v.
                 mqtt_elements mem m array_ptr (Suc index) count (output @ [v])))
      else Ret (JArr output))"
| "mqtt_build_json_scalar mem m value_ptr =
     (if value_ptr = 0 then Ret JNull
      else case type_id m of
        ROS_TYPE_BOOLEAN \<Rightarrow> Ret (JBool (m_bool mem value_ptr))
      | ROS_TYPE_CHAR \<Rightarrow> Ret (JInt (sint (m_u8 mem value_ptr)))
      | ROS_TYPE_OCTET \<Rightarrow> Ret (JUInt (unat (m_u8 mem value_ptr)))
      | ROS_TYPE_UINT8 \<Rightarrow> Ret (JUInt (unat (m_u8 mem value_ptr)))
      | ROS_TYPE_INT8 \<Rightarrow> Ret (JInt (sint (m_u8 mem value_ptr)))
      | ROS_TYPE_UINT16 \<Rightarrow> Ret (JUInt (unat (m_u16 mem value_ptr)))
      | ROS_TYPE_INT16 \<Rightarrow> Ret (JInt (sint (m_u16 mem value_ptr)))
      | ROS_TYPE_UINT32 \<Rightarrow> Ret (JUInt (unat (m_u32 mem value_ptr)))
      | ROS_TYPE_INT32 \<Rightarrow> Ret (JInt (sint (m_u32 mem value_ptr)))
      | ROS_TYPE_UINT64 \<Rightarrow> Ret (JUInt (unat (m_u64 mem value_ptr)))
      | ROS_TYPE_INT64 \<Rightarrow> Ret (JInt (sint (m_u64 mem value_ptr)))
      | ROS_TYPE_FLOAT \<Rightarrow>
          (let value = m_float mem value_ptr in Ret (if is_finite value then JFloat value else JNull))
      | ROS_TYPE_DOUBLE \<Rightarrow>
          (let value = m_double mem value_ptr in Ret (if is_finite value then JFloat value else JNull))
      | ROS_TYPE_STRING \<Rightarrow> Ret (JStr (m_string mem value_ptr))
      | ROS_TYPE_WSTRING \<Rightarrow>
          exec_bind (or_throw ''wstring_convert: to_bytes error'' (m_wstring mem value_ptr))
            (\<lambda>s. Ret (JStr s))
      | ROS_TYPE_MESSAGE ms \<Rightarrow>
          (case ms of None \<Rightarrow> Ret JNull | Some ms \<Rightarrow> mqtt_build_json_message mem ms value_ptr)
      | ROS_TYPE_OTHER _ \<Rightarrow> Ret JNull)"
  by pat_completeness auto
termination
proof (relation "measures [
    \<lambda>x. case x of Inl (Inl (_, ms, _)) \<Rightarrow> size ms | Inl (Inr (Inl (_, ms, _, _))) \<Rightarrow> size_list size ms
      | Inl (Inr (Inr (_, m, _))) \<Rightarrow> size m | Inr (Inl (_, m, _)) \<Rightarrow> size m
      | Inr (Inr (Inl (_, m, _, _, _, _))) \<Rightarrow> size m | Inr (Inr (Inr (_, m, _))) \<Rightarrow> size m,
    \<lambda>x. case x of Inl (Inl _) \<Rightarrow> 0 | Inl (Inr (Inl _)) \<Rightarrow> 0 | Inl (Inr (Inr _)) \<Rightarrow> 3
      | Inr (Inl _) \<Rightarrow> 2 | Inr (Inr (Inl _)) \<Rightarrow> 1 | Inr (Inr (Inr _)) \<Rightarrow> 0,
    \<lambda>x. case x of Inr (Inr (Inl (_, _, _, index, count, _))) \<Rightarrow> count - index | _ \<Rightarrow> (0 :: nat)]")
qed (auto simp: type_id_size)

declare mqtt_elements.simps [simp del] mqtt_build_json_message.simps [simp del]
  mqtt_build_json_value.simps [simp del] mqtt_build_json_array.simps [simp del]
  mqtt_build_json_scalar.simps [simp del]

lemma mqtt_element_size: "mqtt_member_element_size = member_element_size"
  by (intro ext) (simp only: mqtt_member_element_size_def member_element_size_def)

lemma mqtt_element_address:
  "element_address mem m p i =
     (case get_const_function m of
        Some f \<Rightarrow> f p i
      | None \<Rightarrow>
          if 0 < mqtt_member_element_size mem m then p + i * mqtt_member_element_size mem m else 0)"
  by (simp only: element_address_def mqtt_element_size)

lemma mqtt_elements_step:
  "mqtt_elements mem m p i n out =
     (if i < n
      then if element_address mem m p i = 0 then mqtt_elements mem m p (Suc i) n out
        else exec_bind (mqtt_build_json_scalar mem m (element_address mem m p i))
               (\<lambda>v. mqtt_elements mem m p (Suc i) n (out @ [v]))
      else Ret (JArr out))"
  by (subst mqtt_elements.simps) (simp only: mqtt_element_address Let_def)

lemma mqtt_scalar_primitive:
  "p \<noteq> 0 \<Longrightarrow> sub_message (type_id m) = None \<Longrightarrow>
     mqtt_build_json_scalar mem m p = build_json_primitive mem (type_id m) p"
  by (cases "type_id m")
    (auto simp: mqtt_build_json_scalar.simps build_json_primitive_def json_number_def sub_message_def
      split: option.split)

interpretation mqtt_walk: json_walk mqtt_build_json_message mqtt_members mqtt_build_json_value
  mqtt_build_json_array mqtt_elements mqtt_build_json_scalar
proof unfold_locales
  show "mqtt_build_json_scalar mem m p = mqtt_build_json_message mem ms p"
    if "p \<noteq> 0" "sub_message (type_id m) = Some ms" for mem m p ms
    using that by (cases "type_id m") (simp_all add: mqtt_build_json_scalar.simps sub_message_def)
qed (simp_all add: mqtt_build_json_message.simps mqtt_build_json_value.simps mqtt_build_json_array.simps
    mqtt_scalar_primitive mqtt_build_json_scalar.simps [of _ _ 0]
    mqtt_elements_step [of _ _ _ i n for i n] del: exec_bind_simps)

text \<open>
  Its serialize_message_to_json(): the equation with that of kafka_sink is what lets the theorems of
  Message_Json speak of the MQTT payloads.
\<close>

definition mqtt_serialize_message_to_json ::
  "json_env \<Rightarrow> type_support \<Rightarrow> u8 list \<Rightarrow> (nat, string) prog" where
  "mqtt_serialize_message_to_json E ts bytes live =
     (if \<not> ts_rmw ts \<or> \<not> ts_introspection ts
      then (Err ''Missing type support for JSON serialization.'', live)
      else case ts_members ts of
        None \<Rightarrow> (Err ''Introspection metadata unavailable.'', live)
      | Some ms \<Rightarrow>
          if size_of ms = 0 then (Err ''Introspection metadata unavailable.'', live)
          else let message = je_malloc E (size_of ms) in
            if message = 0
            then (Err ''Failed to allocate message for JSON serialization.'', live)
            else (case je_deserialize E bytes of
                None \<Rightarrow> (Err ''Failed to deserialize message for JSON serialization.'', live)
              | Some mem \<Rightarrow>
                  (case exec_bind (mqtt_build_json_message mem ms message)
                          (\<lambda>payload. or_throw ''type_error.316'' (jl_dump (je_json E) payload)) of
                     Ret out \<Rightarrow> (Ret out, live)
                   | Err e \<Rightarrow> (Err e, Suc live)
                   | Exc e \<Rightarrow> (Exc e, Suc live))))"

lemma mqtt_serialize_is_the_reference [simp]:
  "mqtt_serialize_message_to_json E ts bytes live = serialize_message_to_json E ts bytes live"
  by (simp only: mqtt_serialize_message_to_json_def serialize_message_to_json_def Let_def
      mqtt_walk.message_is_the_reference)

text \<open>
  The latency envelope, built up entry by entry; \<open>None\<close> is the false return that leaves the payload
  alone.
\<close>

definition mqtt_apply_ts_envelope_to_json ::
  "json_lib \<Rightarrow> string \<Rightarrow> int \<Rightarrow> string option exec" where
  "mqtt_apply_ts_envelope_to_json L json_payload t1_ns =
     (case jl_parse L json_payload of
        None \<Rightarrow> Ret None
      | Some j \<Rightarrow>
          exec_bind
            (if json_contains j ''header'' \<and> json_is_object (json_at j ''header'') \<and>
                json_contains (json_at j ''header'') ''stamp'' \<and>
                json_is_object (json_at (json_at j ''header'') ''stamp'')
             then (let stamp = json_at (json_at j ''header'') ''stamp''
               in if json_contains stamp ''sec'' \<and> json_contains stamp ''nanosec''
                  then exec_bind (json_get_int64 (json_at stamp ''sec'')) (\<lambda>sec.
                       exec_bind (json_get_int64 (json_at stamp ''nanosec'')) (\<lambda>nsec.
                       if sec \<noteq> 0 \<or> nsec \<noteq> 0
                       then json_assign (JObj []) ''t0_ns'' (JInt (sec * 1000000000 + nsec))
                       else Ret (JObj [])))
                  else Ret (JObj []))
             else Ret (JObj [])) (\<lambda>ts.
          exec_bind (json_assign ts ''t1_ns'' (JInt t1_ns)) (\<lambda>ts.
          exec_bind (json_assign j ''_ts'' ts) (\<lambda>j.
          exec_bind (or_throw ''type_error.316'' (jl_dump L j)) (\<lambda>out. Ret (Some out))))))"

lemma mqtt_envelope_is_the_reference [simp]:
  "mqtt_apply_ts_envelope_to_json L json_payload t1_ns =
     apply_ts_envelope_to_json L json_payload t1_ns"
  by (simp add: mqtt_apply_ts_envelope_to_json_def apply_ts_envelope_to_json_def stamp_t0_def Let_def
      json_assign_def [of "JObj _"] exec_bind_assoc if_distrib [of "\<lambda>r. exec_bind r _"]
      if_distrib [of "\<lambda>t0. exec_bind (json_assign _ _ (JObj (map_assign _ _ t0))) _"]
      split: option.split cong: if_cong)

section \<open>One description of a message\<close>

text \<open>
  C31: The three nodes describe a message alike.  For every message type and every memory the walks
  of kafka_cdr_to_json and of mosquitto_sink end with the object, or the throw, that the walk of
  kafka_sink ends with, and both sinks make the same text of the same bytes, with the same latency
  envelope.
\<close>

theorem nodes_describe_a_message_alike:
  "cj_build_json_message mem ms p = build_json_message mem ms p \<and>
   mqtt_build_json_message mem ms p = build_json_message mem ms p \<and>
   mqtt_serialize_message_to_json E ts bytes live = serialize_message_to_json E ts bytes live \<and>
   mqtt_apply_ts_envelope_to_json L json_payload t1_ns = apply_ts_envelope_to_json L json_payload t1_ns"
  by (simp add: cj_walk.message_is_the_reference mqtt_walk.message_is_the_reference)

end
