(* ===== verification/Cdr_To_Json.thy ===== *)
theory Cdr_To_Json
  imports Kafka_Consumer Json_Walk Kafka_Producer Percentile Lifecycle
begin

text \<open>
  kafka_cdr_to_json: the managed node that reads CDR records from Kafka, writes each as JSON to
  another topic, and reports what it did
  (kafka_bridge/kafka_cdr_to_json/src/kafka_cdr_to_json_node.cpp).  Its consumer and topic mappings
  are those of Kafka_Consumer, which the source repeats; its walk over a message is its own copy, in
  Json_Walk.
\<close>

section \<open>State\<close>

record cj_params =
  jp_bootstrap_servers :: string
  jp_group_id :: string
  jp_input_topic_pattern :: string
  jp_output_topic_prefix :: string
  jp_offset_reset :: string

record json_params =
  jj_include_ros_type :: bool
  jj_include_timestamp :: bool

record cj_metrics =
  jm_input_topic :: string
  jm_output_topic :: string
  jm_ros_type :: string
  jm_received :: u64
  jm_converted :: u64
  jm_failed :: u64
  jm_bytes :: u64
  jm_latency_max :: u64
  jm_latency_samples :: "u64 list"
  jm_json_size_min :: u64
  jm_json_size_max :: u64
  jm_json_size_total :: u64
  jm_prev_received :: u64
  jm_prev_converted :: u64
  jm_prev_failed :: u64
  jm_prev_bytes :: u64

definition new_cj_metrics :: "string \<Rightarrow> string \<Rightarrow> string \<Rightarrow> cj_metrics" where
  "new_cj_metrics input_topic output_topic ros_type =
     \<lparr>jm_input_topic = input_topic, jm_output_topic = output_topic, jm_ros_type = ros_type,
      jm_received = 0, jm_converted = 0, jm_failed = 0, jm_bytes = 0, jm_latency_max = 0,
      jm_latency_samples = [], jm_json_size_min = 0, jm_json_size_max = 0,
      jm_json_size_total = 0, jm_prev_received = 0, jm_prev_converted = 0, jm_prev_failed = 0,
      jm_prev_bytes = 0\<rparr>"

text \<open>
  \<open>cj_world\<close> is librdkafka's consumer, \<open>cj_broker\<close> its producer side while the node holds no
  producer, \<open>cj_live\<close> the messages allocated and not freed, \<open>cj_log_next\<close> the throttle of each log
  line.  The metrics are kept sorted by input topic.
\<close>

record ('c, 'k) cdr_to_json =
  cj_store :: "string \<Rightarrow> param_value"
  cj_params_of :: cj_params
  cj_json :: json_params
  cj_metrics_enabled :: bool
  cj_metrics_interval_ms :: int
  cj_metrics_topic :: string
  cj_mappings :: "string \<Rightarrow> string option"
  cj_consumer :: bool
  cj_world :: 'c
  cj_producer :: "'k producer option"
  cj_broker :: 'k
  cj_thread :: bool
  cj_running :: bool
  cj_is_active :: bool
  cj_cache :: "string \<Rightarrow> type_support option"
  cj_metrics_map :: "(string \<times> cj_metrics) list"
  cj_log_next :: "string \<Rightarrow> int"
  cj_metrics_pub :: "bool option"
  cj_timer :: bool
  cj_clock :: int
  cj_last_metrics_ns :: int
  cj_live :: nat
  cj_reports :: "string list"

record ('c, 'k) cj_env =
  je_consumer :: "'c consumer_lib"
  je_rdkafka :: "'k rdkafka"
  je_node_name :: string
  je_typesupport :: typesupport_lib
  je_env :: json_env
  je_metrics_publisher :: "string \<Rightarrow> unit exec"
  je_timer :: "int \<Rightarrow> unit exec"
  je_order :: "cj_metrics list \<Rightarrow> cj_metrics list"

definition default_cj_params :: cj_params where
  "default_cj_params =
     \<lparr>jp_bootstrap_servers = ''localhost:9092'', jp_group_id = ''ros2-cdr-to-json'',
      jp_input_topic_pattern = ''^ros2'' @ [CHR 0x5C] @ ''..*'',
      jp_output_topic_prefix = ''ros2_json'', jp_offset_reset = ''latest''\<rparr>"

definition default_json_params :: json_params where
  "default_json_params = \<lparr>jj_include_ros_type = True, jj_include_timestamp = True\<rparr>"

definition cj_declared :: "(string \<times> param_value) list" where
  "cj_declared =
     [(''kafka.bootstrap_servers'', PString (jp_bootstrap_servers default_cj_params)),
      (''kafka.group_id'', PString (jp_group_id default_cj_params)),
      (''kafka.input_topic_pattern'', PString (jp_input_topic_pattern default_cj_params)),
      (''kafka.output_topic_prefix'', PString (jp_output_topic_prefix default_cj_params)),
      (''kafka.offset_reset'', PString (jp_offset_reset default_cj_params)),
      (''json.include_ros_type'', PBool (jj_include_ros_type default_json_params)),
      (''json.include_timestamp'', PBool (jj_include_timestamp default_json_params)),
      (''metrics.enabled'', PBool True), (''metrics.interval_ms'', PInt 1000),
      (''metrics.topic'', PString ''kafka_cdr2json/metrics''), (''topic_mappings'', PString [])]"

definition new_cdr_to_json ::
  "(string \<Rightarrow> param_value option) \<Rightarrow> 'c \<Rightarrow> 'k \<Rightarrow> ('c, 'k) cdr_to_json" where
  "new_cdr_to_json overrides w k =
     \<lparr>cj_store = (\<lambda>n. case map_of cj_declared n of
                      None \<Rightarrow> PNotSet
                    | Some v \<Rightarrow> (case overrides n of Some x \<Rightarrow> x | None \<Rightarrow> v)),
      cj_params_of = default_cj_params, cj_json = default_json_params,
      cj_metrics_enabled = True, cj_metrics_interval_ms = 1000,
      cj_metrics_topic = ''kafka_cdr2json/metrics'', cj_mappings = Map.empty,
      cj_consumer = False, cj_world = w, cj_producer = None, cj_broker = k, cj_thread = False,
      cj_running = False, cj_is_active = False, cj_cache = Map.empty, cj_metrics_map = [],
      cj_log_next = (\<lambda>_. 0), cj_metrics_pub = None, cj_timer = False, cj_clock = 0,
      cj_last_metrics_ns = 0,
      cj_live = 0, cj_reports = []\<rparr>"

section \<open>Parameters\<close>

definition cj_validate :: "('c, 'k) cdr_to_json \<Rightarrow> string option" where
  "cj_validate s =
     (let p = cj_params_of s
      in if jp_bootstrap_servers p = [] then Some ''kafka.bootstrap_servers must be non-empty.''
         else if jp_group_id p = [] then Some ''kafka.group_id must be non-empty.''
         else if jp_input_topic_pattern p = []
         then Some ''kafka.input_topic_pattern must be non-empty.''
         else if jp_offset_reset p \<noteq> ''latest'' \<and> jp_offset_reset p \<noteq> ''earliest''
         then Some ''kafka.offset_reset must be 'latest' or 'earliest'.''
         else if cj_metrics_interval_ms s \<le> 0 then Some ''metrics.interval_ms must be > 0.''
         else if cj_metrics_enabled s \<and> cj_metrics_topic s = []
         then Some ''metrics.topic must be non-empty when metrics are enabled.''
         else None)"

definition cj_write_param :: "parameter \<Rightarrow> ('c, 'k) cdr_to_json \<Rightarrow> ('c, 'k) cdr_to_json exec" where
  "cj_write_param p s =
     (let n = p_name p;
          str = (\<lambda>f. exec_bind (as_string p) (\<lambda>v. Ret (f v)));
          bool = (\<lambda>f. exec_bind (as_bool p) (\<lambda>v. Ret (f v)));
          k = cj_params_of s; j = cj_json s
      in if n = ''kafka.bootstrap_servers''
         then str (\<lambda>v. s\<lparr>cj_params_of := k\<lparr>jp_bootstrap_servers := v\<rparr>\<rparr>)
         else if n = ''kafka.group_id'' then str (\<lambda>v. s\<lparr>cj_params_of := k\<lparr>jp_group_id := v\<rparr>\<rparr>)
         else if n = ''kafka.input_topic_pattern''
         then str (\<lambda>v. s\<lparr>cj_params_of := k\<lparr>jp_input_topic_pattern := v\<rparr>\<rparr>)
         else if n = ''kafka.output_topic_prefix''
         then str (\<lambda>v. s\<lparr>cj_params_of := k\<lparr>jp_output_topic_prefix := v\<rparr>\<rparr>)
         else if n = ''kafka.offset_reset''
         then str (\<lambda>v. s\<lparr>cj_params_of := k\<lparr>jp_offset_reset := v\<rparr>\<rparr>)
         else if n = ''json.include_ros_type''
         then bool (\<lambda>v. s\<lparr>cj_json := j\<lparr>jj_include_ros_type := v\<rparr>\<rparr>)
         else if n = ''json.include_timestamp''
         then bool (\<lambda>v. s\<lparr>cj_json := j\<lparr>jj_include_timestamp := v\<rparr>\<rparr>)
         else if n = ''metrics.enabled'' then bool (\<lambda>v. s\<lparr>cj_metrics_enabled := v\<rparr>)
         else if n = ''metrics.interval_ms''
         then exec_bind (as_int p) (\<lambda>v. Ret (s\<lparr>cj_metrics_interval_ms := narrow32 v\<rparr>))
         else if n = ''metrics.topic'' then str (\<lambda>v. s\<lparr>cj_metrics_topic := v\<rparr>)
         else if n = ''topic_mappings'' then str (\<lambda>v. s\<lparr>cj_mappings := parse_topic_mappings v\<rparr>)
         else Ret s)"

fun cj_write_params :: "parameter list \<Rightarrow> (('c, 'k) cdr_to_json, unit) prog" where
  "cj_write_params [] s = (Ret (), s)"
| "cj_write_params (p # ps) s =
     (case cj_write_param p s of
        Ret s' \<Rightarrow> cj_write_params ps s'
      | Err e \<Rightarrow> (Err e, s)
      | Exc e \<Rightarrow> (Exc e, s))"

definition cj_set_params :: "parameter list \<Rightarrow> (('c, 'k) cdr_to_json, set_result) prog" where
  "cj_set_params ps s =
     (if cj_is_active s
      then (Ret \<lparr>sr_successful = False,
                 sr_reason = ''Cannot change parameters while node is active.''\<rparr>, s)
      else andthen (cj_write_params ps)
             (\<lambda>_ s. (Ret (case cj_validate s of
                       Some e \<Rightarrow> \<lparr>sr_successful = False, sr_reason = e\<rparr>
                     | None \<Rightarrow> \<lparr>sr_successful = True, sr_reason = ''Parameters accepted.''\<rparr>), s)) s)"

definition cj_stored_params :: "('c, 'k) cdr_to_json \<Rightarrow> parameter list" where
  "cj_stored_params s =
     filter (\<lambda>p. p_value p \<noteq> PNotSet) (map (\<lambda>(n, _). mk_param n (cj_store s n)) cj_declared)"

definition cj_configure :: "(('c, 'k) cdr_to_json, unit) prog" where
  "cj_configure s =
     andthen (cj_write_params (cj_stored_params s))
       (\<lambda>_ s. (case cj_validate s of Some e \<Rightarrow> Err e | None \<Rightarrow> Ret (), s)) s"

section \<open>Consumer and producer\<close>

definition cj_start_consumer :: "('c, 'k) cj_env \<Rightarrow> (('c, 'k) cdr_to_json, unit) prog" where
  "cj_start_consumer E s =
     (let p = cj_params_of s
      in case open_consumer (je_consumer E) (jp_bootstrap_servers p) (jp_group_id p)
                (jp_offset_reset p) (jp_input_topic_pattern p) (cj_world s) of
           (Ret _, w) \<Rightarrow> (Ret (), s\<lparr>cj_world := w, cj_consumer := True\<rparr>)
         | (Err e, w) \<Rightarrow> (Err e, s\<lparr>cj_world := w\<rparr>)
         | (Exc e, w) \<Rightarrow> (Exc e, s\<lparr>cj_world := w\<rparr>))"

definition cj_stop_consumer ::
  "('c, 'k) cj_env \<Rightarrow> ('c, 'k) cdr_to_json \<Rightarrow> ('c, 'k) cdr_to_json" where
  "cj_stop_consumer E s =
     (if cj_consumer s
      then s\<lparr>cj_consumer := False, cj_world := close_consumer (je_consumer E) (cj_world s)\<rparr>
      else s)"

definition cj_stop_producer ::
  "('c, 'k) cj_env \<Rightarrow> ('c, 'k) cdr_to_json \<Rightarrow> ('c, 'k) cdr_to_json" where
  "cj_stop_producer E s =
     (case cj_producer s of
        None \<Rightarrow> s
      | Some p \<Rightarrow> s\<lparr>cj_producer := None, cj_broker := kp_world (stop (je_rdkafka E) p)\<rparr>)"

definition cj_producer_config :: "('c, 'k) cj_env \<Rightarrow> ('c, 'k) cdr_to_json \<Rightarrow> producer_config" where
  "cj_producer_config E s =
     default_producer_config\<lparr>bootstrap_servers := jp_bootstrap_servers (cj_params_of s),
       client_id := je_node_name E\<rparr>"

text \<open>Assigning the new producer destroys an old one, whose destructor stops it.\<close>

definition cj_start_producer :: "('c, 'k) cj_env \<Rightarrow> (('c, 'k) cdr_to_json, unit) prog" where
  "cj_start_producer E s =
     (let s = cj_stop_producer E s;
          p = new_producer (cj_producer_config E s) (cj_broker s)
      in case start (je_rdkafka E) p of
           (True, p') \<Rightarrow> (Ret (), s\<lparr>cj_producer := Some p'\<rparr>)
         | (False, p') \<Rightarrow>
             (Err ''Unable to start Kafka producer.'', s\<lparr>cj_broker := kp_world p'\<rparr>))"


section \<open>Type supports\<close>

text \<open>ensure_type_support() of this node; a throw of the libraries is a false return.\<close>

definition cj_find_type_support :: "typesupport_lib \<Rightarrow> string \<Rightarrow> type_support exec" where
  "cj_find_type_support T ros_type =
     exec_bind (tl_library T ros_type ''rosidl_typesupport_cpp'') (\<lambda>ts_lib.
     exec_bind (tl_library T ros_type ''rosidl_typesupport_introspection_cpp'') (\<lambda>introspection_ts_lib.
     if \<not> ts_lib \<or> \<not> introspection_ts_lib then Err ''Type support libraries not found.''
     else
       exec_bind (tl_handle T ros_type ''rosidl_typesupport_cpp'') (\<lambda>rmw.
       exec_bind (tl_handle T ros_type ''rosidl_typesupport_introspection_cpp'') (\<lambda>intro.
       if \<not> rmw \<or> \<not> intro then Err ''Type support handles not found.''
       else Ret \<lparr>ts_rmw = True, ts_introspection = True, ts_members = tl_members T ros_type\<rparr>))))"

definition cj_ensure_type_support ::
  "typesupport_lib \<Rightarrow> string \<Rightarrow> (string \<Rightarrow> type_support option, type_support) prog" where
  "cj_ensure_type_support T ros_type cache =
     (case cache ros_type of
        Some entry \<Rightarrow> (Ret entry, cache)
      | None \<Rightarrow>
          (case cj_find_type_support T ros_type of
             Ret cached \<Rightarrow> (Ret cached, cache(ros_type \<mapsto> cached))
           | Err e \<Rightarrow> (Err e, cache)
           | Exc e \<Rightarrow> (Err e, cache)))"

interpretation converter_cache: type_cache cj_find_type_support cj_ensure_type_support
proof unfold_locales
  show "ts_rmw ts \<and> ts_introspection ts" if "cj_find_type_support T t = Ret ts" for T t ts
    using that by (auto simp: cj_find_type_support_def exec_bind_Ret_iff split: if_split_asm)
  show "\<exists>e. cj_ensure_type_support T t cache = (Err e, cache)"
    if "cache t = None" "\<not> is_ret (cj_find_type_support T t)" for cache t T
    using that by (cases "cj_find_type_support T t") (simp_all add: cj_ensure_type_support_def)
qed (simp_all add: cj_ensure_type_support_def)

section \<open>One record\<close>

text \<open>
  serialize_message_to_json() of this node: the walk of Json_Walk, then the type and the time of
  the record as two more entries of the object.
\<close>

definition json_assign_if :: "bool \<Rightarrow> string \<Rightarrow> json \<Rightarrow> json \<Rightarrow> json exec" where
  "json_assign_if b k v j = (if b then json_assign j k v else Ret j)"

definition json_time :: "int option \<Rightarrow> json" where
  "json_time t = (case t of Some ms \<Rightarrow> JInt ms | None \<Rightarrow> JNull)"

definition cj_payload ::
  "json_env \<Rightarrow> memory \<Rightarrow> message_members \<Rightarrow> string \<Rightarrow> int option \<Rightarrow> json_params \<Rightarrow> string exec" where
  "cj_payload E mem ms ros_type t j =
     exec_bind (cj_build_json_message mem ms (je_malloc E (size_of ms))) (\<lambda>payload.
     exec_bind (json_assign_if (jj_include_ros_type j) ''__ros_type'' (JStr ros_type) payload) (\<lambda>payload.
     exec_bind (json_assign_if (jj_include_timestamp j) ''__kafka_timestamp_ms'' (json_time t) payload)
       (\<lambda>payload. or_throw ''type_error.316'' (jl_dump (je_json E) payload))))"

definition cj_serialize ::
  "json_env \<Rightarrow> type_support \<Rightarrow> u8 list \<Rightarrow> string \<Rightarrow> int option \<Rightarrow> json_params \<Rightarrow> (nat, string) prog" where
  "cj_serialize E ts bytes ros_type t j live =
     (if \<not> ts_rmw ts \<or> \<not> ts_introspection ts
      then (Err ''Missing type support for JSON serialization.'', live)
      else case ts_members ts of
        None \<Rightarrow> (Err ''Introspection metadata unavailable.'', live)
      | Some ms \<Rightarrow>
          if size_of ms = 0 then (Err ''Introspection metadata unavailable.'', live)
          else if je_malloc E (size_of ms) = 0
          then (Err ''Failed to allocate message for JSON serialization.'', live)
          else (case je_deserialize E bytes of
              None \<Rightarrow> (Err ''Failed to deserialize message for JSON serialization.'', live)
            | Some mem \<Rightarrow>
                (case cj_payload E mem ms ros_type t j of
                   Ret out \<Rightarrow> (Ret out, live)
                 | Err e \<Rightarrow> (Err e, Suc live)
                 | Exc e \<Rightarrow> (Exc e, Suc live))))"

definition map_output_topic :: "('c, 'k) cdr_to_json \<Rightarrow> string \<Rightarrow> string" where
  "map_output_topic s input_topic =
     (case cj_mappings s input_topic of
        Some t \<Rightarrow> t
      | None \<Rightarrow>
         (let prefix = jp_output_topic_prefix (cj_params_of s)
          in if prefix = [] then input_topic
             else if last prefix = CHR ''.'' \<or> input_topic = [] then prefix @ input_topic
             else prefix @ ''.'' @ input_topic))"

text \<open>The entry of an input topic: a record renames the output topic and the type of an old one.\<close>

definition cj_open_entry ::
  "string \<Rightarrow> string \<Rightarrow> string \<Rightarrow> ('c, 'k) cdr_to_json \<Rightarrow> ('c, 'k) cdr_to_json" where
  "cj_open_entry input output ty s =
     s\<lparr>cj_metrics_map := map_assign input
         (case map_of (cj_metrics_map s) input of
            None \<Rightarrow> new_cj_metrics input output ty
          | Some m \<Rightarrow> m\<lparr>jm_output_topic := output, jm_ros_type := ty\<rparr>) (cj_metrics_map s)\<rparr>"

definition cj_count ::
  "string \<Rightarrow> (cj_metrics \<Rightarrow> cj_metrics) \<Rightarrow> ('c, 'k) cdr_to_json \<Rightarrow> ('c, 'k) cdr_to_json" where
  "cj_count input f s =
     (case map_of (cj_metrics_map s) input of
        None \<Rightarrow> s
      | Some m \<Rightarrow> s\<lparr>cj_metrics_map := map_assign input (f m) (cj_metrics_map s)\<rparr>)"

definition cj_note_received :: "int \<Rightarrow> kafka_message \<Rightarrow> cj_metrics \<Rightarrow> cj_metrics" where
  "cj_note_received now_ns m t =
     (let t = t\<lparr>jm_received := jm_received t + 1,
                jm_bytes := jm_bytes t + of_nat (length (km_payload m))\<rparr>
      in case record_latency now_ns m of
           None \<Rightarrow> t
         | Some l \<Rightarrow>
             t\<lparr>jm_latency_max := max (jm_latency_max t) l,
               jm_latency_samples := push_sample kMaxLatencySamples l (jm_latency_samples t)\<rparr>)"

definition cj_note_failed :: "cj_metrics \<Rightarrow> cj_metrics" where
  "cj_note_failed t = t\<lparr>jm_failed := jm_failed t + 1\<rparr>"

definition cj_note_converted :: "u64 \<Rightarrow> cj_metrics \<Rightarrow> cj_metrics" where
  "cj_note_converted len t =
     t\<lparr>jm_converted := jm_converted t + 1, jm_json_size_total := jm_json_size_total t + len,
       jm_json_size_min := (if jm_json_size_min t = 0 \<or> len < jm_json_size_min t then len
                            else jm_json_size_min t),
       jm_json_size_max := max (jm_json_size_max t) len\<rparr>"

text \<open>The throttle of a log line: the default of the map is 0, so a first line is always due.\<close>

definition cj_log :: "string \<Rightarrow> int \<Rightarrow> ('c, 'k) cdr_to_json \<Rightarrow> ('c, 'k) cdr_to_json" where
  "cj_log key clk s =
     s\<lparr>cj_log_next := (cj_log_next s)(key := snd (should_log_throttled clk (cj_log_next s key)))\<rparr>"

definition cj_fail ::
  "string \<Rightarrow> int \<Rightarrow> string \<Rightarrow> ('c, 'k) cdr_to_json \<Rightarrow> ('c, 'k) cdr_to_json" where
  "cj_fail key clk input s = cj_log key clk (cj_count input cj_note_failed s)"

definition cj_record :: "string \<Rightarrow> string \<Rightarrow> int option \<Rightarrow> queued_record" where
  "cj_record output json t =
     \<lparr>q_topic = output, q_key = [], q_value = bytes_of json,
      q_timestamp_ms = (case t of None \<Rightarrow> 0 | Some ms \<Rightarrow> ms), q_headers = []\<rparr>"

text \<open>The end of process_message(): the send and what its result counts as.\<close>

definition cj_forward ::
  "('c, 'k) cj_env \<Rightarrow> int \<Rightarrow> string \<Rightarrow> queued_record \<Rightarrow> ('c, 'k) cdr_to_json
     \<Rightarrow> ('c, 'k) cdr_to_json" where
  "cj_forward E clk input r s =
     (case cj_producer s of
        None \<Rightarrow> cj_fail ''producer_missing'' clk input s
      | Some p \<Rightarrow>
         (case send (je_rdkafka E) r p of (res, p') \<Rightarrow>
            let s = s\<lparr>cj_producer := Some p'\<rparr>
            in if res_status res = QUEUE_FULL \<and> res_buffered res \<or> res_status res = SENT
               then cj_count input (cj_note_converted (of_nat (length (q_value r)))) s
               else if res_status res = QUEUE_FULL \<or> res_status res = PRODUCER_UNAVAILABLE
               then cj_fail ''producer_backpressure'' clk input s
               else cj_fail ''producer_error'' clk input s))"

text \<open>The conversion of a typed record, from the type support to the send.\<close>

definition cj_convert ::
  "('c, 'k) cj_env \<Rightarrow> int \<Rightarrow> kafka_message \<Rightarrow> (('c, 'k) cdr_to_json, unit) prog" where
  "cj_convert E clk m s =
     (case cj_ensure_type_support (je_typesupport E) (ros_type_header m) (cj_cache s) of
        (Ret ts, c) \<Rightarrow>
         (let s = s\<lparr>cj_cache := c\<rparr>; t = usable_timestamp m
          in case cj_serialize (je_env E) ts (km_payload m) (ros_type_header m) t (cj_json s)
                    (cj_live s) of
               (Ret json, n) \<Rightarrow>
                 (Ret (), cj_forward E clk (km_topic m)
                   (cj_record (map_output_topic s (km_topic m)) json t) (s\<lparr>cj_live := n\<rparr>))
             | (Err e, n) \<Rightarrow> (Ret (), cj_fail ''json_serialize'' clk (km_topic m) (s\<lparr>cj_live := n\<rparr>))
             | (Exc e, n) \<Rightarrow> (Exc e, s\<lparr>cj_live := n\<rparr>))
      | (_, c) \<Rightarrow> (Ret (), cj_fail ''type_support'' clk (km_topic m) (s\<lparr>cj_cache := c\<rparr>)))"

definition resolved_type :: "kafka_message \<Rightarrow> string" where
  "resolved_type m = (if ros_type_header m = [] then ''unknown'' else ros_type_header m)"

text \<open>process_message(): \<open>system_ns\<close> dates the latency, \<open>clk\<close> is the steady clock of the log.\<close>

definition cj_process ::
  "('c, 'k) cj_env \<Rightarrow> int \<Rightarrow> int \<Rightarrow> kafka_message \<Rightarrow> (('c, 'k) cdr_to_json, unit) prog" where
  "cj_process E system_ns clk m s =
     (if km_payload m = [] then (Ret (), s)
      else
       (let s = cj_open_entry (km_topic m) (map_output_topic s (km_topic m)) (resolved_type m) s;
            s = cj_count (km_topic m) (cj_note_received system_ns m) s
        in if ros_type_header m = []
           then (Ret (), cj_fail ''missing_ros_type'' clk (km_topic m) s)
           else cj_convert E clk m s))"

text \<open>One round of poll_loop(); \<open>world\<close> is the library after the consume() call.\<close>

definition cj_poll_round ::
  "('c, 'k) cj_env \<Rightarrow> int \<Rightarrow> int \<Rightarrow> consumed \<Rightarrow> 'c \<Rightarrow> (('c, 'k) cdr_to_json, unit) prog" where
  "cj_poll_round E system_ns clk got world s =
     (if \<not> cj_running s \<or> \<not> cj_consumer s then (Ret (), s)
      else
       (let s = s\<lparr>cj_world := world\<rparr>
        in case got of
             No_message \<Rightarrow> (Ret (), s)
           | Timed_out \<Rightarrow> (Ret (), s)
           | Partition_eof \<Rightarrow> (Ret (), s)
           | Consume_error _ \<Rightarrow> (Ret (), cj_log ''consume_error'' clk s)
           | Delivered m \<Rightarrow> cj_process E system_ns clk m s))"


section \<open>Metrics\<close>

definition cj_double :: "u64 \<Rightarrow> rat" where
  "cj_double w = double_of (of_nat (unat w))"

text \<open>The seconds since the last report, or the configured interval when no time has passed.\<close>

definition cj_interval :: "('c, 'k) cdr_to_json \<Rightarrow> rat" where
  "cj_interval s =
     (let d = cj_clock s - cj_last_metrics_ns s
      in if d \<le> 0 then double_of (of_int (cj_metrics_interval_ms s) / 1000)
         else double_of (double_of (of_int d) / 1000000000))"

definition cj_rate :: "u64 \<Rightarrow> rat \<Rightarrow> rat" where
  "cj_rate d interval = (if 0 < interval then double_of (cj_double d / interval) else 0)"

definition cj_report_entry :: "rat \<Rightarrow> cj_metrics \<Rightarrow> json" where
  "cj_report_entry interval t =
     (let u = (\<lambda>w. JUInt (unat w)); d = (\<lambda>q. JFloat (Fin q)); samples = jm_latency_samples t
      in object_of
        [(''input_topic'', JStr (jm_input_topic t)), (''output_topic'', JStr (jm_output_topic t)),
         (''ros_type'', JStr (jm_ros_type t)), (''received'', u (jm_received t)),
         (''converted'', u (jm_converted t)), (''failed'', u (jm_failed t)),
         (''delta_received'', u (jm_received t - jm_prev_received t)),
         (''delta_converted'', u (jm_converted t - jm_prev_converted t)),
         (''delta_failed'', u (jm_failed t - jm_prev_failed t)), (''bytes'', u (jm_bytes t)),
         (''rate_msgs_per_s'', d (cj_rate (jm_received t - jm_prev_received t) interval)),
         (''rate_bytes_per_s'', d (cj_rate (jm_bytes t - jm_prev_bytes t) interval)),
         (''latency_ns_p50'', u (calculate_percentile_ceil samples p50)),
         (''latency_ns_p95'', u (calculate_percentile_ceil samples p95)),
         (''latency_ns_p99'', u (calculate_percentile_ceil samples p99)),
         (''latency_ns_max'', u (jm_latency_max t)), (''json_size_min'', u (jm_json_size_min t)),
         (''json_size_max'', u (jm_json_size_max t)),
         (''json_size_avg'', d (if 0 < jm_converted t
            then double_of (cj_double (jm_json_size_total t) / cj_double (jm_converted t)) else 0))])"

definition cj_snapshot :: "cj_metrics \<Rightarrow> cj_metrics" where
  "cj_snapshot t =
     t\<lparr>jm_prev_received := jm_received t, jm_prev_converted := jm_converted t,
       jm_prev_failed := jm_failed t, jm_prev_bytes := jm_bytes t\<rparr>"

definition cj_publish_metrics :: "('c, 'k) cj_env \<Rightarrow> (('c, 'k) cdr_to_json, unit) prog" where
  "cj_publish_metrics E s =
     (if \<not> cj_metrics_enabled s \<or> cj_metrics_pub s \<noteq> Some True then (Ret (), s)
      else
       (let report = object_of
              [(''timestamp_ns'', JInt (cj_clock s)),
               (''topics'', JArr (map (cj_report_entry (cj_interval s))
                  (je_order E (map snd (cj_metrics_map s)))))];
            s = s\<lparr>cj_last_metrics_ns := cj_clock s,
                  cj_metrics_map := map (\<lambda>(k, t). (k, cj_snapshot t)) (cj_metrics_map s)\<rparr>
        in case jl_dump (je_json (je_env E)) report of
             None \<Rightarrow> (Exc ''type_error.316'', s)
           | Some out \<Rightarrow> (Ret (), s\<lparr>cj_reports := cj_reports s @ [out]\<rparr>)))"

definition cj_reset_timer :: "('c, 'k) cj_env \<Rightarrow> (('c, 'k) cdr_to_json, unit) prog" where
  "cj_reset_timer E s =
     (let s = s\<lparr>cj_timer := False\<rparr>
      in if \<not> cj_metrics_enabled s \<or> cj_metrics_pub s = None \<or> \<not> cj_is_active s then (Ret (), s)
         else
          (let s = s\<lparr>cj_last_metrics_ns := cj_clock s\<rparr>
           in case je_timer E (cj_metrics_interval_ms s) of
                Ret _ \<Rightarrow> (Ret (), s\<lparr>cj_timer := True\<rparr>)
              | Err e \<Rightarrow> (Exc e, s)
              | Exc e \<Rightarrow> (Exc e, s)))"

section \<open>Lifecycle callbacks\<close>

definition cj_on_configure :: "('c, 'k) cj_env \<Rightarrow> (('c, 'k) cdr_to_json, bool) prog" where
  "cj_on_configure E =
     attempt cj_configure
       (\<lambda>_ s. if cj_validate s \<noteq> None then (Ret False, s)
              else case je_metrics_publisher E (cj_metrics_topic s) of
                Ret _ \<Rightarrow> (Ret True, s\<lparr>cj_metrics_pub := Some False\<rparr>)
              | Err e \<Rightarrow> (Exc e, s)
              | Exc e \<Rightarrow> (Exc e, s))
       (\<lambda>_. ret False)"

definition cj_activate_pub :: "bool \<Rightarrow> ('c, 'k) cdr_to_json \<Rightarrow> ('c, 'k) cdr_to_json" where
  "cj_activate_pub b s = s\<lparr>cj_metrics_pub := map_option (\<lambda>_. b) (cj_metrics_pub s)\<rparr>"

definition cj_on_activate :: "('c, 'k) cj_env \<Rightarrow> (('c, 'k) cdr_to_json, bool) prog" where
  "cj_on_activate E =
     attempt (cj_start_consumer E)
       (\<lambda>_. attempt (cj_start_producer E)
          (\<lambda>_. andthen (update_state (\<lambda>s. cj_activate_pub True (s\<lparr>cj_is_active := True\<rparr>))) (\<lambda>_.
               andthen (cj_reset_timer E) (\<lambda>_.
               andthen (update_state (\<lambda>s. s\<lparr>cj_running := True, cj_thread := True\<rparr>)) (\<lambda>_.
               ret True))))
          (\<lambda>_. andthen (update_state (cj_stop_consumer E)) (\<lambda>_. ret False)))
       (\<lambda>_. ret False)"

text \<open>The flag, the join of the thread and the release of both clients.\<close>

definition cj_stop_clients ::
  "('c, 'k) cj_env \<Rightarrow> ('c, 'k) cdr_to_json \<Rightarrow> ('c, 'k) cdr_to_json" where
  "cj_stop_clients E s =
     cj_stop_producer E (cj_stop_consumer E (s\<lparr>cj_running := False, cj_thread := False\<rparr>))"

definition cj_on_deactivate :: "('c, 'k) cj_env \<Rightarrow> (('c, 'k) cdr_to_json, bool) prog" where
  "cj_on_deactivate E =
     andthen (update_state (\<lambda>s. (cj_stop_clients E s)\<lparr>cj_is_active := False\<rparr>)) (\<lambda>_.
     andthen (cj_reset_timer E) (\<lambda>_.
     andthen (update_state (cj_activate_pub False)) (\<lambda>_. ret True)))"

definition cj_on_cleanup :: "('c, 'k) cj_env \<Rightarrow> (('c, 'k) cdr_to_json, bool) prog" where
  "cj_on_cleanup E s =
     (Ret True, (cj_stop_clients E (s\<lparr>cj_is_active := False\<rparr>))
        \<lparr>cj_timer := False, cj_metrics_pub := None, cj_cache := Map.empty, cj_metrics_map := []\<rparr>)"

definition cj_on_shutdown :: "('c, 'k) cj_env \<Rightarrow> (('c, 'k) cdr_to_json, bool) prog" where
  "cj_on_shutdown E s = (Ret True, cj_stop_clients E (s\<lparr>cj_is_active := False\<rparr>))"

definition cdr_to_json_node :: "('c, 'k) cj_env \<Rightarrow> ('c, 'k) cdr_to_json managed" where
  "cdr_to_json_node E =
     \<lparr>on_configure = cj_on_configure E, on_activate = cj_on_activate E,
      on_deactivate = cj_on_deactivate E, on_cleanup = cj_on_cleanup E,
      on_shutdown = cj_on_shutdown E\<rparr>"

end
