(* ===== verification/Cdr_To_Json_Properties.thy ===== *)
theory Cdr_To_Json_Properties
  imports Cdr_To_Json
begin

text \<open>
  The life cycle of kafka_cdr_to_json with the balance of its counters, and what it sends for a
  record it converts.
\<close>

section \<open>The counters\<close>

text \<open>
  Between two records every record received was converted or failed; the buffer of latencies is
  bounded and the entries are those of their topics.
\<close>

definition balanced :: "cj_metrics \<Rightarrow> bool" where
  "balanced t \<longleftrightarrow> jm_received t = jm_converted t + jm_failed t"

definition entry_ok :: "string \<Rightarrow> cj_metrics \<Rightarrow> bool" where
  "entry_ok k t \<longleftrightarrow> jm_input_topic t = k \<and> length (jm_latency_samples t) \<le> kMaxLatencySamples"

definition cj_metrics_ok :: "(string \<times> cj_metrics) list \<Rightarrow> bool" where
  "cj_metrics_ok ms \<longleftrightarrow>
     ordered_map ms \<and> (\<forall>k t. map_of ms k = Some t \<longrightarrow> entry_ok k t \<and> balanced t)"

lemma new_cj_metrics_ok [simp]:
  "balanced (new_cj_metrics k output ty)" "entry_ok k (new_cj_metrics k output ty)"
  by (simp_all add: balanced_def entry_ok_def new_cj_metrics_def)

lemma cj_updates [simp]:
  "jm_received (cj_note_failed t) = jm_received t" "jm_converted (cj_note_failed t) = jm_converted t"
  "jm_failed (cj_note_failed t) = jm_failed t + 1"
  "jm_received (cj_note_converted n t) = jm_received t"
  "jm_converted (cj_note_converted n t) = jm_converted t + 1"
  "jm_failed (cj_note_converted n t) = jm_failed t"
  "jm_received (cj_note_received now m t) = jm_received t + 1"
  "jm_converted (cj_note_received now m t) = jm_converted t"
  "jm_failed (cj_note_received now m t) = jm_failed t"
  "entry_ok k (cj_note_failed t) = entry_ok k t"
  "entry_ok k (cj_note_converted n t) = entry_ok k t"
  "entry_ok k t \<Longrightarrow> entry_ok k (cj_note_received now m t)"
  by (auto simp: cj_note_failed_def cj_note_converted_def cj_note_received_def entry_ok_def Let_def
      length_push_sample split: option.split)

lemma cj_snapshot_ok [simp]:
  "entry_ok k (cj_snapshot t) = entry_ok k t" "balanced (cj_snapshot t) = balanced t"
  by (simp_all add: entry_ok_def balanced_def cj_snapshot_def)

text \<open>A record that is settled: received once, and converted or failed once.\<close>

lemma settled_record_balanced:
  "balanced t \<Longrightarrow> g = cj_note_failed \<or> (\<exists>n. g = cj_note_converted n) \<Longrightarrow>
     balanced (g (cj_note_received now m t))"
  by (auto simp: balanced_def)

section \<open>What the steps keep\<close>

definition cj_shell :: "('c, 'k) cdr_to_json \<Rightarrow> ('c, 'k) cdr_to_json \<Rightarrow> bool" where
  "cj_shell a b \<longleftrightarrow>
     cj_is_active b = cj_is_active a \<and> cj_running b = cj_running a \<and>
     cj_consumer b = cj_consumer a \<and> cj_thread b = cj_thread a"

definition producer_up :: "('c, 'k) cdr_to_json \<Rightarrow> bool" where
  "producer_up s \<longleftrightarrow> (\<exists>p. cj_producer s = Some p \<and> kp_inv p \<and> kp_running p)"

text \<open>What writing parameters leaves alone.\<close>

definition cj_runtime :: "('c, 'k) cdr_to_json \<Rightarrow> ('c, 'k) cdr_to_json \<Rightarrow> bool" where
  "cj_runtime a b \<longleftrightarrow> cj_shell a b \<and> cj_producer b = cj_producer a \<and> cj_cache b = cj_cache a \<and>
     cj_metrics_map b = cj_metrics_map a"

lemma cj_shell_refl [simp]: "cj_shell a a"
  by (simp add: cj_shell_def)

lemma cj_runtime_refl [simp]: "cj_runtime a a"
  by (simp add: cj_runtime_def)

lemma cj_runtime_trans: "cj_runtime a b \<Longrightarrow> cj_runtime b c \<Longrightarrow> cj_runtime a c"
  by (simp add: cj_runtime_def cj_shell_def)

lemma cj_write_param_runtime: "cj_write_param p s = Ret t \<Longrightarrow> cj_runtime s t"
  by (auto simp: cj_write_param_def Let_def exec_bind_Ret_iff cj_runtime_def cj_shell_def
      split: if_split_asm)

lemma cj_write_params_runtime: "cj_write_params ps s = (r, t) \<Longrightarrow> cj_runtime s t"
proof (induction ps arbitrary: s)
  case (Cons p ps)
  show ?case
  proof (cases "cj_write_param p s")
    case (Ret s')
    then show ?thesis
      using Cons cj_write_param_runtime [OF Ret] by (auto intro: cj_runtime_trans)
  qed (use Cons.prems in auto)
qed simp

lemma cj_set_params_runtime: "cj_set_params ps s = (r, t) \<Longrightarrow> cj_runtime s t"
  by (auto simp: cj_set_params_def andthen_def split: if_split_asm prod.split_asm exec.split_asm
      dest: cj_write_params_runtime)

lemma cj_configure_runtime: "cj_configure s = (r, t) \<Longrightarrow> cj_runtime s t"
  by (auto simp: cj_configure_def andthen_def split: prod.split_asm exec.split_asm
      dest: cj_write_params_runtime)

text \<open>The fields that the helpers of a record leave alone.\<close>

lemma cj_count_fields [simp]:
  "cj_shell s (cj_count k f s)" "cj_producer (cj_count k f s) = cj_producer s"
  "cj_cache (cj_count k f s) = cj_cache s"
  by (simp_all add: cj_count_def cj_shell_def split: option.split)

lemma cj_fail_fields [simp]:
  "cj_shell s (cj_fail key clk k s)" "cj_producer (cj_fail key clk k s) = cj_producer s"
  "cj_cache (cj_fail key clk k s) = cj_cache s"
  "cj_metrics_map (cj_fail key clk k s) = cj_metrics_map (cj_count k cj_note_failed s)"
  by (simp_all add: cj_fail_def cj_log_def cj_count_def cj_shell_def split: option.split)

lemma cj_count_cong:
  "cj_metrics_map u = cj_metrics_map s \<Longrightarrow> cj_metrics_map (cj_count k f u) = cj_metrics_map (cj_count k f s)"
  by (simp add: cj_count_def split: option.split)

lemma cj_shell_trans: "cj_shell a b \<Longrightarrow> cj_shell b c \<Longrightarrow> cj_shell a c"
  by (simp add: cj_shell_def)

lemma cj_shell_updates [simp]:
  "cj_shell s (u\<lparr>cj_cache := c\<rparr>) = cj_shell s u" "cj_shell s (u\<lparr>cj_live := n\<rparr>) = cj_shell s u"
  "cj_shell s (u\<lparr>cj_producer := p\<rparr>) = cj_shell s u"
  "cj_shell (s\<lparr>cj_cache := c\<rparr>) u = cj_shell s u" "cj_shell (s\<lparr>cj_live := n\<rparr>) u = cj_shell s u"
  "cj_shell (s\<lparr>cj_producer := p\<rparr>) u = cj_shell s u"
  by (simp_all add: cj_shell_def)

section \<open>A record\<close>

text \<open>A settled record: its entry is counted once more, and the producer is kept or sends once.\<close>

definition settles ::
  "('c, 'k) cj_env \<Rightarrow> string \<Rightarrow> ('c, 'k) cdr_to_json \<Rightarrow> ('c, 'k) cdr_to_json \<Rightarrow> bool" where
  "settles E k s t \<longleftrightarrow> cj_shell s t \<and> (producer_up s \<longrightarrow> producer_up t) \<and>
     (cache_ok (cj_cache s) \<longrightarrow> cache_ok (cj_cache t)) \<and>
     (\<exists>g. (g = cj_note_failed \<or> (\<exists>n. g = cj_note_converted n)) \<and>
        cj_metrics_map t = cj_metrics_map (cj_count k g s))"

lemma cj_fail_settles: "settles E k s (cj_fail key clk k s)"
  by (auto simp: settles_def producer_up_def)

lemma settlesI:
  assumes "cj_shell s t" "producer_up s \<Longrightarrow> producer_up t" "cache_ok (cj_cache s) \<Longrightarrow> cache_ok (cj_cache t)"
    and "g = cj_note_failed \<or> (\<exists>n. g = cj_note_converted n)"
    and "cj_metrics_map t = cj_metrics_map (cj_count k g s)"
  shows "settles E k s t"
  using assms unfolding settles_def by blast

lemma cj_forward_settles: "settles E k s (cj_forward E clk k r s)"
proof (cases "cj_producer s")
  case None
  then show ?thesis by (simp add: cj_forward_def cj_fail_settles)
next
  case (Some p)
  obtain res p' where send: "send (je_rdkafka E) r p = (res, p')" by (cases "send (je_rdkafka E) r p")
  let ?s = "s\<lparr>cj_producer := Some p'\<rparr>"
  have up: "producer_up ?s" if "producer_up s"
    using that Some send_up [OF _ _ send] by (auto simp: producer_up_def)
  have count: "cj_metrics_map (cj_count k g ?s) = cj_metrics_map (cj_count k g s)" for g
    by (rule cj_count_cong) simp
  have same: "producer_up (cj_count k g u) = producer_up u" "producer_up (cj_fail key clk k u) = producer_up u"
    for g key and u :: "('a, 'b) cdr_to_json" by (simp_all add: producer_up_def)
  have shell: "cj_shell s (cj_count k g ?s)" "cj_shell s (cj_fail key clk k ?s)" for g key
    by (rule cj_shell_trans [of s ?s]; simp)+
  have good: "settles E k s (cj_count k (cj_note_converted n) ?s)" for n
    by (rule settlesI [OF _ _ _ _ count]) (use up shell same in auto)
  have bad: "settles E k s (cj_fail key clk k ?s)" for key
    by (rule settlesI [of _ _ cj_note_failed]) (use up shell same count in auto)
  show ?thesis
    using Some send good bad by (simp add: cj_forward_def Let_def)
qed

lemma settles_cong:
  assumes "settles E k u t" "cj_shell s u" "cj_producer u = cj_producer s"
    "cj_metrics_map u = cj_metrics_map s" "cache_ok (cj_cache s) \<Longrightarrow> cache_ok (cj_cache u)"
  shows "settles E k s t"
proof -
  obtain g where "g = cj_note_failed \<or> (\<exists>n. g = cj_note_converted n)"
    "cj_metrics_map t = cj_metrics_map (cj_count k g u)"
    using assms(1) unfolding settles_def by blast
  then show ?thesis
    using assms cj_count_cong [OF assms(4), of k g]
    by (intro settlesI [of _ _ g]) (auto simp: settles_def producer_up_def intro: cj_shell_trans)
qed

lemma cj_convert_settles:
  assumes "cj_convert E clk m s = (Ret (), t)"
  shows "settles E (km_topic m) s t"
proof -
  let ?k = "km_topic m" and ?ty = "ros_type_header m"
  obtain q c where ens: "cj_ensure_type_support (je_typesupport E) ?ty (cj_cache s) = (q, c)"
    by (cases "cj_ensure_type_support (je_typesupport E) ?ty (cj_cache s)")
  from ens show ?thesis
  proof (cases rule: converter_cache.ensure_cases)
    case (missing e)
    then have "t = cj_fail ''type_support'' clk ?k (s\<lparr>cj_cache := c\<rparr>)"
      using assms ens by (simp add: cj_convert_def)
    then show ?thesis
      using missing(2) by (auto intro!: settles_cong [OF cj_fail_settles])
  next
    case (found ts)
    obtain j n where ser: "cj_serialize (je_env E) ts (km_payload m) ?ty (usable_timestamp m) (cj_json s)
        (cj_live s) = (j, n)"
      by (cases "cj_serialize (je_env E) ts (km_payload m) ?ty (usable_timestamp m) (cj_json s)
        (cj_live s)")
    let ?u = "s\<lparr>cj_cache := c, cj_live := n\<rparr>"
    consider json where "j = Ret json" | e where "j = Err e"
      using assms ens found(1) ser by (cases j) (simp_all add: cj_convert_def Let_def)
    then show ?thesis
    proof cases
      case (1 json)
      then have "t = cj_forward E clk ?k (cj_record (map_output_topic (s\<lparr>cj_cache := c\<rparr>) ?k) json
          (usable_timestamp m)) ?u"
        using assms ens found(1) ser by (simp add: cj_convert_def Let_def)
      then show ?thesis using found(4) by (auto intro!: settles_cong [OF cj_forward_settles])
    next
      case (2 e)
      then have "t = cj_fail ''json_serialize'' clk ?k ?u"
        using assms ens found(1) ser by (simp add: cj_convert_def Let_def)
      then show ?thesis using found(4) by (auto intro!: settles_cong [OF cj_fail_settles])
    qed
  qed
qed

text \<open>The entry of the record's topic, opened with balanced counters.\<close>

lemma cj_process_metrics:
  assumes ok: "cj_metrics_ok (cj_metrics_map s)" and pay: "km_payload m \<noteq> []"
    and run: "cj_process E now clk m s = (Ret (), t)"
  obtains e g where "balanced e" "entry_ok (km_topic m) e"
    "g = cj_note_failed \<or> (\<exists>n. g = cj_note_converted n)"
    "cj_metrics_map t = map_assign (km_topic m) (g (cj_note_received now m e)) (cj_metrics_map s)"
    "cj_shell s t" "producer_up s \<Longrightarrow> producer_up t" "cache_ok (cj_cache s) \<Longrightarrow> cache_ok (cj_cache t)"
proof -
  let ?k = "km_topic m" and ?out = "map_output_topic s (km_topic m)"
  let ?s1 = "cj_open_entry ?k ?out (resolved_type m) s"
  let ?s2 = "cj_count ?k (cj_note_received now m) ?s1"
  define e where "e = (case map_of (cj_metrics_map s) ?k of
      None \<Rightarrow> new_cj_metrics ?k ?out (resolved_type m)
    | Some m' \<Rightarrow> m'\<lparr>jm_output_topic := ?out, jm_ros_type := resolved_type m\<rparr>)"
  have s1: "cj_metrics_map ?s1 = map_assign ?k e (cj_metrics_map s)"
    by (simp add: cj_open_entry_def e_def)
  have s2: "cj_metrics_map ?s2 = map_assign ?k (cj_note_received now m e) (cj_metrics_map s)"
    by (simp add: cj_count_def s1 map_of_map_assign)
  have frame: "cj_shell s ?s2" "cj_producer ?s2 = cj_producer s" "cj_cache ?s2 = cj_cache s"
    by (simp_all add: cj_count_def cj_open_entry_def cj_shell_def split: option.split)
  have e: "balanced e" "entry_ok ?k e"
    using ok by (auto simp: e_def cj_metrics_ok_def balanced_def entry_ok_def new_cj_metrics_def
        split: option.split)
  have "settles E ?k ?s2 t"
    using run pay by (auto simp: cj_process_def Let_def split: if_split_asm
        intro: cj_fail_settles cj_convert_settles)
  then obtain g where g: "g = cj_note_failed \<or> (\<exists>n. g = cj_note_converted n)"
    "cj_metrics_map t = cj_metrics_map (cj_count ?k g ?s2)" "cj_shell ?s2 t"
    "producer_up ?s2 \<Longrightarrow> producer_up t" "cache_ok (cj_cache ?s2) \<Longrightarrow> cache_ok (cj_cache t)"
    unfolding settles_def by blast
  have "cj_metrics_map t = map_assign ?k (g (cj_note_received now m e)) (cj_metrics_map s)"
    using g(2) by (simp add: cj_count_def [of _ _ ?s2] s2 map_of_map_assign)
  then show thesis
    using that [of e g] e g(1,3-5) frame cj_shell_trans [OF frame(1) g(3)]
    by (auto simp: producer_up_def)
qed

section \<open>The invariant\<close>

definition cj_inv :: "lc_state \<Rightarrow> ('c, 'k) cdr_to_json \<Rightarrow> bool" where
  "cj_inv st s \<longleftrightarrow>
     cj_is_active s = (st = Active) \<and> cj_running s = (st = Active) \<and>
     cj_consumer s = (st = Active) \<and> cj_thread s = (st = Active) \<and>
     (if st = Active then producer_up s else cj_producer s = None) \<and>
     cache_ok (cj_cache s) \<and> cj_metrics_ok (cj_metrics_map s)"

text \<open>The calls that create the publisher and the timer do not throw.\<close>

definition cj_calm :: "('c, 'k) cj_env \<Rightarrow> bool" where
  "cj_calm E \<longleftrightarrow> (\<forall>n. je_metrics_publisher E n = Ret ()) \<and> (\<forall>ms. je_timer E ms = Ret ())"

text \<open>
  What happens between two lifecycle callbacks.  A round of the consumer thread that throws ends
  the process, so it leads to no state.
\<close>

inductive cj_internal ::
  "('c, 'k) cj_env \<Rightarrow> lc_state \<Rightarrow> ('c, 'k) cdr_to_json \<Rightarrow> ('c, 'k) cdr_to_json \<Rightarrow> bool"
  for E st s where
  ci_round: "cj_poll_round E system_ns clk got w s = (Ret (), t) \<Longrightarrow> cj_internal E st s t"
| ci_set: "cj_set_params ps s = (r, t) \<Longrightarrow> cj_internal E st s t"
| ci_store: "cj_internal E st s (s\<lparr>cj_store := f\<rparr>)"
| ci_time: "cj_internal E st s (s\<lparr>cj_clock := now\<rparr>)"
| ci_metrics: "cj_timer s \<Longrightarrow> cj_publish_metrics E s = (r, t) \<Longrightarrow> cj_internal E st s t"
| ci_producer: "cj_producer s = Some p \<Longrightarrow> e \<in> {Ev_poll_locked, Ev_poll_unlocked, Ev_wake} \<Longrightarrow>
    kp_step (je_rdkafka E) p e p' \<Longrightarrow> cj_internal E st s (s\<lparr>cj_producer := Some p'\<rparr>)"

lemma cj_inv_runtime: "cj_runtime s t \<Longrightarrow> cj_inv st s \<Longrightarrow> cj_inv st t"
  by (auto simp: cj_inv_def cj_runtime_def cj_shell_def producer_up_def)

lemma cj_process_inv:
  assumes inv: "cj_inv Active s" and run: "cj_process E now clk m s = (Ret (), t)"
  shows "cj_inv Active t"
proof (cases "km_payload m = []")
  case True
  then show ?thesis using run inv by (simp add: cj_process_def)
next
  case False
  have ok: "cj_metrics_ok (cj_metrics_map s)" using inv by (simp add: cj_inv_def)
  obtain e g where e: "balanced e" "entry_ok (km_topic m) e"
    and g: "g = cj_note_failed \<or> (\<exists>n. g = cj_note_converted n)"
      "cj_metrics_map t = map_assign (km_topic m) (g (cj_note_received now m e)) (cj_metrics_map s)"
      "cj_shell s t" "producer_up s \<Longrightarrow> producer_up t" "cache_ok (cj_cache s) \<Longrightarrow> cache_ok (cj_cache t)"
    using cj_process_metrics [OF ok False run] by metis
  have "balanced (g (cj_note_received now m e))" by (rule settled_record_balanced [OF e(1) g(1)])
  moreover have "entry_ok (km_topic m) (g (cj_note_received now m e))"
    using g(1) e(2) by auto
  ultimately have "cj_metrics_ok (cj_metrics_map t)"
    using ok unfolding g(2)
    by (auto simp: cj_metrics_ok_def ordered_map_assign map_of_map_assign split: if_split_asm)
  then show ?thesis
    using inv g(3-5) by (simp add: cj_inv_def cj_shell_def)
qed

lemma cj_poll_round_inv:
  assumes inv: "cj_inv st s" and run: "cj_poll_round E now clk got w s = (Ret (), t)"
  shows "cj_inv st t"
proof (cases "cj_running s \<and> cj_consumer s")
  case True
  then have st: "st = Active" using inv by (simp add: cj_inv_def)
  have inv': "cj_inv Active (s\<lparr>cj_world := w\<rparr>)"
    using inv st by (simp add: cj_inv_def producer_up_def)
  have log: "cj_inv Active (cj_log key clk u)" if "cj_inv Active u" for key and u :: "('a, 'b) cdr_to_json"
    using that by (simp add: cj_inv_def cj_log_def producer_up_def)
  show ?thesis
  proof (cases got)
    case (Delivered m)
    then have "cj_process E now clk m (s\<lparr>cj_world := w\<rparr>) = (Ret (), t)"
      using run True by (simp add: cj_poll_round_def)
    then show ?thesis using st cj_process_inv [OF inv'] by simp
  qed (use run True st inv' log [OF inv'] in \<open>auto simp: cj_poll_round_def\<close>)
next
  case False
  then show ?thesis using run inv by (auto simp: cj_poll_round_def)
qed

lemma cj_publish_metrics_inv:
  assumes inv: "cj_inv st s" and run: "cj_publish_metrics E s = (r, t)"
  shows "cj_inv st t"
proof -
  have "cj_metrics_ok (map (\<lambda>(k, t). (k, cj_snapshot t)) ms)" if "cj_metrics_ok ms" for ms
    using that by (auto simp: cj_metrics_ok_def)
  then show ?thesis
    using inv run
    by (auto simp: cj_publish_metrics_def cj_inv_def producer_up_def Let_def
        split: if_split_asm option.split_asm)
qed

subsection \<open>The lifecycle callbacks\<close>

lemma cj_start_consumer_cases:
  assumes "cj_start_consumer E s = (r, t)"
  obtains (opened) w where "r = Ret ()" "t = s\<lparr>cj_world := w, cj_consumer := True\<rparr>"
    | (failed) e w where "r = Err e" "t = s\<lparr>cj_world := w\<rparr>"
proof -
  let ?open = "open_consumer (je_consumer E) (jp_bootstrap_servers (cj_params_of s))
    (jp_group_id (cj_params_of s)) (jp_offset_reset (cj_params_of s))
    (jp_input_topic_pattern (cj_params_of s))"
  obtain q w where o1: "?open (cj_world s) = (q, w)" by (cases "?open (cj_world s)")
  have no: "q \<noteq> Exc e" for e using never_throwsD [OF open_consumer_no_throw] o1 by metis
  show thesis
  proof (cases q)
    case (Ret u)
    then have "r = Ret ()" "t = s\<lparr>cj_world := w, cj_consumer := True\<rparr>"
      using assms o1 by (simp_all add: cj_start_consumer_def Let_def)
    then show thesis by (rule opened)
  next
    case (Err e)
    then have "r = Err e" "t = s\<lparr>cj_world := w\<rparr>"
      using assms o1 by (simp_all add: cj_start_consumer_def Let_def)
    then show thesis by (rule failed)
  qed (use no in simp)
qed

lemma cj_stop_fields [simp]:
  "cj_consumer (cj_stop_consumer E s) = False" "cj_producer (cj_stop_consumer E s) = cj_producer s"
  "cj_is_active (cj_stop_consumer E s) = cj_is_active s"
  "cj_running (cj_stop_consumer E s) = cj_running s"
  "cj_thread (cj_stop_consumer E s) = cj_thread s" "cj_cache (cj_stop_consumer E s) = cj_cache s"
  "cj_metrics_map (cj_stop_consumer E s) = cj_metrics_map s"
  "cj_shell s (cj_stop_producer E s)" "cj_producer (cj_stop_producer E s) = None"
  "cj_cache (cj_stop_producer E s) = cj_cache s"
  "cj_metrics_map (cj_stop_producer E s) = cj_metrics_map s"
  by (simp_all add: cj_stop_consumer_def cj_stop_producer_def cj_shell_def split: option.split)

lemma cj_stop_clients_fields [simp]:
  "cj_consumer (cj_stop_clients E s) = False" "cj_producer (cj_stop_clients E s) = None"
  "cj_is_active (cj_stop_clients E s) = cj_is_active s" "cj_running (cj_stop_clients E s) = False"
  "cj_thread (cj_stop_clients E s) = False" "cj_cache (cj_stop_clients E s) = cj_cache s"
  "cj_metrics_map (cj_stop_clients E s) = cj_metrics_map s"
  using cj_stop_fields(8) [of "cj_stop_consumer E (s\<lparr>cj_running := False, cj_thread := False\<rparr>)" E]
  by (simp_all add: cj_stop_clients_def cj_shell_def)

text \<open>The default configuration is a tolerant one, so the start of the producer does not fail.\<close>

lemma start_tolerant:
  assumes "startup_mode cfg = TOLERANT" "start lib (new_producer cfg w) = (b, p)"
  shows "b \<and> kp_inv p \<and> kp_running p"
proof -
  have b
    using assms
    by (auto simp: start_def start_rest_def create_producer_locked_def new_producer_def
        update_last_error_locked_def split: prod.split_asm sum.split_asm option.split_asm if_split_asm)
  then show ?thesis using start_new [of lib cfg w p] assms(2) by simp
qed

lemma cj_start_producer_up:
  assumes "cj_start_producer E s = (r, t)"
  shows "r = Ret ()" "producer_up t" "cj_shell s t" "cj_cache t = cj_cache s"
    "cj_metrics_map t = cj_metrics_map s"
proof -
  let ?s = "cj_stop_producer E s"
  obtain b p where start: "start (je_rdkafka E) (new_producer (cj_producer_config E ?s) (cj_broker ?s)) = (b, p)"
    by (cases "start (je_rdkafka E) (new_producer (cj_producer_config E ?s) (cj_broker ?s))")
  have "startup_mode (cj_producer_config E ?s) = TOLERANT"
    by (simp add: cj_producer_config_def default_producer_config_def)
  then have b: "b" "kp_inv p" "kp_running p" using start_tolerant [OF _ start] by simp_all
  then have t: "r = Ret ()" "t = ?s\<lparr>cj_producer := Some p\<rparr>"
    using assms start by (simp_all add: cj_start_producer_def Let_def)
  then show "r = Ret ()" "producer_up t" "cj_shell s t" "cj_cache t = cj_cache s"
    "cj_metrics_map t = cj_metrics_map s"
    using b by (simp_all add: producer_up_def)
qed

lemma cj_reset_timer_calm:
  assumes "cj_calm E" "cj_reset_timer E s = (r, t)"
  shows "r = Ret ()" "cj_runtime s t"
  using assms by (auto simp: cj_reset_timer_def cj_calm_def cj_runtime_def cj_shell_def Let_def
      split: if_split_asm)

lemma cj_activate_pub_fields [simp]: "cj_runtime s (cj_activate_pub b s)"
  by (simp add: cj_activate_pub_def cj_runtime_def cj_shell_def)

lemma cj_configure_inv:
  assumes inv: "cj_inv Unconfigured s" and run: "cj_on_configure E s = (r, t)"
    and out: "lc_outcome r Unconfigured Inactive st" and calm: "cj_calm E"
  shows "cj_inv st t"
proof -
  have "st \<noteq> Active" using out by (auto elim: lc_outcomeE)
  moreover have "cj_inv Unconfigured t"
    using run unfolding cj_on_configure_def
  proof (cases rule: attempt_cases)
    case (ok u s')
    have "cj_inv Unconfigured s'" by (rule cj_inv_runtime [OF cj_configure_runtime [OF ok(1)] inv])
    moreover have "t = s' \<or> t = s'\<lparr>cj_metrics_pub := Some False\<rparr>"
      using ok(2) calm by (auto simp: cj_calm_def split: if_split_asm)
    ultimately show ?thesis by (auto simp: cj_inv_def)
  next
    case (err e s')
    then show ?thesis using cj_inv_runtime [OF cj_configure_runtime [OF err(1)] inv] by simp
  next
    case (exc e)
    then show ?thesis using cj_inv_runtime [OF cj_configure_runtime [OF exc(1)] inv] by simp
  qed
  ultimately show ?thesis by (simp add: cj_inv_def)
qed

lemma cj_activate_inv:
  assumes inv: "cj_inv Inactive s" and run: "cj_on_activate E s = (r, t)"
    and out: "lc_outcome r Inactive Active st" and calm: "cj_calm E"
  shows "cj_inv st t"
  using run unfolding cj_on_activate_def
proof (cases rule: attempt_cases)
  case (ok u s1)
  from ok(1) obtain w where s1: "s1 = s\<lparr>cj_world := w, cj_consumer := True\<rparr>"
    by (cases rule: cj_start_consumer_cases) auto
  obtain q s2 where start: "cj_start_producer E s1 = (q, s2)" by (cases "cj_start_producer E s1")
  note up = cj_start_producer_up [OF start]
  let ?s3 = "cj_activate_pub True (s2\<lparr>cj_is_active := True\<rparr>)"
  obtain v s4 where reset: "cj_reset_timer E ?s3 = (v, s4)" by (cases "cj_reset_timer E ?s3")
  note keep = cj_reset_timer_calm [OF calm reset]
  have t: "r = Ret True" "t = s4\<lparr>cj_running := True, cj_thread := True\<rparr>"
    using ok(2) start up(1) reset keep(1) by (simp_all add: attempt_def andthen_def)
  then have st: "st = Active" using out by (auto elim: lc_outcomeE)
  have "cj_runtime (s2\<lparr>cj_is_active := True\<rparr>) s4"
    by (rule cj_runtime_trans [OF _ keep(2)]) simp
  then show ?thesis
    using up inv s1 t(2) st by (simp add: cj_inv_def cj_runtime_def cj_shell_def producer_up_def)
next
  case (err e s1)
  from err(1) obtain w where "s1 = s\<lparr>cj_world := w\<rparr>"
    by (cases rule: cj_start_consumer_cases) auto
  then show ?thesis using err(2) out inv by (auto simp: cj_inv_def elim!: lc_outcomeE)
next
  case (exc e)
  from exc(1) show ?thesis by (cases rule: cj_start_consumer_cases) simp_all
qed

lemma cj_deactivate_inv:
  assumes inv: "cj_inv Active s" and run: "cj_on_deactivate E s = (r, t)"
    and out: "lc_outcome r Active Inactive st" and calm: "cj_calm E"
  shows "cj_inv st t"
proof -
  let ?s1 = "(cj_stop_clients E s)\<lparr>cj_is_active := False\<rparr>"
  obtain q s2 where reset: "cj_reset_timer E ?s1 = (q, s2)" by (cases "cj_reset_timer E ?s1")
  note keep = cj_reset_timer_calm [OF calm reset]
  have t: "r = Ret True" "t = cj_activate_pub False s2"
    using run reset keep(1) by (simp_all add: cj_on_deactivate_def andthen_def)
  then have "st = Inactive" using out by (auto elim: lc_outcomeE)
  moreover have "cj_runtime ?s1 t" unfolding t(2) by (rule cj_runtime_trans [OF keep(2)]) simp
  ultimately show ?thesis
    using inv by (simp add: cj_inv_def cj_runtime_def cj_shell_def)
qed

lemma cj_stop_inv:
  assumes "cj_inv st0 s" "lc_outcome r st0 goal st" "goal \<noteq> Active"
    "cj_on_cleanup E s = (r, t) \<or> cj_on_shutdown E s = (r, t)"
  shows "cj_inv st t"
proof -
  have "r = Ret True" using assms(4) by (auto simp: cj_on_cleanup_def cj_on_shutdown_def)
  then have "st = goal" using assms(2) by (auto elim: lc_outcomeE)
  moreover have "cj_inv goal t"
    using assms(1,3,4)
    by (auto simp: cj_inv_def cj_on_cleanup_def cj_on_shutdown_def cache_ok_def cj_metrics_ok_def)
  ultimately show ?thesis by simp
qed

lemma cj_internal_inv:
  assumes inv: "cj_inv st s" and step: "cj_internal E st s t"
  shows "cj_inv st t"
  using step
proof cases
  case ci_round
  show ?thesis by (rule cj_poll_round_inv [OF inv ci_round])
next
  case ci_set
  show ?thesis by (rule cj_inv_runtime [OF cj_set_params_runtime [OF ci_set] inv])
next
  case ci_store
  then show ?thesis using cj_inv_runtime [OF _ inv, of t] by (simp add: cj_runtime_def cj_shell_def)
next
  case ci_time
  then show ?thesis using cj_inv_runtime [OF _ inv, of t] by (simp add: cj_runtime_def cj_shell_def)
next
  case ci_metrics
  show ?thesis by (rule cj_publish_metrics_inv [OF inv ci_metrics(2)])
next
  case (ci_producer p e p')
  have st: "st = Active" using inv ci_producer(2) by (auto simp: cj_inv_def split: if_split_asm)
  then have p: "kp_inv p" "kp_running p" using inv ci_producer(2) by (simp_all add: cj_inv_def producer_up_def)
  have "kp_inv p' \<and> kp_running p'" by (rule poll_step_up [OF p ci_producer(4,3)])
  then show ?thesis using inv st ci_producer(1) by (simp add: cj_inv_def producer_up_def)
qed

lemma cj_inv_new: "cj_inv Unconfigured (new_cdr_to_json ov w k)"
  by (simp add: cj_inv_def new_cdr_to_json_def cache_ok_def cj_metrics_ok_def)

lemma cdr_to_json_node_simps [simp]:
  "on_configure (cdr_to_json_node E) = cj_on_configure E"
  "on_activate (cdr_to_json_node E) = cj_on_activate E"
  "on_deactivate (cdr_to_json_node E) = cj_on_deactivate E"
  "on_cleanup (cdr_to_json_node E) = cj_on_cleanup E"
  "on_shutdown (cdr_to_json_node E) = cj_on_shutdown E"
  by (simp_all add: cdr_to_json_node_def)

interpretation cdr_to_json: managed_node "cdr_to_json_node E" "cj_internal E"
  "\<lambda>s. \<exists>ov w k. s = new_cdr_to_json ov w k" "\<lambda>st s. cj_calm E \<longrightarrow> cj_inv st s" for E
proof (unfold_locales, unfold cdr_to_json_node_simps)
  show "cj_calm E \<longrightarrow> cj_inv Unconfigured s" if "\<exists>ov w k. s = new_cdr_to_json ov w k" for s
    using that by (auto intro: cj_inv_new)
  show "cj_calm E \<longrightarrow> cj_inv st t"
    if "cj_calm E \<longrightarrow> cj_inv Unconfigured s" "cj_on_configure E s = (r, t)"
      "lc_outcome r Unconfigured Inactive st" for s r t st
    using that by (blast intro: cj_configure_inv)
  show "cj_calm E \<longrightarrow> cj_inv st t"
    if "cj_calm E \<longrightarrow> cj_inv Inactive s" "cj_on_activate E s = (r, t)"
      "lc_outcome r Inactive Active st" for s r t st
    using that by (blast intro: cj_activate_inv)
  show "cj_calm E \<longrightarrow> cj_inv st t"
    if "cj_calm E \<longrightarrow> cj_inv Active s" "cj_on_deactivate E s = (r, t)"
      "lc_outcome r Active Inactive st" for s r t st
    using that by (blast intro: cj_deactivate_inv)
  show "cj_calm E \<longrightarrow> cj_inv st t"
    if "cj_calm E \<longrightarrow> cj_inv Inactive s" "cj_on_cleanup E s = (r, t)"
      "lc_outcome r Inactive Unconfigured st" for s r t st
    using that cj_stop_inv [OF _ that(3)] by blast
  show "cj_calm E \<longrightarrow> cj_inv st t"
    if "cj_calm E \<longrightarrow> cj_inv st0 s" "st0 \<noteq> Finalized" "cj_on_shutdown E s = (r, t)"
      "lc_outcome r st0 Finalized st" for st0 s r t st
    using that cj_stop_inv [OF _ that(4)] by blast
  show "cj_calm E \<longrightarrow> cj_inv st t"
    if "cj_calm E \<longrightarrow> cj_inv st s" "cj_internal E st s t" for st s t
    using that by (blast intro: cj_internal_inv)
qed

section \<open>Properties\<close>

definition sample_cj_env :: "(unit, produce_call list) cj_env" where
  "sample_cj_env =
     \<lparr>je_consumer = sample_consumer_lib, je_rdkafka = sample_rdkafka True 5,
      je_node_name = ''kafka_cdr_to_json'', je_typesupport = sample_typesupport,
      je_env = sample_json_env True, je_metrics_publisher = (\<lambda>_. Ret ()), je_timer = (\<lambda>_. Ret ()),
      je_order = (\<lambda>ms. ms)\<rparr>"

definition sample_cj :: "(unit, produce_call list) cdr_to_json" where
  "sample_cj = new_cdr_to_json (\<lambda>_. None) () []"

definition sample_cj_configured :: "(unit, produce_call list) cdr_to_json" where
  "sample_cj_configured = snd (cj_on_configure sample_cj_env sample_cj)"

definition sample_cj_active :: "(unit, produce_call list) cdr_to_json" where
  "sample_cj_active = snd (cj_on_activate sample_cj_env sample_cj_configured)"

definition sample_cj_message :: kafka_message where
  "sample_cj_message =
     \<lparr>km_topic = ''ros2.odom'', km_payload = [1, 2, 3], km_headers = [(''ros_type'', ''T'')],
      km_timestamp = Some 1\<rparr>"

definition sample_cj_polled :: "(unit, produce_call list) cdr_to_json" where
  "sample_cj_polled =
     snd (cj_poll_round sample_cj_env 9000000 5 (Delivered sample_cj_message) () sample_cj_active)"

lemma sample_cj_reachable:
  "lc_reachable (cdr_to_json_node sample_cj_env) (cj_internal sample_cj_env)
     (\<lambda>s. \<exists>ov w k. s = new_cdr_to_json ov w k) (Active, sample_cj_polled)"
proof -
  let ?E = sample_cj_env
  let ?M = "cdr_to_json_node ?E" and ?I = "cj_internal ?E"
  let ?R = "lc_reachable ?M ?I (\<lambda>s. \<exists>ov w k. s = new_cdr_to_json ov w k)"
  have "fst (cj_on_configure ?E sample_cj) = Ret True" by code_simp
  then have c: "cj_on_configure ?E sample_cj = (Ret True, sample_cj_configured)"
    by (metis prod.collapse sample_cj_configured_def)
  have "fst (cj_on_activate ?E sample_cj_configured) = Ret True" by code_simp
  then have a: "cj_on_activate ?E sample_cj_configured = (Ret True, sample_cj_active)"
    by (metis prod.collapse sample_cj_active_def)
  have "fst (cj_poll_round ?E 9000000 5 (Delivered sample_cj_message) () sample_cj_active) = Ret ()"
    by code_simp
  then have p: "cj_poll_round ?E 9000000 5 (Delivered sample_cj_message) () sample_cj_active =
      (Ret (), sample_cj_polled)"
    by (metis prod.collapse sample_cj_polled_def)
  have "?R (Unconfigured, sample_cj)" by (rule lc_start) (auto simp: sample_cj_def)
  moreover have "lc_step ?M ?I (Unconfigured, sample_cj) (Inactive, sample_cj_configured)"
    by (rule lc_configure [of _ _ "Ret True"]) (simp_all add: c lc_outcome.intros)
  moreover have "lc_step ?M ?I (Inactive, sample_cj_configured) (Active, sample_cj_active)"
    by (rule lc_activate [of _ _ "Ret True"]) (simp_all add: a lc_outcome.intros)
  moreover have "lc_step ?M ?I (Active, sample_cj_active) (Active, sample_cj_polled)"
    by (rule lc_internal) (rule ci_round [OF p])
  ultimately show ?thesis by (blast intro: lc_next)
qed



text \<open>
  C25: The text sent for a record is the dump of one JSON object: it holds an entry per member of
  the message type and, as configured, the type and the Kafka time of the record (null when it has
  none), and no other entry; no number in it, at any depth, is infinite or not a number; the
  message allocated for it is freed.
\<close>

theorem converted_json_describes_the_record:
  assumes run: "cj_serialize E ts bytes ty time j live = (Ret out, live')"
    and members: "ts_members ts = Some (Members sz ms)"
    and plain: "''__ros_type'' \<notin> member_name ` set ms" "''__kafka_timestamp_ms'' \<notin> member_name ` set ms"
  shows "live' = live \<and> (\<exists>obj. jl_dump (je_json E) (JObj obj) = Some out \<and> ordered_map obj \<and>
    json_finite (JObj obj) \<and>
    fst ` set obj = member_name ` set ms \<union> (if jj_include_ros_type j then {''__ros_type''} else {}) \<union>
      (if jj_include_timestamp j then {''__kafka_timestamp_ms''} else {}) \<and>
    map_of obj ''__ros_type'' = (if jj_include_ros_type j then Some (JStr ty) else None) \<and>
    map_of obj ''__kafka_timestamp_ms'' = (if jj_include_timestamp j then Some (json_time time) else None))"
proof -
  obtain mem where pay: "cj_payload E mem (Members sz ms) ty time j = Ret out" and live: "live' = live"
    using run members by (auto simp: cj_serialize_def split: if_split_asm option.split_asm exec.split_asm)
  from pay obtain p where msg: "build_json_message mem (Members sz ms) (je_malloc E sz) = Ret p"
    by (auto simp: cj_payload_def exec_bind_Ret_iff cj_walk.message_is_the_reference)
  obtain m where m: "p = JObj m" "ordered_map m" "fst ` set m = member_name ` set ms"
    using message_keys [OF msg] by metis
  have fin: "json_finite (JObj m)" using message_finite [OF msg] m(1) by simp
  define m1 where "m1 = (if jj_include_ros_type j then map_assign ''__ros_type'' (JStr ty) m else m)"
  define m2 where "m2 = (if jj_include_timestamp j
    then map_assign ''__kafka_timestamp_ms'' (json_time time) m1 else m1)"
  have dump: "jl_dump (je_json E) (JObj m2) = Some out"
    using pay msg m(1) by (auto simp: cj_payload_def cj_walk.message_is_the_reference exec_bind_Ret_iff
        json_assign_if_def json_assign_def
        m1_def m2_def or_throw_def split: option.split_asm if_split_asm)
  have assign: "json_finite (JObj (map_assign k v x))" if "json_finite (JObj x)" "json_finite v"
    for k v and x :: "(string \<times> json) list"
    using that by (induction k v x rule: map_assign.induct) auto
  have time: "json_finite (json_time time)" by (simp add: json_time_def split: option.split)
  have "json_finite (JObj m1)" unfolding m1_def using fin assign by simp
  then have fin2: "json_finite (JObj m2)" unfolding m2_def using assign [OF _ time] by simp
  have ord: "ordered_map m2" using m(2) by (simp add: m1_def m2_def ordered_map_assign)
  have none: "map_of m ''__ros_type'' = None" "map_of m ''__kafka_timestamp_ms'' = None"
    using plain m(3) by (simp_all add: map_of_eq_None_iff)
  show ?thesis
    using live dump fin2 ord none m(3)
    by (intro conjI exI [of _ m2]) (auto simp: m1_def m2_def keys_map_assign map_of_map_assign)
qed

theorem converted_json_describes_the_record_witness:
  "\<exists>obj. jl_dump (je_json (sample_json_env True)) (JObj obj) = Some ''{}'' \<and>
     map_of obj ''__ros_type'' = Some (JStr ''T'') \<and> map_of obj ''__kafka_timestamp_ms'' = Some JNull"
proof -
  let ?run = "cj_serialize (sample_json_env True) sample_support [] ''T'' None default_json_params 0"
  have "fst ?run = Ret ''{}''" by code_simp
  then have run: "?run = (Ret ''{}'', snd ?run)" by (metis prod.collapse)
  have members: "ts_members sample_support = Some (Members 48
      [Member ''point'' (ROS_TYPE_MESSAGE (Some sample_point)) 16 False 0 None None,
       Member ''id'' ROS_TYPE_INT8 0 False 0 None None, Member ''data'' ROS_TYPE_UINT8 1 True 3 None None])"
    by (simp add: sample_support_def sample_message_def)
  show ?thesis
    using converted_json_describes_the_record [OF run members]
    by (auto simp: default_json_params_def json_time_def)
qed

end
