(* ===== verification/Pipelines.thy ===== *)
theory Pipelines
  imports Kafka_Sink_Properties Kafka_Source_Properties Cdr_To_Json_Properties
begin

text \<open>
  The nodes of the Kafka bridge together: the names a ROS topic has on its way through Kafka, and a
  message that kafka_sink sends and kafka_source publishes again.

  The interface \<open>topic_codec\<close> is what the nodes rely on: a name given to a topic on one side is taken
  apart on the other.
\<close>

section \<open>Topic names\<close>

locale topic_codec =
  fixes encode :: "string \<Rightarrow> string" and decode :: "string \<Rightarrow> string" and base :: string
    and valid :: "string \<Rightarrow> bool"
  assumes round_trip: "valid t \<Longrightarrow> decode (encode t) = base @ t"
begin

lemma encode_inj: "valid t \<Longrightarrow> valid u \<Longrightarrow> encode t = encode u \<Longrightarrow> t = u"
  by (metis round_trip same_append_eq)

end

text \<open>
  An absolute ROS topic name: segments without dots behind single slashes, and no slash at the end.
\<close>

definition single_slashes :: "string \<Rightarrow> bool" where
  "single_slashes = successively (\<lambda>a b. \<not> (a = CHR ''/'' \<and> b = CHR ''/''))"

definition ros_topic_name :: "string \<Rightarrow> bool" where
  "ros_topic_name t \<longleftrightarrow>
     (\<exists>rest. t = CHR ''/'' # rest \<and> rest \<noteq> [] \<and> last rest \<noteq> CHR ''/'') \<and>
     CHR ''.'' \<notin> set t \<and> single_slashes t"

text \<open>The parameters of a sink that kafka_source understands: the prefix mode with the ros2 prefix.\<close>

definition ros2_parameters :: "kafka_parameters \<Rightarrow> bool" where
  "ros2_parameters p \<longleftrightarrow>
     par_mapping_mode p = PREFIX_ROS_TOPIC \<and> par_topic_prefix p \<in> {''ros2'', ''ros2.''}"

lemma collapse_single: "single_slashes s \<Longrightarrow> collapse_slashes s = s"
  unfolding single_slashes_def by (induction s rule: collapse_slashes.induct) auto

lemma single_slashes_append:
  "single_slashes (a @ b) \<longleftrightarrow> single_slashes a \<and> single_slashes b \<and>
     (a = [] \<or> b = [] \<or> \<not> (last a = CHR ''/'' \<and> hd b = CHR ''/''))"
  by (auto simp: single_slashes_def successively_append_iff)

lemma source_prefix_sound:
  assumes "single_slashes pre"
  shows "single_slashes (source_prefix pre)"
    and "source_prefix pre = [] \<or> last (source_prefix pre) \<noteq> CHR ''/''"
proof -
  define q where "q = (if pre \<noteq> [] \<and> last pre = CHR ''/'' then butlast pre else pre)"
  have split: "pre = q \<and> (q = [] \<or> last q \<noteq> CHR ''/'') \<or> pre = q @ ''/''"
  proof (cases "pre \<noteq> [] \<and> last pre = CHR ''/''")
    case True
    then show ?thesis using append_butlast_last_id [of pre] by (simp add: q_def)
  qed (auto simp: q_def)
  have q: "single_slashes q"
    using split assms by (auto simp: single_slashes_append)
  have no_end: "q = [] \<or> last q \<noteq> CHR ''/''"
    using split assms by (auto simp: single_slashes_append)
  have sp: "source_prefix pre = (if q \<noteq> [] \<and> hd q \<noteq> CHR ''/'' then CHR ''/'' # q else q)"
    by (simp add: source_prefix_def q_def Let_def)
  have "single_slashes (''/'' @ q)" if "q \<noteq> []" "hd q \<noteq> CHR ''/''"
    using that q by (cases q) (simp_all add: single_slashes_def)
  then show "single_slashes (source_prefix pre)" using sp q by simp
  show "source_prefix pre = [] \<or> last (source_prefix pre) \<noteq> CHR ''/''"
    using sp no_end by auto
qed

lemma map_ros2_topic:
  assumes "ros2_parameters p" "t = CHR ''/'' # rest" "rest \<noteq> []"
  shows "map_kafka_topic p t = ''ros2.'' @ replace_char (CHR ''/'') (CHR ''.'') rest"
  using assms by (auto simp: map_kafka_topic_def ros2_parameters_def Let_def)

lemma derive_mapped_topic:
  assumes p: "ros2_parameters p" and t: "ros_topic_name t" and pre: "single_slashes pre"
  shows "derive_ros_topic pre (map_kafka_topic p t) = source_prefix pre @ t"
proof -
  obtain rest where rest: "t = CHR ''/'' # rest" "rest \<noteq> []" "last rest \<noteq> CHR ''/''"
    using t by (auto simp: ros_topic_name_def)
  let ?b = "source_prefix pre"
  have no_dot: "CHR ''.'' \<notin> set rest" using t rest(1) by (simp add: ros_topic_name_def)
  have name: "map_kafka_topic p t = ''ros2.'' @ replace_char (CHR ''/'') (CHR ''.'') rest"
    by (rule map_ros2_topic [OF p rest(1,2)])
  have suffix: "replace_char (CHR ''.'') (CHR ''/'') (replace_char (CHR ''/'') (CHR ''.'') rest) = rest"
    by (rule replace_char_back [OF no_dot])
  have "single_slashes (?b @ t)"
    using t source_prefix_sound [OF pre] by (auto simp: single_slashes_append ros_topic_name_def)
  then have collapse: "collapse_slashes (?b @ ''/'' @ rest) = ?b @ t"
    using collapse_single [of "?b @ t"] rest(1) by simp
  have last: "last (?b @ t) \<noteq> CHR ''/''" using rest by simp
  have starts: "starts_with ''ros2.'' (map_kafka_topic p t)" unfolding name by (rule starts_with_append)
  have drop: "drop 5 (map_kafka_topic p t) = replace_char (CHR ''/'') (CHR ''.'') rest"
    unfolding name by simp
  show ?thesis
    unfolding derive_ros_topic_def using starts
    by (simp only: drop suffix collapse Let_def if_True) (use rest last in simp)
qed

interpretation kafka_names: topic_codec "map_kafka_topic p" "derive_ros_topic pre" "source_prefix pre"
  "\<lambda>t. ros_topic_name t \<and> ros2_parameters p \<and> single_slashes pre" for p pre
  by unfold_locales (simp add: derive_mapped_topic)

text \<open>The same through kafka_cdr_to_json with its default output prefix and no mappings.\<close>

definition json_defaults :: "('c, 'k) cdr_to_json \<Rightarrow> bool" where
  "json_defaults s \<longleftrightarrow>
     jp_output_topic_prefix (cj_params_of s) = ''ros2_json'' \<and> cj_mappings s = Map.empty"

lemma json_output_topic:
  "json_defaults s \<Longrightarrow> k \<noteq> [] \<Longrightarrow> map_output_topic s k = ''ros2_json.'' @ k"
  by (simp add: map_output_topic_def json_defaults_def Let_def)

lemma mapped_topic_nonempty:
  "ros_topic_name t \<Longrightarrow> ros2_parameters p \<Longrightarrow> map_kafka_topic p t \<noteq> []"
  using map_ros2_topic by (auto simp: ros_topic_name_def)

interpretation json_names: topic_codec "\<lambda>t. map_output_topic s (map_kafka_topic p t)"
  "\<lambda>k. derive_ros_topic pre (drop 10 k)" "source_prefix pre"
  "\<lambda>t. ros_topic_name t \<and> ros2_parameters p \<and> single_slashes pre \<and> json_defaults s" for s p pre
proof unfold_locales
  fix t
  assume t: "ros_topic_name t \<and> ros2_parameters p \<and> single_slashes pre \<and> json_defaults s"
  then have "map_output_topic s (map_kafka_topic p t) = ''ros2_json.'' @ map_kafka_topic p t"
    by (simp add: json_output_topic mapped_topic_nonempty)
  then show "derive_ros_topic pre (drop 10 (map_output_topic s (map_kafka_topic p t))) =
      source_prefix pre @ t"
    using t by (simp add: derive_mapped_topic)
qed

section \<open>A message through both bridges\<close>

text \<open>What a consumer reads of a record that was produced.\<close>

definition delivered :: "produce_call \<Rightarrow> kafka_message" where
  "delivered c =
     \<lparr>km_topic = pc_topic c, km_payload = pc_payload c, km_headers = pc_headers c,
      km_timestamp = Some (pc_timestamp c)\<rparr>"

text \<open>A running producer hands a record over at once, whatever it may hold back.\<close>

lemma send_accepted:
  assumes "kp_running p" "kp_producer p"
    and "rk_produce lib (produce_call_of r) (kp_world p) = (ERR_NO_ERROR, w)"
  shows "res_status (fst (send lib r p)) = SENT \<and> kp_world (snd (send lib r p)) = w"
  using assms by (simp add: send_def try_produce_locked_def Let_def)

lemma process_typed_message:
  assumes "km_payload m \<noteq> []" "ros_type_header m \<noteq> []"
    and ts: "fst (ensure_type_support (ce_typesupport C) (ros_type_header m) (so_cache s)) = Ret ts"
    and pub: "fst (get_or_create_publisher C (ros_topic_for s (km_topic m)) (ros_type_header m) s) = Ret True"
  shows "fst (process_message C now clk m s) = Ret () \<and>
    so_published (snd (process_message C now clk m s)) =
      so_published s @ [(ros_topic_for s (km_topic m), ros_type_header m, km_payload m)]"
proof -
  let ?topic = "ros_topic_for s (km_topic m)" and ?ty = "ros_type_header m"
  obtain c where c: "ensure_type_support (ce_typesupport C) ?ty (so_cache s) = (Ret ts, c)"
    using ts by (cases "ensure_type_support (ce_typesupport C) ?ty (so_cache s)") simp
  define u where "u = (update_metrics ?topic ?ty (note_record now m) s)\<lparr>so_cache := c\<rparr>"
  have same: "so_publishers u = so_publishers s" "so_qos_depth u = so_qos_depth s"
    "so_published u = so_published s" by (simp_all add: u_def)
  have "fst (get_or_create_publisher C ?topic ?ty u) = Ret True"
    using pub same by (auto simp: get_or_create_publisher_def split: option.split_asm exec.split_asm)
  then obtain v where v: "get_or_create_publisher C ?topic ?ty u = (Ret True, v)"
    by (cases "get_or_create_publisher C ?topic ?ty u") simp
  have "process_message C now clk m s = deliver_record C clk ?topic ?ty (km_payload m) u"
    using assms(1,2) c by (simp add: process_message_def Let_def u_def)
  then show ?thesis
    using v get_or_create_publisher_frame [OF v] same by (simp add: deliver_record_def)
qed

section \<open>Properties\<close>

text \<open>
  C16: With the parameters that kafka_source understands, the Kafka topic kafka_sink chooses for an
  absolute ROS topic leads kafka_source back to that topic under its own prefix, for every prefix
  without double slashes.
\<close>

theorem kafka_topic_round_trip:
  assumes "ros2_parameters p" "ros_topic_name t" "single_slashes pre"
  shows "derive_ros_topic pre (map_kafka_topic p t) = source_prefix pre @ t"
  using assms by (intro kafka_names.round_trip) simp

theorem kafka_topic_round_trip_witness:
  "derive_ros_topic ''/decoded/'' (map_kafka_topic default_kafka_parameters ''/robot/odom'') = ''/decoded/robot/odom''"
proof -
  have "ros2_parameters default_kafka_parameters" by code_simp
  moreover have "ros_topic_name ''/robot/odom''" by (simp add: ros_topic_name_def single_slashes_def)
  moreover have "single_slashes ''/decoded/''" by code_simp
  moreover have "source_prefix ''/decoded/'' @ ''/robot/odom'' = ''/decoded/robot/odom''" by code_simp
  ultimately show ?thesis using kafka_topic_round_trip by metis
qed

text \<open>
  C1: A message that an active kafka_sink handles in the CDR format is published by kafka_source
  with the same bytes and type, on the same topic below the source's prefix: if the broker takes
  the record, the sink produces exactly one, and the source that reads it publishes exactly one
  message.
\<close>

theorem bridge_carries_the_message:
  assumes sink: "ks_is_active s" "ks_producer s = Some q" "kp_running q" "kp_producer q"
      "i < length (ks_active s)" "sub_matches p c (ks_active s ! i)"
    and config: "ros2_parameters p" "par_payload_format p = CDR" "sc_kafka_name c = None"
      "ros_topic_name (sc_topic_name c)" "sc_msg_type c \<noteq> []"
    and run: "on_message S i clk msg s = (Ret (), t)" "msg \<noteq> []"
    and broker: "\<And>call. rk_produce (se_rdkafka S) call (kp_world q) = (ERR_NO_ERROR, kp_world q @ [call])"
    and source: "so_mappings u = Map.empty" "single_slashes (so_prefix u)"
      "fst (ensure_type_support (ce_typesupport C) (sc_msg_type c) (so_cache u)) = Ret ts"
      "fst (get_or_create_publisher C (source_prefix (so_prefix u) @ sc_topic_name c)
         (sc_msg_type c) u) = Ret True"
  shows "\<exists>call. map_option kp_world (ks_producer t) = Some (kp_world q @ [call]) \<and>
    fst (process_message C now clock_ns (delivered call) u) = Ret () \<and>
    so_published (snd (process_message C now clock_ns (delivered call) u)) =
      so_published u @ [(source_prefix (so_prefix u) @ sc_topic_name c, sc_msg_type c, msg)]"
proof -
  let ?rt = "as_runtime (ks_active s ! i)"
  let ?call = "produce_call_of (record_of ?rt clk msg)"
  have rt: "rt_kafka_topic ?rt = map_kafka_topic p (sc_topic_name c)" "rt_msg_type ?rt = sc_msg_type c"
    "rt_payload_format ?rt = CDR"
    using sink(6) config(2,3) by (cases "rt_payload_format ?rt"; simp add: sub_matches_def kafka_name_of_def)+
  have enc: "encode_payload J ?rt clk msg live = (Ret msg, live)" for J live
    using rt(3) by (simp add: encode_payload_def)
  have "ks_producer t = Some (snd (send (se_rdkafka S) (record_of ?rt clk msg) q))"
    using run(1)
    by (cases rule: on_message_cases) (use sink enc in \<open>auto simp: set_runtime_def\<close>)
  then have world: "map_option kp_world (ks_producer t) = Some (kp_world q @ [?call])"
    using send_accepted [OF sink(3,4) broker] by simp
  have call: "km_topic (delivered ?call) = map_kafka_topic p (sc_topic_name c)"
    "km_payload (delivered ?call) = msg" "ros_type_header (delivered ?call) = sc_msg_type c"
    by (simp_all add: delivered_def produce_call_of_def record_of_def rt ros_type_header_def)
  have topic: "ros_topic_for u (map_kafka_topic p (sc_topic_name c)) =
      source_prefix (so_prefix u) @ sc_topic_name c"
    using source(1,2) config(1,4) by (simp add: ros_topic_for_def derive_mapped_topic)
  show ?thesis
    using process_typed_message [of "delivered ?call" C u ts now clock_ns] world source(3,4) run(2)
      config(5) by (auto simp: call topic)
qed

definition sample_odom :: sub_config where
  "sample_odom = \<lparr>sc_topic_name = ''/odom'', sc_msg_type = ''nav_msgs/msg/Odometry'',
     sc_kafka_name = None, sc_kafka_key = None\<rparr>"

theorem bridge_carries_the_message_witness:
  "\<exists>call. map_option kp_world (ks_producer (snd (on_message (sample_sink_env False) 0 sample_clock
        [1, 2] (sample_active False 1000)))) = Some [call] \<and>
     so_published (snd (process_message sample_source_env 0 0 (delivered call) sample_source_active)) =
       [(''/kafka_decoded/odom'', ''nav_msgs/msg/Odometry'', [1, 2])]"
proof -
  let ?s = "sample_active False 1000" and ?S = "sample_sink_env False" and ?C = sample_source_env
  let ?u = sample_source_active and ?t = "snd (on_message ?S 0 sample_clock [1, 2] ?s)"
  have active: "ks_is_active ?s" "0 < length (ks_active ?s)" by code_simp+
  have "map_option (\<lambda>q. (kp_running q, kp_producer q, kp_world q)) (ks_producer ?s) = Some (True, True, [])"
    by code_simp
  then obtain q where q: "ks_producer ?s = Some q" "kp_running q" "kp_producer q" "kp_world q = []" by auto
  have sub: "sub_matches default_kafka_parameters sample_odom (ks_active ?s ! 0)" by code_simp
  have config: "ros2_parameters default_kafka_parameters" "par_payload_format default_kafka_parameters = CDR"
    "sc_kafka_name sample_odom = None" "sc_msg_type sample_odom \<noteq> []" by code_simp+
  have name: "ros_topic_name (sc_topic_name sample_odom)"
    by (simp add: ros_topic_name_def single_slashes_def sample_odom_def)
  have "fst (on_message ?S 0 sample_clock [1, 2] ?s) = Ret ()" by code_simp
  then have run: "on_message ?S 0 sample_clock [1, 2] ?s = (Ret (), ?t)" by (metis prod.collapse)
  have broker: "rk_produce (se_rdkafka ?S) call (kp_world q) = (ERR_NO_ERROR, kp_world q @ [call])" for call
    by (simp add: sample_sink_env_def q(4))
  have maps: "so_mappings ?u = Map.empty"
    by (rule ext) code_simp
  have prefix: "single_slashes (so_prefix ?u)" by code_simp
  have fresh: "Option.is_none (so_cache ?u ty)" for ty by code_simp
  have ts: "fst (ensure_type_support (ce_typesupport ?C) (sc_msg_type sample_odom) (so_cache ?u)) =
      Ret \<lparr>ts_rmw = True, ts_introspection = True, ts_members = Some sample_message\<rparr>"
    using fresh [of "''nav_msgs/msg/Odometry''"] by (simp add: Option.is_none_def ensure_type_support_def
        find_type_support_def sample_source_env_def sample_typesupport_def sample_odom_def)
  have pub: "fst (get_or_create_publisher ?C (source_prefix (so_prefix ?u) @ sc_topic_name sample_odom)
      (sc_msg_type sample_odom) ?u) = Ret True"
    by code_simp
  have val: "so_published ?u = []" "source_prefix (so_prefix ?u) @ sc_topic_name sample_odom = ''/kafka_decoded/odom''"
    "sc_msg_type sample_odom = ''nav_msgs/msg/Odometry''"
    by code_simp+
  show ?thesis
    using bridge_carries_the_message [OF active(1) q(1-3) active(2) sub config(1-3) name config(4) run _
        broker maps prefix ts pub, of 0 0] q(4)
    unfolding val by auto
qed

text \<open>
  C39: With its default settings kafka_cdr_to_json writes the records of different ROS topics to
  different Kafka topics, and never to one that begins with ros2. and so matches the pattern from
  which it and kafka_source read by default.
\<close>

theorem json_topics_stay_apart:
  assumes "json_defaults s" "ros2_parameters p" "ros_topic_name t" "ros_topic_name u"
  shows "(map_output_topic s (map_kafka_topic p t) = map_output_topic s (map_kafka_topic p u)) = (t = u) \<and>
    \<not> starts_with ''ros2.'' (map_output_topic s (map_kafka_topic p t))"
proof
  have "single_slashes []" by (simp add: single_slashes_def)
  then show "(map_output_topic s (map_kafka_topic p t) = map_output_topic s (map_kafka_topic p u)) = (t = u)"
    using json_names.encode_inj [of t p "[]" s u] assms by blast
  show "\<not> starts_with ''ros2.'' (map_output_topic s (map_kafka_topic p t))"
    using json_output_topic [OF assms(1) mapped_topic_nonempty [OF assms(3,2)]]
    by (simp add: starts_with_def)
qed

theorem json_topics_stay_apart_witness:
  "map_output_topic (new_cdr_to_json (\<lambda>_. None) () ()) (map_kafka_topic default_kafka_parameters ''/a/b'') \<noteq>
     map_output_topic (new_cdr_to_json (\<lambda>_. None) () ()) (map_kafka_topic default_kafka_parameters ''/a_b'')"
proof -
  have "json_defaults (new_cdr_to_json (\<lambda>_. None) () ())"
    by (simp add: json_defaults_def new_cdr_to_json_def default_cj_params_def)
  moreover have "ros2_parameters default_kafka_parameters" by code_simp
  moreover have "ros_topic_name ''/a/b''" "ros_topic_name ''/a_b''"
    by (simp_all add: ros_topic_name_def single_slashes_def)
  ultimately show ?thesis using json_topics_stay_apart by force
qed

end
