(* ===== verification/Gis_Health.thy ===== *)
theory Gis_Health
  imports Kafka_Producer Message_Json Lifecycle Percentile
begin

text \<open>
  gis_health_node: the managed node that registers a list of robots with a Kafka topic and then
  sends a ping for each of them periodically
  (kafka_bridge/gis_health_node/src/gis_health_node.cpp).
\<close>

section \<open>State\<close>

record gis_params =
  gp_bootstrap_servers :: string
  gp_client_id :: string
  gp_acks :: string
  gp_strict_startup :: bool
  gp_robot_list :: "string list"
  gp_health_topic :: string
  gp_registration_topic :: string
  gp_health_period_s :: dbl
  gp_odom_kafka_topic :: string
  gp_gps_kafka_topic :: string

definition default_gis_params :: gis_params where
  "default_gis_params =
     \<lparr>gp_bootstrap_servers = ''localhost:9092'', gp_client_id = ''gis_health_node'', gp_acks = ''1'',
      gp_strict_startup = False, gp_robot_list = [], gp_health_topic = ''robot_health'',
      gp_registration_topic = ''robot_registration'', gp_health_period_s = Fin 30,
      gp_odom_kafka_topic = ''ros_filtered_odom'', gp_gps_kafka_topic = ''ros_gps_fix''\<rparr>"

text \<open>
  \<open>gh_timer\<close> is the period of the running timer in milliseconds, \<open>gh_ticks\<close> the number of readings
  taken from the system clock so far, \<open>gh_broker\<close> librdkafka while the node holds no producer.
\<close>

record 'k gis_node =
  gh_store :: "string \<Rightarrow> param_value"
  gh_params :: gis_params
  gh_producer :: "'k producer option"
  gh_broker :: 'k
  gh_timer :: "int option"
  gh_ticks :: nat

record 'k gis_env =
  ge_rdkafka :: "'k rdkafka"
  ge_json :: json_lib
  ge_clock_ms :: "nat \<Rightarrow> int"
  ge_timer :: "int \<Rightarrow> unit exec"

definition gis_declared :: "(string \<times> param_value) list" where
  "gis_declared =
     (let p = default_gis_params
      in [(''kafka.bootstrap_servers'', PString (gp_bootstrap_servers p)),
          (''kafka.client_id'', PString (gp_client_id p)), (''kafka.acks'', PString (gp_acks p)),
          (''kafka.strict_startup'', PBool (gp_strict_startup p)),
          (''gis.robot_list'', PStrings (gp_robot_list p)),
          (''gis.health_topic'', PString (gp_health_topic p)),
          (''gis.registration_topic'', PString (gp_registration_topic p)),
          (''gis.health_period_s'', PDouble (gp_health_period_s p)),
          (''gis.odom_kafka_topic'', PString (gp_odom_kafka_topic p)),
          (''gis.gps_kafka_topic'', PString (gp_gps_kafka_topic p))])"

definition new_gis_node :: "(string \<Rightarrow> param_value option) \<Rightarrow> 'k \<Rightarrow> 'k gis_node" where
  "new_gis_node overrides k =
     \<lparr>gh_store = (\<lambda>n. case map_of gis_declared n of
                      None \<Rightarrow> PNotSet
                    | Some v \<Rightarrow> (case overrides n of Some x \<Rightarrow> x | None \<Rightarrow> v)),
      gh_params = default_gis_params, gh_producer = None, gh_broker = k, gh_timer = None,
      gh_ticks = 0\<rparr>"

section \<open>Parameters\<close>

definition gis_get ::
  "string \<Rightarrow> (parameter \<Rightarrow> 'a exec) \<Rightarrow> ('a \<Rightarrow> gis_params \<Rightarrow> gis_params) \<Rightarrow> ('k gis_node, unit) prog" where
  "gis_get n acc upd s =
     (case acc (mk_param n (gh_store s n)) of
        Ret v \<Rightarrow> (Ret (), s\<lparr>gh_params := upd v (gh_params s)\<rparr>)
      | Err e \<Rightarrow> (Exc e, s)
      | Exc e \<Rightarrow> (Exc e, s))"

text \<open>A comparison of doubles: not a number is not below anything.\<close>

definition not_positive :: "dbl \<Rightarrow> bool" where
  "not_positive d = (case d of Fin q \<Rightarrow> q \<le> 0 | Inf pos \<Rightarrow> \<not> pos | NaN \<Rightarrow> False)"

definition gis_validate :: "gis_params \<Rightarrow> string option" where
  "gis_validate p =
     (if gp_bootstrap_servers p = [] then Some ''kafka.bootstrap_servers is required.''
      else if gp_robot_list p = [] then Some ''gis.robot_list must contain at least one robot id.''
      else if not_positive (gp_health_period_s p) then Some ''gis.health_period_s must be positive.''
      else if gp_health_topic p = [] \<or> gp_registration_topic p = []
      then Some ''gis.health_topic and gis.registration_topic must be non-empty.''
      else None)"

definition load_parameters :: "('k gis_node, unit) prog" where
  "load_parameters =
     andthen (gis_get ''kafka.bootstrap_servers'' as_string (\<lambda>v p. p\<lparr>gp_bootstrap_servers := v\<rparr>)) (\<lambda>_.
     andthen (gis_get ''kafka.client_id'' as_string (\<lambda>v p. p\<lparr>gp_client_id := v\<rparr>)) (\<lambda>_.
     andthen (gis_get ''kafka.acks'' as_string (\<lambda>v p. p\<lparr>gp_acks := v\<rparr>)) (\<lambda>_.
     andthen (gis_get ''kafka.strict_startup'' as_bool (\<lambda>v p. p\<lparr>gp_strict_startup := v\<rparr>)) (\<lambda>_.
     andthen (gis_get ''gis.robot_list'' as_string_array (\<lambda>v p. p\<lparr>gp_robot_list := v\<rparr>)) (\<lambda>_.
     andthen (gis_get ''gis.health_topic'' as_string (\<lambda>v p. p\<lparr>gp_health_topic := v\<rparr>)) (\<lambda>_.
     andthen (gis_get ''gis.registration_topic'' as_string (\<lambda>v p. p\<lparr>gp_registration_topic := v\<rparr>)) (\<lambda>_.
     andthen (gis_get ''gis.health_period_s'' as_double (\<lambda>v p. p\<lparr>gp_health_period_s := v\<rparr>)) (\<lambda>_.
     andthen (gis_get ''gis.odom_kafka_topic'' as_string (\<lambda>v p. p\<lparr>gp_odom_kafka_topic := v\<rparr>)) (\<lambda>_.
     andthen (gis_get ''gis.gps_kafka_topic'' as_string (\<lambda>v p. p\<lparr>gp_gps_kafka_topic := v\<rparr>)) (\<lambda>_ s.
       (case gis_validate (gh_params s) of Some e \<Rightarrow> Err e | None \<Rightarrow> Ret (), s)))))))))))"

section \<open>Producer\<close>

definition gis_stop_producer :: "'k gis_env \<Rightarrow> 'k gis_node \<Rightarrow> 'k gis_node" where
  "gis_stop_producer E s =
     (case gh_producer s of
        None \<Rightarrow> s
      | Some p \<Rightarrow> s\<lparr>gh_producer := None, gh_broker := kp_world (stop (ge_rdkafka E) p)\<rparr>)"

definition gis_producer_config :: "gis_params \<Rightarrow> producer_config" where
  "gis_producer_config p =
     default_producer_config\<lparr>bootstrap_servers := gp_bootstrap_servers p,
       client_id := gp_client_id p, acks := gp_acks p,
       startup_mode := (if gp_strict_startup p then STRICT else TOLERANT)\<rparr>"

text \<open>Assigning the new producer destroys an old one, whose destructor stops it.\<close>

definition gis_start_producer :: "'k gis_env \<Rightarrow> ('k gis_node, bool) prog" where
  "gis_start_producer E s =
     (let s = gis_stop_producer E s;
          p = new_producer (gis_producer_config (gh_params s)) (gh_broker s)
      in case start (ge_rdkafka E) p of
           (True, p') \<Rightarrow> (Ret True, s\<lparr>gh_producer := Some p'\<rparr>)
         | (False, p') \<Rightarrow> (Ret False, s\<lparr>gh_broker := kp_world p'\<rparr>))"

section \<open>Messages\<close>

definition column :: "string \<Rightarrow> string \<Rightarrow> json" where
  "column name ty = object_of [(''name'', JStr name), (''type'', JStr ty)]"

definition build_registration_payload :: "gis_params \<Rightarrow> string \<Rightarrow> int \<Rightarrow> json" where
  "build_registration_payload p robot_id now =
     (let topics = JArr
        [object_of [(''name'', JStr (gp_odom_kafka_topic p)),
           (''schema'', JArr [column ''timestamp'' ''BIGINT'', column ''position_x'' ''DOUBLE'',
              column ''position_y'' ''DOUBLE'', column ''position_z'' ''DOUBLE'',
              column ''source_topic'' ''VARCHAR''])],
         object_of [(''name'', JStr (gp_gps_kafka_topic p)),
           (''schema'', JArr [column ''timestamp'' ''BIGINT'', column ''latitude'' ''DOUBLE'',
              column ''longitude'' ''DOUBLE'', column ''altitude'' ''DOUBLE''])]]
      in object_of [(''msg_type'', JStr ''REGISTRATION''), (''serial_number'', JStr robot_id),
           (''topics'', topics), (''timestamp'', JInt now)])"

definition build_ping_payload :: "string \<Rightarrow> int \<Rightarrow> json" where
  "build_ping_payload robot_id now =
     object_of [(''msg_type'', JStr ''PING''), (''serial_number'', JStr robot_id),
       (''robot_name'', JStr robot_id), (''timestamp'', JInt now)]"

definition now_ms :: "'k gis_env \<Rightarrow> 'k gis_node \<Rightarrow> int \<times> 'k gis_node" where
  "now_ms E s = (ge_clock_ms E (gh_ticks s), s\<lparr>gh_ticks := Suc (gh_ticks s)\<rparr>)"

text \<open>
  What both send functions do: the payload with one reading of the clock, the record with another;
  the result is only logged.
\<close>

definition gis_send ::
  "'k gis_env \<Rightarrow> string \<Rightarrow> string \<Rightarrow> (int \<Rightarrow> json) \<Rightarrow> ('k gis_node, unit) prog" where
  "gis_send E topic robot_id build s =
     (case gh_producer s of
        None \<Rightarrow> (Ret (), s)
      | Some p \<Rightarrow>
         (case now_ms E s of (now, s) \<Rightarrow>
            (case jl_dump (ge_json E) (build now) of
               None \<Rightarrow> (Exc ''type_error.316'', s)
             | Some payload \<Rightarrow>
                 (case now_ms E s of (t, s) \<Rightarrow>
                    (Ret (), s\<lparr>gh_producer := Some (snd (send (ge_rdkafka E)
                       \<lparr>q_topic = topic, q_key = bytes_of robot_id, q_value = bytes_of payload,
                        q_timestamp_ms = t, q_headers = []\<rparr> p))\<rparr>)))))"

definition send_registration_for :: "'k gis_env \<Rightarrow> string \<Rightarrow> ('k gis_node, unit) prog" where
  "send_registration_for E robot_id s =
     gis_send E (gp_registration_topic (gh_params s)) robot_id
       (build_registration_payload (gh_params s) robot_id) s"

definition send_ping_for :: "'k gis_env \<Rightarrow> string \<Rightarrow> ('k gis_node, unit) prog" where
  "send_ping_for E robot_id s =
     gis_send E (gp_health_topic (gh_params s)) robot_id (build_ping_payload robot_id) s"

fun for_each :: "('a \<Rightarrow> ('s, unit) prog) \<Rightarrow> 'a list \<Rightarrow> ('s, unit) prog" where
  "for_each f [] = ret ()"
| "for_each f (x # xs) = andthen (f x) (\<lambda>_. for_each f xs)"

definition on_health_timer :: "'k gis_env \<Rightarrow> ('k gis_node, unit) prog" where
  "on_health_timer E s = for_each (send_ping_for E) (gp_robot_list (gh_params s)) s"

section \<open>Lifecycle callbacks\<close>

text \<open>
  static_cast<int64_t>(period * 1000.0), for a positive period.  A value that does not fit in 64 bits has no meaning in
  C++; the model makes it an error.
\<close>

definition period_ms :: "dbl \<Rightarrow> int option" where
  "period_ms d =
     (case d of
        Fin q \<Rightarrow> (let x = \<lfloor>double_of (q * 1000)\<rfloor> in if x < 2 ^ 63 then Some x else None)
      | _ \<Rightarrow> None)"

definition gis_on_configure :: "'k gis_env \<Rightarrow> ('k gis_node, bool) prog" where
  "gis_on_configure E = attempt load_parameters (\<lambda>_. gis_start_producer E) (\<lambda>_. ret False)"

definition start_health_timer :: "'k gis_env \<Rightarrow> ('k gis_node, unit) prog" where
  "start_health_timer E s =
     (case period_ms (gp_health_period_s (gh_params s)) of
        None \<Rightarrow> (Exc ''period out of range'', s)
      | Some ms \<Rightarrow>
          (case ge_timer E ms of
             Ret _ \<Rightarrow> (Ret (), s\<lparr>gh_timer := Some ms\<rparr>)
           | Err e \<Rightarrow> (Exc e, s)
           | Exc e \<Rightarrow> (Exc e, s)))"

definition gis_on_activate :: "'k gis_env \<Rightarrow> ('k gis_node, bool) prog" where
  "gis_on_activate E s =
     andthen (for_each (\<lambda>r. andthen (send_registration_for E r) (\<lambda>_. send_ping_for E r))
                (gp_robot_list (gh_params s))) (\<lambda>_.
     andthen (start_health_timer E) (\<lambda>_. ret True)) s"

definition gis_on_deactivate :: "('k gis_node, bool) prog" where
  "gis_on_deactivate s = (Ret True, s\<lparr>gh_timer := None\<rparr>)"

definition gis_on_cleanup :: "'k gis_env \<Rightarrow> ('k gis_node, bool) prog" where
  "gis_on_cleanup E s = (Ret True, gis_stop_producer E s)"

definition gis_on_shutdown :: "'k gis_env \<Rightarrow> ('k gis_node, bool) prog" where
  "gis_on_shutdown E s = (Ret True, gis_stop_producer E (s\<lparr>gh_timer := None\<rparr>))"

definition gis_health_node :: "'k gis_env \<Rightarrow> 'k gis_node managed" where
  "gis_health_node E =
     \<lparr>on_configure = gis_on_configure E, on_activate = gis_on_activate E,
      on_deactivate = gis_on_deactivate, on_cleanup = gis_on_cleanup E,
      on_shutdown = gis_on_shutdown E\<rparr>"

section \<open>The invariant\<close>

definition gis_up :: "'k gis_node \<Rightarrow> bool" where
  "gis_up s \<longleftrightarrow> (\<exists>p. gh_producer s = Some p \<and> kp_inv p \<and> kp_running p)"

text \<open>
  The node holds a running producer from its configuration to its clean-up, and its timer runs
  exactly while it is active.
\<close>

definition gis_inv :: "lc_state \<Rightarrow> 'k gis_node \<Rightarrow> bool" where
  "gis_inv st s \<longleftrightarrow>
     (if st \<in> {Inactive, Active} then gis_validate (gh_params s) = None \<and> gis_up s
      else gh_producer s = None) \<and>
     (gh_timer s \<noteq> None) = (st = Active)"

text \<open>
  Nothing throws: every payload can be printed, the timer is created, and the period that is stored
  fits in 64 bits of milliseconds.
\<close>

definition gis_calm :: "'k gis_env \<Rightarrow> bool" where
  "gis_calm E \<longleftrightarrow> (\<forall>j. jl_dump (ge_json E) j \<noteq> None) \<and> (\<forall>ms. ge_timer E ms = Ret ())"

definition period_fits :: "'k gis_node \<Rightarrow> bool" where
  "period_fits s \<longleftrightarrow> period_ms (gp_health_period_s (gh_params s)) \<noteq> None \<and>
     (case gh_store s ''gis.health_period_s'' of PDouble d \<Rightarrow> period_ms d \<noteq> None | _ \<Rightarrow> True)"

inductive gis_internal :: "'k gis_env \<Rightarrow> lc_state \<Rightarrow> 'k gis_node \<Rightarrow> 'k gis_node \<Rightarrow> bool"
  for E st s where
  gi_timer: "gh_timer s \<noteq> None \<Longrightarrow> on_health_timer E s = (r, t) \<Longrightarrow> gis_internal E st s t"
| gi_store: "period_fits (s\<lparr>gh_store := f\<rparr>) \<Longrightarrow> gis_internal E st s (s\<lparr>gh_store := f\<rparr>)"
| gi_producer: "gh_producer s = Some p \<Longrightarrow> e \<in> {Ev_poll_locked, Ev_poll_unlocked, Ev_wake} \<Longrightarrow>
    kp_step (ge_rdkafka E) p e p' \<Longrightarrow> gis_internal E st s (s\<lparr>gh_producer := Some p'\<rparr>)"

text \<open>What a send leaves alone, and that it keeps the producer up.\<close>

definition gis_kept :: "'k gis_node \<Rightarrow> 'k gis_node \<Rightarrow> bool" where
  "gis_kept s t \<longleftrightarrow> gh_params t = gh_params s \<and> gh_store t = gh_store s \<and> gh_timer t = gh_timer s \<and>
     (gis_up s \<longrightarrow> gis_up t)"

lemma gis_kept_refl: "gis_kept s s"
  by (simp add: gis_kept_def)

lemma gis_kept_trans: "gis_kept a b \<Longrightarrow> gis_kept b c \<Longrightarrow> gis_kept a c"
  by (simp add: gis_kept_def)

lemma gis_send_cases:
  assumes "gis_send E topic robot build s = (r, t)"
  obtains (off) "gh_producer s = None" "r = Ret ()" "t = s"
    | (unprintable) p where "gh_producer s = Some p" "r = Exc ''type_error.316''"
        "t = s\<lparr>gh_ticks := Suc (gh_ticks s)\<rparr>"
        "jl_dump (ge_json E) (build (ge_clock_ms E (gh_ticks s))) = None"
    | (sent) p out res p' where "gh_producer s = Some p" "r = Ret ()"
        "jl_dump (ge_json E) (build (ge_clock_ms E (gh_ticks s))) = Some out"
        "send (ge_rdkafka E) \<lparr>q_topic = topic, q_key = bytes_of robot, q_value = bytes_of out,
           q_timestamp_ms = ge_clock_ms E (Suc (gh_ticks s)), q_headers = []\<rparr> p = (res, p')"
        "t = s\<lparr>gh_ticks := Suc (Suc (gh_ticks s)), gh_producer := Some p'\<rparr>"
proof (cases "gh_producer s")
  case None
  then have "r = Ret ()" "t = s" using assms by (simp_all add: gis_send_def)
  with None show thesis by (rule off)
next
  case (Some p)
  show thesis
  proof (cases "jl_dump (ge_json E) (build (ge_clock_ms E (gh_ticks s)))")
    case None
    then have "r = Exc ''type_error.316''" "t = s\<lparr>gh_ticks := Suc (gh_ticks s)\<rparr>"
      using assms Some by (simp_all add: gis_send_def now_ms_def)
    from Some this None show thesis by (rule unprintable)
  next
    case dump: (Some out)
    let ?q = "\<lparr>q_topic = topic, q_key = bytes_of robot, q_value = bytes_of out,
       q_timestamp_ms = ge_clock_ms E (Suc (gh_ticks s)), q_headers = []\<rparr>"
    obtain res p' where snd: "send (ge_rdkafka E) ?q p = (res, p')" by (cases "send (ge_rdkafka E) ?q p")
    have rt: "r = Ret ()" "t = s\<lparr>gh_ticks := Suc (Suc (gh_ticks s)), gh_producer := Some p'\<rparr>"
      using assms Some dump snd by (simp_all add: gis_send_def now_ms_def)
    show thesis by (rule sent [OF Some rt(1) dump snd rt(2)])
  qed
qed

lemma gis_send_kept: "gis_send E topic robot build s = (r, t) \<Longrightarrow> gis_kept s t"
  by (erule gis_send_cases) (auto simp: gis_kept_def gis_up_def dest: send_up)

lemma keeps_gis_sends [keeps_intros]:
  "keeps gis_kept (send_registration_for E r)" "keeps gis_kept (send_ping_for E r)"
  unfolding keeps_def send_registration_for_def send_ping_for_def
  by (metis gis_send_kept prod.collapse)+

lemma keeps_for_each: "(\<And>x. keeps gis_kept (f x)) \<Longrightarrow> keeps gis_kept (for_each f xs)"
proof (induction xs)
  case Nil
  show ?case by (rule keepsI) (simp add: gis_kept_refl)
next
  case (Cons x xs)
  have "keeps gis_kept (for_each f xs)" by (rule Cons.IH) (rule Cons.prems)
  then show ?case
    unfolding for_each.simps by (intro keeps_andthen [OF gis_kept_trans] Cons.prems)
qed

lemma gis_health_timer_kept: "on_health_timer E s = (r, t) \<Longrightarrow> gis_kept s t"
  using keepsD [OF keeps_for_each [OF keeps_gis_sends(2) [of E]]]
  by (simp add: on_health_timer_def)

text \<open>Nothing throws while the robots are announced.\<close>

lemma calm_send:
  assumes "gis_calm E" shows "fst (gis_send E topic robot build s) = Ret ()"
proof -
  obtain r t where run: "gis_send E topic robot build s = (r, t)"
    by (cases "gis_send E topic robot build s")
  have printable: "jl_dump (ge_json E) j \<noteq> None" for j using assms by (simp add: gis_calm_def)
  from run show ?thesis
    by (cases rule: gis_send_cases) (use run printable in simp_all)
qed

lemma calm_for_each: "(\<And>x s. fst (f x s) = Ret ()) \<Longrightarrow> fst (for_each f xs s) = Ret ()"
proof (induction xs arbitrary: s)
  case (Cons x xs)
  obtain u where "f x s = (Ret (), u)" using Cons.prems [of x s] by (cases "f x s") simp
  then show ?case using Cons by (simp add: andthen_def)
qed simp

lemma calm_announce:
  assumes "gis_calm E"
  shows "fst (andthen (send_registration_for E r) (\<lambda>_. send_ping_for E r) s) = Ret ()"
proof -
  obtain u where "send_registration_for E r s = (Ret (), u)"
    using calm_send [OF assms, of _ r _ s] unfolding send_registration_for_def by (metis prod.collapse)
  then show ?thesis
    using calm_send [OF assms] by (simp add: andthen_def send_ping_for_def)
qed

subsection \<open>Start and stop\<close>

lemma gis_get_fields:
  "gis_get n acc upd s = (r, t) \<Longrightarrow>
     gh_producer t = gh_producer s \<and> gh_timer t = gh_timer s \<and> gh_store t = gh_store s"
  by (auto simp: gis_get_def split: exec.split_asm)

text \<open>Loading parameters keeps the rest of the node, and a period that fits.\<close>

definition only_params :: "'k gis_node \<Rightarrow> 'k gis_node \<Rightarrow> bool" where
  "only_params s t \<longleftrightarrow>
     gh_producer t = gh_producer s \<and> gh_timer t = gh_timer s \<and> gh_store t = gh_store s \<and>
     (period_fits s \<longrightarrow> period_fits t)"

lemma only_params_trans: "only_params a b \<Longrightarrow> only_params b c \<Longrightarrow> only_params a c"
  by (simp add: only_params_def)

lemma keeps_gis_get:
  "(\<And>v p. gp_health_period_s (upd v p) = gp_health_period_s p) \<Longrightarrow>
     keeps only_params (gis_get n acc upd)"
  "keeps only_params (gis_get ''gis.health_period_s'' as_double (\<lambda>v p. p\<lparr>gp_health_period_s := v\<rparr>))"
  by (rule keepsI; auto simp: only_params_def period_fits_def gis_get_def as_double_def
      split: exec.split param_value.split)+

lemma load_parameters_facts:
  assumes "load_parameters s = (r, t)"
  shows "only_params s t" and "r = Ret () \<Longrightarrow> gis_validate (gh_params t) = None"
proof -
  have last: "keeps only_params (\<lambda>s. (case gis_validate (gh_params s) of Some e \<Rightarrow> Err e | None \<Rightarrow> Ret (), s))"
    by (rule keepsI) (simp add: only_params_def)
  have "keeps only_params load_parameters"
    unfolding load_parameters_def
    by (intro keeps_andthen [OF only_params_trans] keeps_gis_get(2) last keeps_gis_get(1)) simp_all
  from keepsD [OF this assms] show "only_params s t" .
  have "ensures (\<lambda>s. gis_validate (gh_params s) = None) load_parameters"
    unfolding load_parameters_def
    by (intro ensures_andthen) (auto intro!: ensuresI split: option.split_asm)
  then show "gis_validate (gh_params t) = None" if "r = Ret ()"
    using assms that by (auto dest: ensuresD)
qed

lemma gis_stop_producer_fields [simp]:
  "gh_producer (gis_stop_producer E s) = None" "gh_timer (gis_stop_producer E s) = gh_timer s"
  "gh_params (gis_stop_producer E s) = gh_params s" "gh_store (gis_stop_producer E s) = gh_store s"
  by (simp_all add: gis_stop_producer_def split: option.split)

lemma gis_start_producer_cases:
  assumes "gis_start_producer E s = (r, t)"
  obtains (started) "r = Ret True" "gis_up t" "gh_params t = gh_params s" "gh_timer t = gh_timer s"
      "gh_store t = gh_store s"
    | (refused) "r = Ret False" "gh_producer t = None" "gh_params t = gh_params s"
      "gh_timer t = gh_timer s" "gh_store t = gh_store s"
proof -
  let ?s = "gis_stop_producer E s"
  let ?new = "new_producer (gis_producer_config (gh_params ?s)) (gh_broker ?s)"
  obtain ok p where st: "start (ge_rdkafka E) ?new = (ok, p)" by (cases "start (ge_rdkafka E) ?new")
  show thesis
  proof (cases ok)
    case True
    then have "r = Ret True" "t = ?s\<lparr>gh_producer := Some p\<rparr>"
      using assms st by (simp_all add: gis_start_producer_def Let_def)
    moreover have "kp_inv p \<and> kp_running p" using start_new [of "ge_rdkafka E"] st True by simp
    ultimately show thesis using started by (simp add: gis_up_def)
  next
    case False
    then have "r = Ret False" "t = ?s\<lparr>gh_broker := kp_world p\<rparr>"
      using assms st by (simp_all add: gis_start_producer_def Let_def)
    then show thesis using refused by simp
  qed
qed

text \<open>The invariant together with a period that fits.\<close>

definition gis_good :: "lc_state \<Rightarrow> 'k gis_node \<Rightarrow> bool" where
  "gis_good st s \<longleftrightarrow> gis_inv st s \<and> period_fits s"

lemma gis_good_kept: "gis_kept s t \<Longrightarrow> gis_good st s \<Longrightarrow> st \<in> {Inactive, Active} \<Longrightarrow> gis_good st t"
  by (auto simp: gis_good_def gis_inv_def gis_kept_def period_fits_def)

lemma gis_configure_good:
  assumes good: "gis_good Unconfigured s" and run: "gis_on_configure E s = (r, t)"
    and out: "lc_outcome r Unconfigured Inactive st"
  shows "gis_good st t"
  using run unfolding gis_on_configure_def
proof (cases rule: attempt_cases)
  case (ok u s')
  note load = load_parameters_facts [OF ok(1)]
  have s': "period_fits s'" "gh_timer s' = None" "gis_validate (gh_params s') = None"
    using good load by (auto simp: gis_good_def gis_inv_def only_params_def)
  from ok(2) show ?thesis
  proof (cases rule: gis_start_producer_cases)
    case started
    then have "st = Inactive" using out by (auto elim: lc_outcomeE)
    then show ?thesis using started s' by (simp add: gis_good_def gis_inv_def period_fits_def)
  next
    case refused
    then have "st = Unconfigured" using out by (auto elim: lc_outcomeE)
    then show ?thesis using refused s' by (simp add: gis_good_def gis_inv_def period_fits_def)
  qed
next
  case (err e s')
  then show ?thesis
    using good out load_parameters_facts(1) [OF err(1)]
    by (auto simp: gis_good_def gis_inv_def only_params_def elim!: lc_outcomeE)
next
  case (exc e)
  then show ?thesis
    using good out load_parameters_facts(1) [OF exc(1)]
    by (auto simp: gis_good_def gis_inv_def only_params_def elim!: lc_outcomeE)
qed

lemma gis_activates:
  assumes calm: "gis_calm E" and ms: "period_ms (gp_health_period_s (gh_params s)) = Some ms"
  obtains u where "gis_on_activate E s = (Ret True, u\<lparr>gh_timer := Some ms\<rparr>)" "gis_kept s u"
proof -
  let ?all = "for_each (\<lambda>r. andthen (send_registration_for E r) (\<lambda>_. send_ping_for E r))
    (gp_robot_list (gh_params s))"
  have "fst (?all s) = Ret ()" by (rule calm_for_each) (rule calm_announce [OF calm])
  then obtain u where u: "?all s = (Ret (), u)" by (cases "?all s") simp
  have "keeps gis_kept ?all"
    by (intro keeps_for_each keeps_andthen [OF gis_kept_trans] keeps_gis_sends)
  from keepsD [OF this u] have kept: "gis_kept s u" .
  moreover have "gis_on_activate E s = (Ret True, u\<lparr>gh_timer := Some ms\<rparr>)"
    using u kept calm ms
    by (simp add: gis_on_activate_def andthen_def start_health_timer_def gis_calm_def gis_kept_def)
  ultimately show thesis by (rule that [rotated])
qed

lemma gis_activate_good:
  assumes good: "gis_good Inactive s" and run: "gis_on_activate E s = (r, t)"
    and out: "lc_outcome r Inactive Active st" and calm: "gis_calm E"
  shows "gis_good st t"
proof -
  obtain ms where ms: "period_ms (gp_health_period_s (gh_params s)) = Some ms"
    using good by (auto simp: gis_good_def period_fits_def)
  obtain u where u: "gis_on_activate E s = (Ret True, u\<lparr>gh_timer := Some ms\<rparr>)" "gis_kept s u"
    by (rule gis_activates [OF calm ms])
  then have t: "r = Ret True" "t = u\<lparr>gh_timer := Some ms\<rparr>" using run by simp_all
  then have "st = Active" using out by (auto elim: lc_outcomeE)
  then show ?thesis
    using gis_good_kept [OF u(2) good] t(2) by (simp add: gis_good_def gis_inv_def gis_up_def period_fits_def)
qed

lemma gis_stop_good:
  assumes "gis_good st0 s" "lc_outcome r st0 goal st"
    "gis_on_cleanup E s = (r, t) \<and> st0 = Inactive \<and> goal = Unconfigured \<or>
     gis_on_shutdown E s = (r, t) \<and> goal = Finalized \<or>
     gis_on_deactivate s = (r, t) \<and> st0 = Active \<and> goal = Inactive"
  shows "gis_good st t"
proof -
  have "r = Ret True"
    using assms(3) by (auto simp: gis_on_cleanup_def gis_on_shutdown_def gis_on_deactivate_def)
  then have "st = goal" using assms(2) by (auto elim: lc_outcomeE)
  then show ?thesis
    using assms(1,3)
    by (auto simp: gis_good_def gis_inv_def gis_on_cleanup_def gis_on_shutdown_def gis_on_deactivate_def
        period_fits_def gis_up_def)
qed

lemma gis_internal_good:
  assumes good: "gis_good st s" and step: "gis_internal E st s t"
  shows "gis_good st t"
  using step
proof cases
  case (gi_timer r)
  then have "st = Active" using good by (auto simp: gis_good_def gis_inv_def)
  then show ?thesis using gis_good_kept [OF gis_health_timer_kept [OF gi_timer(2)] good] by simp
next
  case (gi_store f)
  have "gis_up t = gis_up s" using gi_store(1) by (simp add: gis_up_def)
  then show ?thesis using good gi_store by (simp add: gis_good_def gis_inv_def)
next
  case (gi_producer p e p')
  then have st: "st \<in> {Inactive, Active}"
    using good by (auto simp: gis_good_def gis_inv_def split: if_split_asm)
  have "gis_kept s t"
    using gi_producer poll_step_up [OF _ _ gi_producer(4,3)] by (auto simp: gis_kept_def gis_up_def)
  then show ?thesis by (rule gis_good_kept [OF _ good st])
qed

lemma gis_health_node_simps [simp]:
  "on_configure (gis_health_node E) = gis_on_configure E"
  "on_activate (gis_health_node E) = gis_on_activate E"
  "on_deactivate (gis_health_node E) = gis_on_deactivate"
  "on_cleanup (gis_health_node E) = gis_on_cleanup E"
  "on_shutdown (gis_health_node E) = gis_on_shutdown E"
  by (simp_all add: gis_health_node_def)

lemma gis_good_new: "period_fits (new_gis_node ov k) \<Longrightarrow> gis_good Unconfigured (new_gis_node ov k)"
  by (simp add: gis_good_def gis_inv_def new_gis_node_def)

interpretation gis_health: managed_node "gis_health_node E" "gis_internal E"
  "\<lambda>s. \<exists>ov k. s = new_gis_node ov k \<and> period_fits s" "\<lambda>st s. gis_calm E \<longrightarrow> gis_good st s" for E
proof (unfold_locales, unfold gis_health_node_simps)
  show "gis_calm E \<longrightarrow> gis_good Unconfigured s" if "\<exists>ov k. s = new_gis_node ov k \<and> period_fits s" for s
    using that by (auto intro: gis_good_new)
  show "gis_calm E \<longrightarrow> gis_good st t"
    if "gis_calm E \<longrightarrow> gis_good Unconfigured s" "gis_on_configure E s = (r, t)"
      "lc_outcome r Unconfigured Inactive st" for s r t st
    using that by (blast intro: gis_configure_good)
  show "gis_calm E \<longrightarrow> gis_good st t"
    if "gis_calm E \<longrightarrow> gis_good Inactive s" "gis_on_activate E s = (r, t)"
      "lc_outcome r Inactive Active st" for s r t st
    using that by (blast intro: gis_activate_good)
  show "gis_calm E \<longrightarrow> gis_good st t"
    if "gis_calm E \<longrightarrow> gis_good Active s" "gis_on_deactivate s = (r, t)"
      "lc_outcome r Active Inactive st" for s r t st
    using that gis_stop_good [OF _ that(3)] by blast
  show "gis_calm E \<longrightarrow> gis_good st t"
    if "gis_calm E \<longrightarrow> gis_good Inactive s" "gis_on_cleanup E s = (r, t)"
      "lc_outcome r Inactive Unconfigured st" for s r t st
    using that gis_stop_good [OF _ that(3)] by blast
  show "gis_calm E \<longrightarrow> gis_good st t"
    if "gis_calm E \<longrightarrow> gis_good st0 s" "st0 \<noteq> Finalized" "gis_on_shutdown E s = (r, t)"
      "lc_outcome r st0 Finalized st" for st0 s r t st
    using that gis_stop_good [OF _ that(4)] by blast
  show "gis_calm E \<longrightarrow> gis_good st t"
    if "gis_calm E \<longrightarrow> gis_good st s" "gis_internal E st s t" for st s t
    using that by (blast intro: gis_internal_good)
qed

section \<open>What is announced\<close>

text \<open>
  A message to be sent, as topic, robot and payload by its time, and a produce() call that is it.
\<close>

type_synonym announcement = "string \<times> string \<times> (int \<Rightarrow> json)"

definition announcements :: "gis_params \<Rightarrow> announcement list" where
  "announcements p = concat (map (\<lambda>r.
     [(gp_registration_topic p, r, build_registration_payload p r),
      (gp_health_topic p, r, build_ping_payload r)]) (gp_robot_list p))"

fun announces :: "'k gis_env \<Rightarrow> announcement \<Rightarrow> produce_call \<Rightarrow> bool" where
  "announces E (topic, robot, build) c \<longleftrightarrow>
     pc_topic c = topic \<and> pc_key c = (if robot = [] then None else Some (bytes_of robot)) \<and>
     pc_headers c = [] \<and>
     (\<exists>now out. jl_dump (ge_json E) (build now) = Some out \<and> pc_payload c = bytes_of out)"

text \<open>The producer of the node is up and has a broker; the library appends each record to its log.\<close>

definition takes_all :: "produce_call list rdkafka \<Rightarrow> bool" where
  "takes_all lib \<longleftrightarrow> (\<forall>call w. rk_produce lib call w = (ERR_NO_ERROR, w @ [call]))"

definition gis_logs ::
  "produce_call list gis_env \<Rightarrow> announcement list \<Rightarrow> produce_call list gis_node \<Rightarrow>
     produce_call list gis_node \<Rightarrow> bool" where
  "gis_logs E as s t \<longleftrightarrow> (\<forall>p. gh_producer s = Some p \<longrightarrow> kp_running p \<longrightarrow> kp_producer p \<longrightarrow>
     (\<exists>q calls. gh_producer t = Some q \<and> kp_running q \<and> kp_producer q \<and>
        kp_world q = kp_world p @ calls \<and> list_all2 (announces E) as calls)) \<and>
     gh_params t = gh_params s"

lemma gis_logs_Nil: "gis_logs E [] s s"
  by (auto simp: gis_logs_def)

lemma gis_logs_append: "gis_logs E as s t \<Longrightarrow> gis_logs E bs t u \<Longrightarrow> gis_logs E (as @ bs) s u"
  unfolding gis_logs_def by (metis append_assoc list_all2_appendI)

lemma gis_send_logs:
  assumes "takes_all (ge_rdkafka E)" "gis_send E topic robot build s = (Ret (), t)"
  shows "gis_logs E [(topic, robot, build)] s t"
  using assms(2)
proof (cases rule: gis_send_cases)
  case (sent p out res p')
  let ?r = "\<lparr>q_topic = topic, q_key = bytes_of robot, q_value = bytes_of out,
    q_timestamp_ms = ge_clock_ms E (Suc (gh_ticks s)), q_headers = []\<rparr>"
  have "kp_running p' \<and> kp_producer p' \<and> kp_world p' = kp_world p @ [produce_call_of ?r]"
    if "kp_running p" "kp_producer p"
    using sent(4) assms(1) that
    by (auto simp: send_def try_produce_locked_def takes_all_def Let_def)
  moreover have "announces E (topic, robot, build) (produce_call_of ?r)"
    using sent(3) by (auto simp: produce_call_of_def bytes_of_def)
  ultimately show ?thesis using sent(1,5) by (auto simp: gis_logs_def)
qed (auto simp: gis_logs_def)

lemma announce_robot_logs:
  assumes "takes_all (ge_rdkafka E)"
    and "andthen (send_registration_for E r) (\<lambda>_. send_ping_for E r) s = (Ret (), t)"
  shows "gis_logs E [(gp_registration_topic (gh_params s), r, build_registration_payload (gh_params s) r),
    (gp_health_topic (gh_params s), r, build_ping_payload r)] s t"
proof -
  obtain u where u: "send_registration_for E r s = (Ret (), u)" "send_ping_for E r u = (Ret (), t)"
    using assms(2) by (auto simp: andthen_Ret_iff)
  have 1: "gis_logs E [(gp_registration_topic (gh_params s), r, build_registration_payload (gh_params s) r)] s u"
    using gis_send_logs [OF assms(1)] u(1) by (simp add: send_registration_for_def)
  then have "gh_params u = gh_params s" by (simp add: gis_logs_def)
  then have "gis_logs E [(gp_health_topic (gh_params s), r, build_ping_payload r)] u t"
    using gis_send_logs [OF assms(1)] u(2) by (simp add: send_ping_for_def)
  from gis_logs_append [OF 1 this] show ?thesis by simp
qed

lemma announce_all_logs:
  assumes "takes_all (ge_rdkafka E)"
    and "for_each (\<lambda>r. andthen (send_registration_for E r) (\<lambda>_. send_ping_for E r)) rs s = (Ret (), t)"
  shows "gis_logs E (announcements ((gh_params s)\<lparr>gp_robot_list := rs\<rparr>)) s t"
  using assms(2)
proof (induction rs arbitrary: s)
  case (Cons r rs)
  obtain u where u: "andthen (send_registration_for E r) (\<lambda>_. send_ping_for E r) s = (Ret (), u)"
    "for_each (\<lambda>r. andthen (send_registration_for E r) (\<lambda>_. send_ping_for E r)) rs u = (Ret (), t)"
    using Cons.prems by (auto simp: andthen_Ret_iff)
  note 1 = announce_robot_logs [OF assms(1) u(1)]
  then have "gh_params u = gh_params s" by (simp add: gis_logs_def)
  moreover have "build_registration_payload ((gh_params s)\<lparr>gp_robot_list := xs\<rparr>) =
      build_registration_payload (gh_params s)" for xs
    by (intro ext) (simp add: build_registration_payload_def)
  ultimately show ?case
    using gis_logs_append [OF 1 Cons.IH [OF u(2)]] by (simp add: announcements_def)
qed (simp add: announcements_def gis_logs_Nil)

section \<open>Properties\<close>

definition open_rdkafka :: "produce_call list rdkafka" where
  "open_rdkafka = (sample_rdkafka True 0)\<lparr>rk_produce := (\<lambda>call w. (ERR_NO_ERROR, w @ [call]))\<rparr>"

definition sample_gis_env :: "produce_call list gis_env" where
  "sample_gis_env =
     \<lparr>ge_rdkafka = open_rdkafka, ge_json = \<lparr>jl_parse = (\<lambda>_. None), jl_dump = (\<lambda>_. Some ''{}'')\<rparr>,
      ge_clock_ms = (\<lambda>n. 1000 + int n), ge_timer = (\<lambda>_. Ret ())\<rparr>"

definition sample_gis :: "produce_call list gis_node" where
  "sample_gis = new_gis_node
     (\<lambda>n. if n = ''gis.robot_list'' then Some (PStrings [''r1'', ''r2'']) else None) []"

definition sample_gis_configured :: "produce_call list gis_node" where
  "sample_gis_configured = snd (gis_on_configure sample_gis_env sample_gis)"

definition sample_gis_active :: "produce_call list gis_node" where
  "sample_gis_active = snd (gis_on_activate sample_gis_env sample_gis_configured)"

lemma sample_gis_configures:
  "gis_on_configure sample_gis_env sample_gis = (Ret True, sample_gis_configured)"
proof -
  have "fst (gis_on_configure sample_gis_env sample_gis) = Ret True" by code_simp
  then show ?thesis by (metis prod.collapse sample_gis_configured_def)
qed

lemma default_period: "period_ms (Fin 30) = Some 30000"
  using double_of_nat [of 30000] by (simp add: period_ms_def)

lemma sample_gis_calm: "gis_calm sample_gis_env"
  by (simp add: gis_calm_def sample_gis_env_def)

lemma sample_gis_activates:
  "gis_on_activate sample_gis_env sample_gis_configured = (Ret True, sample_gis_active) \<and>
     gh_timer sample_gis_active = Some 30000"
proof -
  have "gp_health_period_s (gh_params sample_gis_configured) = Fin 30" by code_simp
  then have "period_ms (gp_health_period_s (gh_params sample_gis_configured)) = Some 30000"
    by (simp add: default_period)
  from gis_activates [OF sample_gis_calm this] show ?thesis
    by (metis gis_node.select_convs(5) gis_node.surjective gis_node.update_convs(5) sample_gis_active_def
        snd_conv)
qed





end
