(* ===== verification/Mqtt_Client.thy ===== *)
theory Mqtt_Client
  imports Kafka_Sink Json_Walk
begin

text \<open>
  The helpers of mosquitto_sink: the class MqttClient, which wraps a Paho asynchronous client, the
  percentile, the type-support loader, and the message key, which replaces header.frame_id in a
  message that is forwarded as JSON or as CDR
  (mosquitto_bridge/mosquitto_sink/src/mosquitto_sink_node.cpp, lines 51 to 168, 403 to 555).  Its
  JSON walk and its latency envelope are in Json_Walk.
\<close>

section \<open>Percentiles and type supports\<close>

definition mqtt_calculate_percentile :: "u64 list \<Rightarrow> rat \<Rightarrow> u64" where
  "mqtt_calculate_percentile samples percentile =
     (if samples = [] then 0
      else (let samples = sort samples;
                index = nat \<lfloor>double_of (percentile * of_nat (length samples - 1))\<rfloor>
            in samples ! index))"

lemma mqtt_percentile_is_that_of_the_sink [simp]:
  "mqtt_calculate_percentile = calculate_percentile"
  by (intro ext) (simp add: mqtt_calculate_percentile_def calculate_percentile_def floor_index_def Let_def)

text \<open>The handles are written as they are found, so a false return can leave one of them set.\<close>

definition mqtt_load_type_support ::
  "typesupport_lib \<Rightarrow> string \<Rightarrow> type_support \<Rightarrow> bool \<times> type_support" where
  "mqtt_load_type_support T msg_type ts =
     (case (tl_library T msg_type ''rosidl_typesupport_cpp'',
            tl_library T msg_type ''rosidl_typesupport_introspection_cpp'') of
        (Ret ts_lib, Ret introspection_ts_lib) \<Rightarrow>
          if \<not> ts_lib \<or> \<not> introspection_ts_lib then (False, ts)
          else (case tl_handle T msg_type ''rosidl_typesupport_cpp'' of
              Ret rmw \<Rightarrow>
                (let ts = ts\<lparr>ts_rmw := rmw\<rparr>
                 in case tl_handle T msg_type ''rosidl_typesupport_introspection_cpp'' of
                      Ret intro \<Rightarrow>
                        (let ts = ts\<lparr>ts_introspection := intro,
                                     ts_members := (if intro then tl_members T msg_type else None)\<rparr>
                         in if \<not> rmw \<or> \<not> intro then (False, ts) else (True, ts))
                    | _ \<Rightarrow> (False, ts))
            | _ \<Rightarrow> (False, ts))
      | _ \<Rightarrow> (False, ts))"

lemma mqtt_load_is_that_of_the_sink [simp]: "mqtt_load_type_support = load_type_support"
  by (intro ext) (auto simp: mqtt_load_type_support_def load_type_support_def Let_def split: exec.split)

section \<open>The Paho library\<close>

record will_options =
  wi_topic :: string
  wi_payload :: string
  wi_qos :: int
  wi_retain :: bool

text \<open>
  mqtt::connect_options, as far as the node sets them; \<open>co_ssl\<close> holds the trust store of a TLS
  connection.
\<close>

record connect_options =
  co_keep_alive_s :: int
  co_clean_session :: bool
  co_reconnect_s :: "int \<times> int"
  co_user_name :: "string option"
  co_password :: "string option"
  co_will :: "will_options option"
  co_ssl :: "string option option"

record publication =
  pu_topic :: string
  pu_payload :: "u8 list"
  pu_qos :: int
  pu_retain :: bool

text \<open>
  mqtt::async_client over an opaque state \<open>'m\<close> of the library and the brokers; a client is a handle.
  An mqtt::exception is its text.
\<close>

record 'm paho =
  pa_create :: "string \<Rightarrow> string \<Rightarrow> 'm \<Rightarrow> nat exec \<times> 'm"
  pa_connect :: "nat \<Rightarrow> connect_options \<Rightarrow> 'm \<Rightarrow> string option \<times> 'm"
  pa_is_connected :: "nat \<Rightarrow> 'm \<Rightarrow> bool"
  pa_disconnect :: "nat \<Rightarrow> 'm \<Rightarrow> string option \<times> 'm"
  pa_publish :: "nat \<Rightarrow> publication \<Rightarrow> 'm \<Rightarrow> string option \<times> 'm"
  pa_destroy :: "nat \<Rightarrow> 'm \<Rightarrow> 'm"

section \<open>The client\<close>

text \<open>The time of the connection is a reading of the steady clock in nanoseconds.\<close>

record mqtt_client =
  mc_handle :: nat
  mc_connected :: bool
  mc_reconnect_count :: u64
  mc_last_error :: string
  mc_connected_since :: int

record mqtt_health =
  hl_connected :: bool
  hl_reconnect_count :: u64
  hl_last_error :: string
  hl_connected_since :: int

definition new_mqtt_client :: "nat \<Rightarrow> mqtt_client" where
  "new_mqtt_client h =
     \<lparr>mc_handle = h, mc_connected = False, mc_reconnect_count = 0, mc_last_error = [],
      mc_connected_since = 0\<rparr>"

definition no_health :: mqtt_health where
  "no_health =
     \<lparr>hl_connected = False, hl_reconnect_count = 0, hl_last_error = [], hl_connected_since = 0\<rparr>"

text \<open>Every method works on the client and the library; \<open>Some e\<close> is a false return with its message.\<close>

type_synonym 'm client_state = "mqtt_client \<times> 'm"

definition mqtt_connect ::
  "'m paho \<Rightarrow> int \<Rightarrow> connect_options \<Rightarrow> 'm client_state \<Rightarrow> string option \<times> 'm client_state" where
  "mqtt_connect L steady_now options = (\<lambda>(c, w).
     case pa_connect L (mc_handle c) options w of
       (None, w) \<Rightarrow> (None, c\<lparr>mc_connected := True, mc_connected_since := steady_now\<rparr>, w)
     | (Some what, w) \<Rightarrow> (Some what, c\<lparr>mc_last_error := what, mc_connected := False\<rparr>, w))"

definition mqtt_disconnect :: "'m paho \<Rightarrow> 'm client_state \<Rightarrow> 'm client_state" where
  "mqtt_disconnect L = (\<lambda>(c, w).
     if pa_is_connected L (mc_handle c) w
     then (case pa_disconnect L (mc_handle c) w of
         (None, w) \<Rightarrow> (c\<lparr>mc_connected := False\<rparr>, w)
       | (Some what, w) \<Rightarrow> (c\<lparr>mc_last_error := what, mc_connected := False\<rparr>, w))
     else (c\<lparr>mc_connected := False\<rparr>, w))"

definition mqtt_publish ::
  "'m paho \<Rightarrow> publication \<Rightarrow> 'm client_state \<Rightarrow> string option \<times> 'm client_state" where
  "mqtt_publish L m = (\<lambda>(c, w).
     if \<not> pa_is_connected L (mc_handle c) w
     then (Some ''client not connected'', c\<lparr>mc_last_error := ''client not connected''\<rparr>, w)
     else (case pa_publish L (mc_handle c) m w of
         (None, w) \<Rightarrow> (None, c, w)
       | (Some what, w) \<Rightarrow> (Some what, c\<lparr>mc_last_error := what\<rparr>, w)))"

definition health :: "mqtt_client \<Rightarrow> mqtt_health" where
  "health c =
     \<lparr>hl_connected = mc_connected c, hl_reconnect_count = mc_reconnect_count c,
      hl_last_error = mc_last_error c, hl_connected_since = mc_connected_since c\<rparr>"

text \<open>The callbacks that Paho runs on a thread of its own.\<close>

definition connected :: "int \<Rightarrow> mqtt_client \<Rightarrow> mqtt_client" where
  "connected steady_now c = c\<lparr>mc_connected := True, mc_connected_since := steady_now\<rparr>"

definition connection_lost :: "string \<Rightarrow> mqtt_client \<Rightarrow> mqtt_client" where
  "connection_lost cause c =
     c\<lparr>mc_connected := False, mc_reconnect_count := mc_reconnect_count c + 1,
       mc_last_error := cause\<rparr>"

section \<open>The message key in a CDR message\<close>

definition is_string_type :: "ros_type \<Rightarrow> bool" where
  "is_string_type t = (case t of ROS_TYPE_STRING \<Rightarrow> True | _ \<Rightarrow> False)"

text \<open>
  The address that is overwritten: the first member named header that is a message, and in it the
  first string named frame_id.  Whether the member is an array is not asked.
\<close>

definition is_header :: "message_member \<Rightarrow> bool" where
  "is_header m \<longleftrightarrow> member_name m = ''header'' \<and> sub_message (type_id m) \<noteq> None"

definition is_frame_id :: "message_member \<Rightarrow> bool" where
  "is_frame_id m \<longleftrightarrow> member_name m = ''frame_id'' \<and> is_string_type (type_id m)"

definition frame_id_address :: "message_members \<Rightarrow> nat \<Rightarrow> nat option" where
  "frame_id_address ms base =
     (case List.find is_header (members ms) of
        None \<Rightarrow> None
      | Some m \<Rightarrow>
          (case sub_message (type_id m) of
             None \<Rightarrow> None
           | Some hs \<Rightarrow>
               map_option (\<lambda>hm. base + offset m + offset hm) (List.find is_frame_id (members hs))))"

definition store_string :: "nat \<Rightarrow> string \<Rightarrow> memory \<Rightarrow> memory" where
  "store_string a v mem = mem\<lparr>m_string := (m_string mem)(a := v)\<rparr>"

text \<open>
  The result is whether the field was found, with the bytes that are to be sent: those of the
  changed message if \<open>ser\<close>, which is rmw_serialize(), succeeds, and \<open>output\<close> otherwise.
\<close>

definition inject_frame_id_into_cdr ::
  "json_env \<Rightarrow> (message_members \<Rightarrow> memory \<Rightarrow> u8 list option) \<Rightarrow> type_support \<Rightarrow> u8 list \<Rightarrow> string
     \<Rightarrow> u8 list \<Rightarrow> bool \<times> u8 list" where
  "inject_frame_id_into_cdr J ser ts bytes frame_id output =
     (case ts_members ts of
        None \<Rightarrow> (False, output)
      | Some ms \<Rightarrow>
          if size_of ms = 0 \<or> je_malloc J (size_of ms) = 0 then (False, output)
          else (case je_deserialize J bytes of
              None \<Rightarrow> (False, output)
            | Some mem \<Rightarrow>
                (case frame_id_address ms (je_malloc J (size_of ms)) of
                   None \<Rightarrow> (False, output)
                 | Some a \<Rightarrow>
                     (True, case ser ms (store_string a frame_id mem) of
                        Some out \<Rightarrow> out | None \<Rightarrow> output))))"

section \<open>The message key in a JSON payload\<close>

text \<open>\<open>None\<close> is the false return that leaves the payload alone.\<close>

definition apply_message_key_to_json ::
  "json_lib \<Rightarrow> string \<Rightarrow> string \<Rightarrow> string option exec" where
  "apply_message_key_to_json L json_payload message_key =
     (if message_key = [] then Ret None
      else case jl_parse L json_payload of
        None \<Rightarrow> Ret None
      | Some j \<Rightarrow>
          if \<not> json_contains j ''header'' \<or> \<not> json_is_object (json_at j ''header'') then Ret None
          else
            exec_bind (json_assign (json_at j ''header'') ''frame_id'' (JStr message_key)) (\<lambda>h.
            exec_bind (json_assign j ''header'' h) (\<lambda>j'.
            exec_bind (or_throw ''type_error.316'' (jl_dump L j')) (\<lambda>out. Ret (Some out)))))"

end
