(* ===== verification/Mosquitto_Sink.thy ===== *)
theory Mosquitto_Sink
  imports Mqtt_Client
begin

text \<open>
  mosquitto_sink: the managed node that subscribes to the configured ROS topics and publishes every
  message to an MQTT broker (mosquitto_bridge/mosquitto_sink/src/mosquitto_sink_node.cpp).

  As in kafka_sink, one callback of the executor is one step; Paho's thread reports a lost or a new
  connection in between.  The enumerations, the conversions of parameter texts and the arithmetic of
  the report are those of Kafka_Sink, which the source repeats.
\<close>

section \<open>Data\<close>

record mqtt_sub =
  mq_topic_name :: string
  mq_msg_type :: string
  mq_mqtt_name :: "string option"

record mqtt_parameters =
  mp_broker_host :: string
  mp_broker_port :: int
  mp_client_id :: string
  mp_username :: string
  mp_password :: string
  mp_qos :: int
  mp_retain :: bool
  mp_keep_alive_seconds :: int
  mp_topic_prefix :: string
  mp_mapping_mode :: topic_mapping_mode
  mp_fixed_topic :: string
  mp_payload_format :: payload_format
  mp_use_tls :: bool
  mp_ca_cert_path :: string
  mp_lwt_topic :: string
  mp_lwt_payload :: string
  mp_lwt_qos :: int
  mp_lwt_retain :: bool
  mp_message_key :: string

definition default_mqtt_parameters :: mqtt_parameters where
  "default_mqtt_parameters =
     \<lparr>mp_broker_host = ''localhost'', mp_broker_port = 1883, mp_client_id = ''mosquitto_sink'',
      mp_username = [], mp_password = [], mp_qos = 1, mp_retain = False,
      mp_keep_alive_seconds = 60, mp_topic_prefix = ''ros2'', mp_mapping_mode = PREFIX_ROS_TOPIC,
      mp_fixed_topic = ''ros2/raw'', mp_payload_format = CDR, mp_use_tls = False,
      mp_ca_cert_path = [], mp_lwt_topic = [], mp_lwt_payload = ''mosquitto_sink disconnected'',
      mp_lwt_qos = 1, mp_lwt_retain = False, mp_message_key = []\<rparr>"

record mqtt_runtime =
  mr_log_label :: string
  mr_ros_topic :: string
  mr_msg_type :: string
  mr_mqtt_topic :: string
  mr_message_key :: string
  mr_payload_format :: payload_format
  mr_type_support :: type_support
  mr_next_log_time_ns :: int
  mr_sent_ok :: u64
  mr_dropped :: u64
  mr_errors :: u64
  mr_msgs_total :: u64
  mr_bytes_total :: u64
  mr_serialize_accum :: u64
  mr_send_accum :: u64
  mr_serialize_max :: u64
  mr_send_max :: u64
  mr_size_min :: u64
  mr_size_max :: u64
  mr_serialize_samples :: "u64 list"
  mr_send_samples :: "u64 list"
  mr_prev_msgs_total :: u64
  mr_prev_sent_ok :: u64
  mr_prev_dropped :: u64
  mr_prev_errors :: u64
  mr_prev_bytes_total :: u64
  mr_prev_serialize_accum :: u64
  mr_prev_send_accum :: u64

definition new_mqtt_runtime :: mqtt_runtime where
  "new_mqtt_runtime =
     \<lparr>mr_log_label = [], mr_ros_topic = [], mr_msg_type = [], mr_mqtt_topic = [],
      mr_message_key = [], mr_payload_format = CDR,
      mr_type_support = \<lparr>ts_rmw = False, ts_introspection = False, ts_members = None\<rparr>,
      mr_next_log_time_ns = 0, mr_sent_ok = 0, mr_dropped = 0, mr_errors = 0,
      mr_msgs_total = 0, mr_bytes_total = 0, mr_serialize_accum = 0, mr_send_accum = 0,
      mr_serialize_max = 0, mr_send_max = 0, mr_size_min = 2 ^ 64 - 1, mr_size_max = 0,
      mr_serialize_samples = [], mr_send_samples = [],
      mr_prev_msgs_total = 0, mr_prev_sent_ok = 0, mr_prev_dropped = 0, mr_prev_errors = 0,
      mr_prev_bytes_total = 0, mr_prev_serialize_accum = 0, mr_prev_send_accum = 0\<rparr>"

record mqtt_active =
  ma_subscription :: bool
  ma_topic_name :: string
  ma_msg_type :: string
  ma_runtime :: mqtt_runtime

text \<open>
  \<open>ms_paho\<close> is the library with the brokers, \<open>ms_steady\<close> the steady clock, \<open>ms_published\<close> what was
  published on the metrics topic, \<open>ms_live_messages\<close> the messages allocated and not freed.
\<close>

record 'm mqtt_sink =
  ms_store :: "string \<Rightarrow> param_value"
  ms_configured :: "mqtt_sub list"
  ms_active :: "mqtt_active list"
  ms_params :: mqtt_parameters
  ms_client :: "mqtt_client option"
  ms_paho :: 'm
  ms_steady :: int
  ms_is_active :: bool
  ms_qos_depth :: int
  ms_metrics_enabled :: bool
  ms_metrics_interval_ms :: int
  ms_metrics_topic :: string
  ms_metrics_pub :: bool
  ms_metrics_timer :: bool
  ms_live_messages :: nat
  ms_published :: "string list"

text \<open>The libraries; \<open>me_serialize\<close> is rmw_serialize(), a false \<open>me_subscribe\<close> a null pointer.\<close>

record ('m, 'y) mqtt_env =
  me_paho :: "'m paho"
  me_yaml :: "'y yaml"
  me_json :: json_env
  me_serialize :: "message_members \<Rightarrow> memory \<Rightarrow> u8 list option"
  me_typesupport :: typesupport_lib
  me_subscribe :: "string \<Rightarrow> string \<Rightarrow> int \<Rightarrow> bool exec"
  me_publisher :: "string \<Rightarrow> unit exec"
  me_timer :: "int \<Rightarrow> unit exec"

section \<open>Configuration\<close>

definition mqtt_parse_subscription :: "'y yaml \<Rightarrow> 'y \<Rightarrow> mqtt_sub exec" where
  "mqtt_parse_subscription Y entry =
     (if \<not> y_is_map Y entry then Exc ''Each subscription entry must be a map.''
      else
        exec_bind (y_get Y entry ''topic_name'') (\<lambda>topic_node.
        exec_bind (y_get Y entry ''msg_type'') (\<lambda>type_node.
        case (topic_node, type_node) of
          (Some tn, Some mn) \<Rightarrow>
            exec_bind (y_as_string Y tn) (\<lambda>topic.
            exec_bind (y_as_string Y mn) (\<lambda>ty.
            exec_bind (y_field Y entry ''mqtt_name'') (\<lambda>name.
            if trim topic = [] \<or> trim ty = []
            then Exc ''Subscription entries must have non-empty topic_name and msg_type.''
            else Ret \<lparr>mq_topic_name = trim topic, mq_msg_type = trim ty,
                      mq_mqtt_name = Option.bind name (non_empty \<circ> trim)\<rparr>)))
        | _ \<Rightarrow> Exc ''Each subscription entry requires 'topic_name' and 'msg_type'.'')))"

definition mqtt_parse_subscriptions :: "'y yaml \<Rightarrow> string \<Rightarrow> mqtt_sub list exec" where
  "mqtt_parse_subscriptions Y yaml_text =
     (if yaml_text = [] then Ret []
      else case y_load Y yaml_text of
        Ret doc \<Rightarrow>
          if \<not> y_is_sequence Y doc
          then Exc ''Parameter 'subscriptions_yaml' must be a YAML sequence.''
          else exec_map (mqtt_parse_subscription Y) (y_elements Y doc)
      | Err e \<Rightarrow> Exc e
      | Exc e \<Rightarrow> Exc (''Failed to parse subscriptions_yaml: '' @ e))"

text \<open>The parameters the constructor declares, with their defaults.\<close>

definition mqtt_declared :: "(string \<times> param_value) list" where
  "mqtt_declared =
     (let p = default_mqtt_parameters
      in [(''subscriptions_yaml'', PString []), (''qos_depth'', PInt 10),
          (''metrics.enabled'', PBool False), (''metrics.interval_ms'', PInt 1000),
          (''metrics.topic'', PString ''mosquitto_sink/metrics''),
          (''mqtt.broker_host'', PString (mp_broker_host p)),
          (''mqtt.broker_port'', PInt (mp_broker_port p)),
          (''mqtt.client_id'', PString (mp_client_id p)),
          (''mqtt.username'', PString (mp_username p)),
          (''mqtt.password'', PString (mp_password p)),
          (''mqtt.qos'', PInt (mp_qos p)), (''mqtt.retain'', PBool (mp_retain p)),
          (''mqtt.keep_alive_seconds'', PInt (mp_keep_alive_seconds p)),
          (''mqtt.topic_prefix'', PString (mp_topic_prefix p)),
          (''mqtt.topic_mapping_mode'', PString ''prefix_ros_topic''),
          (''mqtt.fixed_topic'', PString (mp_fixed_topic p)),
          (''mqtt.payload_format'', PString ''cdr''), (''mqtt.use_tls'', PBool (mp_use_tls p)),
          (''mqtt.ca_cert_path'', PString (mp_ca_cert_path p)),
          (''mqtt.lwt_topic'', PString (mp_lwt_topic p)),
          (''mqtt.lwt_payload'', PString (mp_lwt_payload p)),
          (''mqtt.lwt_qos'', PInt (mp_lwt_qos p)), (''mqtt.lwt_retain'', PBool (mp_lwt_retain p)),
          (''mqtt.message_key'', PString [])])"

definition new_mqtt_sink :: "(string \<Rightarrow> param_value option) \<Rightarrow> 'm \<Rightarrow> 'm mqtt_sink" where
  "new_mqtt_sink overrides w =
     \<lparr>ms_store = (\<lambda>n. case map_of mqtt_declared n of
                      None \<Rightarrow> PNotSet
                    | Some v \<Rightarrow> (case overrides n of Some x \<Rightarrow> x | None \<Rightarrow> v)),
      ms_configured = [], ms_active = [], ms_params = default_mqtt_parameters, ms_client = None,
      ms_paho = w, ms_steady = 0, ms_is_active = False, ms_qos_depth = 10,
      ms_metrics_enabled = False, ms_metrics_interval_ms = 1000,
      ms_metrics_topic = ''mosquitto_sink/metrics'', ms_metrics_pub = False,
      ms_metrics_timer = False, ms_live_messages = 0, ms_published = []\<rparr>"

definition validate_mqtt_parameters :: "mqtt_parameters \<Rightarrow> string option" where
  "validate_mqtt_parameters p =
     (if mp_broker_host p = [] then Some ''mqtt.broker_host cannot be empty.''
      else if mp_broker_port p \<le> 0 then Some ''mqtt.broker_port must be greater than zero.''
      else if mp_client_id p = [] then Some ''mqtt.client_id cannot be empty.''
      else if mp_qos p < 0 \<or> 2 < mp_qos p then Some ''mqtt.qos must be 0, 1, or 2.''
      else if mp_keep_alive_seconds p \<le> 0
      then Some ''mqtt.keep_alive_seconds must be greater than zero.''
      else if mp_mapping_mode p = FIXED \<and> mp_fixed_topic p = []
      then Some ''mqtt.fixed_topic cannot be empty when mapping mode is 'fixed'.''
      else if mp_lwt_qos p < 0 \<or> 2 < mp_lwt_qos p then Some ''mqtt.lwt_qos must be 0, 1, or 2.''
      else None)"

section \<open>Parameter updates\<close>

text \<open>What on_parameters_set() collects; \<open>md_yaml\<close> is there when an update is required.\<close>

record mqtt_pending =
  md_yaml :: "string option"
  md_depth :: int
  md_mqtt :: mqtt_parameters
  md_mqtt_changed :: bool
  md_metrics_changed :: bool
  md_metrics_enabled :: bool
  md_metrics_interval_ms :: int
  md_metrics_topic :: string

definition new_mqtt_pending :: "'m mqtt_sink \<Rightarrow> mqtt_pending" where
  "new_mqtt_pending s =
     \<lparr>md_yaml = None, md_depth = ms_qos_depth s, md_mqtt = ms_params s,
      md_mqtt_changed = False, md_metrics_changed = False,
      md_metrics_enabled = ms_metrics_enabled s,
      md_metrics_interval_ms = ms_metrics_interval_ms s,
      md_metrics_topic = ms_metrics_topic s\<rparr>"

definition collect_mqtt :: "parameter \<Rightarrow> mqtt_parameters \<Rightarrow> mqtt_parameters exec" where
  "collect_mqtt p k =
     (let n = p_name p;
          str = (\<lambda>f. exec_bind (as_string p) (\<lambda>v. Ret (f v)));
          flag = (\<lambda>f. exec_bind (as_bool p) (\<lambda>v. Ret (f v)));
          num = (\<lambda>f. exec_bind (as_int p) (\<lambda>v. Ret (f (narrow32 v))))
      in if n = ''mqtt.broker_host'' then str (\<lambda>v. k\<lparr>mp_broker_host := v\<rparr>)
         else if n = ''mqtt.broker_port'' then num (\<lambda>v. k\<lparr>mp_broker_port := v\<rparr>)
         else if n = ''mqtt.client_id'' then str (\<lambda>v. k\<lparr>mp_client_id := v\<rparr>)
         else if n = ''mqtt.username'' then str (\<lambda>v. k\<lparr>mp_username := v\<rparr>)
         else if n = ''mqtt.password'' then str (\<lambda>v. k\<lparr>mp_password := v\<rparr>)
         else if n = ''mqtt.qos'' then num (\<lambda>v. k\<lparr>mp_qos := v\<rparr>)
         else if n = ''mqtt.retain'' then flag (\<lambda>v. k\<lparr>mp_retain := v\<rparr>)
         else if n = ''mqtt.keep_alive_seconds'' then num (\<lambda>v. k\<lparr>mp_keep_alive_seconds := v\<rparr>)
         else if n = ''mqtt.topic_prefix'' then str (\<lambda>v. k\<lparr>mp_topic_prefix := v\<rparr>)
         else if n = ''mqtt.topic_mapping_mode''
         then exec_bind (as_string p) (\<lambda>v.
              exec_bind (or_fail ''invalid mqtt.topic_mapping_mode'' (mapping_mode_of v)) (\<lambda>m.
              Ret (k\<lparr>mp_mapping_mode := m\<rparr>)))
         else if n = ''mqtt.fixed_topic'' then str (\<lambda>v. k\<lparr>mp_fixed_topic := v\<rparr>)
         else if n = ''mqtt.payload_format''
         then exec_bind (as_string p) (\<lambda>v.
              exec_bind (or_fail ''invalid mqtt.payload_format'' (payload_format_of v)) (\<lambda>m.
              Ret (k\<lparr>mp_payload_format := m\<rparr>)))
         else if n = ''mqtt.use_tls'' then flag (\<lambda>v. k\<lparr>mp_use_tls := v\<rparr>)
         else if n = ''mqtt.ca_cert_path'' then str (\<lambda>v. k\<lparr>mp_ca_cert_path := v\<rparr>)
         else if n = ''mqtt.lwt_topic'' then str (\<lambda>v. k\<lparr>mp_lwt_topic := v\<rparr>)
         else if n = ''mqtt.lwt_payload'' then str (\<lambda>v. k\<lparr>mp_lwt_payload := v\<rparr>)
         else if n = ''mqtt.lwt_qos'' then num (\<lambda>v. k\<lparr>mp_lwt_qos := v\<rparr>)
         else if n = ''mqtt.lwt_retain'' then flag (\<lambda>v. k\<lparr>mp_lwt_retain := v\<rparr>)
         else if n = ''mqtt.message_key'' then str (\<lambda>v. k\<lparr>mp_message_key := v\<rparr>)
         else Ret k)"

text \<open>One round of the loop; an \<open>Err\<close> is an early return with the reason of the rejection.\<close>

definition collect_mqtt_param :: "u8 \<Rightarrow> parameter \<Rightarrow> mqtt_pending \<Rightarrow> mqtt_pending exec" where
  "collect_mqtt_param state_id p d =
     (let n = p_name p; is_active = (state_id = PRIMARY_STATE_ACTIVE)
      in if n = ''subscriptions_yaml'' then
           (if is_active then Err ''deactivate first''
            else exec_bind (as_string p) (\<lambda>v. Ret (d\<lparr>md_yaml := Some v\<rparr>)))
         else if n = ''qos_depth''
         then exec_bind (as_int p) (\<lambda>v. Ret (d\<lparr>md_depth := narrow32 v\<rparr>))
         else if starts_with ''mqtt.'' n then
           (if is_active then Err ''deactivate first''
            else exec_bind (collect_mqtt p (md_mqtt d)) (\<lambda>k.
                 Ret (d\<lparr>md_mqtt := k, md_mqtt_changed := True\<rparr>)))
         else if starts_with ''metrics.'' n then
           (if is_active then Err ''deactivate first''
            else
             (let d = d\<lparr>md_metrics_changed := True\<rparr>
              in if n = ''metrics.enabled''
                 then exec_bind (as_bool p) (\<lambda>v. Ret (d\<lparr>md_metrics_enabled := v\<rparr>))
                 else if n = ''metrics.interval_ms''
                 then exec_bind (as_int p) (\<lambda>v. Ret (d\<lparr>md_metrics_interval_ms := narrow32 v\<rparr>))
                 else if n = ''metrics.topic''
                 then exec_bind (as_string p) (\<lambda>v. Ret (d\<lparr>md_metrics_topic := v\<rparr>))
                 else Ret d))
         else Ret d)"

fun collect_mqtt_params :: "u8 \<Rightarrow> parameter list \<Rightarrow> mqtt_pending \<Rightarrow> mqtt_pending exec" where
  "collect_mqtt_params state_id [] d = Ret d"
| "collect_mqtt_params state_id (p # ps) d =
     exec_bind (collect_mqtt_param state_id p d) (collect_mqtt_params state_id ps)"

definition apply_mqtt_subscriptions ::
  "('m, 'y) mqtt_env \<Rightarrow> mqtt_pending \<Rightarrow> ('m mqtt_sink, unit) prog" where
  "apply_mqtt_subscriptions E d s =
     (case md_yaml d of
        None \<Rightarrow> (Ret (), s)
      | Some text \<Rightarrow>
          (case mqtt_parse_subscriptions (me_yaml E) text of
             Ret cs \<Rightarrow> (Ret (), s\<lparr>ms_configured := cs\<rparr>)
           | Err e \<Rightarrow> (Err e, s)
           | Exc e \<Rightarrow> (Err e, s)))"

definition apply_mqtt_qos_depth :: "mqtt_pending \<Rightarrow> ('m mqtt_sink, unit) prog" where
  "apply_mqtt_qos_depth d s =
     (case validate_qos_depth (md_depth d) of
        Some e \<Rightarrow> (Err e, s)
      | None \<Rightarrow> (Ret (), s\<lparr>ms_qos_depth := md_depth d\<rparr>))"

definition apply_mqtt :: "mqtt_pending \<Rightarrow> ('m mqtt_sink, unit) prog" where
  "apply_mqtt d s =
     (if \<not> md_mqtt_changed d then (Ret (), s)
      else case validate_mqtt_parameters (md_mqtt d) of
        Some e \<Rightarrow> (Err e, s)
      | None \<Rightarrow> (Ret (), s\<lparr>ms_params := md_mqtt d\<rparr>))"

definition apply_mqtt_metrics :: "mqtt_pending \<Rightarrow> ('m mqtt_sink, unit) prog" where
  "apply_mqtt_metrics d s =
     (Ret (),
      if md_metrics_changed d
      then s\<lparr>ms_metrics_enabled := md_metrics_enabled d,
             ms_metrics_interval_ms := md_metrics_interval_ms d,
             ms_metrics_topic := md_metrics_topic d\<rparr>
      else s)"

definition apply_mqtt_pending ::
  "('m, 'y) mqtt_env \<Rightarrow> mqtt_pending \<Rightarrow> ('m mqtt_sink, unit) prog" where
  "apply_mqtt_pending E d =
     andthen (apply_mqtt_subscriptions E d) (\<lambda>_.
     andthen (apply_mqtt_qos_depth d) (\<lambda>_.
     andthen (apply_mqtt d) (\<lambda>_. apply_mqtt_metrics d)))"

definition mqtt_parameters_set ::
  "('m, 'y) mqtt_env \<Rightarrow> u8 \<Rightarrow> parameter list \<Rightarrow> ('m mqtt_sink, set_result) prog" where
  "mqtt_parameters_set E state_id ps =
     (\<lambda>s. attempt (lift_exec (collect_mqtt_params state_id ps (new_mqtt_pending s)))
            (\<lambda>d. attempt (apply_mqtt_pending E d)
                   (\<lambda>_. ret accepted_result) (\<lambda>e. ret (rejected_result e)))
            (\<lambda>e. ret (rejected_result e)) s)"

section \<open>Reading the parameters\<close>

definition mqtt_get :: "string \<Rightarrow> (parameter \<Rightarrow> 'a exec) \<Rightarrow> ('m mqtt_sink, 'a) prog" where
  "mqtt_get n acc = (\<lambda>s. lift_exec (acc (mk_param n (ms_store s n))) s)"

definition read_mqtt_parameters ::
  "mqtt_parameters \<Rightarrow> ('m mqtt_sink, mqtt_parameters) prog" where
  "read_mqtt_parameters pending =
     andthen (mqtt_get ''mqtt.broker_host'' as_string) (\<lambda>host.
     andthen (mqtt_get ''mqtt.broker_port'' as_int) (\<lambda>port.
     andthen (mqtt_get ''mqtt.client_id'' as_string) (\<lambda>client.
     andthen (mqtt_get ''mqtt.username'' as_string) (\<lambda>user.
     andthen (mqtt_get ''mqtt.password'' as_string) (\<lambda>password.
     andthen (mqtt_get ''mqtt.qos'' as_int) (\<lambda>qos.
     andthen (mqtt_get ''mqtt.retain'' as_bool) (\<lambda>retain.
     andthen (mqtt_get ''mqtt.keep_alive_seconds'' as_int) (\<lambda>keep_alive.
     andthen (mqtt_get ''mqtt.topic_prefix'' as_string) (\<lambda>prefix.
     andthen (mqtt_get ''mqtt.topic_mapping_mode'' as_string) (\<lambda>mode.
     andthen (lift_exec (or_fail ''Invalid mqtt.topic_mapping_mode value.''
                (mapping_mode_of mode))) (\<lambda>mapping.
     andthen (mqtt_get ''mqtt.fixed_topic'' as_string) (\<lambda>fixed_topic.
     andthen (mqtt_get ''mqtt.payload_format'' as_string) (\<lambda>fmt.
     andthen (lift_exec (or_fail ''Invalid mqtt.payload_format value.''
                (payload_format_of fmt))) (\<lambda>payload.
     andthen (mqtt_get ''mqtt.use_tls'' as_bool) (\<lambda>tls.
     andthen (mqtt_get ''mqtt.ca_cert_path'' as_string) (\<lambda>cert.
     andthen (mqtt_get ''mqtt.lwt_topic'' as_string) (\<lambda>will_topic.
     andthen (mqtt_get ''mqtt.lwt_payload'' as_string) (\<lambda>will_payload.
     andthen (mqtt_get ''mqtt.lwt_qos'' as_int) (\<lambda>will_qos.
     andthen (mqtt_get ''mqtt.lwt_retain'' as_bool) (\<lambda>will_retain.
     andthen (mqtt_get ''mqtt.message_key'' as_string) (\<lambda>key.
     ret (pending\<lparr>mp_broker_host := host, mp_broker_port := narrow32 port,
            mp_client_id := client, mp_username := user, mp_password := password,
            mp_qos := narrow32 qos, mp_retain := retain,
            mp_keep_alive_seconds := narrow32 keep_alive, mp_topic_prefix := prefix,
            mp_mapping_mode := mapping, mp_fixed_topic := fixed_topic,
            mp_payload_format := payload, mp_use_tls := tls, mp_ca_cert_path := cert,
            mp_lwt_topic := will_topic, mp_lwt_payload := will_payload,
            mp_lwt_qos := narrow32 will_qos, mp_lwt_retain := will_retain,
            mp_message_key := key\<rparr>))))))))))))))))))))))"

definition store_mqtt_parameters :: "mqtt_parameters \<Rightarrow> ('m mqtt_sink, unit) prog" where
  "store_mqtt_parameters pending s =
     (case validate_mqtt_parameters pending of
        Some e \<Rightarrow> (Err e, s)
      | None \<Rightarrow> (Ret (), s\<lparr>ms_params := pending\<rparr>))"

definition configure_mqtt_parameters :: "('m mqtt_sink, unit) prog" where
  "configure_mqtt_parameters s =
     andthen (read_mqtt_parameters (ms_params s)) store_mqtt_parameters s"

text \<open>The checks of configure_from_parameters(), after it has read and stored everything.\<close>

definition check_mqtt_configuration ::
  "('m, 'y) mqtt_env \<Rightarrow> string \<Rightarrow> ('m mqtt_sink, unit) prog" where
  "check_mqtt_configuration E yaml_config s =
     (case validate_qos_depth (ms_qos_depth s) of
        Some e \<Rightarrow> (Err e, s)
      | None \<Rightarrow>
          (case mqtt_parse_subscriptions (me_yaml E) yaml_config of
              Ret cs \<Rightarrow> configure_mqtt_parameters (s\<lparr>ms_configured := cs\<rparr>)
            | Err e \<Rightarrow> (Err e, s)
            | Exc e \<Rightarrow> (Err e, s)))"

definition mqtt_configure :: "('m, 'y) mqtt_env \<Rightarrow> ('m mqtt_sink, unit) prog" where
  "mqtt_configure E =
     andthen (mqtt_get ''qos_depth'' as_int) (\<lambda>depth.
     andthen (update_state (\<lambda>s. s\<lparr>ms_qos_depth := narrow32 depth\<rparr>)) (\<lambda>_.
     andthen (mqtt_get ''subscriptions_yaml'' as_string) (\<lambda>yaml_config.
     andthen (mqtt_get ''metrics.enabled'' as_bool) (\<lambda>metrics.
     andthen (update_state (\<lambda>s. s\<lparr>ms_metrics_enabled := metrics\<rparr>)) (\<lambda>_.
     andthen (mqtt_get ''metrics.interval_ms'' as_int) (\<lambda>interval.
     andthen (update_state (\<lambda>s. s\<lparr>ms_metrics_interval_ms := narrow32 interval\<rparr>)) (\<lambda>_.
     andthen (mqtt_get ''metrics.topic'' as_string) (\<lambda>topic.
     andthen (update_state (\<lambda>s. s\<lparr>ms_metrics_topic := topic\<rparr>)) (\<lambda>_.
     check_mqtt_configuration E yaml_config)))))))))"

section \<open>The client of the node\<close>

definition server_uri :: "mqtt_parameters \<Rightarrow> string" where
  "server_uri p =
     (if mp_use_tls p then ''ssl'' else ''tcp'') @ ''://'' @ mp_broker_host p @ '':'' @
     show_int (mp_broker_port p)"

definition connect_options_of :: "mqtt_parameters \<Rightarrow> connect_options" where
  "connect_options_of p =
     \<lparr>co_keep_alive_s = mp_keep_alive_seconds p, co_clean_session = True, co_reconnect_s = (1, 30),
      co_user_name = non_empty (mp_username p), co_password = non_empty (mp_password p),
      co_will = (if mp_lwt_topic p = [] then None
                 else Some \<lparr>wi_topic = mp_lwt_topic p, wi_payload = mp_lwt_payload p,
                            wi_qos = mp_lwt_qos p, wi_retain = mp_lwt_retain p\<rparr>),
      co_ssl = (if mp_use_tls p then Some (non_empty (mp_ca_cert_path p)) else None)\<rparr>"

text \<open>A client whose last reference goes away is destroyed.\<close>

definition drop_client :: "('m, 'y) mqtt_env \<Rightarrow> 'm mqtt_sink \<Rightarrow> 'm mqtt_sink" where
  "drop_client E s =
     (case ms_client s of
        None \<Rightarrow> s
      | Some c \<Rightarrow> s\<lparr>ms_client := None, ms_paho := pa_destroy (me_paho E) (mc_handle c) (ms_paho s)\<rparr>)"

text \<open>The new client is created before the old one, if there is one, is released.\<close>

definition start_client :: "('m, 'y) mqtt_env \<Rightarrow> ('m mqtt_sink, bool) prog" where
  "start_client E s =
     (case pa_create (me_paho E) (server_uri (ms_params s)) (mp_client_id (ms_params s)) (ms_paho s) of
        (Ret h, w) \<Rightarrow>
          (let s = drop_client E (s\<lparr>ms_paho := w\<rparr>)
           in case mqtt_connect (me_paho E) (ms_steady s) (connect_options_of (ms_params s))
                     (new_mqtt_client h, ms_paho s) of
                (None, c, w) \<Rightarrow> (Ret True, s\<lparr>ms_client := Some c, ms_paho := w\<rparr>)
              | (Some _, c, w) \<Rightarrow>
                  (Ret False, drop_client E (s\<lparr>ms_client := Some c, ms_paho := w\<rparr>)))
      | (Err e, w) \<Rightarrow> (Exc e, s\<lparr>ms_paho := w\<rparr>)
      | (Exc e, w) \<Rightarrow> (Exc e, s\<lparr>ms_paho := w\<rparr>))"

definition stop_client :: "('m, 'y) mqtt_env \<Rightarrow> 'm mqtt_sink \<Rightarrow> 'm mqtt_sink" where
  "stop_client E s =
     (case ms_client s of
        None \<Rightarrow> s
      | Some c \<Rightarrow>
          (case mqtt_disconnect (me_paho E) (c, ms_paho s) of
             (c, w) \<Rightarrow> drop_client E (s\<lparr>ms_client := Some c, ms_paho := w\<rparr>)))"

section \<open>Subscriptions\<close>

definition map_mqtt_topic :: "mqtt_parameters \<Rightarrow> string \<Rightarrow> string" where
  "map_mqtt_topic p ros_topic =
     (if mp_mapping_mode p = FIXED then mp_fixed_topic p
      else
       (let normalized = drop_front (CHR ''/'') ros_topic; prefix = mp_topic_prefix p
        in if prefix = [] then normalized
           else if last prefix = CHR ''/'' \<or> normalized = [] then prefix @ normalized
           else prefix @ ''/'' @ normalized))"

definition clear_mqtt_subscriptions :: "'m mqtt_sink \<Rightarrow> 'm mqtt_sink" where
  "clear_mqtt_subscriptions s = s\<lparr>ms_active := []\<rparr>"

text \<open>Type support is needed for JSON and for the message key.\<close>

definition prepare_mqtt_runtime ::
  "typesupport_lib \<Rightarrow> mqtt_parameters \<Rightarrow> mqtt_sub \<Rightarrow> mqtt_runtime" where
  "prepare_mqtt_runtime T p c =
     (let mqtt_topic_name = (case mq_mqtt_name c of Some n \<Rightarrow> n | None \<Rightarrow> mq_topic_name c);
          rt = new_mqtt_runtime\<lparr>mr_ros_topic := mq_topic_name c, mr_msg_type := mq_msg_type c,
                 mr_mqtt_topic := map_mqtt_topic p mqtt_topic_name,
                 mr_message_key := mp_message_key p, mr_payload_format := mp_payload_format p\<rparr>;
          rt = (if mp_payload_format p = JSON \<or> mp_message_key p \<noteq> []
                then (case mqtt_load_type_support T (mq_msg_type c) (mr_type_support rt) of
                   (True, ts) \<Rightarrow> rt\<lparr>mr_type_support := ts\<rparr>
                 | (False, ts) \<Rightarrow>
                     (if mp_payload_format p = JSON
                      then rt\<lparr>mr_type_support := ts, mr_payload_format := CDR\<rparr>
                      else rt\<lparr>mr_type_support := ts\<rparr>))
                else rt)
      in rt\<lparr>mr_log_label := ''topic='' @ quoted (mq_topic_name c) @ '' mqtt_topic='' @
               quoted (mr_mqtt_topic rt) @ '' type='' @ quoted (mq_msg_type c)\<rparr>)"

text \<open>The second attempt at the type support, after the subscription exists.\<close>

definition retry_mqtt_type_support :: "typesupport_lib \<Rightarrow> mqtt_runtime \<Rightarrow> mqtt_runtime" where
  "retry_mqtt_type_support T rt =
     (if (mr_payload_format rt = JSON \<or> mr_message_key rt \<noteq> []) \<and> \<not> ts_rmw (mr_type_support rt)
      then
       (let ts = snd (mqtt_load_type_support T (mr_msg_type rt) (mr_type_support rt));
            rt = rt\<lparr>mr_type_support := ts\<rparr>
        in if ts_rmw ts \<and> ts_introspection ts then rt
           else if mr_payload_format rt = JSON then rt\<lparr>mr_payload_format := CDR\<rparr>
           else rt)
      else rt)"

text \<open>An entry is appended before its subscription is created, so the one that fails stays.\<close>

fun mqtt_subscribe_all ::
  "('m, 'y) mqtt_env \<Rightarrow> mqtt_parameters \<Rightarrow> int \<Rightarrow> mqtt_sub list \<Rightarrow> (mqtt_active list, bool) prog" where
  "mqtt_subscribe_all E p depth [] subs = (Ret True, subs)"
| "mqtt_subscribe_all E p depth (c # cs) subs =
     (let a = \<lparr>ma_subscription = False, ma_topic_name = mq_topic_name c,
               ma_msg_type = mq_msg_type c,
               ma_runtime = prepare_mqtt_runtime (me_typesupport E) p c\<rparr>
      in case me_subscribe E (mq_topic_name c) (mq_msg_type c) depth of
           Ret True \<Rightarrow>
             mqtt_subscribe_all E p depth cs
               (subs @ [a\<lparr>ma_subscription := True,
                          ma_runtime := retry_mqtt_type_support (me_typesupport E) (ma_runtime a)\<rparr>])
         | Ret False \<Rightarrow> (Ret False, subs @ [a])
         | Err e \<Rightarrow> (Exc e, subs @ [a])
         | Exc e \<Rightarrow> (Exc e, subs @ [a]))"

definition build_mqtt_subscriptions :: "('m, 'y) mqtt_env \<Rightarrow> ('m mqtt_sink, bool) prog" where
  "build_mqtt_subscriptions E s =
     (let s = clear_mqtt_subscriptions s
      in if ms_client s = None then (Ret False, s)
         else if ms_configured s = [] then (Ret True, s)
         else (case mqtt_subscribe_all E (ms_params s) (ms_qos_depth s) (ms_configured s)
                      (ms_active s) of
             (r, subs) \<Rightarrow> (r, s\<lparr>ms_active := subs\<rparr>)))"

section \<open>Lifecycle callbacks\<close>

definition mqtt_on_configure :: "('m, 'y) mqtt_env \<Rightarrow> ('m mqtt_sink, bool) prog" where
  "mqtt_on_configure E = attempt (mqtt_configure E) (\<lambda>_. ret True) (\<lambda>_. ret False)"

definition start_mqtt_metrics :: "('m, 'y) mqtt_env \<Rightarrow> ('m mqtt_sink, bool) prog" where
  "start_mqtt_metrics E s =
     (if \<not> ms_metrics_enabled s then (Ret True, s)
      else case me_publisher E (ms_metrics_topic s) of
        Ret _ \<Rightarrow>
          (let s = s\<lparr>ms_metrics_pub := True\<rparr>
           in case me_timer E (ms_metrics_interval_ms s) of
                Ret _ \<Rightarrow> (Ret True, s\<lparr>ms_metrics_timer := True\<rparr>)
              | Err e \<Rightarrow> (Exc e, s)
              | Exc e \<Rightarrow> (Exc e, s))
      | Err e \<Rightarrow> (Exc e, s)
      | Exc e \<Rightarrow> (Exc e, s))"

definition mqtt_on_activate :: "('m, 'y) mqtt_env \<Rightarrow> ('m mqtt_sink, bool) prog" where
  "mqtt_on_activate E =
     andthen (start_client E) (\<lambda>started.
       if \<not> started then ret False
       else andthen (build_mqtt_subscriptions E) (\<lambda>built.
         if \<not> built then andthen (update_state (stop_client E)) (\<lambda>_. ret False)
         else andthen (update_state (\<lambda>s. s\<lparr>ms_is_active := True\<rparr>)) (\<lambda>_. start_mqtt_metrics E)))"

definition mqtt_on_deactivate :: "('m, 'y) mqtt_env \<Rightarrow> ('m mqtt_sink, bool) prog" where
  "mqtt_on_deactivate E s =
     (let s = s\<lparr>ms_is_active := False\<rparr>;
          s = stop_client E (clear_mqtt_subscriptions s)
      in (Ret True, s\<lparr>ms_metrics_timer := False, ms_metrics_pub := False\<rparr>))"

definition mqtt_on_cleanup :: "('m, 'y) mqtt_env \<Rightarrow> ('m mqtt_sink, bool) prog" where
  "mqtt_on_cleanup E s =
     (let s = s\<lparr>ms_is_active := False\<rparr>;
          s = clear_mqtt_subscriptions (stop_client E s)
      in (Ret True, s\<lparr>ms_configured := [], ms_metrics_timer := False, ms_metrics_pub := False\<rparr>))"

definition mqtt_on_shutdown :: "('m, 'y) mqtt_env \<Rightarrow> ('m mqtt_sink, bool) prog" where
  "mqtt_on_shutdown E s =
     (let s = s\<lparr>ms_is_active := False\<rparr>;
          s = clear_mqtt_subscriptions (stop_client E s)
      in (Ret True, s\<lparr>ms_configured := []\<rparr>))"

definition mosquitto_sink_node :: "('m, 'y) mqtt_env \<Rightarrow> 'm mqtt_sink managed" where
  "mosquitto_sink_node E =
     \<lparr>on_configure = mqtt_on_configure E, on_activate = mqtt_on_activate E,
      on_deactivate = mqtt_on_deactivate E, on_cleanup = mqtt_on_cleanup E,
      on_shutdown = mqtt_on_shutdown E\<rparr>"

section \<open>A message\<close>

text \<open>
  The payload of a message, with the message key in it where one is given.  An \<open>Err\<close> is the reported
  failure of the serializer; the state counts the messages left allocated.
\<close>

definition mqtt_json_payload ::
  "json_env \<Rightarrow> mqtt_runtime \<Rightarrow> clock \<Rightarrow> u8 list \<Rightarrow> (nat, u8 list) prog" where
  "mqtt_json_payload J rt clk msg =
     andthen (mqtt_serialize_message_to_json J (mr_type_support rt) msg) (\<lambda>json_payload.
     andthen (lift_exec (apply_message_key_to_json (je_json J) json_payload (mr_message_key rt))) (\<lambda>keyed.
       let json_payload = (case keyed of Some out \<Rightarrow> out | None \<Rightarrow> json_payload)
       in andthen (lift_exec (mqtt_apply_ts_envelope_to_json (je_json J) json_payload
                     (ck_now_ns clk))) (\<lambda>stamped.
          ret (bytes_of (case stamped of Some out \<Rightarrow> out | None \<Rightarrow> json_payload)))))"

definition mqtt_cdr_payload :: "('m, 'y) mqtt_env \<Rightarrow> mqtt_runtime \<Rightarrow> u8 list \<Rightarrow> u8 list" where
  "mqtt_cdr_payload E rt msg =
     (let ts = mr_type_support rt
      in if mr_message_key rt \<noteq> [] \<and> ts_rmw ts \<and> ts_introspection ts
         then snd (inject_frame_id_into_cdr (me_json E) (me_serialize E) ts msg (mr_message_key rt) msg)
         else msg)"

definition mqtt_encode ::
  "('m, 'y) mqtt_env \<Rightarrow> mqtt_runtime \<Rightarrow> clock \<Rightarrow> u8 list \<Rightarrow> (nat, u8 list) prog" where
  "mqtt_encode E rt clk msg =
     (if mr_payload_format rt = JSON then mqtt_json_payload (me_json E) rt clk msg
      else ret (mqtt_cdr_payload E rt msg))"

definition mqtt_note_encoded :: "clock \<Rightarrow> u8 list \<Rightarrow> mqtt_runtime \<Rightarrow> mqtt_runtime" where
  "mqtt_note_encoded clk v rt =
     (let ns = ck_serialize_ns clk; msg_size = of_nat (length v) :: u64
      in rt\<lparr>mr_serialize_accum := mr_serialize_accum rt + ns,
            mr_serialize_max := store_max ns (mr_serialize_max rt),
            mr_size_min := store_min msg_size (mr_size_min rt),
            mr_size_max := store_max msg_size (mr_size_max rt),
            mr_serialize_samples := push_sample kMaxSamples ns (mr_serialize_samples rt),
            mr_msgs_total := mr_msgs_total rt + 1,
            mr_bytes_total := mr_bytes_total rt + msg_size\<rparr>)"

definition mqtt_note_published :: "clock \<Rightarrow> bool \<Rightarrow> mqtt_runtime \<Rightarrow> mqtt_runtime" where
  "mqtt_note_published clk ok rt =
     (let ns = ck_send_ns clk;
          rt = rt\<lparr>mr_send_accum := mr_send_accum rt + ns,
                  mr_send_max := store_max ns (mr_send_max rt),
                  mr_send_samples := push_sample kMaxSamples ns (mr_send_samples rt)\<rparr>;
          rt = (if ok then rt\<lparr>mr_sent_ok := mr_sent_ok rt + 1\<rparr>
                else rt\<lparr>mr_errors := mr_errors rt + 1\<rparr>)
      in if mr_next_log_time_ns rt \<le> ck_now_ns clk
         then rt\<lparr>mr_next_log_time_ns := ck_now_ns clk + kThrottleIntervalNs\<rparr> else rt)"

definition set_mqtt_runtime :: "nat \<Rightarrow> mqtt_runtime \<Rightarrow> 'm mqtt_sink \<Rightarrow> 'm mqtt_sink" where
  "set_mqtt_runtime i rt s =
     s\<lparr>ms_active := (ms_active s)[i := (ms_active s ! i)\<lparr>ma_runtime := rt\<rparr>]\<rparr>"

definition publication_of :: "mqtt_parameters \<Rightarrow> mqtt_runtime \<Rightarrow> u8 list \<Rightarrow> publication" where
  "publication_of p rt v =
     \<lparr>pu_topic = mr_mqtt_topic rt, pu_payload = v, pu_qos = mp_qos p, pu_retain = mp_retain p\<rparr>"

text \<open>The subscription's callback for a serialized message on the \<open>i\<close>-th subscription.\<close>

definition mqtt_on_message ::
  "('m, 'y) mqtt_env \<Rightarrow> nat \<Rightarrow> clock \<Rightarrow> u8 list \<Rightarrow> ('m mqtt_sink, unit) prog" where
  "mqtt_on_message E i clk msg s =
     (if \<not> ms_is_active s then (Ret (), s)
      else case ms_client s of
        None \<Rightarrow> (Ret (), s)
      | Some c \<Rightarrow>
         (let rt = ma_runtime (ms_active s ! i)
          in case mqtt_encode E rt clk msg (ms_live_messages s) of
               (Err e, live) \<Rightarrow>
                 (Ret (), set_mqtt_runtime i (rt\<lparr>mr_errors := mr_errors rt + 1\<rparr>)
                            (s\<lparr>ms_live_messages := live\<rparr>))
             | (Exc e, live) \<Rightarrow> (Exc e, s\<lparr>ms_live_messages := live\<rparr>)
             | (Ret value, live) \<Rightarrow>
                (let rt = mqtt_note_encoded clk value rt
                 in case mqtt_publish (me_paho E) (publication_of (ms_params s) rt value)
                           (c, ms_paho s) of
                      (res, c, w) \<Rightarrow>
                        (Ret (), set_mqtt_runtime i (mqtt_note_published clk (res = None) rt)
                           (s\<lparr>ms_live_messages := live, ms_client := Some c, ms_paho := w\<rparr>)))))"

section \<open>Metrics\<close>

definition mqtt_deltas_of :: "mqtt_runtime \<Rightarrow> deltas" where
  "mqtt_deltas_of rt =
     \<lparr>d_msgs = mr_msgs_total rt - mr_prev_msgs_total rt,
      d_sent = mr_sent_ok rt - mr_prev_sent_ok rt,
      d_drop = mr_dropped rt - mr_prev_dropped rt,
      d_err = mr_errors rt - mr_prev_errors rt,
      d_bytes = mr_bytes_total rt - mr_prev_bytes_total rt,
      d_serialize = mr_serialize_accum rt - mr_prev_serialize_accum rt,
      d_send = mr_send_accum rt - mr_prev_send_accum rt\<rparr>"

definition mqtt_snapshot :: "mqtt_runtime \<Rightarrow> mqtt_runtime" where
  "mqtt_snapshot rt =
     rt\<lparr>mr_prev_msgs_total := mr_msgs_total rt, mr_prev_sent_ok := mr_sent_ok rt,
        mr_prev_dropped := mr_dropped rt, mr_prev_errors := mr_errors rt,
        mr_prev_bytes_total := mr_bytes_total rt,
        mr_prev_serialize_accum := mr_serialize_accum rt,
        mr_prev_send_accum := mr_send_accum rt\<rparr>"

definition mqtt_latency_entry :: "deltas \<Rightarrow> mqtt_runtime \<Rightarrow> json" where
  "mqtt_latency_entry d rt =
     object_of [(''serialize_avg'', JU64 (average (d_serialize d) (d_msgs d))),
       (''serialize_p95'', JU64 (mqtt_calculate_percentile (mr_serialize_samples rt) p95)),
       (''serialize_p99'', JU64 (mqtt_calculate_percentile (mr_serialize_samples rt) p99)),
       (''serialize_max'', JU64 (mr_serialize_max rt)),
       (''send_avg'', JU64 (average (d_send d) (d_msgs d))),
       (''send_p95'', JU64 (mqtt_calculate_percentile (mr_send_samples rt) p95)),
       (''send_p99'', JU64 (mqtt_calculate_percentile (mr_send_samples rt) p99)),
       (''send_max'', JU64 (mr_send_max rt))]"

definition uptime_sec :: "int \<Rightarrow> mqtt_health \<Rightarrow> rat" where
  "uptime_sec now h =
     (if hl_connected h
      then double_div (double_of (of_int (now - hl_connected_since h))) 1000000000 else 0)"

definition mqtt_connection_entry :: "int \<Rightarrow> mqtt_health \<Rightarrow> json" where
  "mqtt_connection_entry now h =
     object_of [(''connected'', JBool (hl_connected h)), (''uptime_sec'', JDbl (uptime_sec now h)),
       (''reconnect_count'', JU64 (hl_reconnect_count h)), (''last_error'', JStr (hl_last_error h))]"

definition mqtt_metrics_entry :: "int \<Rightarrow> int \<Rightarrow> mqtt_health \<Rightarrow> mqtt_runtime \<Rightarrow> json" where
  "mqtt_metrics_entry ms now h rt =
     (let d = mqtt_deltas_of rt;
          ns_per_byte = ratio_or_zero (mr_serialize_accum rt) (mr_bytes_total rt)
      in object_of
        [(''ros_topic'', JStr (mr_ros_topic rt)), (''mqtt_topic'', JStr (mr_mqtt_topic rt)),
         (''msg_type'', JStr (mr_msg_type rt)),
         (''payload_format'', JStr (if mr_payload_format rt = JSON then ''json'' else ''cdr'')),
         (''interval_ms'', JInt ms),
         (''delta'', object_of [(''received'', JU64 (d_msgs d)), (''sent_ok'', JU64 (d_sent d)),
            (''dropped'', JU64 (d_drop d)), (''errors'', JU64 (d_err d)),
            (''bytes'', JU64 (d_bytes d))]),
         (''rates'', object_of [(''received_per_sec'', JDbl (rate_per_sec (d_msgs d) ms)),
            (''sent_per_sec'', JDbl (rate_per_sec (d_sent d) ms))]),
         (''message_size'', object_of
           [(''avg_bytes'', JDbl (ratio_or_zero (mr_bytes_total rt) (mr_msgs_total rt))),
            (''min_bytes'', JU64 (if mr_size_min rt = 2 ^ 64 - 1 then 0 else mr_size_min rt)),
            (''max_bytes'', JU64 (mr_size_max rt))]),
         (''latency_ns'', mqtt_latency_entry d rt),
         (''throughput'', object_of
           [(''serialize_mb_per_sec'', JDbl (mb_per_sec (d_bytes d) (d_serialize d))),
            (''send_mb_per_sec'', JDbl (mb_per_sec (d_bytes d) (d_send d)))]),
         (''cpu_efficiency'', object_of
           [(''ns_per_byte'', JDbl ns_per_byte),
            (''bytes_per_cpu_ms'',
              JDbl (if 0 < ns_per_byte then double_div 1000000 ns_per_byte else 0))]),
         (''totals'', object_of [(''received'', JU64 (mr_msgs_total rt)),
            (''sent_ok'', JU64 (mr_sent_ok rt)), (''dropped'', JU64 (mr_dropped rt)),
            (''errors'', JU64 (mr_errors rt)), (''bytes'', JU64 (mr_bytes_total rt))]),
         (''mqtt_connection'', mqtt_connection_entry now h)])"

definition mqtt_publish_metrics :: "('m, 'y) mqtt_env \<Rightarrow> ('m mqtt_sink, unit) prog" where
  "mqtt_publish_metrics E s =
     (if \<not> ms_metrics_enabled s \<or> \<not> ms_metrics_pub s then (Ret (), s)
      else
       (let h = (case ms_client s of Some c \<Rightarrow> health c | None \<Rightarrow> no_health);
            report = JArr (map (\<lambda>a. mqtt_metrics_entry (ms_metrics_interval_ms s) (ms_steady s) h
                                      (ma_runtime a)) (ms_active s));
            s = s\<lparr>ms_active :=
                  map (\<lambda>a. a\<lparr>ma_runtime := mqtt_snapshot (ma_runtime a)\<rparr>) (ms_active s)\<rparr>
        in case jl_dump (je_json (me_json E)) report of
             None \<Rightarrow> (Exc ''type_error.316'', s)
           | Some out \<Rightarrow> (Ret (), s\<lparr>ms_published := ms_published s @ [out]\<rparr>)))"

text \<open>What Paho's thread does to the client the node holds.\<close>

definition on_client :: "(mqtt_client \<Rightarrow> mqtt_client) \<Rightarrow> 'm mqtt_sink \<Rightarrow> 'm mqtt_sink" where
  "on_client f s = s\<lparr>ms_client := map_option f (ms_client s)\<rparr>"

end
