(* ===== verification/Message_Key.thy ===== *)
theory Message_Key
  imports Mosquitto_Sink
begin

text \<open>
  What the message key does to a message: as JSON and as CDR, the payload that mosquitto_sink sends
  describes the original message with header.frame_id replaced, and nothing else.
\<close>

section \<open>The strings of a message\<close>

text \<open>
  The addresses of the strings that a walk over a message reads, in the order of the walk.  In a
  message whose members do not overlap they are distinct.
\<close>

function string_reads :: "memory \<Rightarrow> message_members \<Rightarrow> nat \<Rightarrow> nat list" where
  "string_reads mem (Members sz ms) base =
     concat (map (\<lambda>m.
       (let reads = (\<lambda>p. if p = 0 then []
                       else case sub_message (type_id m) of
                         Some sub \<Rightarrow> string_reads mem sub p
                       | None \<Rightarrow> (if is_string_type (type_id m) then [p] else []))
        in if is_array m then concat (map reads (element_addresses mem m (base + offset m)))
           else reads (base + offset m))) ms)"
  by pat_completeness auto
termination
proof (relation "measure (\<lambda>(mem, ms, p). size ms)")
qed (auto dest!: member_size sub_message_size)

declare string_reads.simps [simp del]

definition scalar_reads :: "memory \<Rightarrow> message_member \<Rightarrow> nat \<Rightarrow> nat list" where
  "scalar_reads mem m p =
     (if p = 0 then []
      else case sub_message (type_id m) of
        Some sub \<Rightarrow> string_reads mem sub p
      | None \<Rightarrow> (if is_string_type (type_id m) then [p] else []))"

definition value_reads :: "memory \<Rightarrow> message_member \<Rightarrow> nat \<Rightarrow> nat list" where
  "value_reads mem m p =
     (if is_array m then concat (map (scalar_reads mem m) (element_addresses mem m p))
      else scalar_reads mem m p)"

lemma string_reads_eq:
  "string_reads mem (Members sz ms) base = concat (map (\<lambda>m. value_reads mem m (base + offset m)) ms)"
  unfolding string_reads.simps value_reads_def scalar_reads_def [abs_def] Let_def by (rule refl)

lemma member_element_size_store [simp]:
  "member_element_size (store_string a v mem) m = member_element_size mem m"
  by (simp add: member_element_size_def store_string_def split: ros_type.split)

lemma element_addresses_store [simp]:
  "element_addresses (store_string a v mem) m p = element_addresses mem m p"
proof -
  have "element_address (store_string a v mem) m p = element_address mem m p"
    by (intro ext) (simp add: element_address_def split: option.split)
  then show ?thesis by (simp add: element_addresses_def)
qed

lemma build_json_primitive_store:
  "p \<noteq> a \<or> \<not> is_string_type t \<Longrightarrow>
     build_json_primitive (store_string a v mem) t p = build_json_primitive mem t p"
  by (cases t) (auto simp: build_json_primitive_def store_string_def is_string_type_def)

lemma exec_map_eqI: "(\<And>x. x \<in> set xs \<Longrightarrow> f x = g x) \<Longrightarrow> exec_map f xs = exec_map g xs"
  by (rule exec_map_cong) simp_all

text \<open>A string that the walk does not read does not matter.\<close>

lemma build_json_value_frame:
  assumes "\<And>sub p. sub_message (type_id m) = Some sub \<Longrightarrow> a \<notin> set (string_reads mem sub p) \<Longrightarrow>
      build_json_message (store_string a v mem) sub p = build_json_message mem sub p"
    and "a \<notin> set (value_reads mem m p)"
  shows "build_json_value (store_string a v mem) m p = build_json_value mem m p"
proof -
  have scalar: "build_json_scalar (store_string a v mem) m q = build_json_scalar mem m q"
    if "a \<notin> set (scalar_reads mem m q)" for q
    using that assms(1) build_json_primitive_store [of q a "type_id m" v mem]
    by (auto simp: build_json_scalar_def scalar_reads_def split: option.split if_split_asm)
  show ?thesis
  proof (cases "is_array m")
    case True
    then have "exec_map (build_json_scalar (store_string a v mem) m) (element_addresses mem m p) =
        exec_map (build_json_scalar mem m) (element_addresses mem m p)"
      using assms(2) by (intro exec_map_eqI scalar) (auto simp: value_reads_def)
    then show ?thesis using True by (simp add: build_json_value_def build_json_array_def)
  next
    case False
    then show ?thesis using assms(2) scalar by (simp add: build_json_value_def value_reads_def)
  qed
qed

lemma build_json_message_frame:
  "a \<notin> set (string_reads mem ms base) \<Longrightarrow>
     build_json_message (store_string a v mem) ms base = build_json_message mem ms base"
proof (induction "size ms" arbitrary: ms base rule: less_induct)
  case less
  obtain sz xs where ms: "ms = Members sz xs" by (cases ms)
  have "build_json_value (store_string a v mem) m (base + offset m) =
      build_json_value mem m (base + offset m)" if m: "m \<in> set xs" for m
  proof (rule build_json_value_frame)
    show "a \<notin> set (value_reads mem m (base + offset m))"
      using less.prems m by (auto simp: ms string_reads_eq)
    show "build_json_message (store_string a v mem) sub p = build_json_message mem sub p"
      if "sub_message (type_id m) = Some sub" "a \<notin> set (string_reads mem sub p)" for sub p
      using less.hyps [OF _ that(2)] sub_message_size [OF that(1)] member_size [OF m] by (simp add: ms)
  qed
  then show ?case
    unfolding ms build_json_message_eq
    by (intro arg_cong [where f = "\<lambda>r. exec_bind r (\<lambda>kvs. Ret (object_of kvs))"] exec_map_eqI) simp
qed

lemma build_json_frame:
  "a \<notin> set (value_reads mem m p) \<Longrightarrow>
     build_json_value (store_string a v mem) m p = build_json_value mem m p"
  by (rule build_json_value_frame [OF build_json_message_frame])

section \<open>Replacing one member\<close>

lemma exec_map_Ret_iff:
  "exec_map f xs = Ret ys \<longleftrightarrow> list_all2 (\<lambda>x y. f x = Ret y) xs ys"
proof (induction xs arbitrary: ys)
  case (Cons x xs)
  then show ?case by (cases ys) (auto simp: exec_bind_Ret_iff)
qed auto

lemma object_lookup: "map_of (fold (\<lambda>(k, v). map_assign k v) kvs m) = map_of m ++ map_of (rev kvs)"
proof (induction kvs arbitrary: m)
  case (Cons a kvs)
  obtain k v where a: "a = (k, v)" by (cases a)
  have "map_of m ++ map_of (rev (a # kvs)) = (map_of m)(k \<mapsto> v) ++ map_of (rev kvs)"
    by (simp add: a map_add_assoc [symmetric])
  then show ?case using Cons.IH by (simp add: a map_of_map_assign fun_upd_def)
qed simp

text \<open>A key that comes once can be given its value at any time.\<close>

lemma object_of_replace:
  assumes "k \<notin> fst ` set post" "object_of (pre @ (k, v) # post) = JObj m"
  shows "map_of m k = Some v" and "object_of (pre @ (k, v') # post) = JObj (map_assign k v' m)"
proof -
  let ?f = "\<lambda>kvs. fold (\<lambda>(k, v). map_assign k v) kvs []"
  have ord: "ordered_map (?f kvs)" for kvs :: "(string \<times> json) list"
    using object_of_acc [of "[]" kvs] by simp
  have m: "m = ?f (pre @ (k, v) # post)" using assms(2) by (simp add: object_of_def)
  have gone: "map_of (rev post) k = None"
    using assms(1) by (simp add: map_of_eq_None_iff)
  show "map_of m k = Some v" unfolding m object_lookup by (simp add: map_add_def gone)
  have "?f (pre @ (k, v') # post) = map_assign k v' m"
  proof (rule ordered_map_eqI)
    show "ordered_map (?f (pre @ (k, v') # post))" by (rule ord)
    show "ordered_map (map_assign k v' m)" unfolding m by (rule ordered_map_assign [OF ord])
    show "map_of (?f (pre @ (k, v') # post)) = map_of (map_assign k v' m)"
      unfolding map_of_map_assign m object_lookup
      by (intro ext) (simp add: map_add_def gone split: option.split)
  qed
  then show "object_of (pre @ (k, v') # post) = JObj (map_assign k v' m)"
    by (simp add: object_of_def)
qed

lemma build_json_replace:
  assumes names: "distinct (map member_name (pre @ m # post))"
    and others: "\<And>x. x \<in> set pre \<union> set post \<Longrightarrow>
      build_json_value mem' x (base + offset x) = build_json_value mem x (base + offset x)"
    and new: "build_json_value mem' m (base + offset m) = Ret v'"
    and old: "build_json_message mem (Members sz (pre @ m # post)) base = Ret j"
  obtains kvs v where "j = JObj kvs" "map_of kvs (member_name m) = Some v"
    "build_json_value mem m (base + offset m) = Ret v"
    "build_json_message mem' (Members sz (pre @ m # post)) base = Ret (JObj (map_assign (member_name m) v' kvs))"
proof -
  let ?f = "\<lambda>mem m. exec_bind (build_json_value mem m (base + offset m)) (\<lambda>v. Ret (member_name m, v))"
  obtain ps where ps: "exec_map (?f mem) (pre @ m # post) = Ret ps" "j = object_of ps"
    using old by (auto simp: build_json_message_eq exec_bind_Ret_iff)
  let ?P = "\<lambda>mem x y. ?f mem x = Ret y"
  have "list_all2 (?P mem) (pre @ m # post) ps" using ps(1) by (simp only: exec_map_Ret_iff)
  then obtain a c where ac: "ps = a @ c" and a: "list_all2 (?P mem) pre a"
    and c: "list_all2 (?P mem) (m # post) c"
    unfolding list_all2_append1 by blast
  from c obtain y b where "c = y # b" "?f mem m = Ret y" and b: "list_all2 (?P mem) post b"
    unfolding list_all2_Cons1 by blast
  then obtain v where split: "ps = a @ (member_name m, v) # b"
    and v: "build_json_value mem m (base + offset m) = Ret v"
    using ac by (auto simp: exec_bind_Ret_iff)
  have same: "list_all2 (?P mem') xs c"
    if "list_all2 (?P mem) xs c" "set xs \<subseteq> set pre \<union> set post" for xs c
    using that(1) by (rule list.rel_mono_strong) (use that(2) others in auto)
  have "exec_map (?f mem') (pre @ m # post) = Ret (a @ (member_name m, v') # b)"
    unfolding exec_map_Ret_iff using same [OF a] same [OF b] new
    by (intro list_all2_appendI list.rel_intros) simp_all
  then have run: "build_json_message mem' (Members sz (pre @ m # post)) base =
      Ret (object_of (a @ (member_name m, v') # b))"
    by (simp add: build_json_message_eq)
  have "list_all2 (\<lambda>x y. fst y = member_name x) post b"
    by (rule list_all2_mono [OF b]) (auto simp: exec_bind_Ret_iff)
  then have "map fst b = map member_name post" by (induction rule: list_all2_induct) simp_all
  then have "fst ` set b = member_name ` set post" by (metis set_map)
  then have fresh: "member_name m \<notin> fst ` set b" using names by auto
  obtain kvs where kvs: "object_of ps = JObj kvs" by (rule object_of_shape)
  show thesis
    using that [OF _ object_of_replace(1) [OF fresh] v] object_of_replace(2) [OF fresh] kvs run ps(2)
    by (simp add: split)
qed

lemma build_json_member:
  assumes "build_json_message mem (Members sz xs) base = Ret j" "x \<in> set xs"
  obtains v where "build_json_value mem x (base + offset x) = Ret v"
proof -
  obtain ps where "exec_map (\<lambda>m. exec_bind (build_json_value mem m (base + offset m))
      (\<lambda>v. Ret (member_name m, v))) xs = Ret ps"
    using assms(1) by (auto simp: build_json_message_eq exec_bind_Ret_iff)
  then have "\<exists>y. exec_bind (build_json_value mem x (base + offset x)) (\<lambda>v. Ret (member_name x, v)) = Ret y"
    using exec_map_Ret assms(2) by (fastforce simp: list_all2_conv_all_nth in_set_conv_nth)
  then show thesis using that by (auto simp: exec_bind_Ret_iff)
qed

section \<open>The key in the message\<close>

text \<open>
  The message types ROS generates: the members of a message have names of their own, a header is one
  message and its frame_id one string.
\<close>

definition names_distinct :: "message_members \<Rightarrow> bool" where
  "names_distinct ms \<longleftrightarrow> distinct (map member_name (members ms))"

definition key_layout :: "message_members \<Rightarrow> bool" where
  "key_layout ms \<longleftrightarrow> names_distinct ms \<and>
     list_all (\<lambda>m. is_header m \<longrightarrow> \<not> is_array m \<and>
       (case sub_message (type_id m) of
          None \<Rightarrow> True
        | Some hs \<Rightarrow> names_distinct hs \<and> list_all (\<lambda>hm. is_frame_id hm \<longrightarrow> \<not> is_array hm) (members hs)))
       (members ms)"

lemma find_mem: "List.find P xs = Some x \<Longrightarrow> x \<in> set xs \<and> P x"
  by (auto simp: find_Some_iff)

text \<open>The members on the way to the address that is overwritten.\<close>

lemma frame_id_path:
  assumes "frame_id_address ms base = Some a" "key_layout ms"
  obtains sz pre m post sz' pre' hm post' where
    "ms = Members sz (pre @ m # post)" "distinct (map member_name (pre @ m # post))"
    "member_name m = ''header''" "\<not> is_array m"
    "sub_message (type_id m) = Some (Members sz' (pre' @ hm # post'))"
    "distinct (map member_name (pre' @ hm # post'))"
    "member_name hm = ''frame_id''" "\<not> is_array hm" "type_id hm = ROS_TYPE_STRING"
    "a = base + offset m + offset hm"
proof -
  obtain sz xs where ms: "ms = Members sz xs" by (cases ms)
  obtain m hs hm where m: "List.find is_header xs = Some m" "sub_message (type_id m) = Some hs"
    and hm: "List.find is_frame_id (members hs) = Some hm" and a: "a = base + offset m + offset hm"
    using assms(1) by (auto simp: frame_id_address_def ms split: option.split_asm)
  obtain sz' ys where hs: "hs = Members sz' ys" by (cases hs)
  have m': "m \<in> set xs" "is_header m" and hm': "hm \<in> set ys" "is_frame_id hm"
    using find_mem [OF m(1)] find_mem [OF hm] by (simp_all add: hs)
  obtain pre post where xs: "xs = pre @ m # post" using split_list [OF m'(1)] by blast
  obtain pre' post' where ys: "ys = pre' @ hm # post'" using split_list [OF hm'(1)] by blast
  have layout: "names_distinct ms" "\<not> is_array m" "names_distinct hs" "\<not> is_array hm"
    using assms(2) m' hm' by (auto simp: key_layout_def ms list_all_iff m(2) hs)
  have "type_id hm = ROS_TYPE_STRING"
    using hm'(2) by (cases "type_id hm") (simp_all add: is_frame_id_def is_string_type_def)
  then show thesis
    using that [of sz pre m post sz' pre' hm post'] layout m(2) m'(2) hm'(2) a
    by (simp add: ms xs hs ys names_distinct_def is_header_def is_frame_id_def)
qed

text \<open>Storing a string at that address changes the JSON of the message in header.frame_id only.\<close>

lemma stored_key_json:
  assumes "frame_id_address ms base = Some a" "key_layout ms" "0 < base"
    and reads: "distinct (string_reads mem ms base)" and old: "build_json_message mem ms base = Ret j"
  obtains kvs h where "j = JObj kvs" "map_of kvs ''header'' = Some (JObj h)"
    "build_json_message (store_string a key mem) ms base =
       Ret (JObj (map_assign ''header'' (JObj (map_assign ''frame_id'' (JStr key) h)) kvs))"
proof -
  let ?mem = "store_string a key mem"
  from assms(1,2) obtain sz pre m post sz' pre' hm post' where
    ms: "ms = Members sz (pre @ m # post)" and names: "distinct (map member_name (pre @ m # post))"
    and m: "member_name m = ''header''" "\<not> is_array m"
    and sub: "sub_message (type_id m) = Some (Members sz' (pre' @ hm # post'))"
    and names': "distinct (map member_name (pre' @ hm # post'))"
    and hm: "member_name hm = ''frame_id''" "\<not> is_array hm" "type_id hm = ROS_TYPE_STRING"
    and a: "a = base + offset m + offset hm"
    by (rule frame_id_path)
  let ?hs = "Members sz' (pre' @ hm # post')" and ?p = "base + offset m"
  have reads_m: "value_reads mem m ?p = string_reads mem ?hs ?p"
    using m(2) sub assms(3) by (simp add: value_reads_def scalar_reads_def)
  have reads_hm: "value_reads mem hm (?p + offset hm) = [a]"
    using hm assms(3) by (simp add: value_reads_def scalar_reads_def sub_message_def is_string_type_def a)
  let ?R = "\<lambda>b xs. concat (map (\<lambda>x. value_reads mem x (b + offset x)) xs)"
  have "distinct (?R base pre @ string_reads mem ?hs ?p @ ?R base post)"
    using reads by (simp add: ms string_reads_eq reads_m)
  moreover have "string_reads mem ?hs ?p = ?R ?p pre' @ [a] @ ?R ?p post'"
    by (simp add: string_reads_eq reads_hm)
  ultimately have once: "a \<notin> set (?R base pre)" "a \<notin> set (?R base post)"
    "a \<notin> set (?R ?p pre')" "a \<notin> set (?R ?p post')"
    by auto
  have inner: "build_json_value ?mem x (?p + offset x) = build_json_value mem x (?p + offset x)"
    if "x \<in> set pre' \<union> set post'" for x
    using once(3,4) that by (intro build_json_frame) auto
  have outer: "build_json_value ?mem x (base + offset x) = build_json_value mem x (base + offset x)"
    if "x \<in> set pre \<union> set post" for x
    using once(1,2) that by (intro build_json_frame) auto
  have new: "build_json_value ?mem hm (?p + offset hm) = Ret (JStr key)"
    using hm assms(3) by (simp add: build_json_value_def build_json_scalar_def sub_message_def
        build_json_primitive_def store_string_def a)
  have header: "build_json_value M m ?p = build_json_message M ?hs ?p" for M
    using m(2) sub assms(3) by (simp add: build_json_value_def build_json_scalar_def)
  obtain jh where jh: "build_json_message mem ?hs ?p = Ret jh"
    using build_json_member [of mem sz "pre @ m # post" base j m] old header [of mem] by (auto simp: ms)
  from build_json_replace [OF names' inner new jh] obtain h where
    h: "jh = JObj h" "build_json_message ?mem ?hs ?p = Ret (JObj (map_assign ''frame_id'' (JStr key) h))"
    using hm(1) by metis
  have m_new: "build_json_value ?mem m ?p = Ret (JObj (map_assign ''frame_id'' (JStr key) h))"
    using header [of ?mem] h(2) by simp
  from build_json_replace [OF names outer m_new old [unfolded ms]] obtain kvs v where
    kvs: "j = JObj kvs" "map_of kvs ''header'' = Some v" "build_json_value mem m ?p = Ret v"
    "build_json_message ?mem ms base =
       Ret (JObj (map_assign ''header'' (JObj (map_assign ''frame_id'' (JStr key) h)) kvs))"
    using m(1) ms by metis
  then have "v = JObj h" using header [of mem] jh h(1) by simp
  then show thesis using that kvs by simp
qed

section \<open>Both formats\<close>

text \<open>
  A JSON value as nlohmann::json reads it back from its text: a number without a sign is unsigned.
\<close>

function json_norm :: "json \<Rightarrow> json" where
  "json_norm JNull = JNull"
| "json_norm (JBool b) = JBool b"
| "json_norm (JInt i) = (if 0 \<le> i then JUInt (nat i) else JInt i)"
| "json_norm (JUInt n) = JUInt n"
| "json_norm (JFloat d) = JFloat d"
| "json_norm (JStr s) = JStr s"
| "json_norm (JArr js) = JArr (map json_norm js)"
| "json_norm (JObj m) = JObj (map (\<lambda>p. (fst p, json_norm (snd p))) m)"
  by pat_completeness auto
termination
proof (relation "measure size")
  show "(snd p, JObj m) \<in> measure size" if "p \<in> set m" for p :: "string \<times> json" and m
    using size_list_estimation' [OF that, of "size (snd p)" "size_prod (\<lambda>x. 0) size"]
    by (cases p) simp
  show "(j, JArr js) \<in> measure size" if "j \<in> set js" for j js
    using size_list_estimation' [OF that order_refl, of size] by simp
qed simp

lemma json_norm_object [simp]: "json_norm (JObj m) = JObj (map (\<lambda>(k, v). (k, json_norm v)) m)"
  by (simp add: case_prod_unfold)

declare json_norm.simps(8) [simp del]

text \<open>Writing the key into the parsed payload.\<close>

lemma apply_key_to_object:
  assumes "key \<noteq> []" "jl_parse L text = Some (json_norm (JObj kvs))"
    and "map_of kvs ''header'' = Some (JObj h)" "\<And>j. jl_dump L (json_norm j) = jl_dump L j"
  shows "apply_message_key_to_json L text key =
    exec_bind (or_throw ''type_error.316'' (jl_dump L
      (JObj (map_assign ''header'' (JObj (map_assign ''frame_id'' (JStr key) h)) kvs))))
      (\<lambda>out. Ret (Some out))"
proof -
  let ?n = "\<lambda>m. map (\<lambda>(k, v). (k, json_norm v)) m"
  let ?new = "JObj (map_assign ''header'' (JObj (map_assign ''frame_id'' (JStr key) h)) kvs)"
  have "json_at (JObj (?n kvs)) ''header'' = JObj (?n h)" "json_contains (JObj (?n kvs)) ''header''"
    using assms(3) by (simp_all add: json_at_def json_contains_def)
  moreover have "JObj (map_assign ''header'' (JObj (map_assign ''frame_id'' (JStr key) (?n h))) (?n kvs)) =
      json_norm ?new"
    by (simp add: map_assign_values)
  ultimately show ?thesis
    using assms(1,2) assms(4) [of ?new]
    by (simp add: apply_message_key_to_json_def json_is_object_def json_assign_def)
qed

lemma serialize_message_Ret:
  assumes "serialize_message_to_json J ts bytes live = (Ret out, live')" "ts_members ts = Some ms"
  obtains mem j where "ts_rmw ts" "ts_introspection ts" "0 < size_of ms" "0 < je_malloc J (size_of ms)"
    "je_deserialize J bytes = Some mem" "build_json_message mem ms (je_malloc J (size_of ms)) = Ret j"
    "jl_dump (je_json J) j = Some out"
  using assms
  by (auto simp: serialize_message_to_json_def exec_bind_Ret_iff or_throw_def
      split: if_split_asm option.split_asm exec.split_asm)

text \<open>
  C14: The message key acts on both formats alike.  When a message that has a string header.frame_id
  and no overlapping members is forwarded as CDR with a message key, turning what was sent into JSON
  gives exactly the text that the JSON format sends for the same message and key (before the latency
  envelope is added), provided that rmw reads back what it wrote and that parsing a JSON text and
  printing it again gives the same text.
\<close>

theorem message_key_is_the_same_in_both_formats:
  assumes rt: "mr_type_support rt = ts" "mr_message_key rt \<noteq> []"
    and ms: "ts_members ts = Some ms" "key_layout ms"
    and mem: "je_deserialize (me_json E) msg = Some mem" "base = je_malloc (me_json E) (size_of ms)"
      "distinct (string_reads mem ms base)" "frame_id_address ms base = Some a"
    and rmw: "me_serialize E ms (store_string a (mr_message_key rt) mem) = Some out"
      "je_deserialize (me_json E) out = Some (store_string a (mr_message_key rt) mem)"
    and plain: "serialize_message_to_json (me_json E) ts msg live = (Ret payload, live)"
    and json: "\<And>j. build_json_message mem ms base = Ret j \<Longrightarrow>
        jl_parse (je_json (me_json E)) payload = Some (json_norm j)"
      "\<And>j. jl_dump (je_json (me_json E)) (json_norm j) = jl_dump (je_json (me_json E)) j"
    and keyed: "apply_message_key_to_json (je_json (me_json E)) payload (mr_message_key rt) = Ret result"
  shows "mqtt_cdr_payload E rt msg = out \<and>
    (\<exists>json_payload. result = Some json_payload \<and>
       serialize_message_to_json (me_json E) ts (mqtt_cdr_payload E rt msg) live = (Ret json_payload, live))"
proof -
  let ?J = "me_json E" and ?key = "mr_message_key rt"
  obtain j where ts: "ts_rmw ts" "ts_introspection ts" "0 < size_of ms" "0 < base"
    and j: "build_json_message mem ms base = Ret j"
    using plain ms(1) by (rule serialize_message_Ret) (use mem in auto)
  have cdr: "mqtt_cdr_payload E rt msg = out"
    using rt ts ms(1) mem rmw(1) by (simp add: mqtt_cdr_payload_def inject_frame_id_into_cdr_def)
  from stored_key_json [OF mem(4) ms(2) ts(4) mem(3) j, of ?key] obtain kvs h where
    kvs: "j = JObj kvs" "map_of kvs ''header'' = Some (JObj h)"
    and new: "build_json_message (store_string a ?key mem) ms base =
       Ret (JObj (map_assign ''header'' (JObj (map_assign ''frame_id'' (JStr ?key) h)) kvs))" by metis
  let ?new = "JObj (map_assign ''header'' (JObj (map_assign ''frame_id'' (JStr ?key) h)) kvs)"
  have "exec_bind (or_throw ''type_error.316'' (jl_dump (je_json ?J) ?new)) (\<lambda>out. Ret (Some out)) = Ret result"
    using apply_key_to_object [OF rt(2) json(1) [OF j, unfolded kvs(1)] kvs(2) json(2)] keyed by simp
  then obtain json_payload where dump: "result = Some json_payload"
    "jl_dump (je_json ?J) ?new = Some json_payload"
    by (cases "jl_dump (je_json ?J) ?new") auto
  have "serialize_message_to_json ?J ts out live = (Ret json_payload, live)"
    using ts ms(1) mem(2) rmw(2) new dump(2) by (simp add: serialize_message_to_json_def)
  then show ?thesis using cdr dump(1) by simp
qed

text \<open>A message with a header and a second string, and libraries that know it with two keys.\<close>

definition sample_header :: message_members where
  "sample_header = Members 48
     [Member ''seq'' ROS_TYPE_INT32 0 False 0 None None,
      Member ''frame_id'' ROS_TYPE_STRING 16 False 0 None None]"

definition sample_keyed_message :: message_members where
  "sample_keyed_message = Members 80
     [Member ''header'' (ROS_TYPE_MESSAGE (Some sample_header)) 0 False 0 None None,
      Member ''frame_id'' ROS_TYPE_STRING 48 False 0 None None]"

definition sample_plain_json :: json where
  "sample_plain_json = JObj [(''frame_id'', JStr ''s''),
     (''header'', JObj [(''frame_id'', JStr ''s''), (''seq'', JInt 0)])]"

definition sample_key_json :: json_env where
  "sample_key_json =
     \<lparr>je_json = \<lparr>jl_parse = (\<lambda>t. if t = ''plain'' then Some (json_norm sample_plain_json) else None),
        jl_dump = (\<lambda>j. if json_norm j = json_norm sample_plain_json then Some ''plain''
                     else Some ''keyed'')\<rparr>,
      je_malloc = (\<lambda>_. 100),
      je_deserialize = (\<lambda>bytes. if bytes = [1] then Some sample_memory
         else if bytes = [2] then Some (store_string 116 ''r1'' sample_memory) else None)\<rparr>"

definition sample_key_env :: "(unit, ytree) mqtt_env" where
  "sample_key_env =
     \<lparr>me_paho = \<lparr>pa_create = (\<lambda>_ _ w. (Ret 0, w)), pa_connect = (\<lambda>_ _ w. (None, w)),
        pa_is_connected = (\<lambda>_ _. True), pa_disconnect = (\<lambda>_ w. (None, w)),
        pa_publish = (\<lambda>_ _ w. (None, w)), pa_destroy = (\<lambda>_ w. w)\<rparr>,
      me_yaml = sample_yaml (\<lambda>_. Exc ''bad document''), me_json = sample_key_json,
      me_serialize = (\<lambda>_ mem. if m_string mem 116 = ''r1'' then Some [2] else Some [1]),
      me_typesupport = \<lparr>tl_library = (\<lambda>_ _. Ret True), tl_handle = (\<lambda>_ _. Ret True),
        tl_members = (\<lambda>_. Some sample_keyed_message)\<rparr>,
      me_subscribe = (\<lambda>_ _ _. Ret True), me_publisher = (\<lambda>_. Ret ()), me_timer = (\<lambda>_. Ret ())\<rparr>"

definition sample_key_runtime :: mqtt_runtime where
  "sample_key_runtime =
     new_mqtt_runtime\<lparr>mr_message_key := ''r1'',
       mr_type_support := \<lparr>ts_rmw = True, ts_introspection = True, ts_members = Some sample_keyed_message\<rparr>\<rparr>"

lemma sample_keyed_message_json: "build_json_message sample_memory sample_keyed_message 100 = Ret sample_plain_json"
  by code_simp

theorem message_key_is_the_same_in_both_formats_witness:
  "mqtt_cdr_payload sample_key_env sample_key_runtime [1] = [2] \<and>
   fst (serialize_message_to_json sample_key_json (mr_type_support sample_key_runtime)
     (mqtt_cdr_payload sample_key_env sample_key_runtime [1]) 0) = Ret ''keyed''"
proof -
  let ?ts = "mr_type_support sample_key_runtime" and ?L = "je_json sample_key_json"
  have env: "me_json sample_key_env = sample_key_json" "mr_message_key sample_key_runtime = ''r1''"
    "ts_members ?ts = Some sample_keyed_message" "je_malloc sample_key_json (size_of sample_keyed_message) = 100"
    by (simp_all add: sample_key_env_def sample_key_runtime_def sample_key_json_def)
  have mem: "je_deserialize sample_key_json [1] = Some sample_memory"
    "je_deserialize sample_key_json [2] = Some (store_string 116 ''r1'' sample_memory)"
    "me_serialize sample_key_env sample_keyed_message (store_string 116 ''r1'' sample_memory) = Some [2]"
    by (simp_all add: sample_key_json_def sample_key_env_def store_string_def)
  have layout: "key_layout sample_keyed_message" "distinct (string_reads sample_memory sample_keyed_message 100)"
    "frame_id_address sample_keyed_message 100 = Some 116"
    by code_simp+
  have plain: "serialize_message_to_json sample_key_json ?ts [1] 0 = (Ret ''plain'', 0)"
    by (simp add: serialize_message_to_json_def env mem sample_keyed_message_json)
       (simp add: sample_key_runtime_def sample_key_json_def sample_keyed_message_def)
  have json: "jl_parse ?L ''plain'' = Some (json_norm j)"
    if "build_json_message sample_memory sample_keyed_message 100 = Ret j" for j
    using that sample_keyed_message_json by (simp add: sample_key_json_def)
  have idem: "json_norm (json_norm j) = json_norm j" for j
  proof (induction j rule: json_norm.induct)
    case (8 m)
    then show ?case by (auto simp: comp_def split: prod.split)
  qed (simp_all add: comp_def)
  then have norm: "jl_dump ?L (json_norm j) = jl_dump ?L j" for j by (simp add: sample_key_json_def)
  have keyed: "apply_message_key_to_json ?L ''plain'' ''r1'' = Ret (Some ''keyed'')" by code_simp
  have "mqtt_cdr_payload sample_key_env sample_key_runtime [1] = [2] \<and>
      (\<exists>json_payload. Some ''keyed'' = Some json_payload \<and> serialize_message_to_json (me_json sample_key_env)
        ?ts (mqtt_cdr_payload sample_key_env sample_key_runtime [1]) 0 = (Ret json_payload, 0))"
    by (rule message_key_is_the_same_in_both_formats [where ms = sample_keyed_message and base = 100
          and a = 116 and mem = sample_memory and payload = "''plain''"])
       (simp_all add: env mem layout plain json norm keyed)
  then show ?thesis by (auto simp: env(1))
qed

end
