(* ===== verification/Controller_Effects.thy ===== *)
theory Controller_Effects
  imports Dispatcher_Invariant
begin

text \<open>
  dispatcher_controller, what its handlers do to the rest of the system.  A preorder on worlds that
  every service client obeys is respected by every handler: the handlers touch the world through
  the clients alone.  The locale \<open>world_order\<close> is that argument, made once.
\<close>

definition moves :: "('w \<Rightarrow> 'w \<Rightarrow> bool) \<Rightarrow> 'w controller \<Rightarrow> 'w controller \<Rightarrow> bool" where
  "moves Q s t \<longleftrightarrow> Q (ct_world s) (ct_world t)"

definition obeys :: "('w \<Rightarrow> 'w \<Rightarrow> bool) \<Rightarrow> ('q, 'r, 'w) client \<Rightarrow> bool" where
  "obeys Q cl \<longleftrightarrow> (\<forall>w. Q w (snd (cl_ready cl w))) \<and> (\<forall>q w. Q w (snd (cl_call cl q w)))"

text \<open>The services that do not concern a sink, those of each sink, and all that a controller uses.\<close>

definition others_obey :: "('w \<Rightarrow> 'w \<Rightarrow> bool) \<Rightarrow> ('n, 'w) services \<Rightarrow> bool" where
  "others_obey Q E \<longleftrightarrow> obeys Q (sv_introspection E) \<and> obeys Q (sv_introspection_param E) \<and>
     obeys Q (sv_load_node E) \<and> obeys Q (sv_unload_node E)"

definition services_obey :: "('w \<Rightarrow> 'w \<Rightarrow> bool) \<Rightarrow> ('n, 'w) services \<Rightarrow> bool" where
  "services_obey Q E \<longleftrightarrow> others_obey Q E \<and>
     obeys Q (sv_change_state E) \<and> obeys Q (sv_get_state E) \<and> obeys Q (sv_set_parameters E) \<and>
     obeys Q (sv_mosquitto_change_state E) \<and> obeys Q (sv_mosquitto_get_state E) \<and>
     obeys Q (sv_mosquitto_set_parameters E)"

lemma moves_update:
  "(\<And>s. ct_world (g s) = ct_world s) \<Longrightarrow> (\<And>w. Q w w) \<Longrightarrow> keeps (moves Q) (update_state g)"
  by (simp add: keeps_def moves_def)

locale world_order =
  fixes Q :: "'w \<Rightarrow> 'w \<Rightarrow> bool"
  assumes refl: "Q w w" and trans: "Q a b \<Longrightarrow> Q b c \<Longrightarrow> Q a c"
begin

lemma moves_refl: "moves Q s s"
  by (simp add: moves_def refl)

lemma keeps_seq:
  "keeps (moves Q) m \<Longrightarrow> (\<And>a. keeps (moves Q) (k a)) \<Longrightarrow> keeps (moves Q) (andthen m k)"
  "keeps (moves Q) m \<Longrightarrow> (\<And>a. keeps (moves Q) (k a)) \<Longrightarrow> (\<And>e. keeps (moves Q) (h e)) \<Longrightarrow>
   keeps (moves Q) (attempt m k h)"
  by (rule keeps_andthen keeps_attempt; auto simp: moves_def intro: trans)+

lemma keeps_free: "(\<And>s. ct_world (snd (m s)) = ct_world s) \<Longrightarrow> keeps (moves Q) m"
  by (simp add: keeps_def moves_def refl)

lemmas keeps_steps = keeps_pure [of "moves Q", OF moves_refl] keeps_seq keeps_if [of _ "moves Q"]
  keeps_option [of "moves Q"] keeps_reply [of "moves Q"] moves_update [of _ Q, OF _ refl]

lemma ask_moves:
  assumes "obeys Q cl"
  shows "keeps (moves Q) (ask cl q)" "keeps (moves Q) (ask_ready cl)" "keeps (moves Q) (ask_now cl q)"
proof -
  have ready: "Q w w'" if "cl_ready cl w = (b, w')" for w b w'
    using assms that by (metis snd_conv obeys_def)
  have call: "Q w w'" if "cl_call cl q w = (r, w')" for w r w'
    using assms that by (metis snd_conv obeys_def)
  have "Q w (snd (wait_and_call cl q w))" for w
    by (auto simp: wait_and_call_def split: prod.split bool.split option.split
        dest!: ready call intro: trans)
  then show "keeps (moves Q) (ask cl q)"
    by (simp add: keeps_def moves_def ask_def split_beta)
  show "keeps (moves Q) (ask_ready cl)" "keeps (moves Q) (ask_now cl q)"
    using assms by (simp_all add: keeps_def moves_def ask_ready_def ask_now_def obeys_def split_beta)
qed

subsection \<open>Driving a sink\<close>

lemma skip_moves: "keeps (moves Q) (should_skip_unavailable_sink l)"
  by (rule keeps_free) (simp add: should_skip_unavailable_sink_def)

lemma state_moves: "obeys Q g \<Longrightarrow> keeps (moves Q) (get_sink_state (Some g))"
  unfolding get_sink_state_def option.case by (intro keeps_steps ask_moves)

lemma change_moves: "obeys Q ch \<Longrightarrow> keeps (moves Q) (change_sink_state l (Some ch) tr a)"
  unfolding change_sink_state_def option.case by (intro keeps_steps ask_moves)

lemma set_moves: "obeys Q sp \<Longrightarrow> keeps (moves Q) (set_sink_subscriptions_yaml E l (Some sp) subs)"
  unfolding set_sink_subscriptions_yaml_def option.case by (intro keeps_steps ask_moves skip_moves)

lemma bring_down_moves:
  "obeys Q ch \<Longrightarrow> obeys Q g \<Longrightarrow> keeps (moves Q) (bring_down_if_active l (Some ch) (Some g) st)"
  unfolding bring_down_if_active_def by (intro keeps_steps state_moves change_moves)

lemma configure_moves:
  "obeys Q ch \<Longrightarrow> keeps (moves Q) (configure_if_unconfigured l (Some ch) st)"
  unfolding configure_if_unconfigured_def by (intro keeps_steps change_moves)

lemmas sink_moves = state_moves change_moves set_moves bring_down_moves configure_moves skip_moves

lemma selection_moves:
  assumes "obeys Q ch" "obeys Q g" "obeys Q sp"
  shows "keeps (moves Q) (apply_selection_to_sink E l n (Some ch) (Some g) (Some sp) subs)"
  unfolding apply_selection_to_sink_def by (intro keeps_steps sink_moves assms)

lemma deactivate_moves:
  assumes "obeys Q ch" "obeys Q g"
  shows "keeps (moves Q) (deactivate_sink l n (Some ch) (Some g))"
  unfolding deactivate_sink_def by (intro keeps_steps sink_moves assms)

text \<open>The Mosquitto sink, whose clients are missing only where they are not used.\<close>

lemma mosquitto_moves:
  assumes "obeys Q (sv_mosquitto_change_state E)" "obeys Q (sv_mosquitto_get_state E)"
    "obeys Q (sv_mosquitto_set_parameters E)"
  shows "keeps (moves Q) (apply_to_mosquitto E subs)"
    and "keeps (moves Q) (\<lambda>s. deactivate_sink ''mosquitto_sink'' (mosquitto_sink_node_name s)
      (mosquitto_client s (sv_mosquitto_change_state E))
      (mosquitto_client s (sv_mosquitto_get_state E)) s)"
    and "keeps (moves Q) (mosquitto_observed E)"
proof -
  have no_sink: "apply_selection_to_sink E l [] c g p subs = ret ()" "deactivate_sink l [] c g = ret ()"
    for l c g p by (simp_all add: apply_selection_to_sink_def deactivate_sink_def)
  have "moves Q s (snd (apply_to_mosquitto E subs s))" for s
    using keeps_snd [OF selection_moves [OF assms]] moves_refl
    by (cases "mosquitto_sink_node_name s = []")
       (simp_all add: apply_to_mosquitto_def mosquitto_client_def no_sink)
  then show "keeps (moves Q) (apply_to_mosquitto E subs)" by (rule keepsI)
  have "moves Q s (snd (deactivate_sink ''mosquitto_sink'' (mosquitto_sink_node_name s)
      (mosquitto_client s (sv_mosquitto_change_state E))
      (mosquitto_client s (sv_mosquitto_get_state E)) s))" for s
    using keeps_snd [OF deactivate_moves [OF assms(1,2)]] moves_refl
    by (cases "mosquitto_sink_node_name s = []") (simp_all add: mosquitto_client_def no_sink)
  then show "keeps (moves Q) (\<lambda>s. deactivate_sink ''mosquitto_sink'' (mosquitto_sink_node_name s)
      (mosquitto_client s (sv_mosquitto_change_state E))
      (mosquitto_client s (sv_mosquitto_get_state E)) s)" by (rule keepsI)
  have "moves Q s (snd (mosquitto_observed E s))" for s
    using keeps_snd [OF state_moves [OF assms(2)]] moves_refl
    by (simp add: mosquitto_observed_def mosquitto_client_def)
  then show "keeps (moves Q) (mosquitto_observed E)" by (rule keepsI)
qed

subsection \<open>Types, tools and the introspection manager\<close>

lemma infer_moves: "others_obey Q E \<Longrightarrow> keeps (moves Q) (infer_missing_types E topics)"
  unfolding infer_missing_types_def others_obey_def by (intro keeps_steps ask_moves) simp_all

lemma validated_moves: "others_obey Q E \<Longrightarrow> keeps (moves Q) (validated_selection E topics)"
  using keeps_snd [OF infer_moves] moves_refl
  by (auto intro!: keepsI simp: validated_selection_def)

lemma clear_moves:
  assumes "others_obey Q E"
  shows "keeps (moves Q) (clear_active_topic_tools E)"
proof -
  have unload: "obeys Q (sv_unload_node E)" using assms by (simp add: others_obey_def)
  have tools: "keeps (moves Q) (unload_tools E m)" for m
  proof (induction m)
    case (Cons x m)
    have "keeps (moves Q) (deactivate_and_unload_tool E tool)" for tool
      unfolding deactivate_and_unload_tool_def by (intro keeps_steps ask_moves unload)
    with Cons show ?case by (cases x) (simp add: keeps_seq)
  qed (simp add: keeps_free)
  have "keeps (moves Q) (andthen (unload_tools E m)
      (\<lambda>_. update_state (\<lambda>s. s\<lparr>active_topic_tools := []\<rparr>)))" for m
    by (intro keeps_steps tools) simp
  then show ?thesis by (simp add: clear_active_topic_tools_def keeps_def)
qed

lemma reconcile_moves:
  assumes "others_obey Q E"
  shows "keeps (moves Q) (reconcile_topic_tools E plan)"
proof -
  have load: "obeys Q (sv_load_node E)" using assms by (simp add: others_obey_def)
  have "keeps (moves Q) (load_tools E tools)" for tools
  proof (induction tools)
    case (Cons tool tools)
    have "keeps (moves Q) (load_and_activate_topic_tool E tool)"
      unfolding load_and_activate_topic_tool_def by (intro keeps_steps ask_moves load)
    with Cons show ?case unfolding load_tools.simps by (intro keeps_steps) simp_all
  qed (simp add: keeps_free)
  then show ?thesis
    unfolding reconcile_topic_tools_def by (intro keeps_steps clear_moves assms)
qed

lemma enable_moves: "others_obey Q E \<Longrightarrow> keeps (moves Q) (set_introspection_enabled E b)"
  unfolding set_introspection_enabled_def others_obey_def by (intro keeps_steps ask_moves) simp_all

lemma disable_moves:
  assumes "others_obey Q E"
  shows "keeps (moves Q) (disable_introspection E)"
proof -
  have "keeps (moves Q) (attempt (set_introspection_enabled E False) ret (\<lambda>_. ret ()))"
    by (intro keeps_steps enable_moves assms)
  then show ?thesis
    using moves_refl by (auto intro!: keepsI simp: disable_introspection_def keeps_def)
qed

lemma limits_moves: "keeps (moves Q) (check_topic_limits subs)"
  by (rule keeps_free) (simp add: check_topic_limits_def)

lemma discover_moves:
  assumes "others_obey Q E"
  shows "keeps (moves Q) (discover_all_topics E)"
proof -
  have check: "keeps (moves Q) (\<lambda>s. andthen (check_topic_limits (filter_discovered infos s))
      (\<lambda>_. ret (filter_discovered infos s)) s)" for infos
    by (rule keeps_read) (intro keeps_steps limits_moves)
  have topics: "obeys Q (sv_introspection E)" using assms by (simp add: others_obey_def)
  show ?thesis
    unfolding discover_all_topics_def
    by (intro keeps_steps ask_moves enable_moves assms topics check)
qed

subsection \<open>The handlers\<close>

lemma file_moves:
  assumes "others_obey Q E"
  shows "keeps (moves Q) (selection_from_file E path f)"
proof -
  have load: "keeps (moves Q)
      (\<lambda>s. lift_exec (load_file_selection (sv_yaml E) (sv_load_file E (ct_world s)) path) s)"
    by (rule keeps_free) simp
  show ?thesis
    unfolding selection_from_file_def by (intro keeps_steps load infer_moves assms) simp
qed

lemma all_moves: "others_obey Q E \<Longrightarrow> keeps (moves Q) (selection_from_all E)"
  unfolding selection_from_all_def by (intro keeps_steps discover_moves) simp_all

lemma ensure_planned_moves: "keeps (moves Q) (ensure_planned sel)"
  unfolding ensure_planned_def by (intro keeps_steps)

lemma reconfigure_moves:
  assumes "services_obey Q E"
  shows "keeps (moves Q) (reconfigure_sinks E topics)"
  unfolding reconfigure_sinks_def get_kafka_sink_state_def set_kafka_sink_subscriptions_yaml_def
    change_kafka_sink_state_def
  by (intro keeps_steps sink_moves validated_moves reconcile_moves mosquitto_moves)
     (use assms in \<open>simp_all add: services_obey_def\<close>)

lemma apply_moves:
  assumes "services_obey Q E"
  shows "keeps (moves Q) (apply_selection E topics)"
  unfolding apply_selection_def split_beta
  by (intro keeps_steps reconfigure_moves disable_moves)
     (use assms in \<open>simp_all add: services_obey_def record_applied_def\<close>)

lemma set_phase_moves: "keeps (moves Q) (set_phase ph)"
  unfolding set_phase_def by (intro keeps_steps) simp

lemma reject_moves: "keeps (moves Q) (reject E msg)"
  unfolding reject_def by (intro keeps_steps) (simp add: note_error_def)

lemma phased_moves: "services_obey Q E \<Longrightarrow> keeps (moves Q) (apply_phased E topics)"
  unfolding apply_phased_def by (intro keeps_steps set_phase_moves apply_moves)

lemma switch_selection_moves:
  assumes "others_obey Q E"
  shows "keeps (moves Q) (switch_selection E mode)"
proof (rule keepsI)
  fix s
  have "keeps (moves Q) (andthen (selection_from_all E) (\<lambda>sel. ret (Some sel)))"
    "keeps (moves Q) (andthen (selection_from_file E path f) (\<lambda>sel. ret (Some sel)))" for path f
    by (intro keeps_steps all_moves file_moves assms)+
  then show "moves Q s (snd (switch_selection E mode s))"
    using moves_refl by (cases mode) (simp_all add: switch_selection_def keeps_def)
qed

lemma switch_mode_moves:
  assumes "services_obey Q E"
  shows "keeps (moves Q) (switch_mode E mode path b)"
proof (rule keepsI)
  fix s
  let ?rest = "if \<not> b then ret ()
        else andthen (switch_selection E mode) (\<lambda>found. case found of
            None \<Rightarrow> ret ()
          | Some sel \<Rightarrow> andthen (ensure_planned sel) (\<lambda>selection.
              andthen (check_topic_limits selection) (\<lambda>_. apply_phased E selection)))"
  have others: "others_obey Q E" using assms by (simp add: services_obey_def)
  have "keeps (moves Q) (andthen (update_state (\<lambda>s. s\<lparr>selection_mode := mode,
            selection_file_path := (if path \<noteq> [] then path else selection_file_path s)\<rparr>)) (\<lambda>_. ?rest))"
    by (intro keeps_steps switch_selection_moves ensure_planned_moves limits_moves phased_moves assms others)
       simp
  then show "moves Q s (snd (switch_mode E mode path b s))"
    using moves_refl by (auto simp: switch_mode_def keeps_def)
qed

lemma handle_apply_moves:
  assumes "services_obey Q E"
  shows "keeps (moves Q) (handle_apply_selection E req)"
proof (rule keepsI)
  fix s
  let ?apply = "\<lambda>topics. attempt (check_topic_limits topics)
      (\<lambda>_. attempt (andthen (set_phase BUSY) (\<lambda>_. apply_selection E topics))
        (\<lambda>_. andthen (update_state (\<lambda>s. s\<lparr>last_gui_selection :=
               snapshot_now E topics (snap_sink_topics (applied_selection s)) s\<rparr>))
           (\<lambda>_. andthen (set_phase IDLE) (\<lambda>_. respond True ''Selection applied'')))
        (\<lambda>e. andthen (set_phase ERROR) (\<lambda>_. reject E e)))
      (reject E)"
  have others: "others_obey Q E" using assms by (simp add: services_obey_def)
  have "keeps (moves Q) (attempt (infer_missing_types E topics) ?apply (\<lambda>e. reject E (m e)))" for topics m
    by (intro keeps_steps infer_moves limits_moves set_phase_moves apply_moves reject_moves assms others)
       simp
  then show "moves Q s (snd (handle_apply_selection E req s))"
    using moves_refl by (auto simp: handle_apply_selection_def keeps_def)
qed

lemma handle_reload_moves:
  assumes "services_obey Q E"
  shows "keeps (moves Q) (handle_reload_selection E req)"
proof (rule keepsI)
  fix s
  have others: "others_obey Q E" using assms by (simp add: services_obey_def)
  have source: "keeps (moves Q) (reload_source E req)"
    using moves_refl keeps_snd [OF file_moves [OF others]] keeps_snd [OF all_moves [OF others]]
    by (auto intro!: keepsI simp: reload_source_def split: selection_mode.split)
  have "keeps (moves Q) (attempt (andthen (reload_source E req) (\<lambda>sel.
                 andthen (ensure_planned sel) (\<lambda>selection.
                 andthen (check_topic_limits selection) (\<lambda>_.
                 if rr_apply_now req then apply_phased E selection else ret ()))))
          (\<lambda>_. respond True m) (reject E))" for m
    by (intro keeps_steps source ensure_planned_moves limits_moves phased_moves reject_moves assms)
  then show "moves Q s (snd (handle_reload_selection E req s))"
    using moves_refl by (auto simp: handle_reload_selection_def keeps_def)
qed

lemma handle_stop_moves:
  assumes "services_obey Q E"
  shows "keeps (moves Q) (handle_stop_streaming E reset)"
proof (rule keepsI)
  fix s
  have kafka: "keeps (moves Q) (deactivate_kafka_sink E)"
    using keeps_snd [OF deactivate_moves] assms
    by (auto intro!: keepsI simp: deactivate_kafka_sink_def services_obey_def)
  have "keeps (moves Q) (attempt
      (andthen (deactivate_kafka_sink E) (\<lambda>_.
       andthen (\<lambda>s. deactivate_sink ''mosquitto_sink'' (mosquitto_sink_node_name s)
                  (mosquitto_client s (sv_mosquitto_change_state E))
                  (mosquitto_client s (sv_mosquitto_get_state E)) s) (\<lambda>_.
       clear_active_topic_tools E)))
      (\<lambda>_. andthen (update_state (\<lambda>s.
              (if reset
               then s\<lparr>last_gui_selection := empty_snapshot, last_file_selection := empty_snapshot,
                      last_all_selection := empty_snapshot\<rparr>
               else s)\<lparr>applied_selection := empty_snapshot, phase := IDLE\<rparr>))
            (\<lambda>_. respond True ''Streaming stopped''))
      (\<lambda>e. andthen (set_phase ERROR) (\<lambda>_. reject E e)))"
    by (intro keeps_steps kafka mosquitto_moves clear_moves set_phase_moves reject_moves)
       (use assms in \<open>simp_all add: services_obey_def\<close>)
  then show "moves Q s (snd (handle_stop_streaming E reset s))"
    using moves_refl by (auto simp: handle_stop_streaming_def keeps_def)
qed

lemma handle_status_moves:
  assumes "services_obey Q E"
  shows "keeps (moves Q) (handle_get_status E)"
proof -
  have read: "keeps (moves Q) (\<lambda>s. ret (status_of k q s) s)" for k q
    by (rule keeps_free) simp
  show ?thesis
    unfolding handle_get_status_def get_kafka_sink_state_def
    by (intro keeps_steps state_moves mosquitto_moves read)
       (use assms in \<open>simp_all add: services_obey_def\<close>)
qed

lemma handle_mode_moves:
  "services_obey Q E \<Longrightarrow> keeps (moves Q) (handle_set_selection_mode E req)"
  unfolding handle_set_selection_mode_def split_beta
  by (intro keeps_steps switch_mode_moves) simp_all

lemma param_moves:
  assumes "services_obey Q E"
  shows "keeps (moves Q) (on_param_change E ps)"
proof (rule keepsI)
  fix s
  have "keeps (moves Q) (andthen (lift_exec scanned) (\<lambda>scanned. case scanned of
          None \<Rightarrow> result_of False m
        | Some sc \<Rightarrow>
            (case sc_new_mode sc of
               None \<Rightarrow> result_of True []
             | Some mode \<Rightarrow>
                 attempt (switch_mode E mode (sc_new_file_path sc) (sc_request_apply sc))
                   (\<lambda>_. andthen (update_state (\<lambda>s. s\<lparr>
                        selection_file_path := sc_new_file_path sc,
                        auto_apply_on_mode_change :=
                          (case sc_new_auto_apply sc of
                             Some b \<Rightarrow> b | None \<Rightarrow> auto_apply_on_mode_change s)\<rparr>))
                      (\<lambda>_. result_of True []))
                   (result_of False))))" for scanned m
    by (intro keeps_steps switch_mode_moves assms) simp
  then show "moves Q s (snd (on_param_change E ps s))"
    unfolding on_param_change_def by (rule keeps_snd)
qed

lemma startup_moves:
  assumes "services_obey Q E"
  shows "keeps (moves Q) (startup_apply E)"
proof (rule keepsI)
  fix s
  have "keeps (moves Q) (andthen (attempt (switch_mode E mode path True) ret
      (\<lambda>e. update_state (note_error E e))) (\<lambda>_. update_state (\<lambda>s. s\<lparr>startup_timer := False\<rparr>)))"
    for mode path
    by (intro keeps_steps switch_mode_moves assms) (simp_all add: note_error_def)
  then show "moves Q s (snd (startup_apply E s))"
    using moves_refl [of s] by (auto simp: startup_apply_def Let_def keeps_def moves_def)
qed

text \<open>All handlers and the timer: whatever they are asked, the world moves along the order.\<close>

lemmas handler_moves = handle_apply_moves handle_reload_moves handle_stop_moves handle_status_moves
  handle_mode_moves param_moves startup_moves

end

end
