(* ===== verification/Mosquitto_Sink_Properties.thy ===== *)
theory Mosquitto_Sink_Properties
  imports Mosquitto_Sink Kafka_Sink_Properties
begin

text \<open>
  mosquitto_sink over its life cycle: the invariant of the node, its ownership of the Paho client, the
  accounting of each message, and what the message key changes in a message.
\<close>

section \<open>What a running subscription is\<close>

definition mqtt_same_route :: "mqtt_runtime \<Rightarrow> mqtt_runtime \<Rightarrow> bool" where
  "mqtt_same_route a b \<longleftrightarrow>
     mr_ros_topic b = mr_ros_topic a \<and> mr_msg_type b = mr_msg_type a \<and>
     mr_mqtt_topic b = mr_mqtt_topic a \<and> mr_message_key b = mr_message_key a \<and>
     mr_payload_format b = mr_payload_format a \<and> mr_type_support b = mr_type_support a"

definition mqtt_bounded :: "mqtt_runtime \<Rightarrow> bool" where
  "mqtt_bounded rt \<longleftrightarrow>
     length (mr_serialize_samples rt) \<le> kMaxSamples \<and> length (mr_send_samples rt) \<le> kMaxSamples \<and>
     mr_dropped rt = 0"

text \<open>Every update of a runtime keeps its route and its bounds.\<close>

definition mqtt_runtime_step :: "mqtt_runtime \<Rightarrow> mqtt_runtime \<Rightarrow> bool" where
  "mqtt_runtime_step a b \<longleftrightarrow> mqtt_same_route a b \<and> (mqtt_bounded a \<longrightarrow> mqtt_bounded b)"

lemma mqtt_runtime_steps:
  "mqtt_runtime_step rt rt"
  "mqtt_runtime_step rt (mqtt_note_encoded clk v rt)"
  "mqtt_runtime_step rt (mqtt_note_published clk ok rt)"
  "mqtt_runtime_step rt (rt\<lparr>mr_errors := n\<rparr>)"
  "mqtt_runtime_step rt (mqtt_snapshot rt)"
  by (simp_all add: mqtt_runtime_step_def mqtt_same_route_def mqtt_bounded_def mqtt_note_encoded_def
      mqtt_note_published_def mqtt_snapshot_def Let_def length_push_sample)

lemma mqtt_runtime_step_trans:
  "mqtt_runtime_step a b \<Longrightarrow> mqtt_runtime_step b c \<Longrightarrow> mqtt_runtime_step a c"
  by (simp add: mqtt_runtime_step_def mqtt_same_route_def)

definition mqtt_name_of :: "mqtt_sub \<Rightarrow> string" where
  "mqtt_name_of c = (case mq_mqtt_name c of Some n \<Rightarrow> n | None \<Rightarrow> mq_topic_name c)"

text \<open>
  A subscription that does what its entry says: right topic, type, MQTT topic and message key, JSON
  only where it is asked for and with a complete type support.
\<close>

definition mqtt_matches :: "mqtt_parameters \<Rightarrow> mqtt_sub \<Rightarrow> mqtt_active \<Rightarrow> bool" where
  "mqtt_matches p c a \<longleftrightarrow>
     ma_subscription a \<and> ma_topic_name a = mq_topic_name c \<and> ma_msg_type a = mq_msg_type c \<and>
     mr_ros_topic (ma_runtime a) = mq_topic_name c \<and> mr_msg_type (ma_runtime a) = mq_msg_type c \<and>
     mr_mqtt_topic (ma_runtime a) = map_mqtt_topic p (mqtt_name_of c) \<and>
     mr_message_key (ma_runtime a) = mp_message_key p \<and>
     (mr_payload_format (ma_runtime a) = JSON \<longrightarrow>
        mp_payload_format p = JSON \<and> ts_rmw (mr_type_support (ma_runtime a)) \<and>
        ts_introspection (mr_type_support (ma_runtime a)))"

lemma mqtt_matches_route:
  "mqtt_matches p c a \<Longrightarrow> mqtt_same_route (ma_runtime a) rt \<Longrightarrow> mqtt_matches p c (a\<lparr>ma_runtime := rt\<rparr>)"
  by (simp add: mqtt_matches_def mqtt_same_route_def)

lemma prepare_mqtt_runtime_fields:
  "mr_ros_topic (prepare_mqtt_runtime T p c) = mq_topic_name c"
  "mr_msg_type (prepare_mqtt_runtime T p c) = mq_msg_type c"
  "mr_mqtt_topic (prepare_mqtt_runtime T p c) = map_mqtt_topic p (mqtt_name_of c)"
  "mr_message_key (prepare_mqtt_runtime T p c) = mp_message_key p"
  "mqtt_bounded (prepare_mqtt_runtime T p c)"
  "mr_payload_format (prepare_mqtt_runtime T p c) = JSON \<Longrightarrow>
     mp_payload_format p = JSON \<and> ts_rmw (mr_type_support (prepare_mqtt_runtime T p c)) \<and>
     ts_introspection (mr_type_support (prepare_mqtt_runtime T p c))"
  by (auto simp: prepare_mqtt_runtime_def Let_def new_mqtt_runtime_def mqtt_bounded_def
      mqtt_name_of_def dest!: load_type_support_True split: prod.splits bool.splits if_splits)

text \<open>The second attempt changes nothing but the type support, and the format back to CDR.\<close>

lemma retry_mqtt_fields:
  "mr_ros_topic (retry_mqtt_type_support T rt) = mr_ros_topic rt"
  "mr_msg_type (retry_mqtt_type_support T rt) = mr_msg_type rt"
  "mr_mqtt_topic (retry_mqtt_type_support T rt) = mr_mqtt_topic rt"
  "mr_message_key (retry_mqtt_type_support T rt) = mr_message_key rt"
  "mqtt_bounded (retry_mqtt_type_support T rt) = mqtt_bounded rt"
  "mr_payload_format (retry_mqtt_type_support T rt) = JSON \<Longrightarrow> mr_payload_format rt = JSON"
  "mr_payload_format (retry_mqtt_type_support T rt) = JSON \<Longrightarrow>
     ts_rmw (mr_type_support rt) \<and> ts_introspection (mr_type_support rt) \<Longrightarrow>
     ts_rmw (mr_type_support (retry_mqtt_type_support T rt)) \<and>
     ts_introspection (mr_type_support (retry_mqtt_type_support T rt))"
  by (auto simp: retry_mqtt_type_support_def mqtt_bounded_def Let_def split: if_split_asm)

lemma mqtt_subscribe_all_matches:
  "mqtt_subscribe_all E p d cs subs = (Ret True, subs') \<Longrightarrow>
     \<exists>new. subs' = subs @ new \<and> list_all2 (mqtt_matches p) cs new \<and>
           list_all (\<lambda>a. mqtt_bounded (ma_runtime a)) new"
proof (induction cs arbitrary: subs)
  case (Cons c cs)
  let ?T = "me_typesupport E"
  let ?a = "\<lparr>ma_subscription = True, ma_topic_name = mq_topic_name c, ma_msg_type = mq_msg_type c,
    ma_runtime = retry_mqtt_type_support ?T (prepare_mqtt_runtime ?T p c)\<rparr>"
  have "mqtt_subscribe_all E p d cs (subs @ [?a]) = (Ret True, subs')"
    using Cons.prems by (simp add: Let_def split: exec.splits bool.splits)
  then obtain new where "subs' = (subs @ [?a]) @ new" "list_all2 (mqtt_matches p) cs new"
    "list_all (\<lambda>a. mqtt_bounded (ma_runtime a)) new"
    using Cons.IH by blast
  moreover have "mqtt_matches p c ?a"
    using prepare_mqtt_runtime_fields [of ?T p c]
      retry_mqtt_fields(6,7) [of ?T "prepare_mqtt_runtime ?T p c"]
    by (auto simp: mqtt_matches_def retry_mqtt_fields(1-4))
  ultimately show ?case
    by (intro exI [of _ "?a # new"]) (simp add: retry_mqtt_fields(5) prepare_mqtt_runtime_fields(5))
qed simp

lemma mqtt_subscribe_all_throws:
  "(\<And>t ty d. is_ret (me_subscribe E t ty d)) \<Longrightarrow> is_ret (fst (mqtt_subscribe_all E p d cs subs))"
proof (induction cs arbitrary: subs)
  case (Cons c cs)
  obtain b where "me_subscribe E (mq_topic_name c) (mq_msg_type c) d = Ret b"
    using Cons.prems unfolding is_ret_iff by blast
  then show ?case using Cons by (cases b) (simp_all add: Let_def)
qed simp

section \<open>The invariant\<close>

text \<open>
  An active node holds a client and exactly the configured subscriptions; in every other state it
  forwards nothing and holds no client.  No message is ever counted as dropped.
\<close>

definition mqtt_inv :: "lc_state \<Rightarrow> 'm mqtt_sink \<Rightarrow> bool" where
  "mqtt_inv st s \<longleftrightarrow>
     validate_mqtt_parameters (ms_params s) = None \<and>
     (st \<in> {Inactive, Active} \<longrightarrow> 0 < ms_qos_depth s) \<and>
     (if st = Active
      then ms_is_active s \<and> ms_client s \<noteq> None \<and>
           list_all2 (mqtt_matches (ms_params s)) (ms_configured s) (ms_active s) \<and>
           list_all (\<lambda>a. mqtt_bounded (ma_runtime a)) (ms_active s)
      else \<not> ms_is_active s \<and> ms_client s = None)"

definition mqtt_calm :: "('m, 'y) mqtt_env \<Rightarrow> bool" where
  "mqtt_calm E \<longleftrightarrow>
     (\<forall>uri name w. is_ret (fst (pa_create (me_paho E) uri name w))) \<and>
     (\<forall>t ty d. is_ret (me_subscribe E t ty d)) \<and>
     (\<forall>n. me_publisher E n = Ret ()) \<and> (\<forall>ms. me_timer E ms = Ret ())"

text \<open>
  What happens between lifecycle callbacks: a message, a parameter update and the storing of the
  accepted values, the metrics timer, time that passes, and Paho's reports about the connection.
\<close>

inductive mqtt_internal ::
  "('m, 'y) mqtt_env \<Rightarrow> lc_state \<Rightarrow> 'm mqtt_sink \<Rightarrow> 'm mqtt_sink \<Rightarrow> bool"
  for E st s where
  mi_message: "i < length (ms_active s) \<Longrightarrow> mqtt_on_message E i clk msg s = (r, t) \<Longrightarrow>
    mqtt_internal E st s t"
| mi_params: "mqtt_parameters_set E (lc_id st) ps s = (r, t) \<Longrightarrow> mqtt_internal E st s t"
| mi_store: "mqtt_internal E st s (s\<lparr>ms_store := f\<rparr>)"
| mi_metrics: "mqtt_publish_metrics E s = (r, t) \<Longrightarrow> mqtt_internal E st s t"
| mi_time: "ms_steady s \<le> now \<Longrightarrow> mqtt_internal E st s (s\<lparr>ms_steady := now\<rparr>)"
| mi_connected: "mqtt_internal E st s (on_client (connected (ms_steady s)) s)"
| mi_lost: "mqtt_internal E st s (on_client (connection_lost cause) s)"

subsection \<open>Start and stop\<close>

lemma mqtt_inv_new: "mqtt_inv Unconfigured (new_mqtt_sink ov w)"
  by (simp add: mqtt_inv_def new_mqtt_sink_def validate_mqtt_parameters_def
      default_mqtt_parameters_def)

text \<open>What the client's operations leave alone: everything but the client and the library.\<close>

definition client_only :: "'m mqtt_sink \<Rightarrow> 'm mqtt_sink \<Rightarrow> bool" where
  "client_only s t \<longleftrightarrow> (\<exists>c w. t = s\<lparr>ms_client := c, ms_paho := w\<rparr>)"

lemma client_only_refl: "client_only s s"
  unfolding client_only_def by (intro exI [of _ "ms_client s"] exI [of _ "ms_paho s"]) simp

lemma client_only_trans: "client_only a b \<Longrightarrow> client_only b c \<Longrightarrow> client_only a c"
  unfolding client_only_def by (elim exE) (auto intro!: exI)

lemma client_only_update: "client_only s (s\<lparr>ms_client := c, ms_paho := w\<rparr>)"
  unfolding client_only_def by blast

lemma client_only_paho: "client_only s (s\<lparr>ms_paho := w\<rparr>)"
  unfolding client_only_def by (intro exI [of _ "ms_client s"] exI [of _ w]) simp

lemma client_onlyD:
  assumes "client_only s t"
  shows "ms_params t = ms_params s" "ms_configured t = ms_configured s" "ms_active t = ms_active s"
    "ms_is_active t = ms_is_active s" "ms_qos_depth t = ms_qos_depth s"
    "ms_metrics_enabled t = ms_metrics_enabled s"
  using assms by (auto simp: client_only_def)

lemma drop_client_only: "client_only s (drop_client E s)" and drop_client_none [simp]: "ms_client (drop_client E s) = None"
  by (auto simp: drop_client_def intro: client_only_update client_only_refl split: option.split)

lemma stop_client_only: "client_only s (stop_client E s)"
  using client_only_trans [OF client_only_update drop_client_only]
  by (auto simp: stop_client_def client_only_refl split: option.split prod.split)

lemma stop_client_none [simp]: "ms_client (stop_client E s) = None"
  by (simp add: stop_client_def split: option.split prod.split)

lemma start_client_facts:
  assumes "start_client E s = (r, t)"
  shows "client_only s t"
    and "r = Ret True \<Longrightarrow> ms_client t \<noteq> None"
    and "r = Ret False \<Longrightarrow> ms_client t = None"
    and "(\<And>uri name w. is_ret (fst (pa_create (me_paho E) uri name w))) \<Longrightarrow> is_ret r"
proof -
  let ?p = "ms_params s"
  obtain q w where q: "pa_create (me_paho E) (server_uri ?p) (mp_client_id ?p) (ms_paho s) = (q, w)"
    by (cases "pa_create (me_paho E) (server_uri ?p) (mp_client_id ?p) (ms_paho s)")
  let ?s = "drop_client E (s\<lparr>ms_paho := w\<rparr>)"
  have only: "client_only s (?s\<lparr>ms_client := c, ms_paho := w'\<rparr>)" for c w'
    by (rule client_only_trans [OF client_only_trans [OF client_only_paho drop_client_only]
          client_only_update])
  have main: "client_only s t \<and> (r = Ret True \<longrightarrow> ms_client t \<noteq> None) \<and> (r = Ret False \<longrightarrow> ms_client t = None) \<and>
      (is_ret q \<longrightarrow> is_ret r)"
  proof (cases q)
    case (Ret h)
    obtain res c w' where c: "mqtt_connect (me_paho E) (ms_steady ?s) (connect_options_of (ms_params ?s))
        (new_mqtt_client h, ms_paho ?s) = (res, c, w')"
      by (metis prod_cases3)
    show ?thesis
    proof (cases res)
      case None
      then show ?thesis using assms q Ret c only by (auto simp: start_client_def Let_def)
    next
      case (Some e)
      then have "r = Ret False" "t = drop_client E (?s\<lparr>ms_client := Some c, ms_paho := w'\<rparr>)"
        using assms q Ret c by (simp_all add: start_client_def Let_def)
      then show ?thesis using client_only_trans [OF only drop_client_only] by simp
    qed
  qed (use assms q in \<open>auto simp: start_client_def intro: client_only_paho\<close>)
  from main show "client_only s t" "r = Ret True \<Longrightarrow> ms_client t \<noteq> None" "r = Ret False \<Longrightarrow> ms_client t = None"
    by simp_all
  show "is_ret r" if create: "\<And>uri name w. is_ret (fst (pa_create (me_paho E) uri name w))"
    using create [of "server_uri ?p" "mp_client_id ?p" "ms_paho s"] q main by simp
qed

text \<open>Subscriptions are built only with a client; the rest of the node stays.\<close>

lemma build_mqtt_facts:
  assumes "build_mqtt_subscriptions E s = (r, t)" "ms_client s \<noteq> None"
  shows "t = s\<lparr>ms_active := ms_active t\<rparr>"
    and "r = Ret True \<Longrightarrow> list_all2 (mqtt_matches (ms_params s)) (ms_configured s) (ms_active t)"
    and "r = Ret True \<Longrightarrow> list_all (\<lambda>a. mqtt_bounded (ma_runtime a)) (ms_active t)"
    and "mqtt_calm E \<Longrightarrow> is_ret r"
proof -
  obtain q subs where sub:
      "mqtt_subscribe_all E (ms_params s) (ms_qos_depth s) (ms_configured s) [] = (q, subs)"
    by (cases "mqtt_subscribe_all E (ms_params s) (ms_qos_depth s) (ms_configured s) []")
  then have t: "r = q" "t = s\<lparr>ms_active := subs\<rparr>"
    using assms
    by (auto simp: build_mqtt_subscriptions_def clear_mqtt_subscriptions_def Let_def split: if_split_asm)
  then show "t = s\<lparr>ms_active := ms_active t\<rparr>" by simp
  have all: "list_all2 (mqtt_matches (ms_params s)) (ms_configured s) subs \<and>
       list_all (\<lambda>a. mqtt_bounded (ma_runtime a)) subs" if "r = Ret True"
    using mqtt_subscribe_all_matches [of E "ms_params s" "ms_qos_depth s" "ms_configured s" "[]" subs]
      sub t(1) that by auto
  show "list_all2 (mqtt_matches (ms_params s)) (ms_configured s) (ms_active t)" if "r = Ret True"
    using all [OF that] t(2) by simp
  show "list_all (\<lambda>a. mqtt_bounded (ma_runtime a)) (ms_active t)" if "r = Ret True"
    using all [OF that] t(2) by simp
  show "is_ret r" if "mqtt_calm E"
    using mqtt_subscribe_all_throws [of E "ms_params s" "ms_qos_depth s" "ms_configured s" "[]"]
      that sub t(1) by (simp add: mqtt_calm_def)
qed

subsection \<open>Configuration and parameter updates\<close>

text \<open>
  What configuring and a parameter update may touch: neither the client nor the subscriptions nor
  the flag, and no invalid parameters.
\<close>

definition mqtt_settings :: "'m mqtt_sink \<Rightarrow> 'm mqtt_sink \<Rightarrow> bool" where
  "mqtt_settings a b \<longleftrightarrow>
     ms_client b = ms_client a \<and> ms_paho b = ms_paho a \<and> ms_is_active b = ms_is_active a \<and>
     ms_active b = ms_active a \<and>
     (validate_mqtt_parameters (ms_params a) = None \<longrightarrow>
        validate_mqtt_parameters (ms_params b) = None)"

lemma mqtt_settings_refl: "mqtt_settings a a"
  by (simp add: mqtt_settings_def)

lemma mqtt_settings_trans: "mqtt_settings a b \<Longrightarrow> mqtt_settings b c \<Longrightarrow> mqtt_settings a c"
  by (simp add: mqtt_settings_def)

lemma keeps_settings_seq:
  "keeps mqtt_settings m \<Longrightarrow> (\<And>a. keeps mqtt_settings (k a)) \<Longrightarrow> keeps mqtt_settings (andthen m k)"
  by (rule keeps_andthen; blast intro: mqtt_settings_trans)

lemma keeps_mqtt_get: "(\<And>s. R s s) \<Longrightarrow> keeps R (mqtt_get n acc)"
  by (simp add: keeps_def mqtt_get_def)

lemma read_mqtt_parameters_pure: "keeps (=) (read_mqtt_parameters pending)"
  unfolding read_mqtt_parameters_def
  by (intro keeps_andthen [of "(=)"] keeps_mqtt_get keeps_pure refl) simp_all

lemma configure_mqtt_cases:
  assumes "configure_mqtt_parameters s = (r, t)"
  obtains (stored) p where "r = Ret ()" "validate_mqtt_parameters p = None" "t = s\<lparr>ms_params := p\<rparr>"
    | (refused) "r \<noteq> Ret ()" "t = s"
  using assms unfolding configure_mqtt_parameters_def
proof (cases rule: andthen_cases)
  case (ok p s')
  have "s' = s" using keepsD [OF read_mqtt_parameters_pure ok(1)] by simp
  then show thesis
    using ok(2) stored [of p] refused
    by (cases "validate_mqtt_parameters p") (auto simp: store_mqtt_parameters_def)
qed (use refused keepsD [OF read_mqtt_parameters_pure] in auto)

lemma check_mqtt_configuration_settings:
  fixes E :: "('m, 'y) mqtt_env"
  shows "keeps mqtt_settings (check_mqtt_configuration E yaml_config)"
proof (rule keepsI)
  fix s :: "'m mqtt_sink"
  have "mqtt_settings s t"
    if "configure_mqtt_parameters (s\<lparr>ms_configured := cs\<rparr>) = (r, t)" for cs r t
    using that by (cases rule: configure_mqtt_cases) (simp_all add: mqtt_settings_def)
  then have "mqtt_settings s (snd (configure_mqtt_parameters (s\<lparr>ms_configured := cs\<rparr>)))" for cs
    by (metis prod.collapse)
  then show "mqtt_settings s (snd (check_mqtt_configuration E yaml_config s))"
    by (simp add: check_mqtt_configuration_def mqtt_settings_refl split: option.split exec.split)
qed

lemma mqtt_configure_settings: "keeps mqtt_settings (mqtt_configure E)"
  unfolding mqtt_configure_def
  by (intro keeps_settings_seq keeps_mqtt_get keeps_update check_mqtt_configuration_settings
        mqtt_settings_refl)
     (simp_all add: mqtt_settings_def)

lemma check_mqtt_configuration_ensures:
  "ensures (\<lambda>t. 0 < ms_qos_depth t) (check_mqtt_configuration E yaml_config)"
proof (rule ensuresI)
  fix s a t assume "check_mqtt_configuration E yaml_config s = (Ret a, t)"
  then obtain cs where checked: "0 < ms_qos_depth s"
    and run: "configure_mqtt_parameters (s\<lparr>ms_configured := cs\<rparr>) = (Ret a, t)"
    by (simp add: check_mqtt_configuration_def validate_qos_depth_def
        split: if_split_asm exec.split_asm)
  from run show "0 < ms_qos_depth t" by (cases rule: configure_mqtt_cases) (use checked in simp_all)
qed

lemma mqtt_configure_ensures: "ensures (\<lambda>t. 0 < ms_qos_depth t) (mqtt_configure E)"
  unfolding mqtt_configure_def by (intro ensures_andthen check_mqtt_configuration_ensures)

text \<open>While the node is active a parameter update changes neither subscriptions nor parameters.\<close>

lemma collect_mqtt_params_active:
  "collect_mqtt_params PRIMARY_STATE_ACTIVE ps d = Ret d' \<Longrightarrow>
     md_yaml d' = md_yaml d \<and> md_mqtt_changed d' = md_mqtt_changed d"
proof (induction ps arbitrary: d)
  case (Cons p ps)
  then obtain e where "collect_mqtt_param PRIMARY_STATE_ACTIVE p d = Ret e"
    "collect_mqtt_params PRIMARY_STATE_ACTIVE ps e = Ret d'"
    by (auto simp: exec_bind_Ret_iff)
  moreover from this(1) have "md_yaml e = md_yaml d \<and> md_mqtt_changed e = md_mqtt_changed d"
    by (auto simp: collect_mqtt_param_def Let_def exec_bind_Ret_iff split: if_split_asm)
  ultimately show ?case using Cons.IH by metis
qed simp

definition mqtt_update :: "mqtt_pending \<Rightarrow> 'm mqtt_sink \<Rightarrow> 'm mqtt_sink \<Rightarrow> bool" where
  "mqtt_update d a b \<longleftrightarrow>
     mqtt_settings a b \<and> (0 < ms_qos_depth a \<longrightarrow> 0 < ms_qos_depth b) \<and>
     (md_yaml d = None \<longrightarrow> ms_configured b = ms_configured a) \<and>
     (\<not> md_mqtt_changed d \<longrightarrow> ms_params b = ms_params a)"

lemma keeps_mqtt_update_seq:
  "keeps (mqtt_update d) m \<Longrightarrow> (\<And>a. keeps (mqtt_update d) (k a)) \<Longrightarrow>
     keeps (mqtt_update d) (andthen m k)"
  by (rule keeps_andthen) (auto simp: mqtt_update_def intro: mqtt_settings_trans)

lemma apply_mqtt_pending_update: "keeps (mqtt_update d) (apply_mqtt_pending E d)"
proof -
  have "keeps (mqtt_update d) (apply_mqtt_subscriptions E d)" "keeps (mqtt_update d) (apply_mqtt_qos_depth d)"
    "keeps (mqtt_update d) (apply_mqtt d)" "keeps (mqtt_update d) (apply_mqtt_metrics d)"
    by (simp_all add: keeps_def mqtt_update_def mqtt_settings_def apply_mqtt_subscriptions_def
        apply_mqtt_qos_depth_def apply_mqtt_def apply_mqtt_metrics_def validate_qos_depth_def
        split: option.split exec.split)
  then show ?thesis unfolding apply_mqtt_pending_def by (intro keeps_mqtt_update_seq)
qed

lemma mqtt_parameters_set_update:
  assumes "mqtt_parameters_set E st ps s = (r, t)"
  obtains d where "mqtt_update d s t"
    "st = PRIMARY_STATE_ACTIVE \<Longrightarrow> md_yaml d = None \<and> \<not> md_mqtt_changed d"
proof (cases "collect_mqtt_params st ps (new_mqtt_pending s)")
  case (Ret d)
  obtain u v where run: "apply_mqtt_pending E d s = (u, v)" by (cases "apply_mqtt_pending E d s")
  then have "t = v"
    using assms Ret by (cases u) (simp_all add: mqtt_parameters_set_def attempt_def)
  show thesis
  proof (rule that [of d])
    show "mqtt_update d s t" using keepsD [OF apply_mqtt_pending_update run] \<open>t = v\<close> by simp
    show "md_yaml d = None \<and> \<not> md_mqtt_changed d" if "st = PRIMARY_STATE_ACTIVE"
      using collect_mqtt_params_active [of ps "new_mqtt_pending s" d] Ret that
      by (simp add: new_mqtt_pending_def)
  qed
qed (use that [of "new_mqtt_pending s"] assms in
  \<open>simp_all add: mqtt_parameters_set_def attempt_def mqtt_update_def mqtt_settings_refl new_mqtt_pending_def\<close>)

lemma mqtt_parameters_set_inv:
  assumes inv: "mqtt_inv st s" and run: "mqtt_parameters_set E (lc_id st) ps s = (r, t)"
  shows "mqtt_inv st t"
  using run
proof (cases rule: mqtt_parameters_set_update)
  case (1 d)
  then show ?thesis
    using inv by (cases st) (auto simp: mqtt_inv_def mqtt_update_def mqtt_settings_def)
qed

subsection \<open>Messages and metrics\<close>

text \<open>The ways a message can end.\<close>

lemma mqtt_on_message_cases:
  assumes "mqtt_on_message E i clk msg s = (r, t)"
  obtains (ignored) "\<not> ms_is_active s \<or> ms_client s = None" "r = Ret ()" "t = s"
    | (unencoded) e live where "ms_is_active s" "ms_client s \<noteq> None" "r = Ret ()"
        "mqtt_encode E (ma_runtime (ms_active s ! i)) clk msg (ms_live_messages s) = (Err e, live)"
        "t = set_mqtt_runtime i (ma_runtime (ms_active s ! i)
               \<lparr>mr_errors := mr_errors (ma_runtime (ms_active s ! i)) + 1\<rparr>)
             (s\<lparr>ms_live_messages := live\<rparr>)"
    | (thrown) e live where "ms_is_active s" "ms_client s \<noteq> None" "r = Exc e"
        "mqtt_encode E (ma_runtime (ms_active s ! i)) clk msg (ms_live_messages s) = (Exc e, live)"
        "t = s\<lparr>ms_live_messages := live\<rparr>"
    | (published) c v live res c' w where "ms_is_active s" "ms_client s = Some c" "r = Ret ()"
        "mqtt_encode E (ma_runtime (ms_active s ! i)) clk msg (ms_live_messages s) = (Ret v, live)"
        "mqtt_publish (me_paho E) (publication_of (ms_params s) (ma_runtime (ms_active s ! i)) v)
           (c, ms_paho s) = (res, c', w)"
        "t = set_mqtt_runtime i (mqtt_note_published clk (res = None)
               (mqtt_note_encoded clk v (ma_runtime (ms_active s ! i))))
             (s\<lparr>ms_live_messages := live, ms_client := Some c', ms_paho := w\<rparr>)"
proof (cases "ms_is_active s \<and> ms_client s \<noteq> None")
  case False
  then show thesis using ignored assms by (auto simp: mqtt_on_message_def split: if_split_asm)
next
  case True
  then obtain c where c: "ms_is_active s" "ms_client s = Some c" by blast
  let ?rt = "ma_runtime (ms_active s ! i)"
  obtain q live where enc: "mqtt_encode E ?rt clk msg (ms_live_messages s) = (q, live)"
    by (cases "mqtt_encode E ?rt clk msg (ms_live_messages s)")
  show thesis
  proof (cases q)
    case (Err e)
    then show thesis using unencoded [of e live] c enc assms by (simp add: mqtt_on_message_def Let_def)
  next
    case (Exc e)
    then show thesis using thrown [of e live] c enc assms by (simp add: mqtt_on_message_def Let_def)
  next
    case (Ret v)
    obtain res c' w where pub:
      "mqtt_publish (me_paho E) (publication_of (ms_params s) ?rt v) (c, ms_paho s) = (res, c', w)"
      by (metis prod_cases3)
    have "publication_of (ms_params s) (mqtt_note_encoded clk v ?rt) v =
        publication_of (ms_params s) ?rt v"
      by (simp add: publication_of_def mqtt_note_encoded_def Let_def)
    then show thesis
      using published [of c v live res c' w] Ret c enc pub assms
      by (simp add: mqtt_on_message_def Let_def)
  qed
qed

text \<open>
  What a message, a report or the passing of time changes: counters of subscriptions, and the client
  without creating or releasing one.
\<close>

definition mqtt_traffic :: "'m mqtt_sink \<Rightarrow> 'm mqtt_sink \<Rightarrow> bool" where
  "mqtt_traffic a b \<longleftrightarrow>
     ms_is_active b = ms_is_active a \<and> ms_params b = ms_params a \<and>
     ms_configured b = ms_configured a \<and> ms_qos_depth b = ms_qos_depth a \<and>
     map_option mc_handle (ms_client b) = map_option mc_handle (ms_client a) \<and>
     list_all2 (\<lambda>x y. \<exists>rt. y = x\<lparr>ma_runtime := rt\<rparr> \<and> mqtt_runtime_step (ma_runtime x) rt)
       (ms_active a) (ms_active b)"

lemma mqtt_runtimes_refl:
  fixes xs :: "mqtt_active list"
  shows "list_all2 (\<lambda>x y. \<exists>rt. y = x\<lparr>ma_runtime := rt\<rparr> \<and> mqtt_runtime_step (ma_runtime x) rt) xs xs"
proof (rule list_all2_refl)
  show "\<exists>rt. x = x\<lparr>ma_runtime := rt\<rparr> \<and> mqtt_runtime_step (ma_runtime x) rt" for x :: mqtt_active
    by (rule exI [of _ "ma_runtime x"]) (simp add: mqtt_runtime_steps)
qed

lemma set_mqtt_runtime_step:
  assumes "mqtt_runtime_step (ma_runtime (ms_active s ! i)) rt"
  shows "list_all2 (\<lambda>x y. \<exists>rt. y = x\<lparr>ma_runtime := rt\<rparr> \<and> mqtt_runtime_step (ma_runtime x) rt)
    (ms_active s) (ms_active (set_mqtt_runtime i rt s))"
  unfolding set_mqtt_runtime_def
proof (simp, rule list_all2_update_refl)
  show "\<exists>rt. x = x\<lparr>ma_runtime := rt\<rparr> \<and> mqtt_runtime_step (ma_runtime x) rt" for x :: mqtt_active
    by (rule exI [of _ "ma_runtime x"]) (simp add: mqtt_runtime_steps)
  show "\<exists>rt'. (ms_active s ! i)\<lparr>ma_runtime := rt\<rparr> = (ms_active s ! i)\<lparr>ma_runtime := rt'\<rparr> \<and>
      mqtt_runtime_step (ma_runtime (ms_active s ! i)) rt'"
    using assms by blast
qed

lemma set_mqtt_runtime_fields [simp]:
  "ms_is_active (set_mqtt_runtime i rt s) = ms_is_active s"
  "ms_params (set_mqtt_runtime i rt s) = ms_params s"
  "ms_configured (set_mqtt_runtime i rt s) = ms_configured s"
  "ms_qos_depth (set_mqtt_runtime i rt s) = ms_qos_depth s"
  "ms_client (set_mqtt_runtime i rt s) = ms_client s"
  "ms_paho (set_mqtt_runtime i rt s) = ms_paho s"
  by (simp_all add: set_mqtt_runtime_def)

lemma mqtt_publish_handle:
  "mqtt_publish L m (c, w) = (res, c', w') \<Longrightarrow> mc_handle c' = mc_handle c"
  by (auto simp: mqtt_publish_def split: if_split_asm prod.split_asm option.split_asm)

lemma mqtt_on_message_traffic:
  assumes "mqtt_on_message E i clk msg s = (r, t)"
  shows "mqtt_traffic s t"
  using assms
proof (cases rule: mqtt_on_message_cases)
  case (unencoded e live)
  have "mqtt_runtime_step (ma_runtime (ms_active (s\<lparr>ms_live_messages := live\<rparr>) ! i))
      (ma_runtime (ms_active s ! i)\<lparr>mr_errors := n\<rparr>)" for n
    by (simp add: mqtt_runtime_steps)
  from set_mqtt_runtime_step [OF this] show ?thesis by (simp add: mqtt_traffic_def unencoded(5))
next
  case (published c v live res c' w)
  let ?s = "s\<lparr>ms_live_messages := live, ms_client := Some c', ms_paho := w\<rparr>"
  have "mqtt_runtime_step (ma_runtime (ms_active ?s ! i)) (mqtt_note_published clk (res = None)
      (mqtt_note_encoded clk v (ma_runtime (ms_active s ! i))))"
    using mqtt_runtime_step_trans [OF mqtt_runtime_steps(2,3)] by simp
  from set_mqtt_runtime_step [OF this] show ?thesis
    by (simp add: mqtt_traffic_def published(2,6) mqtt_publish_handle [OF published(5)])
qed (simp_all add: mqtt_traffic_def mqtt_runtimes_refl)

lemma mqtt_publish_metrics_traffic:
  assumes "mqtt_publish_metrics E s = (r, t)"
  shows "mqtt_traffic s t"
proof -
  have step: "list_all2 (\<lambda>x y. \<exists>rt. y = x\<lparr>ma_runtime := rt\<rparr> \<and> mqtt_runtime_step (ma_runtime x) rt)
      xs (map (\<lambda>a. a\<lparr>ma_runtime := mqtt_snapshot (ma_runtime a)\<rparr>) xs)" for xs
    by (induction xs) (auto intro: mqtt_runtime_steps)
  show ?thesis
  proof (cases "\<not> ms_metrics_enabled s \<or> \<not> ms_metrics_pub s")
    case True
    then show ?thesis
      using assms by (simp add: mqtt_publish_metrics_def mqtt_traffic_def mqtt_runtimes_refl)
  next
    case False
    then show ?thesis
      using assms step [of "ms_active s"]
      by (auto simp: mqtt_publish_metrics_def mqtt_traffic_def Let_def split: option.split_asm)
  qed
qed

lemma mqtt_traffic_inv:
  assumes inv: "mqtt_inv st s" and step: "mqtt_traffic s t"
  shows "mqtt_inv st t"
proof (cases "st = Active")
  case False
  then show ?thesis using assms by (auto simp: mqtt_inv_def mqtt_traffic_def)
next
  case True
  have upd: "list_all2 (\<lambda>x y. \<exists>rt. y = x\<lparr>ma_runtime := rt\<rparr> \<and> mqtt_runtime_step (ma_runtime x) rt)
      (ms_active s) (ms_active t)"
    using step by (simp add: mqtt_traffic_def)
  have match: "list_all2 (mqtt_matches (ms_params s)) (ms_configured s) (ms_active s)"
    and bound: "list_all (\<lambda>a. mqtt_bounded (ma_runtime a)) (ms_active s)"
    using inv True by (simp_all add: mqtt_inv_def)
  have "list_all2 (mqtt_matches (ms_params s)) (ms_configured s) (ms_active t)"
    using list_all2_trans [OF _ match upd, of "mqtt_matches (ms_params s)"]
    by (auto simp: mqtt_runtime_step_def intro: mqtt_matches_route)
  moreover have "list_all (\<lambda>a. mqtt_bounded (ma_runtime a)) (ms_active t)"
    using upd bound by (induction rule: list_all2_induct) (auto simp: mqtt_runtime_step_def)
  ultimately show ?thesis using assms True by (auto simp: mqtt_inv_def mqtt_traffic_def)
qed

subsection \<open>The lifecycle callbacks\<close>

lemma start_mqtt_metrics_fields:
  assumes "start_mqtt_metrics E s = (r, t)"
  shows "ms_client t = ms_client s \<and> ms_paho t = ms_paho s \<and> ms_is_active t = ms_is_active s \<and>
      ms_active t = ms_active s \<and> ms_params t = ms_params s \<and>
      ms_configured t = ms_configured s \<and> ms_qos_depth t = ms_qos_depth s"
proof -
  have "t = snd (start_mqtt_metrics E s)" using assms by simp
  then show ?thesis by (simp add: start_mqtt_metrics_def Let_def split: exec.split)
qed

lemma start_mqtt_metrics_calm: "mqtt_calm E \<Longrightarrow> start_mqtt_metrics E s = (r, t) \<Longrightarrow> r = Ret True"
  by (auto simp: start_mqtt_metrics_def mqtt_calm_def split: if_split_asm)

text \<open>on_activate(), call by call.\<close>

lemma mqtt_on_activate_cases:
  assumes run: "mqtt_on_activate E s = (r, t)"
  obtains (unstarted) "start_client E s = (r, t)" "r \<noteq> Ret True"
    | (thrown) s1 where "start_client E s = (Ret True, s1)" "build_mqtt_subscriptions E s1 = (r, t)"
        "\<not> is_ret r"
    | (unbuilt) s1 s2 where "start_client E s = (Ret True, s1)"
        "build_mqtt_subscriptions E s1 = (Ret False, s2)" "r = Ret False" "t = stop_client E s2"
    | (built) s1 s2 where "start_client E s = (Ret True, s1)"
        "build_mqtt_subscriptions E s1 = (Ret True, s2)"
        "start_mqtt_metrics E (s2\<lparr>ms_is_active := True\<rparr>) = (r, t)"
  using run unfolding mqtt_on_activate_def
proof (cases rule: andthen_cases)
  case (ok started s1)
  show thesis
  proof (cases started)
    case False
    then show thesis using ok unstarted by auto
  next
    case True
    obtain q s2 where b: "build_mqtt_subscriptions E s1 = (q, s2)"
      by (cases "build_mqtt_subscriptions E s1")
    show thesis
    proof (cases q)
      case (Ret v)
      show thesis
      proof (cases v)
        assume "v"
        then have "start_mqtt_metrics E (s2\<lparr>ms_is_active := True\<rparr>) = (r, t)"
          using ok(2) True b Ret \<open>v\<close> by (simp add: andthen_def)
        then show thesis using built [of s1 s2] ok(1) True b Ret \<open>v\<close> by simp
      next
        assume "\<not> v"
        then have "r = Ret False" "t = stop_client E s2"
          using ok(2) True b Ret \<open>\<not> v\<close> by (simp_all add: andthen_def)
        then show thesis using unbuilt [of s1 s2] ok(1) True b Ret \<open>\<not> v\<close> by simp
      qed
    next
      case (Err e)
      then have "r = Err e" "t = s2" using ok(2) True b by (simp_all add: andthen_def)
      then show thesis using thrown [of s1] ok(1) True b Err by simp
    next
      case (Exc e)
      then have "r = Exc e" "t = s2" using ok(2) True b by (simp_all add: andthen_def)
      then show thesis using thrown [of s1] ok(1) True b Exc by simp
    qed
  qed
qed (use unstarted in auto)

lemma mqtt_configure_inv:
  assumes inv: "mqtt_inv Unconfigured s" and run: "mqtt_on_configure E s = (r, t)"
    and out: "lc_outcome r Unconfigured Inactive st"
  shows "mqtt_inv st t"
  using run unfolding mqtt_on_configure_def
proof (cases rule: attempt_cases)
  case (ok u s')
  then have "mqtt_settings s t" "0 < ms_qos_depth t"
    using keepsD [OF mqtt_configure_settings ok(1)] ensuresD [OF mqtt_configure_ensures ok(1)] by simp_all
  then show ?thesis
    using inv out ok(2) by (auto simp: mqtt_inv_def mqtt_settings_def elim: lc_outcomeE)
next
  case (err e s')
  then have "mqtt_settings s t" using keepsD [OF mqtt_configure_settings err(1)] by simp
  then show ?thesis
    using inv out err(2) by (auto simp: mqtt_inv_def mqtt_settings_def elim!: lc_outcomeE)
next
  case (exc e)
  then have "mqtt_settings s t" using keepsD [OF mqtt_configure_settings exc(1)] by simp
  then show ?thesis
    using inv out exc(2) by (auto simp: mqtt_inv_def mqtt_settings_def elim!: lc_outcomeE)
qed

lemma mqtt_activate_inv:
  assumes inv: "mqtt_inv Inactive s" and run: "mqtt_on_activate E s = (r, t)"
    and out: "lc_outcome r Inactive Active st" and calm: "mqtt_calm E"
  shows "mqtt_inv st t"
proof -
  have create: "is_ret (fst (pa_create (me_paho E) uri name w))" for uri name w
    using calm by (simp add: mqtt_calm_def)
  from run show ?thesis
  proof (cases rule: mqtt_on_activate_cases)
    case unstarted
    note c = start_client_facts [OF unstarted(1)]
    from c(4) [OF create] unstarted(2) have "r = Ret False" by (auto simp: is_ret_iff)
    then show ?thesis
      using c(3) client_onlyD [OF c(1)] inv out by (auto simp: mqtt_inv_def elim: lc_outcomeE)
  next
    case (thrown s1)
    then show ?thesis
      using build_mqtt_facts(4) [OF thrown(2) start_client_facts(2) [OF thrown(1) refl] calm] by simp
  next
    case (unbuilt s1 s2)
    note c = start_client_facts [OF unbuilt(1)]
    note b = build_mqtt_facts(1) [OF unbuilt(2) c(2) [OF refl]]
    have "ms_params s2 = ms_params s1" "ms_is_active s2 = ms_is_active s1" "ms_qos_depth s2 = ms_qos_depth s1"
      by (subst b, simp)+
    then show ?thesis
      using client_onlyD [OF c(1)] client_onlyD [OF stop_client_only [of s2 E]] unbuilt(3,4) inv out
      by (auto simp: mqtt_inv_def elim: lc_outcomeE)
  next
    case (built s1 s2)
    note c = start_client_facts [OF built(1)]
    note b = build_mqtt_facts [OF built(2) c(2) [OF refl]]
    note m = start_mqtt_metrics_fields [OF built(3)] start_mqtt_metrics_calm [OF calm built(3)]
    have "ms_params s2 = ms_params s1" "ms_client s2 = ms_client s1" "ms_qos_depth s2 = ms_qos_depth s1"
      "ms_configured s2 = ms_configured s1"
      by (subst b(1), simp)+
    then show ?thesis
      using client_onlyD [OF c(1)] c(2) [OF refl] b(2,3) [OF refl] m inv out
      by (auto simp: mqtt_inv_def elim: lc_outcomeE)
  qed
qed

lemma mqtt_stop_inv:
  assumes "mqtt_inv st0 s" "lc_outcome r st0 goal st" "r = Ret True" "goal \<noteq> Active"
    and "ms_params t = ms_params s" "\<not> ms_is_active t" "ms_client t = None"
    and "ms_qos_depth t = ms_qos_depth s" "goal = Inactive \<Longrightarrow> st0 \<in> {Inactive, Active}"
  shows "mqtt_inv st t"
proof -
  have "st = goal" using assms(2,3) by (auto elim: lc_outcomeE)
  then show ?thesis using assms by (auto simp: mqtt_inv_def)
qed

lemma mqtt_stop_fields [simp]:
  "ms_params (stop_client E s) = ms_params s" "ms_is_active (stop_client E s) = ms_is_active s"
  "ms_qos_depth (stop_client E s) = ms_qos_depth s" "ms_active (stop_client E s) = ms_active s"
  "ms_params (clear_mqtt_subscriptions s) = ms_params s"
  "ms_is_active (clear_mqtt_subscriptions s) = ms_is_active s"
  "ms_qos_depth (clear_mqtt_subscriptions s) = ms_qos_depth s"
  "ms_client (clear_mqtt_subscriptions s) = ms_client s"
  "ms_paho (clear_mqtt_subscriptions s) = ms_paho s"
  by (simp_all add: client_onlyD [OF stop_client_only] clear_mqtt_subscriptions_def)

lemma mqtt_internal_inv:
  assumes inv: "mqtt_inv st s" and step: "mqtt_internal E st s t"
  shows "mqtt_inv st t"
  using step
proof cases
  case (mi_message i clk msg r)
  show ?thesis by (rule mqtt_traffic_inv [OF inv mqtt_on_message_traffic [OF mi_message(2)]])
next
  case (mi_params ps r)
  then show ?thesis using mqtt_parameters_set_inv [OF inv] by blast
next
  case (mi_metrics r)
  show ?thesis by (rule mqtt_traffic_inv [OF inv mqtt_publish_metrics_traffic [OF mi_metrics]])
qed (use inv in \<open>simp_all add: mqtt_inv_def on_client_def\<close>)

lemma mosquitto_sink_node_simps [simp]:
  "on_configure (mosquitto_sink_node E) = mqtt_on_configure E"
  "on_activate (mosquitto_sink_node E) = mqtt_on_activate E"
  "on_deactivate (mosquitto_sink_node E) = mqtt_on_deactivate E"
  "on_cleanup (mosquitto_sink_node E) = mqtt_on_cleanup E"
  "on_shutdown (mosquitto_sink_node E) = mqtt_on_shutdown E"
  by (simp_all add: mosquitto_sink_node_def)

lemmas mqtt_stop_defs = mqtt_on_deactivate_def mqtt_on_cleanup_def mqtt_on_shutdown_def Let_def

interpretation mosquitto_sink: managed_node "mosquitto_sink_node E" "mqtt_internal E"
  "\<lambda>s. \<exists>ov w. s = new_mqtt_sink ov w" "\<lambda>st s. mqtt_calm E \<longrightarrow> mqtt_inv st s" for E
proof (unfold_locales, unfold mosquitto_sink_node_simps)
  show "mqtt_calm E \<longrightarrow> mqtt_inv Unconfigured s" if "\<exists>ov w. s = new_mqtt_sink ov w" for s
    using that by (auto intro: mqtt_inv_new)
  show "mqtt_calm E \<longrightarrow> mqtt_inv st t"
    if "mqtt_calm E \<longrightarrow> mqtt_inv Unconfigured s" "mqtt_on_configure E s = (r, t)"
      "lc_outcome r Unconfigured Inactive st" for s r t st
    using that by (blast intro: mqtt_configure_inv)
  show "mqtt_calm E \<longrightarrow> mqtt_inv st t"
    if "mqtt_calm E \<longrightarrow> mqtt_inv Inactive s" "mqtt_on_activate E s = (r, t)"
      "lc_outcome r Inactive Active st" for s r t st
    using that by (blast intro: mqtt_activate_inv)
  show "mqtt_calm E \<longrightarrow> mqtt_inv st t"
    if "mqtt_calm E \<longrightarrow> mqtt_inv Active s" "mqtt_on_deactivate E s = (r, t)"
      "lc_outcome r Active Inactive st" for s r t st
    using that(1) mqtt_stop_inv [OF _ that(3), of s t] that(2) by (auto simp: mqtt_stop_defs)
  show "mqtt_calm E \<longrightarrow> mqtt_inv st t"
    if "mqtt_calm E \<longrightarrow> mqtt_inv Inactive s" "mqtt_on_cleanup E s = (r, t)"
      "lc_outcome r Inactive Unconfigured st" for s r t st
    using that(1) mqtt_stop_inv [OF _ that(3), of s t] that(2) by (auto simp: mqtt_stop_defs)
  show "mqtt_calm E \<longrightarrow> mqtt_inv st t"
    if "mqtt_calm E \<longrightarrow> mqtt_inv st0 s" "st0 \<noteq> Finalized" "mqtt_on_shutdown E s = (r, t)"
      "lc_outcome r st0 Finalized st" for st0 s r t st
    using that(1) mqtt_stop_inv [OF _ that(4), of s t] that(3) by (auto simp: mqtt_stop_defs)
  show "mqtt_calm E \<longrightarrow> mqtt_inv st t"
    if "mqtt_calm E \<longrightarrow> mqtt_inv st s" "mqtt_internal E st s t" for st s t
    using that by (blast intro: mqtt_internal_inv)
qed

section \<open>Who owns the client\<close>

text \<open>
  A library that keeps a book of its clients, \<open>live\<close>: creating one enters a new handle, destroying it
  takes it out, and nothing else touches the book.
\<close>

definition keeps_book :: "'m paho \<Rightarrow> ('m \<Rightarrow> nat set) \<Rightarrow> bool" where
  "keeps_book L live \<longleftrightarrow>
     (\<forall>uri name w. case pa_create L uri name w of
          (Ret h, w') \<Rightarrow> h \<notin> live w \<and> live w' = insert h (live w)
        | (_, w') \<Rightarrow> live w' = live w) \<and>
     (\<forall>h x w. live (snd (pa_connect L h x w)) = live w) \<and>
     (\<forall>h w. live (snd (pa_disconnect L h w)) = live w) \<and>
     (\<forall>h x w. live (snd (pa_publish L h x w)) = live w) \<and>
     (\<forall>h w. live (pa_destroy L h w) = live w - {h})"

definition owned :: "('m \<Rightarrow> nat set) \<Rightarrow> 'm mqtt_sink \<Rightarrow> bool" where
  "owned live s \<longleftrightarrow> live (ms_paho s) = mc_handle ` set_option (ms_client s)"

lemma owned_same:
  "map_option mc_handle (ms_client t) = map_option mc_handle (ms_client s) \<Longrightarrow>
     live (ms_paho t) = live (ms_paho s) \<Longrightarrow> owned live s \<Longrightarrow> owned live t"
  by (cases "ms_client s"; cases "ms_client t") (auto simp: owned_def)

lemma drop_client_book:
  "keeps_book (me_paho E) live \<Longrightarrow>
     live (ms_paho (drop_client E s)) = live (ms_paho s) - mc_handle ` set_option (ms_client s)"
  by (auto simp: drop_client_def keeps_book_def split: option.split)

lemma drop_client_owned:
  "keeps_book (me_paho E) live \<Longrightarrow> owned live s \<Longrightarrow> owned live (drop_client E s)"
  by (simp add: owned_def drop_client_book)

lemma mqtt_connect_book:
  assumes "keeps_book L live" "mqtt_connect L now x (c, w) = (res, c', w')"
  shows "mc_handle c' = mc_handle c \<and> live w' = live w"
proof -
  have "live (snd (pa_connect L (mc_handle c) x w)) = live w" using assms(1) by (simp add: keeps_book_def)
  then show ?thesis using assms(2) by (auto simp: mqtt_connect_def split: prod.split_asm option.split_asm)
qed

lemma mqtt_disconnect_book:
  assumes "keeps_book L live" "mqtt_disconnect L (c, w) = (c', w')"
  shows "mc_handle c' = mc_handle c \<and> live w' = live w"
proof -
  have "live (snd (pa_disconnect L (mc_handle c) w)) = live w" using assms(1) by (simp add: keeps_book_def)
  then show ?thesis
    using assms(2) by (auto simp: mqtt_disconnect_def split: if_split_asm prod.split_asm option.split_asm)
qed

lemma mqtt_publish_book:
  assumes "keeps_book L live" "mqtt_publish L m (c, w) = (res, c', w')"
  shows "live w' = live w"
proof -
  have "live (snd (pa_publish L (mc_handle c) m w)) = live w" using assms(1) by (simp add: keeps_book_def)
  then show ?thesis
    using assms(2) by (auto simp: mqtt_publish_def split: if_split_asm prod.split_asm option.split_asm)
qed

lemma stop_client_owned:
  assumes book: "keeps_book (me_paho E) live" and own: "owned live s"
  shows "owned live (stop_client E s)"
proof (cases "ms_client s")
  case None
  then show ?thesis using own by (simp add: stop_client_def)
next
  case (Some c)
  obtain c' w where d: "mqtt_disconnect (me_paho E) (c, ms_paho s) = (c', w)"
    by (cases "mqtt_disconnect (me_paho E) (c, ms_paho s)")
  have "owned live (s\<lparr>ms_client := Some c', ms_paho := w\<rparr>)"
    by (rule owned_same [OF _ _ own]) (use mqtt_disconnect_book [OF book d] Some in simp_all)
  then show ?thesis using drop_client_owned [OF book] Some d by (simp add: stop_client_def)
qed

lemma start_client_owned:
  assumes book: "keeps_book (me_paho E) live" and own: "owned live s"
    and run: "start_client E s = (r, t)"
  shows "owned live t"
proof -
  let ?p = "ms_params s"
  obtain q w where q: "pa_create (me_paho E) (server_uri ?p) (mp_client_id ?p) (ms_paho s) = (q, w)"
    by (cases "pa_create (me_paho E) (server_uri ?p) (mp_client_id ?p) (ms_paho s)")
  have "case pa_create (me_paho E) (server_uri ?p) (mp_client_id ?p) (ms_paho s) of
      (Ret h, w') \<Rightarrow> h \<notin> live (ms_paho s) \<and> live w' = insert h (live (ms_paho s))
    | (_, w') \<Rightarrow> live w' = live (ms_paho s)"
    by (rule book [unfolded keeps_book_def, THEN conjunct1, THEN spec, THEN spec, THEN spec])
  then have entry: "case q of Ret h \<Rightarrow> h \<notin> live (ms_paho s) \<and> live w = insert h (live (ms_paho s))
      | _ \<Rightarrow> live w = live (ms_paho s)"
    using q by (cases q) simp_all
  show ?thesis
  proof (cases q)
    case (Ret h)
    let ?s = "drop_client E (s\<lparr>ms_paho := w\<rparr>)"
    obtain res c w' where c: "mqtt_connect (me_paho E) (ms_steady ?s) (connect_options_of (ms_params ?s))
        (new_mqtt_client h, ms_paho ?s) = (res, c, w')"
      by (metis prod_cases3)
    have "live (ms_paho ?s) = {h}"
      using drop_client_book [OF book, of "s\<lparr>ms_paho := w\<rparr>"] entry own Ret by (auto simp: owned_def)
    then have "owned live (?s\<lparr>ms_client := Some c, ms_paho := w'\<rparr>)"
      using mqtt_connect_book [OF book c] by (simp add: owned_def new_mqtt_client_def)
    moreover have "t = ?s\<lparr>ms_client := Some c, ms_paho := w'\<rparr> \<or>
        t = drop_client E (?s\<lparr>ms_client := Some c, ms_paho := w'\<rparr>)"
      using run q Ret c by (cases res) (simp_all add: start_client_def Let_def)
    ultimately show ?thesis using drop_client_owned [OF book] by auto
  qed (use run q entry own in \<open>auto simp: start_client_def owned_def\<close>)
qed

lemma build_mqtt_owner:
  "build_mqtt_subscriptions E s = (r, t) \<Longrightarrow> ms_client t = ms_client s \<and> ms_paho t = ms_paho s"
  by (auto simp: build_mqtt_subscriptions_def clear_mqtt_subscriptions_def Let_def
      split: if_split_asm prod.split_asm)

lemma mqtt_on_activate_owned:
  assumes book: "keeps_book (me_paho E) live" and own: "owned live s"
    and run: "mqtt_on_activate E s = (r, t)"
  shows "owned live t"
  using run
proof (cases rule: mqtt_on_activate_cases)
  case unstarted
  then show ?thesis using start_client_owned [OF book own] by blast
next
  case (thrown s1)
  then show ?thesis
    using start_client_owned [OF book own thrown(1)] build_mqtt_owner [OF thrown(2)] by (simp add: owned_def)
next
  case (unbuilt s1 s2)
  then have "owned live s2"
    using start_client_owned [OF book own unbuilt(1)] build_mqtt_owner [OF unbuilt(2)] by (simp add: owned_def)
  then show ?thesis using stop_client_owned [OF book] unbuilt(4) by blast
next
  case (built s1 s2)
  then have "owned live s2"
    using start_client_owned [OF book own built(1)] build_mqtt_owner [OF built(2)] by (simp add: owned_def)
  then show ?thesis using start_mqtt_metrics_fields [OF built(3)] by (simp add: owned_def)
qed

lemma mqtt_internal_owned:
  assumes book: "keeps_book (me_paho E) live" and own: "owned live s" and step: "mqtt_internal E st s t"
  shows "owned live t"
  using step
proof cases
  case (mi_message i clk msg r)
  from mi_message(2) show ?thesis
  proof (cases rule: mqtt_on_message_cases)
    case (published c v live' res c' w)
    show ?thesis
      by (rule owned_same [OF _ _ own])
         (simp_all add: published(2,6) mqtt_publish_handle [OF published(5)] mqtt_publish_book [OF book published(5)])
  qed (use own in \<open>simp_all add: owned_def\<close>)
next
  case (mi_params ps r)
  from mi_params obtain d where "mqtt_update d s t" by (rule mqtt_parameters_set_update)
  then show ?thesis using own by (simp add: mqtt_update_def mqtt_settings_def owned_def)
next
  case (mi_metrics r)
  then have "ms_client t = ms_client s \<and> ms_paho t = ms_paho s"
    by (auto simp: mqtt_publish_metrics_def Let_def split: if_split_asm option.split_asm)
  then show ?thesis using own by (simp add: owned_def)
next
  case mi_connected
  then show ?thesis using own by (cases "ms_client s") (simp_all add: owned_def on_client_def connected_def)
next
  case (mi_lost cause)
  then show ?thesis
    using own by (cases "ms_client s") (simp_all add: owned_def on_client_def connection_lost_def)
qed (use own in \<open>simp_all add: owned_def\<close>)

lemma mqtt_stops_owned:
  assumes book: "keeps_book (me_paho E) live" and own: "owned live s"
  shows "mqtt_on_deactivate E s = (r, t) \<Longrightarrow> owned live t" "mqtt_on_cleanup E s = (r, t) \<Longrightarrow> owned live t"
    "mqtt_on_shutdown E s = (r, t) \<Longrightarrow> owned live t"
proof -
  have "owned live (stop_client E (clear_mqtt_subscriptions (s\<lparr>ms_is_active := False\<rparr>)))"
    "owned live (stop_client E (s\<lparr>ms_is_active := False\<rparr>))"
    by (rule stop_client_owned [OF book], use own in \<open>simp add: owned_def clear_mqtt_subscriptions_def\<close>)+
  then show "mqtt_on_deactivate E s = (r, t) \<Longrightarrow> owned live t" "mqtt_on_cleanup E s = (r, t) \<Longrightarrow> owned live t"
    "mqtt_on_shutdown E s = (r, t) \<Longrightarrow> owned live t"
    by (auto simp: owned_def mqtt_stop_defs)
qed

interpretation mqtt_owner: managed_node "mosquitto_sink_node E" "mqtt_internal E"
  "\<lambda>s. \<exists>ov w. s = new_mqtt_sink ov w \<and> live w = {}"
  "\<lambda>st s. keeps_book (me_paho E) live \<longrightarrow> owned live s" for E live
proof (unfold_locales, unfold mosquitto_sink_node_simps)
  show "keeps_book (me_paho E) live \<longrightarrow> owned live s"
    if "\<exists>ov w. s = new_mqtt_sink ov w \<and> live w = {}" for s
    using that by (auto simp: owned_def new_mqtt_sink_def)
  show "keeps_book (me_paho E) live \<longrightarrow> owned live t"
    if "keeps_book (me_paho E) live \<longrightarrow> owned live s" "mqtt_on_configure E s = (r, t)" for s r t
  proof -
    have "keeps mqtt_settings (mqtt_on_configure E)"
      unfolding mqtt_on_configure_def
      by (rule keeps_attempt [OF mqtt_settings_trans mqtt_configure_settings])
         (auto intro: keeps_pure mqtt_settings_refl)
    from keepsD [OF this that(2)] that(1) show ?thesis by (simp add: mqtt_settings_def owned_def)
  qed
qed (blast intro: mqtt_on_activate_owned mqtt_stops_owned mqtt_internal_owned)+

section \<open>A sample node\<close>

text \<open>
  A library whose state is the next handle, the clients that exist and the messages that were
  published; a broker that takes messages as long as \<open>up\<close> holds.
\<close>

type_synonym sample_paho_state = "nat \<times> nat list \<times> publication list"

definition sample_paho :: "bool \<Rightarrow> sample_paho_state paho" where
  "sample_paho up =
     \<lparr>pa_create = (\<lambda>_ _ (n, live, out). (Ret n, Suc n, n # filter (\<lambda>h. h < n) live, out)),
      pa_connect = (\<lambda>_ _ w. (if up then None else Some ''refused'', w)),
      pa_is_connected = (\<lambda>_ _. True), pa_disconnect = (\<lambda>_ w. (None, w)),
      pa_publish = (\<lambda>_ m (n, live, out). (None, n, live, out @ [m])),
      pa_destroy = (\<lambda>h (n, live, out). (n, filter (\<lambda>x. x \<noteq> h) live, out))\<rparr>"

definition sample_mqtt_env :: "bool \<Rightarrow> (sample_paho_state, ytree) mqtt_env" where
  "sample_mqtt_env up =
     \<lparr>me_paho = sample_paho up,
      me_yaml = sample_yaml (\<lambda>text. if text = ''one'' then Ret (YSeq [sample_entry])
                               else Exc ''bad document''),
      me_json = sample_json_env True, me_serialize = (\<lambda>_ _. None),
      me_typesupport = \<lparr>tl_library = (\<lambda>_ _. Ret True), tl_handle = (\<lambda>_ _. Ret True),
        tl_members = (\<lambda>_. Some sample_message)\<rparr>,
      me_subscribe = (\<lambda>_ _ _. Ret True), me_publisher = (\<lambda>_. Ret ()), me_timer = (\<lambda>_. Ret ())\<rparr>"

definition sample_mqtt :: "sample_paho_state mqtt_sink" where
  "sample_mqtt =
     new_mqtt_sink (\<lambda>n. if n = ''subscriptions_yaml'' then Some (PString ''one'')
                     else if n = ''metrics.enabled'' then Some (PBool True) else None) (0, [], [])"

definition sample_mqtt_configured :: "sample_paho_state mqtt_sink" where
  "sample_mqtt_configured = snd (mqtt_on_configure (sample_mqtt_env True) sample_mqtt)"

definition sample_mqtt_active :: "sample_paho_state mqtt_sink" where
  "sample_mqtt_active = snd (mqtt_on_activate (sample_mqtt_env True) sample_mqtt_configured)"

lemma sample_mqtt_calm: "mqtt_calm (sample_mqtt_env True)"
  by (simp add: mqtt_calm_def sample_mqtt_env_def sample_paho_def split: prod.split)

lemma sample_mqtt_runs:
  "mqtt_on_configure (sample_mqtt_env True) sample_mqtt = (Ret True, sample_mqtt_configured)"
  "mqtt_on_activate (sample_mqtt_env True) sample_mqtt_configured = (Ret True, sample_mqtt_active)"
proof -
  have "fst (mqtt_on_configure (sample_mqtt_env True) sample_mqtt) = Ret True"
    "fst (mqtt_on_activate (sample_mqtt_env True) sample_mqtt_configured) = Ret True"
    by code_simp+
  then show "mqtt_on_configure (sample_mqtt_env True) sample_mqtt = (Ret True, sample_mqtt_configured)"
    "mqtt_on_activate (sample_mqtt_env True) sample_mqtt_configured = (Ret True, sample_mqtt_active)"
    unfolding sample_mqtt_configured_def sample_mqtt_active_def by (metis prod.collapse)+
qed

lemma sample_mqtt_reachable:
  assumes "init sample_mqtt"
  shows "lc_reachable (mosquitto_sink_node (sample_mqtt_env True)) (mqtt_internal (sample_mqtt_env True)) init
    (Active, sample_mqtt_active)"
proof -
  let ?M = "mosquitto_sink_node (sample_mqtt_env True)" and ?I = "mqtt_internal (sample_mqtt_env True)"
  have "lc_reachable ?M ?I init (Unconfigured, sample_mqtt)" using assms by (rule lc_start)
  moreover have "lc_step ?M ?I (Unconfigured, sample_mqtt) (Inactive, sample_mqtt_configured)"
    by (rule lc_configure [of _ _ "Ret True"]) (simp_all add: sample_mqtt_runs lc_outcome.intros)
  moreover have "lc_step ?M ?I (Inactive, sample_mqtt_configured) (Active, sample_mqtt_active)"
    by (rule lc_activate [of _ _ "Ret True"]) (simp_all add: sample_mqtt_runs lc_outcome.intros)
  ultimately show ?thesis by (blast intro: lc_next)
qed

section \<open>Properties\<close>



text \<open>
  C27: The node owns at most one Paho client and leaks none: whatever was thrown or refused on the way,
  the clients that exist in the library are exactly the one the node holds, or none when it holds
  none.  The library is assumed to keep a book of its clients that only creation and destruction
  change.
\<close>

theorem mqtt_clients_are_released:
  assumes "lc_reachable (mosquitto_sink_node E) (mqtt_internal E)
      (\<lambda>s. \<exists>ov w. s = new_mqtt_sink ov w \<and> live w = {}) (st, s)"
    and "keeps_book (me_paho E) live"
  shows "live (ms_paho s) = (case ms_client s of None \<Rightarrow> {} | Some c \<Rightarrow> {mc_handle c})"
  using mqtt_owner.reachable_keeps [OF assms(1)] assms(2)
  by (simp add: owned_def split: option.split)

definition sample_book :: "sample_paho_state \<Rightarrow> nat set" where
  "sample_book w = (case w of (n, live, out) \<Rightarrow> {h \<in> set live. h < n})"

lemma sample_keeps_book: "keeps_book (sample_paho up) sample_book"
  by (auto simp: keeps_book_def sample_paho_def sample_book_def)

theorem mqtt_clients_are_released_witness:
  "sample_book (ms_paho sample_mqtt_active) = {0} \<and> map_option mc_handle (ms_client sample_mqtt_active) = Some 0"
proof -
  let ?E = "sample_mqtt_env True"
  have "sample_book (ms_paho sample_mqtt_active) =
      (case ms_client sample_mqtt_active of None \<Rightarrow> {} | Some c \<Rightarrow> {mc_handle c})"
  proof (rule mqtt_clients_are_released [where E = ?E])
    show "lc_reachable (mosquitto_sink_node ?E) (mqtt_internal ?E)
        (\<lambda>s. \<exists>ov w. s = new_mqtt_sink ov w \<and> sample_book w = {}) (Active, sample_mqtt_active)"
      by (rule sample_mqtt_reachable) (auto simp: sample_mqtt_def sample_book_def)
    show "keeps_book (me_paho ?E) sample_book"
      using sample_keeps_book [of True] by (simp add: sample_mqtt_env_def)
  qed
  moreover have "map_option mc_handle (ms_client sample_mqtt_active) = Some 0" by code_simp
  ultimately show ?thesis by (auto split: option.split_asm)
qed

text \<open>
  C13: A message that the callback of an active node handles is counted once, as sent or as an error,
  and touches no other subscription.  If it could be encoded, it is counted with its size and handed
  to the client once, on the topic of its subscription with the configured quality of service, and
  it is sent exactly when the client took it; if it could not, the client is left alone.
\<close>

theorem mqtt_message_is_counted_once:
  assumes "ms_is_active s" "ms_client s = Some c" "i < length (ms_active s)"
    and run: "mqtt_on_message E i clk msg s = (Ret (), t)"
    and rt: "rt = ma_runtime (ms_active s ! i)" "rt' = ma_runtime (ms_active t ! i)"
  shows "mr_sent_ok rt' + mr_errors rt' = mr_sent_ok rt + mr_errors rt + 1 \<and>
    (\<forall>j. j \<noteq> i \<longrightarrow> ms_active t ! j = ms_active s ! j) \<and>
    (case fst (mqtt_encode E rt clk msg (ms_live_messages s)) of
       Ret v \<Rightarrow>
         (\<exists>res c'. mqtt_publish (me_paho E)
             \<lparr>pu_topic = mr_mqtt_topic rt, pu_payload = v, pu_qos = mp_qos (ms_params s),
              pu_retain = mp_retain (ms_params s)\<rparr> (c, ms_paho s) = (res, c', ms_paho t) \<and>
           ms_client t = Some c' \<and> mr_sent_ok rt' = mr_sent_ok rt + (if res = None then 1 else 0)) \<and>
         mr_msgs_total rt' = mr_msgs_total rt + 1 \<and>
         mr_bytes_total rt' = mr_bytes_total rt + of_nat (length v)
     | _ \<Rightarrow> mr_msgs_total rt' = mr_msgs_total rt \<and> mr_sent_ok rt' = mr_sent_ok rt \<and>
         ms_client t = Some c \<and> ms_paho t = ms_paho s)"
  using run
proof (cases rule: mqtt_on_message_cases)
  case (unencoded e live)
  then have "rt' = rt\<lparr>mr_errors := mr_errors rt + 1\<rparr>" using assms(3) rt by (simp add: set_mqtt_runtime_def)
  then show ?thesis using unencoded assms(2) rt(1) by (simp add: set_mqtt_runtime_def)
next
  case (published c0 v live res c' w)
  have rt': "rt' = mqtt_note_published clk (res = None) (mqtt_note_encoded clk v rt)"
    using published(6) assms(3) rt by (simp add: set_mqtt_runtime_def)
  have "mr_sent_ok rt' + mr_errors rt' = mr_sent_ok rt + mr_errors rt + 1"
    "mr_msgs_total rt' = mr_msgs_total rt + 1"
    "mr_bytes_total rt' = mr_bytes_total rt + of_nat (length v)"
    "mr_sent_ok rt' = mr_sent_ok rt + (if res = None then 1 else 0)"
    unfolding rt' by (simp_all add: mqtt_note_published_def mqtt_note_encoded_def Let_def)
  moreover have "\<forall>j. j \<noteq> i \<longrightarrow> ms_active t ! j = ms_active s ! j" "ms_client t = Some c'" "ms_paho t = w"
    by (simp_all add: published(6) set_mqtt_runtime_def)
  ultimately show ?thesis
    using published(2,4,5) assms(2) rt(1) by (simp add: publication_of_def)
qed (use assms in simp_all)

theorem mqtt_message_is_counted_once_witness:
  "mr_sent_ok (ma_runtime (ms_active (snd (mqtt_on_message (sample_mqtt_env True) 0 sample_clock [1, 2]
       sample_mqtt_active)) ! 0)) +
   mr_errors (ma_runtime (ms_active (snd (mqtt_on_message (sample_mqtt_env True) 0 sample_clock [1, 2]
       sample_mqtt_active)) ! 0)) = 1"
proof -
  let ?s = "sample_mqtt_active" and ?E = "sample_mqtt_env True"
  let ?t = "snd (mqtt_on_message ?E 0 sample_clock [1, 2] ?s)"
  have active: "ms_is_active ?s" "0 < length (ms_active ?s)" by code_simp+
  have "ms_client ?s \<noteq> None" by code_simp
  then obtain c where c: "ms_client ?s = Some c" by blast
  have "fst (mqtt_on_message ?E 0 sample_clock [1, 2] ?s) = Ret ()" by code_simp
  then have run: "mqtt_on_message ?E 0 sample_clock [1, 2] ?s = (Ret (), ?t)" by (metis prod.collapse)
  have "mr_sent_ok (ma_runtime (ms_active ?s ! 0)) + mr_errors (ma_runtime (ms_active ?s ! 0)) = 0"
    by code_simp
  then show ?thesis using mqtt_message_is_counted_once [OF active(1) c active(2) run refl refl] by simp
qed


end
