(* ===== verification/Dispatch.thy ===== *)
theory Dispatch
  imports Controller_Effects Dispatcher_Properties Kafka_Sink_Properties Mosquitto_Sink_Properties
begin

text \<open>
  The controller and the two sinks together: dispatcher_controller talks to the models of kafka_sink
  and mosquitto_sink through their services.

  The interface \<open>sink_service\<close> is what the controller relies on; it is interpreted on both sinks.  How
  rclcpp serves a transition and a parameter update is its documented behaviour, as in Lifecycle.
\<close>

section \<open>The services of a managed node\<close>

text \<open>
  A transition that is not possible in the state of the node is refused.  A callback that throws
  leads through error processing to \<open>err\<close>, and the transition is reported as failed.
\<close>

definition settle ::
  "lc_state \<Rightarrow> lc_state \<Rightarrow> lc_state \<Rightarrow> bool exec \<times> 'n \<Rightarrow> bool option \<times> lc_state \<times> 'n" where
  "settle err origin goal = (\<lambda>(r, n).
     case r of
       Ret True \<Rightarrow> (Some True, goal, n)
     | Ret False \<Rightarrow> (Some False, origin, n)
     | _ \<Rightarrow> (Some False, err, n))"

definition serve_transition ::
  "'n managed \<Rightarrow> lc_state \<Rightarrow> transition \<Rightarrow> lc_state \<times> 'n \<Rightarrow> bool option \<times> lc_state \<times> 'n" where
  "serve_transition M err tr = (\<lambda>(st, n).
     case (tr, st) of
       (TRANSITION_CONFIGURE, Unconfigured) \<Rightarrow> settle err Unconfigured Inactive (on_configure M n)
     | (TRANSITION_ACTIVATE, Inactive) \<Rightarrow> settle err Inactive Active (on_activate M n)
     | (TRANSITION_DEACTIVATE, Active) \<Rightarrow> settle err Active Inactive (on_deactivate M n)
     | _ \<Rightarrow> (Some False, st, n))"

text \<open>
  The parameters of a request are set one by one: the node's callback decides, and an accepted value
  is stored.  A callback that throws ends the node, so no answer comes.
\<close>

fun serve_parameters ::
  "(parameter \<Rightarrow> ('n, set_result) prog) \<Rightarrow> (parameter \<Rightarrow> 'n \<Rightarrow> 'n) \<Rightarrow> parameter list \<Rightarrow> 'n \<Rightarrow>
     set_result list option \<times> 'n" where
  "serve_parameters check store [] n = (Some [], n)"
| "serve_parameters check store (p # ps) n =
     (case check p n of
        (Ret res, n) \<Rightarrow>
          (case serve_parameters check store ps (if sr_successful res then store p n else n) of
             (Some rs, n) \<Rightarrow> (Some (res # rs), n)
           | (None, n) \<Rightarrow> (None, n))
      | (_, n) \<Rightarrow> (None, n))"

definition on_node :: "('n \<Rightarrow> 'r option \<times> 'n) \<Rightarrow> lc_state \<times> 'n \<Rightarrow> 'r option \<times> lc_state \<times> 'n" where
  "on_node f = (\<lambda>(st, n). case f n of (r, n) \<Rightarrow> (r, st, n))"

lemma on_nodeD: "on_node f v = (r, u) \<Longrightarrow> fst u = fst v \<and> f (snd v) = (r, snd u)"
  by (auto simp: on_node_def split: prod.split_asm)

lemma serve_transition_cases:
  assumes "serve_transition M err tr (st, n) = (r, st', n')" "err \<in> {Unconfigured, Finalized}"
  obtains (refused) "st' = st" "n' = n" "r = Some False"
    | (done_step) "lc_step M internal (st, n) (st', n')" "r = Some True \<Longrightarrow> tr = TRANSITION_ACTIVATE \<Longrightarrow> st' = Active"
proof -
  have settle: "lc_outcome q origin goal st' \<and> n'' = n' \<and> (r = Some True \<longrightarrow> st' = goal)"
    if "settle err origin goal (q, n'') = (r, st', n')" for origin goal q n''
    using that assms(2) by (cases q) (auto simp: settle_def split: bool.split_asm intro: lc_outcome.intros)
  consider "tr = TRANSITION_CONFIGURE" "st = Unconfigured" | "tr = TRANSITION_ACTIVATE" "st = Inactive"
    | "tr = TRANSITION_DEACTIVATE" "st = Active" | "(r, st', n') = (Some False, st, n)"
    using assms(1) by (cases tr; cases st) (simp_all add: serve_transition_def)
  then show thesis
  proof cases
    case 1
    obtain q n'' where q: "on_configure M n = (q, n'')" by (cases "on_configure M n")
    then show thesis
      using done_step lc_configure [OF q] settle [of Unconfigured Inactive q n''] assms(1) 1
      by (simp add: serve_transition_def)
  next
    case 2
    obtain q n'' where q: "on_activate M n = (q, n'')" by (cases "on_activate M n")
    then show thesis
      using done_step lc_activate [OF q] settle [of Inactive Active q n''] assms(1) 2
      by (simp add: serve_transition_def)
  next
    case 3
    obtain q n'' where q: "on_deactivate M n = (q, n'')" by (cases "on_deactivate M n")
    then show thesis
      using done_step lc_deactivate [OF q] settle [of Active Inactive q n''] assms(1) 3
      by (simp add: serve_transition_def)
  next
    case 4
    then show thesis using refused by simp
  qed
qed

text \<open>What a node keeps along its life cycle it keeps under the transitions that are asked of it.\<close>

lemma serve_transition_keeps:
  assumes "serve_transition M err tr v = (a, v')" "err \<in> {Unconfigured, Finalized}" "Q (fst v) (snd v)"
    and steps: "\<And>a b. Q (fst a) (snd a) \<Longrightarrow> lc_step M internal a b \<Longrightarrow> Q (fst b) (snd b)"
  shows "Q (fst v') (snd v')"
proof -
  obtain st n st' n' where v: "v = (st, n)" "v' = (st', n')" by (cases v; cases v')
  from assms(1,2) [unfolded v] show ?thesis
    by (cases rule: serve_transition_cases [where internal = internal])
       (use assms(3) steps [of "(st, n)" "(st', n')"] v in simp_all)
qed

section \<open>What the controller relies on\<close>

text \<open>
  Topics whose name and type are printable ASCII, which a YAML emitter prints without loss; and a
  topic as a sink takes it: the sinks trim the names they are given.
\<close>

definition printable_topic :: "topic_info \<Rightarrow> bool" where
  "printable_topic i \<longleftrightarrow>
     list_all (\<lambda>c. of_char c \<in> {32 ..< 127 :: nat}) (ti_name i @ ti_type i)"

definition taken_topic :: "topic_info \<Rightarrow> string \<times> string" where
  "taken_topic i = (trim (ti_name i), trim (ti_type i))"

text \<open>
  The interface of a sink: a promise about its state that its services keep, the topics it is
  configured for, and those it is subscribed to when it runs.
\<close>

locale sink_service =
  fixes change :: "(transition, bool, 'w) client"
    and get :: "(unit, u8, 'w) client"
    and set_params :: "(parameter list, set_result list, 'w) client"
    and emit :: "yaml_event list \<Rightarrow> string"
    and promise :: "'w \<Rightarrow> bool"
    and planned :: "'w \<Rightarrow> (string \<times> string) list"
    and subscribed :: "'w \<Rightarrow> (string \<times> string) list option"
  assumes reads: "promise w \<Longrightarrow> wait_and_call get () w = (r, w') \<Longrightarrow> promise w'"
    and changes: "promise w \<Longrightarrow> wait_and_call change tr w = (q, w') \<Longrightarrow> promise w'"
    and activates: "promise w \<Longrightarrow> wait_and_call change TRANSITION_ACTIVATE w = (Reply True, w') \<Longrightarrow>
      subscribed w' = Some (planned w)"
    and takes: "promise w \<Longrightarrow> wait_and_call set_params
        [mk_param ''subscriptions_yaml'' (PString (topics_to_yaml emit subs))] w = (Reply rs, w') \<Longrightarrow>
      first_rejection rs = None \<Longrightarrow> list_all printable_topic subs \<Longrightarrow>
      promise w' \<and> planned w' = map taken_topic subs"
begin

lemma state_read:
  assumes "promise (ct_world s)" "get_sink_state (Some get) s = (r, t)"
  shows "promise (ct_world t)"
proof -
  obtain q w where w: "wait_and_call get () (ct_world s) = (q, w)"
    by (cases "wait_and_call get () (ct_world s)")
  then have "t = s\<lparr>ct_world := w\<rparr>"
    using assms(2) by (simp add: get_sink_state_def ask_def andthen_def)
  then show ?thesis using reads [OF assms(1) w] by simp
qed

lemma state_changed:
  assumes "promise (ct_world s)" "change_sink_state l (Some change) tr a s = (Ret (), t)"
  shows "promise (ct_world t)"
    and "tr = TRANSITION_ACTIVATE \<Longrightarrow> subscribed (ct_world t) = Some (planned (ct_world s))"
proof -
  obtain w where w: "wait_and_call change tr (ct_world s) = (Reply True, w)" "t = s\<lparr>ct_world := w\<rparr>"
    using assms(2)
    by (auto simp: change_sink_state_def ask_def andthen_Ret_iff
        split: prod.split_asm reply.split_asm if_split_asm)
  show "promise (ct_world t)" using changes [OF assms(1) w(1)] w(2) by simp
  show "subscribed (ct_world t) = Some (planned (ct_world s))" if "tr = TRANSITION_ACTIVATE"
    using activates [OF assms(1)] w that by simp
qed

lemma brought_down:
  assumes "promise (ct_world s)" "bring_down_if_active l (Some change) (Some get) st s = (Ret st', t)"
  shows "promise (ct_world t)"
proof (cases "st = PRIMARY_STATE_ACTIVE")
  case True
  then obtain u where "change_sink_state l (Some change) TRANSITION_DEACTIVATE ''deactivate'' s = (Ret (), u)"
    "get_sink_state (Some get) u = (Ret (Some st'), t)"
    using assms(2) by (auto simp: bring_down_if_active_def andthen_Ret_iff split: option.split_asm)
  then show ?thesis using state_changed(1) [OF assms(1)] state_read by blast
next
  case False
  then show ?thesis using assms by (simp add: bring_down_if_active_def)
qed

lemma configured:
  assumes "promise (ct_world s)" "configure_if_unconfigured l (Some change) st s = (Ret (), t)"
  shows "promise (ct_world t)"
  using assms state_changed(1) by (auto simp: configure_if_unconfigured_def split: if_split_asm)

lemma plan_taken:
  assumes "promise (ct_world s)" "\<not> allow_missing_sinks s" "sv_emit E = emit"
    and "set_sink_subscriptions_yaml E l (Some set_params) subs s = (Ret (), t)"
    and "list_all printable_topic subs"
  shows "promise (ct_world t) \<and> planned (ct_world t) = map taken_topic subs"
proof -
  obtain rs w where "wait_and_call set_params
      [mk_param ''subscriptions_yaml'' (PString (topics_to_yaml emit subs))] (ct_world s) = (Reply rs, w)"
    "first_rejection rs = None" "t = s\<lparr>ct_world := w\<rparr>"
    using assms(2-4)
    by (auto simp: set_sink_subscriptions_yaml_def ask_def andthen_Ret_iff should_skip_unavailable_sink_def
        split: prod.split_asm reply.split_asm option.split_asm)
  then show ?thesis using takes [OF assms(1)] assms(5) by simp
qed

text \<open>The two ways in which the controller starts a sink on a new plan.\<close>

lemma plan_runs:
  assumes "promise (ct_world s)" "\<not> allow_missing_sinks s" "sv_emit E = emit"
    and "set_sink_subscriptions_yaml E l (Some set_params) subs s = (Ret (), u)"
    and "change_sink_state l' (Some change) TRANSITION_ACTIVATE a u = (Ret (), t)"
    and "list_all printable_topic subs"
  shows "promise (ct_world t) \<and> subscribed (ct_world t) = Some (map taken_topic subs)"
  using plan_taken [OF assms(1-4,6)] state_changed [OF _ assms(5)] by simp

lemma selection_runs:
  assumes "promise (ct_world s)" "\<not> allow_missing_sinks s" "sv_emit E = emit" "name \<noteq> []"
    and "apply_selection_to_sink E l name (Some change) (Some get) (Some set_params) subs s = (Ret (), t)"
    and "list_all printable_topic subs"
  shows "promise (ct_world t) \<and> subscribed (ct_world t) = Some (map taken_topic subs)"
proof -
  obtain st s1 st' s2 s3 s4 where c: "get_sink_state (Some get) s = (Ret (Some st), s1)"
    "bring_down_if_active l (Some change) (Some get) st s1 = (Ret st', s2)"
    "configure_if_unconfigured l (Some change) st' s2 = (Ret (), s3)"
    "set_sink_subscriptions_yaml E l (Some set_params) subs s3 = (Ret (), s4)"
    "change_sink_state l (Some change) TRANSITION_ACTIVATE ''activate'' s4 = (Ret (), t)"
  proof -
    obtain q s1 where q: "get_sink_state (Some get) s = (Ret q, s1)"
      using get_sink_state_Ret by blast
    have "\<not> allow_missing_sinks s1"
      using keepsD [OF get_sink_state_world(1) q] assms(2) by (auto simp: only_world_def)
    then show thesis
      using assms(4,5) q that
      by (auto simp: apply_selection_to_sink_def andthen_Ret_iff should_skip_unavailable_sink_def
          split: option.split_asm)
  qed
  have "only_world s s3"
    using keepsD [OF get_sink_state_world(1) c(1)] keepsD [OF bring_down_world(1) c(2)]
      keepsD [OF configure_world(1) c(3)] by (blast intro: only_world_trans)
  then have "\<not> allow_missing_sinks s3" using assms(2) by (auto simp: only_world_def)
  then show ?thesis
    using plan_runs [OF _ _ assms(3) c(4,5) assms(6)] configured [OF brought_down [OF state_read [OF assms(1) c(1)] c(2)] c(3)]
    by simp
qed

end

section \<open>The world of the controller\<close>

text \<open>
  Both sinks, each with its primary state, and the rest: the clock, the network, the component
  container and the introspection manager.
\<close>

record ('k, 'm, 'r) dispatch_world =
  dw_kafka :: "lc_state \<times> 'k kafka_sink"
  dw_mosquitto :: "lc_state \<times> 'm mqtt_sink"
  dw_rest :: 'r

definition on_kafka where
  "on_kafka f w = (case f (dw_kafka w) of (r, k) \<Rightarrow> (r, w\<lparr>dw_kafka := k\<rparr>))"

definition on_mosquitto where
  "on_mosquitto f w = (case f (dw_mosquitto w) of (r, m) \<Rightarrow> (r, w\<lparr>dw_mosquitto := m\<rparr>))"

definition on_rest where
  "on_rest f w = (case f (dw_rest w) of (r, v) \<Rightarrow> (r, w\<lparr>dw_rest := v\<rparr>))"

text \<open>
  A client of a node: \<open>link\<close> tells whether its service is found and whether the answer comes in
  time.  A request whose answer is late has been served all the same.
\<close>

definition node_client where
  "node_client link place f =
     \<lparr>cl_ready = on_rest link,
      cl_call = (\<lambda>q w. case place (f q) w of (r, w) \<Rightarrow>
        (case on_rest link w of (in_time, w) \<Rightarrow> (if in_time then r else None, w)))\<rparr>"

definition rest_client where
  "rest_client cl =
     \<lparr>cl_ready = on_rest (cl_ready cl), cl_call = (\<lambda>q. on_rest (cl_call cl q))\<rparr>"

definition read_state :: "unit \<Rightarrow> lc_state \<times> 'n \<Rightarrow> u8 option \<times> lc_state \<times> 'n" where
  "read_state q v = (Some (lc_id (fst v)), v)"

definition set_kafka_parameters ::
  "('k, 'y) sink_env \<Rightarrow> parameter list \<Rightarrow> lc_state \<times> 'k kafka_sink \<Rightarrow>
     set_result list option \<times> lc_state \<times> 'k kafka_sink" where
  "set_kafka_parameters E ps v =
     on_node (serve_parameters (\<lambda>p. on_parameters_set E (lc_id (fst v)) [p])
       (\<lambda>p s. s\<lparr>ks_store := (ks_store s)(p_name p := p_value p)\<rparr>) ps) v"

definition set_mosquitto_parameters ::
  "('m, 'y) mqtt_env \<Rightarrow> parameter list \<Rightarrow> lc_state \<times> 'm mqtt_sink \<Rightarrow>
     set_result list option \<times> lc_state \<times> 'm mqtt_sink" where
  "set_mosquitto_parameters E ps v =
     on_node (serve_parameters (\<lambda>p. mqtt_parameters_set E (lc_id (fst v)) [p])
       (\<lambda>p s. s\<lparr>ms_store := (ms_store s)(p_name p := p_value p)\<rparr>) ps) v"

text \<open>
  The services of a controller that runs beside both sinks; \<open>R\<close> are those of the rest.  Error
  processing of a sink ends in \<open>err\<close>.
\<close>

definition dispatch_services ::
  "('k, 'y) sink_env \<Rightarrow> ('m, 'z) mqtt_env \<Rightarrow> lc_state \<Rightarrow> ('r \<Rightarrow> bool \<times> 'r) \<Rightarrow> ('n, 'r) services \<Rightarrow>
     ('n, ('k, 'm, 'r) dispatch_world) services" where
  "dispatch_services K M err link R =
     \<lparr>sv_change_state = node_client link on_kafka (serve_transition (kafka_sink_node K) err),
      sv_get_state = node_client link on_kafka read_state,
      sv_set_parameters = node_client link on_kafka (set_kafka_parameters K),
      sv_mosquitto_change_state =
        node_client link on_mosquitto (serve_transition (mosquitto_sink_node M) err),
      sv_mosquitto_get_state = node_client link on_mosquitto read_state,
      sv_mosquitto_set_parameters = node_client link on_mosquitto (set_mosquitto_parameters M),
      sv_introspection = rest_client (sv_introspection R),
      sv_introspection_param = rest_client (sv_introspection_param R),
      sv_load_node = rest_client (sv_load_node R),
      sv_unload_node = rest_client (sv_unload_node R),
      sv_lifecycle_get_state = (\<lambda>n. rest_client (sv_lifecycle_get_state R n)),
      sv_lifecycle_change_state = (\<lambda>n. rest_client (sv_lifecycle_change_state R n)),
      sv_namespace = sv_namespace R, sv_now = (\<lambda>w. sv_now R (dw_rest w)),
      sv_yaml = sv_yaml R, sv_load_file = (\<lambda>w. sv_load_file R (dw_rest w)), sv_emit = sv_emit R\<rparr>"

lemma rest_only:
  "on_rest f w = (r, w') \<Longrightarrow> dw_kafka w' = dw_kafka w \<and> dw_mosquitto w' = dw_mosquitto w"
  by (auto simp: on_rest_def split: prod.split_asm)

lemma rest_client_only:
  assumes "wait_and_call (rest_client cl) q w = (r, w')"
  shows "dw_kafka w' = dw_kafka w \<and> dw_mosquitto w' = dw_mosquitto w"
  using assms
  by (auto simp: wait_and_call_def rest_client_def split: prod.split_asm bool.split_asm option.split_asm
      dest!: rest_only)

text \<open>A request leaves the node as it was, or the node has served it.\<close>

lemma node_client_cases:
  assumes "wait_and_call (node_client link place f) q w = (r, w')"
  obtains (not_found) "\<And>x. r \<noteq> Reply x" "dw_kafka w' = dw_kafka w" "dw_mosquitto w' = dw_mosquitto w"
    | (served) v u a where "dw_kafka v = dw_kafka w" "dw_mosquitto v = dw_mosquitto w"
        "place (f q) v = (a, u)" "dw_kafka w' = dw_kafka u" "dw_mosquitto w' = dw_mosquitto u"
        "\<And>x. r = Reply x \<Longrightarrow> a = Some x"
proof -
  obtain b v where v: "on_rest link w = (b, v)" by (cases "on_rest link w")
  show thesis
  proof (cases b)
    case False
    then show thesis
      using assms v rest_only [OF v] not_found by (simp add: wait_and_call_def node_client_def)
  next
    case True
    obtain a u where u: "place (f q) v = (a, u)" by (cases "place (f q) v")
    obtain c x where x: "on_rest link u = (c, x)" by (cases "on_rest link u")
    have "w' = x" "\<And>y. r = Reply y \<Longrightarrow> a = Some y"
      using assms v u x True
      by (auto simp: wait_and_call_def node_client_def split: option.split_asm if_split_asm)
    then show thesis using served [of v a u] rest_only [OF v] rest_only [OF x] u by simp
  qed
qed

section \<open>A sink behind its services\<close>

text \<open>
  A managed node that the controller reaches over its services: \<open>part\<close> is where it is in the world,
  \<open>Q\<close> what it keeps along its life cycle, \<open>configured\<close> the topics it was given and \<open>running\<close> those it
  is subscribed to.  Such a node is what the controller relies on.
\<close>

locale hosted_sink =
  fixes M :: "'n managed"
    and internal :: "lc_state \<Rightarrow> 'n \<Rightarrow> 'n \<Rightarrow> bool"
    and Q :: "lc_state \<Rightarrow> 'n \<Rightarrow> bool"
    and check :: "u8 \<Rightarrow> parameter \<Rightarrow> ('n, set_result) prog"
    and store :: "parameter \<Rightarrow> 'n \<Rightarrow> 'n"
    and configured :: "'n \<Rightarrow> (string \<times> string) list"
    and running :: "'n \<Rightarrow> (string \<times> string) list"
    and part :: "('k, 'm, 'r) dispatch_world \<Rightarrow> lc_state \<times> 'n"
    and change :: "(transition, bool, ('k, 'm, 'r) dispatch_world) client"
    and get :: "(unit, u8, ('k, 'm, 'r) dispatch_world) client"
    and set_params :: "(parameter list, set_result list, ('k, 'm, 'r) dispatch_world) client"
    and err :: lc_state
    and emit :: "yaml_event list \<Rightarrow> string"
  assumes changing: "wait_and_call change tr w = (r, w') \<Longrightarrow>
      part w' = part w \<and> (\<forall>x. r \<noteq> Reply x) \<or>
      (\<exists>a. serve_transition M err tr (part w) = (a, part w') \<and> (\<forall>x. r = Reply x \<longrightarrow> a = Some x))"
    and reading: "wait_and_call get () w = (q, w') \<Longrightarrow> part w' = part w"
    and setting: "wait_and_call set_params ps w = (Reply rs, w') \<Longrightarrow>
      on_node (serve_parameters (check (lc_id (fst (part w)))) store ps) (part w) = (Some rs, part w')"
    and steps: "Q (fst a) (snd a) \<Longrightarrow> lc_step M internal a b \<Longrightarrow> Q (fst b) (snd b)"
    and ends: "Q st n \<Longrightarrow> err \<in> {Unconfigured, Finalized}"
    and runs: "Q Active n \<Longrightarrow> running n = configured n"
    and stays: "Q Inactive n \<Longrightarrow> on_activate M n = (Ret True, n') \<Longrightarrow> configured n' = configured n"
    and accepts: "Q st n \<Longrightarrow> p = mk_param ''subscriptions_yaml'' (PString (topics_to_yaml emit subs)) \<Longrightarrow>
      check (lc_id st) p n = (Ret res, n') \<Longrightarrow> sr_successful res \<Longrightarrow> list_all printable_topic subs \<Longrightarrow>
      Q st (store p n') \<and> configured (store p n') = map taken_topic subs"

lemma serve_one_parameter:
  assumes "serve_parameters check store [p] n = (Some rs, n')" "first_rejection rs = None"
  obtains res t where "check p n = (Ret res, t)" "sr_successful res" "n' = store p t"
  using assms
  by (auto simp: first_rejection_def split: prod.split_asm exec.split_asm if_split_asm)

lemma serve_activation:
  assumes "serve_transition M err TRANSITION_ACTIVATE (st, n) = (Some True, st', n')"
  shows "st = Inactive \<and> st' = Active \<and> on_activate M n = (Ret True, n')"
  using assms
  by (cases st)
     (auto simp: serve_transition_def settle_def split: prod.split_asm exec.split_asm bool.split_asm)

sublocale hosted_sink \<subseteq> sink_service change get set_params emit
  "\<lambda>w. Q (fst (part w)) (snd (part w))" "\<lambda>w. configured (snd (part w))"
  "\<lambda>w. if fst (part w) = Active then Some (running (snd (part w))) else None"
proof
  show "Q (fst (part w')) (snd (part w'))"
    if "Q (fst (part w)) (snd (part w))" "wait_and_call get () w = (r, w')" for w w' r
    using reading [OF that(2)] that(1) by simp
  show changed: "Q (fst (part w')) (snd (part w'))"
    if "Q (fst (part w)) (snd (part w))" "wait_and_call change tr w = (q, w')" for w w' tr q
  proof -
    have "Q (fst (part w')) (snd (part w'))" if "serve_transition M err tr (part w) = (a, part w')" for a
      using that ends [OF \<open>Q (fst (part w)) (snd (part w))\<close>] \<open>Q (fst (part w)) (snd (part w))\<close>
      by (rule serve_transition_keeps [where Q = Q]) (rule steps)
    then show ?thesis using changing [OF that(2)] that(1) by auto
  qed
  show "(if fst (part w') = Active then Some (running (snd (part w'))) else None) =
      Some (configured (snd (part w)))"
    if "Q (fst (part w)) (snd (part w))" "wait_and_call change TRANSITION_ACTIVATE w = (Reply True, w')"
    for w w'
  proof -
    have "serve_transition M err TRANSITION_ACTIVATE (part w) = (Some True, part w')"
      using changing [OF that(2)] by auto
    then have "fst (part w) = Inactive" "fst (part w') = Active"
      "on_activate M (snd (part w)) = (Ret True, snd (part w'))"
      using serve_activation [of M err "fst (part w)" "snd (part w)" "fst (part w')" "snd (part w')"]
      by simp_all
    then show ?thesis
      using changed [OF that] that(1) runs stays by simp
  qed
  show "Q (fst (part w')) (snd (part w')) \<and> configured (snd (part w')) = map taken_topic subs"
    if "Q (fst (part w)) (snd (part w))" "wait_and_call set_params
        [mk_param ''subscriptions_yaml'' (PString (topics_to_yaml emit subs))] w = (Reply rs, w')"
      "first_rejection rs = None" "list_all printable_topic subs" for w w' rs subs
  proof -
    have same: "fst (part w') = fst (part w)" and one: "serve_parameters (check (lc_id (fst (part w)))) store
        [mk_param ''subscriptions_yaml'' (PString (topics_to_yaml emit subs))] (snd (part w)) =
        (Some rs, snd (part w'))"
      using on_nodeD [OF setting [OF that(2)]] by simp_all
    from one that(3) show ?thesis
      by (rule serve_one_parameter)
         (use accepts [OF that(1) refl _ _ that(4)] same in simp)
  qed
qed

section \<open>The two sinks behind their services\<close>

text \<open>
  yaml-cpp reads back what it emitted: the list of printed topics is loaded as a sequence of entries
  with the two keys and their values.
\<close>

definition scalar_at :: "'y yaml \<Rightarrow> 'y \<Rightarrow> string \<Rightarrow> string \<Rightarrow> bool" where
  "scalar_at Y e k v \<longleftrightarrow> (\<exists>n. y_get Y e k = Ret (Some n) \<and> y_as_string Y n = Ret v)"

definition reads_back :: "'y yaml \<Rightarrow> (yaml_event list \<Rightarrow> string) \<Rightarrow> bool" where
  "reads_back Y emit \<longleftrightarrow> (\<forall>subs. list_all printable_topic subs \<longrightarrow> topics_to_yaml emit subs \<noteq> [] \<and>
     (\<exists>doc. y_load Y (topics_to_yaml emit subs) = Ret doc \<and>
        list_all2 (\<lambda>i e. scalar_at Y e ''topic_name'' (ti_name i) \<and> scalar_at Y e ''msg_type'' (ti_type i))
          subs (y_elements Y doc)))"

lemma parsed_document:
  assumes "reads_back Y emit" "list_all printable_topic subs"
    and "exec_map f (y_elements Y doc) = Ret cs" "y_load Y (topics_to_yaml emit subs) = Ret doc"
    and entry: "\<And>i e c. f e = Ret c \<Longrightarrow> scalar_at Y e ''topic_name'' (ti_name i) \<Longrightarrow>
      scalar_at Y e ''msg_type'' (ti_type i) \<Longrightarrow> h c = taken_topic i"
  shows "map h cs = map taken_topic subs"
proof -
  have "list_all2 (\<lambda>i e. scalar_at Y e ''topic_name'' (ti_name i) \<and> scalar_at Y e ''msg_type'' (ti_type i))
      subs (y_elements Y doc)" "list_all2 (\<lambda>e c. f e = Ret c) (y_elements Y doc) cs"
    using assms(1,2,4) exec_map_Ret [OF assms(3)] by (auto simp: reads_back_def)
  then have "list_all2 (\<lambda>i c. taken_topic i = h c) subs cs"
    by (rule list_all2_trans [rotated]) (metis entry)
  then show ?thesis
    by (induction rule: list_all2_induct) simp_all
qed

lemma kafka_parses_printed:
  assumes "reads_back Y emit" "list_all printable_topic subs"
    and "parse_subscriptions_yaml Y (topics_to_yaml emit subs) = Ret cs"
  shows "map (\<lambda>c. (sc_topic_name c, sc_msg_type c)) cs = map taken_topic subs"
proof -
  have "topics_to_yaml emit subs \<noteq> []" using assms(1,2) by (simp add: reads_back_def)
  then obtain doc where doc: "y_load Y (topics_to_yaml emit subs) = Ret doc"
    "exec_map (parse_subscription Y) (y_elements Y doc) = Ret cs"
    using assms(3) by (simp add: parse_subscriptions_yaml_def split: exec.split_asm if_split_asm)
  show ?thesis
    using assms(1,2) doc(2,1)
  proof (rule parsed_document)
    show "(sc_topic_name c, sc_msg_type c) = taken_topic i"
      if "parse_subscription Y e = Ret c" "scalar_at Y e ''topic_name'' (ti_name i)"
        "scalar_at Y e ''msg_type'' (ti_type i)" for i e c
      using that
      by (auto simp: parse_subscription_def scalar_at_def taken_topic_def exec_bind_Ret_iff
          split: if_split_asm)
  qed
qed

lemma mosquitto_parses_printed:
  assumes "reads_back Y emit" "list_all printable_topic subs"
    and "mqtt_parse_subscriptions Y (topics_to_yaml emit subs) = Ret cs"
  shows "map (\<lambda>c. (mq_topic_name c, mq_msg_type c)) cs = map taken_topic subs"
proof -
  have "topics_to_yaml emit subs \<noteq> []" using assms(1,2) by (simp add: reads_back_def)
  then obtain doc where doc: "y_load Y (topics_to_yaml emit subs) = Ret doc"
    "exec_map (mqtt_parse_subscription Y) (y_elements Y doc) = Ret cs"
    using assms(3) by (simp add: mqtt_parse_subscriptions_def split: exec.split_asm if_split_asm)
  show ?thesis
    using assms(1,2) doc(2,1)
  proof (rule parsed_document)
    show "(mq_topic_name c, mq_msg_type c) = taken_topic i"
      if "mqtt_parse_subscription Y e = Ret c" "scalar_at Y e ''topic_name'' (ti_name i)"
        "scalar_at Y e ''msg_type'' (ti_type i)" for i e c
      using that
      by (auto simp: mqtt_parse_subscription_def scalar_at_def taken_topic_def exec_bind_Ret_iff
          split: if_split_asm)
  qed
qed

text \<open>An accepted update of subscriptions_yaml alone replaces the configuration by the parsed one.\<close>

lemma kafka_takes_subscriptions:
  assumes "on_parameters_set E st [mk_param ''subscriptions_yaml'' (PString v)] s = (Ret res, t)"
    and "sr_successful res"
  shows "parse_subscriptions_yaml (se_yaml E) v = Ret (ks_configured t)"
  using assms(1)
proof (cases rule: on_parameters_set_cases)
  case (applied d u)
  have d: "d = (new_pending s)\<lparr>pd_yaml := Some v\<rparr>"
    using applied(1) by (auto simp: collect_param_def Let_def as_string_def split: if_split_asm)
  have "u = Ret ()"
    using applied(3) assms(2) by (cases u) (auto simp: rejected_result_def)
  then show ?thesis
    using applied(2)
    by (auto simp: d apply_pending_def andthen_Ret_iff apply_subscriptions_def apply_qos_depth_def
        apply_kafka_def apply_metrics_def apply_telemetry_def new_pending_def
        split: exec.split_asm option.split_asm)
qed (use assms(2) in \<open>auto simp: rejected_result_def\<close>)

lemma mosquitto_takes_subscriptions:
  assumes "mqtt_parameters_set E st [mk_param ''subscriptions_yaml'' (PString v)] s = (Ret res, t)"
    and "sr_successful res"
  shows "mqtt_parse_subscriptions (me_yaml E) v = Ret (ms_configured t)"
proof (cases "st = PRIMARY_STATE_ACTIVE")
  case True
  then show ?thesis
    using assms by (auto simp: mqtt_parameters_set_def attempt_def collect_mqtt_param_def rejected_result_def)
next
  case False
  let ?d = "(new_mqtt_pending s)\<lparr>md_yaml := Some v\<rparr>"
  obtain u w where u: "apply_mqtt_pending E ?d s = (u, w)" by (cases "apply_mqtt_pending E ?d s")
  have "u = Ret ()" "t = w"
    using assms False u
    by (cases u; auto simp: mqtt_parameters_set_def attempt_def collect_mqtt_param_def Let_def
        as_string_def rejected_result_def)+
  then show ?thesis
    using u
    by (auto simp: apply_mqtt_pending_def andthen_Ret_iff apply_mqtt_subscriptions_def
        apply_mqtt_qos_depth_def apply_mqtt_def apply_mqtt_metrics_def new_mqtt_pending_def
        split: exec.split_asm option.split_asm)
qed

text \<open>What each sink promises, with the hypotheses on its libraries.\<close>

definition kafka_promise ::
  "('k, 'y) sink_env \<Rightarrow> lc_state \<Rightarrow> (yaml_event list \<Rightarrow> string) \<Rightarrow> lc_state \<Rightarrow> 'k kafka_sink \<Rightarrow> bool" where
  "kafka_promise K err emit st s \<longleftrightarrow>
     calm K \<and> reads_back (se_yaml K) emit \<and> err \<in> {Unconfigured, Finalized} \<and> sink_inv st s"

definition mosquitto_promise ::
  "('m, 'y) mqtt_env \<Rightarrow> lc_state \<Rightarrow> (yaml_event list \<Rightarrow> string) \<Rightarrow> lc_state \<Rightarrow> 'm mqtt_sink \<Rightarrow> bool" where
  "mosquitto_promise M err emit st s \<longleftrightarrow>
     mqtt_calm M \<and> reads_back (me_yaml M) emit \<and> err \<in> {Unconfigured, Finalized} \<and> mqtt_inv st s"

text \<open>The topics of a sink: those it is configured for and those it is subscribed to.\<close>

definition kafka_configured :: "'k kafka_sink \<Rightarrow> (string \<times> string) list" where
  "kafka_configured s = map (\<lambda>c. (sc_topic_name c, sc_msg_type c)) (ks_configured s)"

definition kafka_running :: "'k kafka_sink \<Rightarrow> (string \<times> string) list" where
  "kafka_running s = map (\<lambda>a. (as_topic_name a, as_msg_type a)) (ks_active s)"

definition mosquitto_configured :: "'m mqtt_sink \<Rightarrow> (string \<times> string) list" where
  "mosquitto_configured s = map (\<lambda>c. (mq_topic_name c, mq_msg_type c)) (ms_configured s)"

definition mosquitto_running :: "'m mqtt_sink \<Rightarrow> (string \<times> string) list" where
  "mosquitto_running s = map (\<lambda>a. (ma_topic_name a, ma_msg_type a)) (ms_active s)"

lemma matching_topics:
  fixes ps qs :: "(string \<times> string) list"
  shows "list_all2 P cs as \<Longrightarrow> (\<And>c a. P c a \<Longrightarrow> f a = g c) \<Longrightarrow> map f as = map g cs"
  by (induction rule: list_all2_induct) simp_all

text \<open>Where a request can leave a sink.\<close>

lemma placed:
  "on_kafka f v = (a, u) \<Longrightarrow> f (dw_kafka v) = (a, dw_kafka u) \<and> dw_mosquitto u = dw_mosquitto v"
  "on_mosquitto g v = (b, u) \<Longrightarrow> g (dw_mosquitto v) = (b, dw_mosquitto u) \<and> dw_kafka u = dw_kafka v"
  by (auto simp: on_kafka_def on_mosquitto_def split: prod.split_asm)

lemma kafka_request:
  assumes "wait_and_call (node_client link on_kafka f) q w = (r, w')"
  shows "dw_mosquitto w' = dw_mosquitto w \<and> (dw_kafka w' = dw_kafka w \<and> (\<forall>x. r \<noteq> Reply x) \<or>
    (\<exists>a. f q (dw_kafka w) = (a, dw_kafka w') \<and> (\<forall>x. r = Reply x \<longrightarrow> a = Some x)))"
  using assms
proof (cases rule: node_client_cases)
  case (served v u a)
  then show ?thesis using placed(1) [OF served(3)] by simp
qed simp

lemma mosquitto_request:
  assumes "wait_and_call (node_client link on_mosquitto f) q w = (r, w')"
  shows "dw_kafka w' = dw_kafka w \<and> (dw_mosquitto w' = dw_mosquitto w \<and> (\<forall>x. r \<noteq> Reply x) \<or>
    (\<exists>a. f q (dw_mosquitto w) = (a, dw_mosquitto w') \<and> (\<forall>x. r = Reply x \<longrightarrow> a = Some x)))"
  using assms
proof (cases rule: node_client_cases)
  case (served v u a)
  then show ?thesis using placed(2) [OF served(3)] by simp
qed simp

interpretation kafka_host: hosted_sink "kafka_sink_node K" "sink_internal K" "kafka_promise K err emit"
  "\<lambda>id p. on_parameters_set K id [p]" "\<lambda>p s. s\<lparr>ks_store := (ks_store s)(p_name p := p_value p)\<rparr>"
  kafka_configured kafka_running dw_kafka
  "node_client link on_kafka (serve_transition (kafka_sink_node K) err)"
  "node_client link on_kafka read_state" "node_client link on_kafka (set_kafka_parameters K)" err emit
  for K err emit link
proof
  show "kafka_promise K err emit (fst b) (snd b)"
    if "kafka_promise K err emit (fst a) (snd a)" "lc_step (kafka_sink_node K) (sink_internal K) a b" for a b
    using kafka_sink.step_keeps [OF that(2)] that(1) by (simp add: kafka_promise_def)
  show "kafka_running n = kafka_configured n" if "kafka_promise K err emit Active n" for n
    using that
    by (auto simp: kafka_promise_def sink_inv_def kafka_running_def kafka_configured_def sub_matches_def
        intro!: matching_topics)
  show "kafka_configured n' = kafka_configured n"
    if "kafka_promise K err emit Inactive n" "on_activate (kafka_sink_node K) n = (Ret True, n')" for n n'
  proof -
    have "sink_on_activate K n = (Ret True, n')" "calm K"
      using that by (simp_all add: kafka_promise_def)
    then show ?thesis by (cases rule: on_activate_cases) (simp_all add: kafka_configured_def)
  qed
  show "kafka_promise K err emit st (n'\<lparr>ks_store := (ks_store n')(p_name p := p_value p)\<rparr>) \<and>
      kafka_configured (n'\<lparr>ks_store := (ks_store n')(p_name p := p_value p)\<rparr>) = map taken_topic subs"
    if "kafka_promise K err emit st n"
      "p = mk_param ''subscriptions_yaml'' (PString (topics_to_yaml emit subs))"
      "on_parameters_set K (lc_id st) [p] n = (Ret res, n')" "sr_successful res"
      "list_all printable_topic subs" for st n p subs res n'
  proof -
    have "sink_inv st n'" "reads_back (se_yaml K) emit"
      using that(1) on_parameters_set_inv [OF _ that(3)] by (simp_all add: kafka_promise_def)
    then show ?thesis
      using that(1) kafka_parses_printed [OF _ that(5) kafka_takes_subscriptions [OF that(3) [unfolded that(2)] that(4)]]
      by (simp add: kafka_promise_def kafka_configured_def sink_inv_def)
  qed
qed (auto simp: kafka_promise_def read_state_def set_kafka_parameters_def dest!: kafka_request)

interpretation mosquitto_host: hosted_sink "mosquitto_sink_node M" "mqtt_internal M"
  "mosquitto_promise M err emit"
  "\<lambda>id p. mqtt_parameters_set M id [p]" "\<lambda>p s. s\<lparr>ms_store := (ms_store s)(p_name p := p_value p)\<rparr>"
  mosquitto_configured mosquitto_running dw_mosquitto
  "node_client link on_mosquitto (serve_transition (mosquitto_sink_node M) err)"
  "node_client link on_mosquitto read_state" "node_client link on_mosquitto (set_mosquitto_parameters M)"
  err emit
  for M err emit link
proof
  show "mosquitto_promise M err emit (fst b) (snd b)"
    if "mosquitto_promise M err emit (fst a) (snd a)"
      "lc_step (mosquitto_sink_node M) (mqtt_internal M) a b" for a b
    using mosquitto_sink.step_keeps [OF that(2)] that(1) by (simp add: mosquitto_promise_def)
  show "mosquitto_running n = mosquitto_configured n" if "mosquitto_promise M err emit Active n" for n
    using that
    by (auto simp: mosquitto_promise_def mqtt_inv_def mosquitto_running_def mosquitto_configured_def
        mqtt_matches_def intro!: matching_topics)
  show "mosquitto_configured n' = mosquitto_configured n"
    if "mosquitto_promise M err emit Inactive n"
      "on_activate (mosquitto_sink_node M) n = (Ret True, n')" for n n'
  proof -
    have "mqtt_on_activate M n = (Ret True, n')" using that by simp
    then show ?thesis
    proof (cases rule: mqtt_on_activate_cases)
      case (built s1 s2)
      note c = start_client_facts [OF built(1)]
      note b = build_mqtt_facts [OF built(2) c(2) [OF refl]]
      have "ms_configured s2 = ms_configured s1" by (subst b(1), simp)
      then show ?thesis
        using client_onlyD [OF c(1)] start_mqtt_metrics_fields [OF built(3)]
        by (simp add: mosquitto_configured_def)
    qed simp_all
  qed
  show "mosquitto_promise M err emit st (n'\<lparr>ms_store := (ms_store n')(p_name p := p_value p)\<rparr>) \<and>
      mosquitto_configured (n'\<lparr>ms_store := (ms_store n')(p_name p := p_value p)\<rparr>) = map taken_topic subs"
    if "mosquitto_promise M err emit st n"
      "p = mk_param ''subscriptions_yaml'' (PString (topics_to_yaml emit subs))"
      "mqtt_parameters_set M (lc_id st) [p] n = (Ret res, n')" "sr_successful res"
      "list_all printable_topic subs" for st n p subs res n'
  proof -
    have "mqtt_inv st n'" "reads_back (me_yaml M) emit"
      using that(1) mqtt_parameters_set_inv [OF _ that(3)] by (simp_all add: mosquitto_promise_def)
    then show ?thesis
      using that(1) mosquitto_parses_printed [OF _ that(5)
          mosquitto_takes_subscriptions [OF that(3) [unfolded that(2)] that(4)]]
      by (simp add: mosquitto_promise_def mosquitto_configured_def mqtt_inv_def)
  qed
qed (auto simp: mosquitto_promise_def read_state_def set_mosquitto_parameters_def dest!: mosquitto_request)

end
