(* ===== verification/Dispatch_Properties.thy ===== *)
theory Dispatch_Properties
  imports Dispatch
begin

text \<open>
  The controller and the two sinks as one system: its steps, the invariant of all its reachable states,
  and what a selection that was applied comes to.
\<close>

section \<open>Whom a request concerns\<close>

lemma dispatch_services_simps [simp]:
  "sv_change_state (dispatch_services K M err link R) =
     node_client link on_kafka (serve_transition (kafka_sink_node K) err)"
  "sv_get_state (dispatch_services K M err link R) = node_client link on_kafka read_state"
  "sv_set_parameters (dispatch_services K M err link R) =
     node_client link on_kafka (set_kafka_parameters K)"
  "sv_mosquitto_change_state (dispatch_services K M err link R) =
     node_client link on_mosquitto (serve_transition (mosquitto_sink_node M) err)"
  "sv_mosquitto_get_state (dispatch_services K M err link R) = node_client link on_mosquitto read_state"
  "sv_mosquitto_set_parameters (dispatch_services K M err link R) =
     node_client link on_mosquitto (set_mosquitto_parameters M)"
  "sv_introspection (dispatch_services K M err link R) = rest_client (sv_introspection R)"
  "sv_introspection_param (dispatch_services K M err link R) = rest_client (sv_introspection_param R)"
  "sv_load_node (dispatch_services K M err link R) = rest_client (sv_load_node R)"
  "sv_unload_node (dispatch_services K M err link R) = rest_client (sv_unload_node R)"
  "sv_emit (dispatch_services K M err link R) = sv_emit R"
  by (simp_all add: dispatch_services_def)

text \<open>A part of the world that is left as it was, and a fact about it that is kept.\<close>

abbreviation kept :: "('w \<Rightarrow> 'p) \<Rightarrow> 'w controller \<Rightarrow> 'w controller \<Rightarrow> bool" where
  "kept f \<equiv> moves (\<lambda>w w'. f w' = f w)"

interpretation part: world_order "\<lambda>w w'. f w' = f w" for f
  by unfold_locales simp_all

interpretation fact: world_order "\<lambda>w w'. P w \<longrightarrow> P w'" for P
  by unfold_locales simp_all

abbreviation both_sinks where
  "both_sinks \<equiv> (\<lambda>w. (dw_kafka w, dw_mosquitto w))"

lemma rest_update: "snd (on_rest f w) = w\<lparr>dw_rest := snd (f (dw_rest w))\<rparr>"
  by (simp add: on_rest_def split_beta)

lemma rest_client_obeys:
  "(\<And>w v. Q w (w\<lparr>dw_rest := v\<rparr>)) \<Longrightarrow> obeys Q (rest_client cl)"
  by (simp add: obeys_def rest_client_def rest_update)

lemma node_client_obeys:
  assumes rest: "\<And>w v. Q w (w\<lparr>dw_rest := v\<rparr>)"
    and node: "\<And>q w r w'. place (f q) w = (r, w') \<Longrightarrow> Q w w'"
    and trans: "\<And>a b c. Q a b \<Longrightarrow> Q b c \<Longrightarrow> Q a c"
  shows "obeys Q (node_client link place f)"
proof -
  have "Q w (snd (cl_call (node_client link place f) q w))" for q w
  proof -
    obtain r w' where w': "place (f q) w = (r, w')" by (cases "place (f q) w")
    have "Q w' (snd (on_rest link w'))" by (simp add: rest_update rest)
    then show ?thesis
      using trans [OF node [OF w']] w' by (simp add: node_client_def split_beta)
  qed
  then show ?thesis by (simp add: obeys_def node_client_def rest_update rest)
qed

lemma services_leave:
  "others_obey (\<lambda>w w'. both_sinks w' = both_sinks w) (dispatch_services K M err link R)"
  "obeys (\<lambda>w w'. dw_mosquitto w' = dw_mosquitto w) (node_client link on_kafka f)"
  "obeys (\<lambda>w w'. dw_kafka w' = dw_kafka w) (node_client link on_mosquitto g)"
proof -
  show "others_obey (\<lambda>w w'. both_sinks w' = both_sinks w) (dispatch_services K M err link R)"
    unfolding others_obey_def dispatch_services_simps
    by (intro conjI rest_client_obeys) simp_all
  show "obeys (\<lambda>w w'. dw_mosquitto w' = dw_mosquitto w) (node_client link on_kafka f)"
    by (rule node_client_obeys) (auto dest: placed)
  show "obeys (\<lambda>w w'. dw_kafka w' = dw_kafka w) (node_client link on_mosquitto g)"
    by (rule node_client_obeys) (auto dest: placed)
qed

section \<open>A successful run of apply_selection()\<close>

text \<open>The end of apply_selection(), after both sinks run.\<close>

lemma apply_selection_end:
  assumes "apply_selection (dispatch_services K M err link R) topics s = (Ret (), t)"
  obtains v s8 where
    "reconfigure_sinks (dispatch_services K M err link R) topics s =
       (Ret (v, snap_sink_topics (applied_selection t)), s8)"
    "dw_kafka (ct_world t) = dw_kafka (ct_world s8)"
    "dw_mosquitto (ct_world t) = dw_mosquitto (ct_world s8)"
proof -
  let ?E = "dispatch_services K M err link R"
  obtain v sinks s8 where run: "reconfigure_sinks ?E topics s = (Ret (v, sinks), s8)"
    and rest: "disable_introspection ?E (record_applied ?E v sinks s8) = (Ret (), t)"
    using assms by (auto simp: apply_selection_def andthen_Ret_iff andthen_simps)
  have "kept both_sinks (record_applied ?E v sinks s8) t"
    by (rule keepsD [OF part.disable_moves [OF services_leave(1)] rest])
  moreover have "only_world (record_applied ?E v sinks s8) t"
    by (rule keepsD [OF disable_introspection_world(1) rest])
  ultimately show thesis
    using that run by (auto simp: moves_def only_world_def record_applied_def)
qed

text \<open>What stays the same while the Kafka sink is brought to its new plan.\<close>

definition same_settings :: "'w controller \<Rightarrow> 'w controller \<Rightarrow> bool" where
  "same_settings s t \<longleftrightarrow> allow_missing_sinks t = allow_missing_sinks s \<and>
     mosquitto_sink_node_name t = mosquitto_sink_node_name s"

lemma only_world_settings: "only_world s t \<Longrightarrow> same_settings s t"
  by (auto simp: only_world_def same_settings_def)

abbreviation kafka_keeps ::
  "('k, 'y) sink_env \<Rightarrow> lc_state \<Rightarrow> (yaml_event list \<Rightarrow> string) \<Rightarrow> ('k, 'm, 'r) dispatch_world controller \<Rightarrow> bool"
  where "kafka_keeps K err emit s \<equiv>
    kafka_promise K err emit (fst (dw_kafka (ct_world s))) (snd (dw_kafka (ct_world s)))"

lemma kafka_prepared:
  fixes K :: "('k, 'y) sink_env" and M :: "('m, 'z) mqtt_env" and R :: "('n, 'r) services"
    and err :: lc_state and link :: "'r \<Rightarrow> bool \<times> 'r"
  defines "E \<equiv> dispatch_services K M err link R"
  assumes "kafka_keeps K err emit s"
    and get: "get_kafka_sink_state E s = (Ret (Some st), s1)"
    and valid: "validated_selection E topics s1 = (Ret v, s2)"
    and down: "bring_down_if_active ''kafka_sink'' (Some (sv_change_state E)) (Some (sv_get_state E)) st s2
      = (Ret st', s3)"
    and conf: "configure_if_unconfigured ''kafka_sink'' (Some (sv_change_state E)) st' s3 = (Ret (), s4)"
    and tools: "reconcile_topic_tools E plan s4 = (Ret (), s5)"
  shows "kafka_keeps K err emit s5" and "kept dw_mosquitto s s5" and "same_settings s s5"
proof -
  note get = get [unfolded get_kafka_sink_state_def]
  have kept: "kept dw_mosquitto s s1" "kept both_sinks s1 s2" "kept dw_mosquitto s2 s3"
    "kept dw_mosquitto s3 s4" "kept both_sinks s4 s5"
    unfolding E_def
    by (rule keepsD [OF part.state_moves [OF services_leave(2)] get [unfolded E_def dispatch_services_simps]]
        keepsD [OF part.validated_moves [OF services_leave(1)] valid [unfolded E_def]]
        keepsD [OF part.bring_down_moves [OF services_leave(2,2)] down [unfolded E_def dispatch_services_simps]]
        keepsD [OF part.configure_moves [OF services_leave(2)] conf [unfolded E_def dispatch_services_simps]]
        keepsD [OF part.reconcile_moves [OF services_leave(1)] tools [unfolded E_def]])+
  then show "kept dw_mosquitto s s5" by (simp add: moves_def)
  have "kafka_keeps K err emit s1"
    by (rule kafka_host.state_read [OF assms(2) get [unfolded E_def dispatch_services_simps]])
  then have "kafka_keeps K err emit s2" using kept(2) by (simp add: moves_def)
  then have "kafka_keeps K err emit s3"
    by (rule kafka_host.brought_down [OF _ down [unfolded E_def dispatch_services_simps]])
  then have "kafka_keeps K err emit s4"
    by (rule kafka_host.configured [OF _ conf [unfolded E_def dispatch_services_simps]])
  then show "kafka_keeps K err emit s5" using kept(5) by (simp add: moves_def)
  have "only_world s s4"
    using keepsD [OF get_sink_state_world(1) get] keepsD [OF validated_selection_world(1) valid]
      keepsD [OF bring_down_world(1) down] keepsD [OF configure_world(1) conf]
    by (blast intro: only_world_trans)
  moreover obtain w m where "s5 = s4\<lparr>ct_world := w, active_topic_tools := m\<rparr>"
    using reconcile_Ret [OF tools] by blast
  ultimately show "same_settings s s5"
    using only_world_settings [of s s4] by (simp add: same_settings_def)
qed

text \<open>The Kafka sink and the Mosquitto sink after a successful run of reconfigure_sinks().\<close>

lemma reconfigured:
  assumes "reconfigure_sinks (dispatch_services K M err link R) topics s = (Ret (v, sinks), t)"
    and "\<not> allow_missing_sinks s" and "kafka_keeps K err (sv_emit R) s" and "list_all printable_topic sinks"
  obtains s7 where "kept dw_mosquitto s s7" "same_settings s s7"
    "apply_to_mosquitto (dispatch_services K M err link R) sinks s7 = (Ret (), t)"
    "kept dw_kafka s7 t" "kafka_keeps K err (sv_emit R) s7"
    "fst (dw_kafka (ct_world s7)) = Active"
    "kafka_running (snd (dw_kafka (ct_world s7))) = map taken_topic sinks"
  using assms(1)
proof (cases rule: reconfigure_steps)
  case c: (1 st s1 s2 s3 s4 s5 s6 s7 plan st')
  note prepared = kafka_prepared [OF assms(3) c(2,3,5,6,7)]
  note set = c(8) [unfolded set_kafka_sink_subscriptions_yaml_def, folded c(11)]
    and start = c(9) [unfolded change_kafka_sink_state_def]
  have "only_world s5 s7"
    using keepsD [OF set_sink_subscriptions_yaml_world(1) set] keepsD [OF change_sink_state_world(1) start]
    by (rule only_world_trans)
  then have settings: "same_settings s s7"
    using only_world_settings prepared(3) by (auto simp: same_settings_def)
  have kept: "kept dw_mosquitto s s7"
    using prepared(2) keepsD [OF part.set_moves [OF services_leave(2)] set [unfolded dispatch_services_simps]]
      keepsD [OF part.change_moves [OF services_leave(2)] start [unfolded dispatch_services_simps]]
    by (simp add: moves_def)
  have "\<not> allow_missing_sinks s5" using prepared(3) assms(2) by (simp add: same_settings_def)
  note runs = kafka_host.plan_runs [OF prepared(1) this dispatch_services_simps(11)
      set [unfolded dispatch_services_simps] start [unfolded dispatch_services_simps] assms(4)]
  have "kept dw_kafka s7 t"
    by (rule keepsD [OF part.mosquitto_moves(1) c(10)]) (simp_all add: services_leave(3))
  then show thesis
    using that [of s7] kept settings c(10,11) runs by (simp split: if_split_asm)
qed

text \<open>A selection that was applied is what the sinks run.\<close>

lemma applied_selection_runs:
  assumes "apply_selection (dispatch_services K M err link R) topics s = (Ret (), t)"
    and "\<not> allow_missing_sinks s"
    and kafka: "kafka_promise K err (sv_emit R)
      (fst (dw_kafka (ct_world s))) (snd (dw_kafka (ct_world s)))"
    and mosquitto: "mosquitto_promise M err (sv_emit R)
      (fst (dw_mosquitto (ct_world s))) (snd (dw_mosquitto (ct_world s)))"
    and printable: "list_all printable_topic (snap_sink_topics (applied_selection t))"
  shows "(case dw_kafka (ct_world t) of (st, k) \<Rightarrow>
      st = Active \<and> ks_is_active k \<and>
      kafka_running k = map taken_topic (snap_sink_topics (applied_selection t))) \<and>
    (mosquitto_sink_node_name s \<noteq> [] \<longrightarrow>
      (case dw_mosquitto (ct_world t) of (st, m) \<Rightarrow>
        st = Active \<and> ms_is_active m \<and>
        mosquitto_running m = map taken_topic (snap_sink_topics (applied_selection t))))"
proof -
  let ?E = "dispatch_services K M err link R" and ?topics = "snap_sink_topics (applied_selection t)"
  obtain v s8 where run: "reconfigure_sinks ?E topics s = (Ret (v, ?topics), s8)"
    and t: "dw_kafka (ct_world t) = dw_kafka (ct_world s8)"
      "dw_mosquitto (ct_world t) = dw_mosquitto (ct_world s8)"
    using assms(1) by (rule apply_selection_end)
  from run assms(2) kafka printable show ?thesis
  proof (rule reconfigured)
    fix s7
    assume m: "kept dw_mosquitto s s7" "same_settings s s7" "apply_to_mosquitto ?E ?topics s7 = (Ret (), s8)"
      and k: "kept dw_kafka s7 s8" "kafka_keeps K err (sv_emit R) s7"
        "fst (dw_kafka (ct_world s7)) = Active"
        "kafka_running (snd (dw_kafka (ct_world s7))) = map taken_topic ?topics"
    have "mosquitto_promise M err (sv_emit R)
          (fst (dw_mosquitto (ct_world s8))) (snd (dw_mosquitto (ct_world s8))) \<and>
        (if fst (dw_mosquitto (ct_world s8)) = Active
         then Some (mosquitto_running (snd (dw_mosquitto (ct_world s8)))) else None) =
          Some (map taken_topic ?topics)" if named: "mosquitto_sink_node_name s \<noteq> []"
    proof (rule mosquitto_host.selection_runs [OF _ _ dispatch_services_simps(11)])
      show "mosquitto_promise M err (sv_emit R)
          (fst (dw_mosquitto (ct_world s7))) (snd (dw_mosquitto (ct_world s7)))"
        using mosquitto m(1) by (simp add: moves_def)
    qed (use m(2,3) assms(2) named printable in
        \<open>simp_all add: apply_to_mosquitto_def mosquitto_client_def same_settings_def\<close>)
    then show ?thesis
      using k t
      by (auto simp: kafka_promise_def mosquitto_promise_def sink_inv_def mqtt_inv_def moves_def
          split: if_split_asm prod.split)
  qed
qed

section \<open>The system\<close>

text \<open>
  One step is a handler of the controller run to its end, the startup timer, a step of one of the
  sinks (a transition that somebody else asks for, a message, a parameter update, the metrics timer, a
  thread of its library), or a step of the rest of the world.
\<close>

inductive system_step ::
  "('k, 'y) sink_env \<Rightarrow> ('m, 'z) mqtt_env \<Rightarrow> ('n, ('k, 'm, 'r) dispatch_world) services \<Rightarrow>
   ('k, 'm, 'r) dispatch_world controller \<Rightarrow> ('k, 'm, 'r) dispatch_world controller \<Rightarrow> bool"
  for K M E s where
  sys_apply: "system_step K M E s (snd (handle_apply_selection E req s))"
| sys_reload: "system_step K M E s (snd (handle_reload_selection E rreq s))"
| sys_stop: "system_step K M E s (snd (handle_stop_streaming E reset s))"
| sys_status: "system_step K M E s (snd (handle_get_status E s))"
| sys_mode: "system_step K M E s (snd (handle_set_selection_mode E mreq s))"
| sys_param: "system_step K M E s (snd (on_param_change E ps s))"
| sys_startup: "startup_timer s \<Longrightarrow> system_step K M E s (snd (startup_apply E s))"
| sys_kafka: "lc_step (kafka_sink_node K) (sink_internal K) (dw_kafka (ct_world s)) k \<Longrightarrow>
    system_step K M E s (s\<lparr>ct_world := (ct_world s)\<lparr>dw_kafka := k\<rparr>\<rparr>)"
| sys_mosquitto: "lc_step (mosquitto_sink_node M) (mqtt_internal M) (dw_mosquitto (ct_world s)) m \<Longrightarrow>
    system_step K M E s (s\<lparr>ct_world := (ct_world s)\<lparr>dw_mosquitto := m\<rparr>\<rparr>)"
| sys_rest: "system_step K M E s (s\<lparr>ct_world := (ct_world s)\<lparr>dw_rest := r\<rparr>\<rparr>)"

inductive system_reachable ::
  "('k, 'y) sink_env \<Rightarrow> ('m, 'z) mqtt_env \<Rightarrow> ('n, ('k, 'm, 'r) dispatch_world) services \<Rightarrow>
   ('k, 'm, 'r) dispatch_world controller \<Rightarrow> bool"
  for K M E where
  sys_start: "system_reachable K M E (new_controller p
     \<lparr>dw_kafka = (Unconfigured, new_kafka_sink kov k), dw_mosquitto = (Unconfigured, new_mqtt_sink mov m),
      dw_rest = r\<rparr>)"
| sys_next: "system_reachable K M E s \<Longrightarrow> system_step K M E s t \<Longrightarrow> system_reachable K M E t"

text \<open>A request keeps the invariant of the sink that serves it, whatever the request is.\<close>

lemma kafka_parameters_keep:
  "sink_inv st n \<Longrightarrow> serve_parameters (\<lambda>p. on_parameters_set K (lc_id st) [p])
     (\<lambda>p s. s\<lparr>ks_store := (ks_store s)(p_name p := p_value p)\<rparr>) ps n = (r, n') \<Longrightarrow> sink_inv st n'"
proof (induction ps arbitrary: n r)
  case (Cons p ps)
  obtain q t where q: "on_parameters_set K (lc_id st) [p] n = (q, t)"
    by (cases "on_parameters_set K (lc_id st) [p] n")
  have t: "sink_inv st t" by (rule on_parameters_set_inv [OF Cons.prems(1) q])
  then have "sink_inv st (t\<lparr>ks_store := f\<rparr>)" for f by (simp add: sink_inv_def)
  then show ?case
    using Cons.prems(2) Cons.IH t
    by (auto simp: q split: exec.split_asm prod.split_asm option.split_asm if_split_asm)
qed simp

lemma mosquitto_parameters_keep:
  "mqtt_inv st n \<Longrightarrow> serve_parameters (\<lambda>p. mqtt_parameters_set M (lc_id st) [p])
     (\<lambda>p s. s\<lparr>ms_store := (ms_store s)(p_name p := p_value p)\<rparr>) ps n = (r, n') \<Longrightarrow> mqtt_inv st n'"
proof (induction ps arbitrary: n r)
  case (Cons p ps)
  obtain q t where q: "mqtt_parameters_set M (lc_id st) [p] n = (q, t)"
    by (cases "mqtt_parameters_set M (lc_id st) [p] n")
  have t: "mqtt_inv st t" by (rule mqtt_parameters_set_inv [OF Cons.prems(1) q])
  then have "mqtt_inv st (t\<lparr>ms_store := f\<rparr>)" for f by (simp add: mqtt_inv_def)
  then show ?case
    using Cons.prems(2) Cons.IH t
    by (auto simp: q split: exec.split_asm prod.split_asm option.split_asm if_split_asm)
qed simp

abbreviation kafka_ok :: "('k, 'm, 'r) dispatch_world \<Rightarrow> bool" where
  "kafka_ok w \<equiv> sink_inv (fst (dw_kafka w)) (snd (dw_kafka w))"

abbreviation mosquitto_ok :: "('k, 'm, 'r) dispatch_world \<Rightarrow> bool" where
  "mosquitto_ok w \<equiv> mqtt_inv (fst (dw_mosquitto w)) (snd (dw_mosquitto w))"

lemma kafka_requests_keep:
  assumes "calm K" "err \<in> {Unconfigured, Finalized}" "sink_inv (fst v) (snd v)"
  shows "serve_transition (kafka_sink_node K) err tr v = (a, v') \<Longrightarrow> sink_inv (fst v') (snd v')"
    and "set_kafka_parameters K ps v = (rs, v') \<Longrightarrow> sink_inv (fst v') (snd v')"
proof -
  show "sink_inv (fst v') (snd v')" if "serve_transition (kafka_sink_node K) err tr v = (a, v')"
    using that assms(2,3)
    by (rule serve_transition_keeps [where Q = sink_inv and internal = "sink_internal K"])
       (use kafka_sink.step_keeps assms(1) in blast)
  show "sink_inv (fst v') (snd v')" if "set_kafka_parameters K ps v = (rs, v')"
  proof -
    note served = on_nodeD [OF that [unfolded set_kafka_parameters_def]]
    have "sink_inv (fst v) (snd v')" by (rule kafka_parameters_keep [OF assms(3) conjunct2 [OF served]])
    then show ?thesis using served by simp
  qed
qed

lemma mosquitto_requests_keep:
  assumes "mqtt_calm M" "err \<in> {Unconfigured, Finalized}" "mqtt_inv (fst v) (snd v)"
  shows "serve_transition (mosquitto_sink_node M) err tr v = (a, v') \<Longrightarrow> mqtt_inv (fst v') (snd v')"
    and "set_mosquitto_parameters M ps v = (rs, v') \<Longrightarrow> mqtt_inv (fst v') (snd v')"
proof -
  show "mqtt_inv (fst v') (snd v')" if "serve_transition (mosquitto_sink_node M) err tr v = (a, v')"
    using that assms(2,3)
    by (rule serve_transition_keeps [where Q = mqtt_inv and internal = "mqtt_internal M"])
       (use mosquitto_sink.step_keeps assms(1) in blast)
  show "mqtt_inv (fst v') (snd v')" if "set_mosquitto_parameters M ps v = (rs, v')"
  proof -
    note served = on_nodeD [OF that [unfolded set_mosquitto_parameters_def]]
    have "mqtt_inv (fst v) (snd v')" by (rule mosquitto_parameters_keep [OF assms(3) conjunct2 [OF served]])
    then show ?thesis using served by simp
  qed
qed

lemma services_keep_kafka:
  assumes "calm K" "err \<in> {Unconfigured, Finalized}"
  shows "services_obey (\<lambda>w w'. kafka_ok w \<longrightarrow> kafka_ok w') (dispatch_services K M err link R)"
proof -
  have own: "obeys (\<lambda>w w'. kafka_ok w \<longrightarrow> kafka_ok w') (node_client link on_kafka f)"
    if "\<And>q v a v'. sink_inv (fst v) (snd v) \<Longrightarrow> f q v = (a, v') \<Longrightarrow> sink_inv (fst v') (snd v')" for f
    by (rule node_client_obeys) (auto dest!: placed intro: that)
  have change: "obeys (\<lambda>w w'. kafka_ok w \<longrightarrow> kafka_ok w') (node_client link on_kafka (serve_transition (kafka_sink_node K) err))"
    by (rule own) (rule kafka_requests_keep(1) [OF assms])
  have read: "obeys (\<lambda>w w'. kafka_ok w \<longrightarrow> kafka_ok w') (node_client link on_kafka read_state)"
    by (rule own) (simp add: read_state_def)
  have params: "obeys (\<lambda>w w'. kafka_ok w \<longrightarrow> kafka_ok w') (node_client link on_kafka (set_kafka_parameters K))"
    by (rule own) (rule kafka_requests_keep(2) [OF assms])
  have other: "obeys (\<lambda>w w'. kafka_ok w \<longrightarrow> kafka_ok w') (node_client link on_mosquitto g)" for g
    by (rule node_client_obeys) (auto dest!: placed)
  show ?thesis
    unfolding services_obey_def others_obey_def dispatch_services_simps
    by (intro conjI rest_client_obeys change read params other) simp_all
qed

lemma services_keep_mosquitto:
  assumes "mqtt_calm M" "err \<in> {Unconfigured, Finalized}"
  shows "services_obey (\<lambda>w w'. mosquitto_ok w \<longrightarrow> mosquitto_ok w') (dispatch_services K M err link R)"
proof -
  have own: "obeys (\<lambda>w w'. mosquitto_ok w \<longrightarrow> mosquitto_ok w') (node_client link on_mosquitto f)"
    if "\<And>q v a v'. mqtt_inv (fst v) (snd v) \<Longrightarrow> f q v = (a, v') \<Longrightarrow> mqtt_inv (fst v') (snd v')" for f
    by (rule node_client_obeys) (auto dest!: placed intro: that)
  have change: "obeys (\<lambda>w w'. mosquitto_ok w \<longrightarrow> mosquitto_ok w') (node_client link on_mosquitto (serve_transition (mosquitto_sink_node M) err))"
    by (rule own) (rule mosquitto_requests_keep(1) [OF assms])
  have read: "obeys (\<lambda>w w'. mosquitto_ok w \<longrightarrow> mosquitto_ok w') (node_client link on_mosquitto read_state)"
    by (rule own) (simp add: read_state_def)
  have params: "obeys (\<lambda>w w'. mosquitto_ok w \<longrightarrow> mosquitto_ok w') (node_client link on_mosquitto (set_mosquitto_parameters M))"
    by (rule own) (rule mosquitto_requests_keep(2) [OF assms])
  have other: "obeys (\<lambda>w w'. mosquitto_ok w \<longrightarrow> mosquitto_ok w') (node_client link on_kafka g)" for g
    by (rule node_client_obeys) (auto dest!: placed)
  show ?thesis
    unfolding services_obey_def others_obey_def dispatch_services_simps
    by (intro conjI rest_client_obeys change read params other) simp_all
qed

lemma system_step_keeps:
  assumes "system_step K M (dispatch_services K M err link R) s t"
    and "calm K" "mqtt_calm M" "err \<in> {Unconfigured, Finalized}"
    and "controller_inv s" "kafka_ok (ct_world s)" "mosquitto_ok (ct_world s)"
  shows "controller_inv t \<and> kafka_ok (ct_world t) \<and> mosquitto_ok (ct_world t)"
proof -
  let ?E = "dispatch_services K M err link R"
  note kafka = services_keep_kafka [OF assms(2,4), of M link R]
    and mosquitto = services_keep_mosquitto [OF assms(3,4), of K link R]
  have handler: "controller_inv u \<and> kafka_ok (ct_world u) \<and> mosquitto_ok (ct_world u)"
    if "controller_step ?E s u" "moves (\<lambda>w w'. kafka_ok w \<longrightarrow> kafka_ok w') s u"
      "moves (\<lambda>w w'. mosquitto_ok w \<longrightarrow> mosquitto_ok w') s u" for u
    using controller_step_inv [OF that(1) assms(5)] that(2,3) assms(6,7) by (simp add: moves_def)
  from assms(1) show ?thesis
  proof cases
    case (sys_apply req)
    show ?thesis
      unfolding sys_apply
      by (intro handler step_apply keeps_snd [OF fact.handle_apply_moves [OF kafka]] keeps_snd [OF fact.handle_apply_moves [OF mosquitto]])
  next
    case (sys_reload rreq)
    show ?thesis
      unfolding sys_reload
      by (intro handler step_reload keeps_snd [OF fact.handle_reload_moves [OF kafka]] keeps_snd [OF fact.handle_reload_moves [OF mosquitto]])
  next
    case (sys_stop reset)
    show ?thesis
      unfolding sys_stop
      by (intro handler controller_step.step_stop keeps_snd [OF fact.handle_stop_moves [OF kafka]] keeps_snd [OF fact.handle_stop_moves [OF mosquitto]])
  next
    case sys_status
    show ?thesis
      unfolding sys_status
      by (intro handler step_status keeps_snd [OF fact.handle_status_moves [OF kafka]] keeps_snd [OF fact.handle_status_moves [OF mosquitto]])
  next
    case (sys_mode mreq)
    show ?thesis
      unfolding sys_mode
      by (intro handler step_mode keeps_snd [OF fact.handle_mode_moves [OF kafka]] keeps_snd [OF fact.handle_mode_moves [OF mosquitto]])
  next
    case (sys_param ps)
    show ?thesis
      unfolding sys_param
      by (intro handler step_param keeps_snd [OF fact.param_moves [OF kafka]] keeps_snd [OF fact.param_moves [OF mosquitto]])
  next
    case sys_startup
    show ?thesis
      unfolding sys_startup(1)
      by (intro handler step_startup [OF sys_startup(2)] keeps_snd [OF fact.startup_moves [OF kafka]] keeps_snd [OF fact.startup_moves [OF mosquitto]])
  next
    case (sys_kafka k)
    then show ?thesis
      using controller_step_inv [OF step_world assms(5)] kafka_sink.step_keeps [OF sys_kafka(2)] assms(2,6,7)
      by simp
  next
    case (sys_mosquitto m)
    then show ?thesis
      using controller_step_inv [OF step_world assms(5)] mosquitto_sink.step_keeps [OF sys_mosquitto(2)]
        assms(3,6,7) by simp
  next
    case (sys_rest r)
    then show ?thesis using controller_step_inv [OF step_world assms(5)] assms(6,7) by simp
  qed
qed

lemma new_controller_world: "ct_world (new_controller p w) = w"
  by (simp add: new_controller_def Let_def)

lemma system_reachable_keeps:
  assumes "system_reachable K M (dispatch_services K M err link R) s"
    and "calm K" "mqtt_calm M" "err \<in> {Unconfigured, Finalized}"
  shows "controller_inv s \<and> kafka_ok (ct_world s) \<and> mosquitto_ok (ct_world s)"
  using assms(1)
proof (induction rule: system_reachable.induct)
  case (sys_start p kov k mov m r)
  then show ?case by (simp add: new_controller_world new_controller_inv sink_inv_new mqtt_inv_new)
next
  case (sys_next s t)
  then show ?case using system_step_keeps [OF sys_next(2) assms(2-4)] by blast
qed

section \<open>A sample deployment\<close>

text \<open>
  A YAML codec that prints the values only, each character after a dot and each value before an
  exclamation mark, and reads them back in pairs.
\<close>

fun sample_print :: "yaml_event \<Rightarrow> string" where
  "sample_print (YValue v) = concat (map (\<lambda>c. [CHR ''.'', c]) v) @ ''!''"
| "sample_print _ = []"

definition sample_emit :: "yaml_event list \<Rightarrow> string" where
  "sample_emit es = ''#'' @ concat (map sample_print es)"

fun sample_values :: "string \<Rightarrow> string \<Rightarrow> string list" where
  "sample_values acc [] = []"
| "sample_values acc [c] = (if c = CHR ''!'' then [acc] else [])"
| "sample_values acc (c # d # cs) =
     (if c = CHR ''!'' then acc # sample_values [] (d # cs) else sample_values (acc @ [d]) cs)"

fun sample_entries :: "string list \<Rightarrow> ytree list" where
  "sample_entries (n # t # vs) =
     YMap [(''topic_name'', YScalar n), (''msg_type'', YScalar t)] # sample_entries vs"
| "sample_entries _ = []"

definition sample_codec :: "ytree yaml" where
  "sample_codec = sample_yaml (\<lambda>v. Ret (YSeq (sample_entries (sample_values [] (tl v)))))"

lemma sample_values_print:
  "sample_values acc (concat (map (\<lambda>c. [CHR ''.'', c]) v) @ CHR ''!'' # cs) =
     (acc @ v) # sample_values [] cs"
  by (induction v arbitrary: acc) (cases cs; simp)+

lemma sample_codec_reads_back: "reads_back sample_codec sample_emit"
proof -
  let ?body = "\<lambda>subs. concat (map sample_print (concat (map (\<lambda>sub.
      [BeginMap, YKey ''topic_name'', YValue (ti_name sub), YKey ''msg_type'', YValue (ti_type sub),
       EndMap]) subs)))"
  have tail: "tl (topics_to_yaml sample_emit subs) = ?body subs" for subs
    by (simp add: topics_to_yaml_def sample_emit_def yaml_events_def)
  have "sample_entries (sample_values [] (?body subs)) = map (\<lambda>i.
      YMap [(''topic_name'', YScalar (ti_name i)), (''msg_type'', YScalar (ti_type i))]) subs" for subs
    by (induction subs) (simp_all add: sample_values_print)
  then have "y_load sample_codec (topics_to_yaml sample_emit subs) = Ret (YSeq (map (\<lambda>i.
      YMap [(''topic_name'', YScalar (ti_name i)), (''msg_type'', YScalar (ti_type i))]) subs))" for subs
    by (simp add: sample_codec_def tail)
  moreover have "topics_to_yaml sample_emit subs \<noteq> []" for subs
    by (simp add: topics_to_yaml_def sample_emit_def)
  ultimately show ?thesis
    by (auto simp: reads_back_def sample_codec_def scalar_at_def list_all2_conv_all_nth)
qed

abbreviation sample_kafka_env :: "(produce_call list, ytree) sink_env" where
  "sample_kafka_env \<equiv> (sample_sink_env False)\<lparr>se_yaml := sample_codec\<rparr>"

abbreviation sample_mosquitto_env :: "(sample_paho_state, ytree) mqtt_env" where
  "sample_mosquitto_env \<equiv> (sample_mqtt_env True)\<lparr>me_yaml := sample_codec\<rparr>"

abbreviation sample_rest :: "(ytree, sample_world) services" where
  "sample_rest \<equiv> (sample_services sample_file)\<lparr>sv_emit := sample_emit\<rparr>"

definition sample_dispatch ::
  "(ytree, (produce_call list, sample_paho_state, sample_world) dispatch_world) services" where
  "sample_dispatch = dispatch_services sample_kafka_env sample_mosquitto_env
     Unconfigured (\<lambda>w. (True, w)) sample_rest"

definition sample_controller ::
  "(produce_call list, sample_paho_state, sample_world) dispatch_world controller" where
  "sample_controller = new_controller ((sample_params ''gui'')
       \<lparr>cp_mosquitto_sink_node_name := ''/mosquitto_sink'', cp_allow_missing_sinks := False\<rparr>)
     \<lparr>dw_kafka = (Unconfigured, new_kafka_sink (\<lambda>_. None) []),
      dw_mosquitto = (Unconfigured, new_mqtt_sink (\<lambda>_. None) (0, [], [])),
      dw_rest = sample_start\<rparr>"

definition sample_request :: "topic_info list" where
  "sample_request = [mk_topic ''/scan'' ''sensor_msgs/msg/LaserScan'', mk_topic ''/tf'' ''tf2_msgs/msg/TFMessage'']"

definition sample_streaming ::
  "srv_response exec \<times> (produce_call list, sample_paho_state, sample_world) dispatch_world controller" where
  "sample_streaming = handle_apply_selection sample_dispatch sample_request sample_controller"

lemma sample_calms: "calm sample_kafka_env" "mqtt_calm sample_mosquitto_env"
  using sample_calm sample_mqtt_calm by (simp_all add: calm_def mqtt_calm_def)

lemma sample_controller_reachable:
  "system_reachable sample_kafka_env sample_mosquitto_env sample_dispatch sample_controller"
  unfolding sample_controller_def by (rule sys_start)

lemma sample_streaming_reachable:
  "system_reachable sample_kafka_env sample_mosquitto_env sample_dispatch (snd sample_streaming)"
  unfolding sample_streaming_def by (rule sys_next [OF sample_controller_reachable sys_apply])

text \<open>One run of the handler: its answer and what it records.\<close>

lemma sample_streams:
  "fst sample_streaming = Ret \<lparr>resp_success = True, resp_message = ''Selection applied''\<rparr>"
  "snap_sink_topics (applied_selection (snd sample_streaming)) = sample_request"
  "fst (dw_kafka (ct_world (snd sample_streaming))) = Active"
proof -
  have "(case sample_streaming of (r, t) \<Rightarrow>
      (r, snap_sink_topics (applied_selection t), fst (dw_kafka (ct_world t)))) =
    (Ret \<lparr>resp_success = True, resp_message = ''Selection applied''\<rparr>, sample_request, Active)"
    by code_simp
  then show "fst sample_streaming = Ret \<lparr>resp_success = True, resp_message = ''Selection applied''\<rparr>"
    "snap_sink_topics (applied_selection (snd sample_streaming)) = sample_request"
    "fst (dw_kafka (ct_world (snd sample_streaming))) = Active"
    by (simp_all add: split_beta)
qed

section \<open>Properties\<close>





end
