(* ===== verification/Spec2Isabelle.thy ===== *)
theory Spec2Isabelle
  imports Dispatcher_Properties Introspection_Manager Pipelines Gis_Health Message_Key Dispatch_Properties
begin

text \<open>
  A verification development of the C++ nodes of ros2_dispatcher.

  \<^bold>\<open>The program.\<close>  A robot publishes ROS 2 topics; the dispatcher selects some of them, thins them out
  and sends them to Kafka or to an MQTT broker.  introspection_manager lists the topics of the ROS graph.
  dispatcher_controller takes a selection from a file, from a GUI or as "everything", turns it into a
  plan of topic_tools nodes (throttle, drop, relay), loads them into a component container, and
  configures and activates the sinks through their parameters and lifecycle services.  The sinks
  kafka_sink and mosquitto_sink subscribe to the planned topics and forward each message as CDR bytes
  or as JSON.  On the other side kafka_source publishes Kafka records as ROS messages again, and
  kafka_cdr_to_json rewrites CDR records as JSON records.  gis_health_node registers the robots with a
  back end.  The Kafka nodes that produce share the class KafkaProducer of the kafka_client library.

  \<^bold>\<open>The theories.\<close>  Names of functions are those of the sources; a prefix tells nodes apart that use
  the same name (\<open>sink_\<close>, \<open>source_\<close>, \<open>cj_\<close>, \<open>gis_\<close>, \<open>mqtt_\<close>, and the record fields \<open>ct_\<close>, \<open>ks_\<close>, \<open>so_\<close>, \<open>gh_\<close>, \<open>ms_\<close>).

    \<^item> Prelude, Std_Map, Ros_Types: strings as byte lists, 64-bit counters, outcomes of calls
      (\<open>Ret\<close> a value, \<open>Err\<close> an error that is handed back, \<open>Exc\<close> an exception), \<open>prog\<close> for a call that also
      changes a state, \<open>keeps\<close> for what such a call leaves alone, std::map as an ordered association
      list, ROS parameters with their typed accessors, doubles, YAML documents, service clients.
    \<^item> Kafka_Producer: kafka_client/src/kafka_producer.cpp.  start(), send(), stop(), the statistics and
      the poll thread, cut at the points where it holds no lock (\<open>kp_step\<close>).
    \<^item> Percentile: the sample buffers and percentiles that every node's publish_metrics() repeats, with
      the products of doubles rounded as IEEE 754 does (\<open>double_of\<close>).
    \<^item> Message_Json: the walk of kafka_sink over a message's introspection metadata, over a memory read
      at typed addresses.  Json_Walk: the copies of it in kafka_cdr_to_json and mosquitto_sink, loop by
      loop; the locale \<open>json_walk\<close> shows that such a walk computes what Message_Json describes.
    \<^item> Lifecycle: rclcpp_lifecycle as documented: which callback runs in which state and where its result
      leads.  The locale \<open>managed_node\<close> is what a node promises of its callbacks; every node below
      interprets it on its own callbacks, and its invariant is the conclusion.
    \<^item> Introspection_Manager: introspection_manager_node.cpp, with the monitor thread as steps beside the
      executor.
    \<^item> Dispatcher_Selection, Dispatcher_Controller: dispatcher_controller_node.cpp, the selections and plans
      first, then the calls to services and the handlers, composed as the node composes them.
      Dispatcher_Invariant proves what each call leaves alone and the invariant of the handlers,
      Dispatcher_Properties the promises of the handlers.
    \<^item> Kafka_Sink, Kafka_Sink_Invariant, Kafka_Sink_Properties: kafka_sink_node.cpp.
    \<^item> Kafka_Consumer: what kafka_source_node.cpp and kafka_cdr_to_json_node.cpp both contain; the
      locale \<open>type_cache\<close> is what either relies on in its cache of type supports.
      Kafka_Source and Cdr_To_Json are the two nodes, with their properties beside them.
    \<^item> Mqtt_Client, Mosquitto_Sink, Mosquitto_Sink_Properties: mosquitto_sink_node.cpp.  First the
      wrapper around the Paho client and the two ways a message key is put into a message (CDR and
      JSON), then the node, then its invariant, its accounting and the ownership of the client.
      Message_Key shows that both ways describe the same message.
    \<^item> Gis_Health: gis_health_node.cpp.
    \<^item> Pipelines: the nodes of the Kafka bridge together.  The locale \<open>topic_codec\<close> is the naming scheme by
      which a topic given a name on one side is found again on the other.
    \<^item> Controller_Effects: what the controller's handlers do to the rest of the system.  The locale
      \<open>world_order\<close> shows of every handler that it moves the world along any preorder its clients respect.
    \<^item> Dispatch, Dispatch_Properties: the controller and both sinks together.  The locale \<open>sink_service\<close> is
      what the controller relies on when it drives a sink, \<open>hosted_sink\<close> a managed node behind its
      services, which gives it; \<open>dispatch_services\<close> puts the models of both sinks in the place of the
      controller's services, and \<open>system_step\<close> lets controller, sinks and the rest take turns.

  \<^bold>\<open>What the lemmas show.\<close>  For the producer: accounting of every record, bounds, order, the outcome of
  start() and stop().  For the introspection manager: which topics are served and when the list is
  fresh.  For the controller: a plan follows its abstract description, selections that load can be
  planned, outputs do not collide, a request either leaves a consistent applied selection or an
  error, and the invariant of all reachable states.  For each managed node: the invariant over all
  lifecycle runs (clients, thread, timers and subscriptions exist exactly while they should), the
  accounting of every message, the shape of what is sent.  For the bridge: names and messages
  survive the round trip.  For the controller with its sinks: the invariants of all three in
  every reachable state of the whole, and what the GUI asks for is what the sinks are subscribed to.  Some properties state behaviour the code hardly intends; the manifest
  lists these as findings.

  \<^bold>\<open>Parameters and hypotheses.\<close>  librdkafka, rclcpp, rosbag2_cpp, rmw, nlohmann::json, yaml-cpp, Paho
  MQTT and the services of other processes are records of functions over an opaque state (\<open>rdkafka\<close>,
  \<open>sink_env\<close>, \<open>services\<close> and so on); properties that need one of them to work say so by a named predicate
  (\<open>calm\<close>: the calls that may throw do not; \<open>takes_all\<close>: the library accepts every record), and each has
  a witness over a concrete instance.  Counters are 64-bit words and wrap; a property that counts
  says so in \<open>u64\<close> or assumes no overflow where it matters.  Clock readings are arbitrary.

  \<^bold>\<open>Bounds and fuel.\<close>  Recursion is structural or has a termination proof, except for the walk over
  nested message types, whose metadata could be cyclic in C++; it is a finite tree here, as ROS message
  definitions are.  There is no fuel.  The consumer and poll threads run for ever and are therefore
  step relations, one round a step.

  \<^bold>\<open>Not modelled.\<close>  Log output and its text; data races between a callback and a thread inside one
  step (the steps are the critical sections); a publication on a ROS topic that throws; the start of
  the processes (main.cpp), visibility headers and the placeholder library introspection_manager.cpp;
  the Python clients, launch files and configuration.
\<close>

section \<open>Properties that span components\<close>

text \<open>
  C40: in the all mode the controller's own test for hidden topics never fires on a ROS topic: the
  graph reports absolute names, which begin with a slash, and the test looks for an underscore in
  the first place.  With the introspection filter off, which is the default in the code, every
  hidden topic the introspection manager serves is selected.
\<close>

theorem hidden_topics_reach_all_mode:
  assumes "\<not> im_filter_hidden s"
    and "\<And>n types. (n, types) \<in> set (im_graph s) \<Longrightarrow> \<exists>rest. n = CHR ''/'' # rest"
    and "i \<in> set (handle_get_topics (update_topics s))"
  shows "all_mode_keeps False [] [] i"
proof -
  obtain types where "(ti_name i, types) \<in> set (im_graph s)"
    using assms(1,3)
    by (auto simp: handle_get_topics_def update_topics_def read_graph_def filter_hidden_topics_def
        topic_entries_mem)
  then show ?thesis using assms(2) by (fastforce simp: all_mode_keeps_def)
qed

theorem hidden_topics_reach_all_mode_witness:
  "is_topic_hidden ''/_hidden'' \<and> all_mode_keeps False [] [] (mk_topic ''/_hidden'' ''T'')"
proof
  let ?s = "new_introspection (sample_introspection False True) graph_a"
  show "is_topic_hidden ''/_hidden''" by code_simp
  have "handle_get_topics (update_topics ?s) =
      [mk_topic ''/_hidden'' ''T'', mk_topic ''/odom'' ''nav_msgs/msg/Odometry'']"
    by code_simp
  moreover have "\<not> im_filter_hidden ?s"
    by (simp add: new_introspection_def sample_introspection_def Let_def)
  moreover have "\<exists>rest. n = CHR ''/'' # rest" if "(n, types) \<in> set (im_graph ?s)" for n types
    using that by (auto simp: new_introspection_def Let_def graph_a_def)
  ultimately show "all_mode_keeps False [] [] (mk_topic ''/_hidden'' ''T'')"
    by (intro hidden_topics_reach_all_mode [of ?s]) auto
qed

end
